(* ===== verification/Pico_Errors.thy ===== *)
theory Pico_Errors
  imports Picodata_Prelude
begin

text \<open>
  The errors of the cluster-management code: \<open>cas::Error\<close> (src/src/cas.rs),
  \<open>traft::error::Error\<close> (src/src/traft/error.rs) and the numeric error codes of
  picodata-plugin/src/error_code.rs with their classification into retriable and fatal.

  A Rust panic (\<open>expect\<close>, \<open>unimplemented!\<close>, an \<open>assert!\<close>) is the extra
  constructor \<open>Panic\<close> of the model's error type. \<open>debug_assert!\<close> and
  \<open>warn_or_panic!\<close> do not panic in a release build and are not modelled.
  Raft ids, terms and log indices (\<open>u64\<close> in the code) are natural numbers: they grow by
  one per raft entry or joined instance and never come near the width.
\<close>

section \<open>Errors\<close>

type_synonym raft_id = nat
type_synonym raft_term = nat
type_synonym raft_index = nat

datatype cas_error =
    Compacted (requested: raft_index) (compacted_index: raft_index)
  | NoSuchIndex raft_index raft_index
  | ConflictFound raft_index
  | EntryTermMismatch raft_index raft_term raft_term
  | TableNotAllowed string
  | ConfigNotAllowed string
  | TableNotOperable string
  | KeyTypeMismatch string
  | EmptyBatch

datatype storage_error =
    StoreCompacted
  | StoreUnavailable
  | StoreLogTemporarilyUnavailable
  | StoreSnapshotTemporarilyUnavailable
  | StoreOther string

datatype id_of_instance = ById raft_id | ByName string | ByUuid string

datatype traft_error =
    Uninitialized
  | RaftStore storage_error
  | RaftProposalDropped
  | RaftOther string
  | ClusterNameMismatch string string
  | ClusterUuidMismatch string string
  | PicodataVersionMismatch string string
  | TermMismatch raft_term raft_term
  | NotALeader raft_id
  | BoxError nat string
  | Tarantool nat string
  | NoSuchInstance id_of_instance
  | NoSuchReplicaset string bool
  | NoSuchTier string
  | AddressUnknownForRaftId raft_id
  | LeaderUnknown
  | Cas cas_error
  | StorageCorrupted string string
  | Other string
  | Panic string

type_synonym 'a traft_result = "traft_error + 'a"

section \<open>Error codes\<close>

datatype error_code =
    EcOther | EcNotALeader | EcStorageCorrupted | EcTermMismatch | EcRaftLogUnavailable
  | EcRaftLogCompacted | EcCasNoSuchRaftIndex | EcCasConflictFound | EcCasEntryTermMismatch
  | EcCasTableNotAllowed | EcCasInvalidOpKind | EcNoSuchService | EcServiceNotStarted
  | EcServicePoisoned | EcServiceNotAvailable | EcWrongPluginVersion | EcNoSuchInstance
  | EcNoSuchReplicaset | EcLeaderUnknown | EcPluginError | EcInstanceExpelled
  | EcReplicasetExpelled | EcInstanceUnavaliable | EcCasTableNotOperable | EcUninitialized
  | EcExpelNotAllowed | EcCasConfigNotAllowed | EcRaftProposalDropped | EcSbroadError
  | EcRaftSnapshotReadViewNotAvailable | EcLocalSchemaNotUpToDate | EcReplicationBroken
  | EcUserDefinedErrorCodesStart

definition error_codes :: "error_code list" where
  "error_codes =
     [EcOther, EcNotALeader, EcStorageCorrupted, EcTermMismatch, EcRaftLogUnavailable,
      EcRaftLogCompacted, EcCasNoSuchRaftIndex, EcCasConflictFound, EcCasEntryTermMismatch,
      EcCasTableNotAllowed, EcCasInvalidOpKind, EcNoSuchService, EcServiceNotStarted,
      EcServicePoisoned, EcServiceNotAvailable, EcWrongPluginVersion, EcNoSuchInstance,
      EcNoSuchReplicaset, EcLeaderUnknown, EcPluginError, EcInstanceExpelled,
      EcReplicasetExpelled, EcInstanceUnavaliable, EcCasTableNotOperable, EcUninitialized,
      EcExpelNotAllowed, EcCasConfigNotAllowed, EcRaftProposalDropped, EcSbroadError,
      EcRaftSnapshotReadViewNotAvailable, EcLocalSchemaNotUpToDate, EcReplicationBroken]"

text \<open>The discriminant of a variant: consecutive from 10000, then the start of the user range.\<close>

fun code_num :: "error_code \<Rightarrow> nat" where
  "code_num EcOther = 10000"
| "code_num EcNotALeader = 10001"
| "code_num EcStorageCorrupted = 10002"
| "code_num EcTermMismatch = 10003"
| "code_num EcRaftLogUnavailable = 10004"
| "code_num EcRaftLogCompacted = 10005"
| "code_num EcCasNoSuchRaftIndex = 10006"
| "code_num EcCasConflictFound = 10007"
| "code_num EcCasEntryTermMismatch = 10008"
| "code_num EcCasTableNotAllowed = 10009"
| "code_num EcCasInvalidOpKind = 10010"
| "code_num EcNoSuchService = 10011"
| "code_num EcServiceNotStarted = 10012"
| "code_num EcServicePoisoned = 10013"
| "code_num EcServiceNotAvailable = 10014"
| "code_num EcWrongPluginVersion = 10015"
| "code_num EcNoSuchInstance = 10016"
| "code_num EcNoSuchReplicaset = 10017"
| "code_num EcLeaderUnknown = 10018"
| "code_num EcPluginError = 10019"
| "code_num EcInstanceExpelled = 10020"
| "code_num EcReplicasetExpelled = 10021"
| "code_num EcInstanceUnavaliable = 10022"
| "code_num EcCasTableNotOperable = 10023"
| "code_num EcUninitialized = 10024"
| "code_num EcExpelNotAllowed = 10025"
| "code_num EcCasConfigNotAllowed = 10026"
| "code_num EcRaftProposalDropped = 10027"
| "code_num EcSbroadError = 10028"
| "code_num EcRaftSnapshotReadViewNotAvailable = 10029"
| "code_num EcLocalSchemaNotUpToDate = 10030"
| "code_num EcReplicationBroken = 10031"
| "code_num EcUserDefinedErrorCodesStart = 20000"

definition error_code_try_from :: "nat \<Rightarrow> error_code option" where
  "error_code_try_from n =
     List.find (\<lambda>c. code_num c = n) (error_codes @ [EcUserDefinedErrorCodesStart])"

definition is_retriable_for_cas :: "error_code \<Rightarrow> bool" where
  "is_retriable_for_cas c \<longleftrightarrow>
     c \<in> {EcLeaderUnknown, EcNotALeader, EcTermMismatch, EcRaftLogCompacted,
          EcRaftLogUnavailable, EcCasEntryTermMismatch, EcCasConflictFound,
          EcRaftProposalDropped}"

definition error_code_is_retriable_for_cas :: "nat \<Rightarrow> bool" where
  "error_code_is_retriable_for_cas n =
     (case error_code_try_from n of None \<Rightarrow> False | Some c \<Rightarrow> is_retriable_for_cas c)"

text \<open>\<open>TarantoolErrorCode::IllegalParams\<close>.\<close>

definition tnt_illegal_params :: nat where
  "tnt_illegal_params = 1"

fun cas_error_code :: "cas_error \<Rightarrow> nat" where
  "cas_error_code (Compacted _ _) = code_num EcRaftLogCompacted"
| "cas_error_code (NoSuchIndex _ _) = code_num EcCasNoSuchRaftIndex"
| "cas_error_code (ConflictFound _) = code_num EcCasConflictFound"
| "cas_error_code (EntryTermMismatch _ _ _) = code_num EcCasEntryTermMismatch"
| "cas_error_code (TableNotAllowed _) = code_num EcCasTableNotAllowed"
| "cas_error_code (ConfigNotAllowed _) = code_num EcCasConfigNotAllowed"
| "cas_error_code (TableNotOperable _) = code_num EcCasTableNotOperable"
| "cas_error_code (KeyTypeMismatch _) = code_num EcStorageCorrupted"
| "cas_error_code EmptyBatch = tnt_illegal_params"

fun traft_error_code :: "traft_error \<Rightarrow> nat" where
  "traft_error_code Uninitialized = code_num EcUninitialized"
| "traft_error_code (BoxError c _) = c"
| "traft_error_code (Tarantool c _) = c"
| "traft_error_code (Cas e) = cas_error_code e"
| "traft_error_code (RaftStore StoreCompacted) = code_num EcRaftLogCompacted"
| "traft_error_code (RaftStore StoreUnavailable) = code_num EcRaftLogUnavailable"
| "traft_error_code (RaftStore StoreLogTemporarilyUnavailable) = code_num EcRaftLogUnavailable"
| "traft_error_code RaftProposalDropped = code_num EcRaftProposalDropped"
| "traft_error_code LeaderUnknown = code_num EcLeaderUnknown"
| "traft_error_code (NotALeader _) = code_num EcNotALeader"
| "traft_error_code (TermMismatch _ _) = code_num EcTermMismatch"
| "traft_error_code (NoSuchInstance _) = code_num EcNoSuchInstance"
| "traft_error_code (NoSuchReplicaset _ _) = code_num EcNoSuchReplicaset"
| "traft_error_code _ = code_num EcOther"

definition is_retriable :: "traft_error \<Rightarrow> bool" where
  "is_retriable e = error_code_is_retriable_for_cas (traft_error_code e)"

lemma error_code_try_from_num: "error_code_try_from (code_num c) = Some c"
  by (cases c) (simp_all add: error_code_try_from_def error_codes_def)


lemma retriable_code_num:
  "error_code_is_retriable_for_cas (code_num c) = is_retriable_for_cas c"
  by (simp add: error_code_is_retriable_for_cas_def error_code_try_from_num)




lemma retriable_leader [simp]:
  "is_retriable LeaderUnknown" "is_retriable (NotALeader l)" "is_retriable (TermMismatch r c)"
  "is_retriable RaftProposalDropped"
  by (simp_all del: code_num.simps
      add: is_retriable_def retriable_code_num is_retriable_for_cas_def)

section \<open>Correctness\<close>


end
