(* ===== verification/Version.thy ===== *)
theory Version
  imports Pico_Errors
begin

text \<open>
  src/src/version.rs (parsing, printing and comparing versions) and
  src/src/compatibility.rs (which picodata versions may work together in one cluster).
  Version parts are \<open>u64\<close> words: they are parsed from strings a peer sends, and the
  compatibility check adds one to them with the wrap-around of a release build.
\<close>

record version =
  major :: u64
  minor :: u64
  patch :: u64
  rest :: "string option"

definition new_clean :: "u64 \<Rightarrow> u64 \<Rightarrow> u64 \<Rightarrow> version" where
  "new_clean ma mi pa = \<lparr>major = ma, minor = mi, patch = pa, rest = None\<rparr>"

definition new_dirty :: "u64 \<Rightarrow> u64 \<Rightarrow> u64 \<Rightarrow> string \<Rightarrow> version" where
  "new_dirty ma mi pa r = \<lparr>major = ma, minor = mi, patch = pa, rest = Some r\<rparr>"

definition next_by_major :: "version \<Rightarrow> version" where
  "next_by_major v = v\<lparr>major := major v + 1\<rparr>"

definition next_by_minor :: "version \<Rightarrow> version" where
  "next_by_minor v = v\<lparr>minor := minor v + 1\<rparr>"

definition next_by_patch :: "version \<Rightarrow> version" where
  "next_by_patch v = v\<lparr>patch := patch v + 1\<rparr>"

definition cmp_up_to_major :: "version \<Rightarrow> version \<Rightarrow> ordering" where
  "cmp_up_to_major a b = cmp (major a) (major b)"

definition cmp_up_to_minor :: "version \<Rightarrow> version \<Rightarrow> ordering" where
  "cmp_up_to_minor a b = then_with (cmp (major a) (major b)) (cmp (minor a) (minor b))"

definition cmp_up_to_patch :: "version \<Rightarrow> version \<Rightarrow> ordering" where
  "cmp_up_to_patch a b =
     then_with (then_with (cmp (major a) (major b)) (cmp (minor a) (minor b)))
       (cmp (patch a) (patch b))"

definition version_fmt :: "version \<Rightarrow> string" where
  "version_fmt v =
     show_nat (unat (major v)) @ ''.'' @ show_nat (unat (minor v)) @ ''.'' @
     show_nat (unat (patch v)) @ (case rest v of None \<Rightarrow> [] | Some r \<Rightarrow> r)"

definition invalid_version :: "string \<Rightarrow> traft_error" where
  "invalid_version actual =
     BoxError tnt_illegal_params
       (''invalid version string: '' @ [CHR 0x27] @ actual @ [CHR 0x27] @
        '', expected format: MAJOR.MINOR.PATCH[-TAIL]'')"

definition version_from_str :: "string \<Rightarrow> version traft_result" where
  "version_from_str s =
     (case split_once CHR ''.'' s of
        None \<Rightarrow> Inl (invalid_version s)
      | Some (ma, rest1) \<Rightarrow>
     (case split_once CHR ''.'' rest1 of
        None \<Rightarrow> Inl (invalid_version s)
      | Some (mi, rest2) \<Rightarrow>
     (case parse_u64 ma of
        None \<Rightarrow> Inl (invalid_version s)
      | Some major' \<Rightarrow>
     (case parse_u64 mi of
        None \<Rightarrow> Inl (invalid_version s)
      | Some minor' \<Rightarrow>
     (case parse_u64 (takeWhile is_ascii_digit rest2) of
        None \<Rightarrow> Inl (invalid_version s)
      | Some patch' \<Rightarrow>
        (let tail = dropWhile is_ascii_digit rest2 in
         if tail = [] then Inr (new_clean major' minor' patch')
         else Inr (new_dirty major' minor' patch' tail)))))))"

definition version_is_new_enough :: "string \<Rightarrow> version \<Rightarrow> bool traft_result" where
  "version_is_new_enough system_catalog_version feature_implemented_in =
     rbind (version_from_str system_catalog_version)
       (\<lambda>v. Inr (cmp_up_to_patch v feature_implemented_in \<noteq> Less))"

definition latest_minor_for_major :: "u64 \<Rightarrow> u64 traft_result" where
  "latest_minor_for_major m =
     (if m = 24 then Inr 7
      else if m = 25 then Inr 5
      else Inl (Panic ''not implemented''))"

definition compare_picodata_versions :: "string \<Rightarrow> string \<Rightarrow> bool traft_result" where
  "compare_picodata_versions old_version new_version =
     (case version_from_str old_version of
        Inl _ \<Rightarrow> Inl (Panic ''correct old picodata version'')
      | Inr old \<Rightarrow>
     (case version_from_str new_version of
        Inl _ \<Rightarrow> Inl (Panic ''correct new picodata version'')
      | Inr new \<Rightarrow>
     rbind
       (if major new = major old then
          Inr (minor new = minor old \<or> minor new = minor old + 1)
        else if major new = major old + 1 then
          rbind (latest_minor_for_major (major old))
            (\<lambda>latest. Inr (minor old = latest \<and> minor new \<le> 1))
        else Inr False)
       (\<lambda>has_ok_versions.
          if \<not> has_ok_versions then Inl (PicodataVersionMismatch old_version new_version)
          else Inr (cmp_up_to_patch new old \<noteq> Equal))))"

section \<open>Printing and parsing\<close>

text \<open>What a parsed version can hold as its tail: nothing, or text that does not start with a digit.\<close>

definition valid_rest :: "version \<Rightarrow> bool" where
  "valid_rest v =
     (case rest v of None \<Rightarrow> True | Some [] \<Rightarrow> False | Some (c # _) \<Rightarrow> \<not> is_ascii_digit c)"

lemma takeWhile_digits_tail:
  assumes "list_all is_ascii_digit ds" "tail = [] \<or> \<not> is_ascii_digit (hd tail)"
  shows "takeWhile is_ascii_digit (ds @ tail) = ds" "dropWhile is_ascii_digit (ds @ tail) = tail"
  using assms by (cases tail; auto simp: list_all_iff takeWhile_append)+

lemma version_from_str_fmt:
  assumes "valid_rest v"
  shows "version_from_str (version_fmt v) = Inr v"
proof -
  define tail where "tail = (case rest v of None \<Rightarrow> [] | Some r \<Rightarrow> r)"
  have nodot: "CHR ''.'' \<notin> set (show_nat n)" for n
    using show_nat_digits digits_no_char not_digit_dot by blast
  have tl: "tail = [] \<or> \<not> is_ascii_digit (hd tail)"
    using assms by (auto simp: tail_def valid_rest_def split: option.splits list.splits)
  have fmt: "version_fmt v = show_nat (unat (major v)) @ CHR ''.'' #
      (show_nat (unat (minor v)) @ CHR ''.'' # (show_nat (unat (patch v)) @ tail))"
    by (simp add: version_fmt_def tail_def)
  have "version_from_str (version_fmt v) =
      (if tail = [] then Inr (new_clean (major v) (minor v) (patch v))
       else Inr (new_dirty (major v) (minor v) (patch v) tail))"
    using takeWhile_digits_tail [OF show_nat_digits tl]
    by (simp add: fmt version_from_str_def split_once_append nodot Let_def)
  also have "\<dots> = Inr v"
    using assms
    by (cases v) (auto simp: tail_def new_clean_def new_dirty_def valid_rest_def
        split: option.splits list.splits)
  finally show ?thesis .
qed

lemma version_from_str_valid: "version_from_str s = Inr v \<Longrightarrow> valid_rest v"
  by (auto simp: version_from_str_def Let_def new_clean_def new_dirty_def valid_rest_def
      dropWhile_eq_Cons_conv split: option.splits prod.splits if_splits list.splits)

section \<open>Comparison\<close>

lemma cmp_up_to_patch_Equal:
  "cmp_up_to_patch a b = Equal \<longleftrightarrow> major a = major b \<and> minor a = minor b \<and> patch a = patch b"
  by (auto simp: cmp_up_to_patch_def)

lemma cmp_up_to_patch_trans:
  "cmp_up_to_patch a b \<noteq> Less \<Longrightarrow> cmp_up_to_patch b c \<noteq> Less \<Longrightarrow> cmp_up_to_patch a c \<noteq> Less"
  by (auto simp: cmp_up_to_patch_def)

text \<open>The answer of the compatibility check on two well-formed versions.\<close>

lemma compare_picodata_versions_Inr:
  "compare_picodata_versions old_version new_version = Inr b \<longleftrightarrow>
     (\<exists>old new. version_from_str old_version = Inr old \<and> version_from_str new_version = Inr new \<and>
        (major new = major old \<and> (minor new = minor old \<or> minor new = minor old + 1) \<or>
         major new \<noteq> major old \<and> major new = major old + 1 \<and>
           latest_minor_for_major (major old) = Inr (minor old) \<and> minor new \<le> 1) \<and>
        b = (cmp_up_to_patch new old \<noteq> Equal))"
  by (auto simp: compare_picodata_versions_def result_simps split: sum.splits if_splits)

lemma compare_same_version:
  "version_from_str s = Inr v \<Longrightarrow> compare_picodata_versions s s = Inr False"
  by (auto simp: compare_picodata_versions_Inr cmp_up_to_patch_Equal)

lemma latest_minor_Inr: "latest_minor_for_major m = Inr k \<longleftrightarrow> m = 24 \<and> k = 7 \<or> m = 25 \<and> k = 5"
  by (auto simp: latest_minor_for_major_def)

section \<open>Correctness\<close>

text \<open>
  C33: printing a version and parsing it back gives the same version, whatever its parts, as long as
  its tail is one that parsing can produce (absent, or non-empty and not starting with a digit); and
  parsing never produces any other tail.
\<close>

theorem version_roundtrip:
  assumes "valid_rest v"
  shows "version_from_str (version_fmt v) = Inr v \<and>
         (\<forall>s w. version_from_str s = Inr w \<longrightarrow> valid_rest w)"
  using assms version_from_str_fmt version_from_str_valid by blast

theorem version_roundtrip_witness:
  "version_from_str (version_fmt (new_dirty 25 5 3 ''-rc1'')) = Inr (new_dirty 25 5 3 ''-rc1'')"
  using version_roundtrip [of "new_dirty 25 5 3 ''-rc1''"]
  by (simp add: valid_rest_def new_dirty_def is_ascii_digit_def)

text \<open>
  C34: what the compatibility check accepts. Two version strings are accepted exactly when both parse
  and either the majors agree and the new minor is the old one or the next, or the new major is the
  next one, the old minor is the latest of its major and the new minor is at most one. The result
  says whether the two differ up to the patch.
\<close>

theorem compatibility_accepts:
  "compare_picodata_versions old_version new_version = Inr b \<longleftrightarrow>
     (\<exists>old new. version_from_str old_version = Inr old \<and> version_from_str new_version = Inr new \<and>
        (major new = major old \<and> (minor new = minor old \<or> minor new = minor old + 1) \<or>
         major new \<noteq> major old \<and> major new = major old + 1 \<and>
           (major old = 24 \<and> minor old = 7 \<or> major old = 25 \<and> minor old = 5) \<and> minor new \<le> 1) \<and>
        b = (\<not> (major new = major old \<and> minor new = minor old \<and> patch new = patch old)))"
  unfolding compare_picodata_versions_Inr latest_minor_Inr cmp_up_to_patch_Equal by (rule refl)

text \<open>
  C35: a well-formed instance version of the next major makes the check panic when the cluster's major
  is neither 24 nor 25, instead of being refused with an error.
\<close>

theorem next_major_panics:
  assumes "version_from_str old_version = Inr old" "version_from_str new_version = Inr new"
    and "major new = major old + 1" "major old \<noteq> 24" "major old \<noteq> 25"
  shows "compare_picodata_versions old_version new_version = Inl (Panic ''not implemented'')"
  using assms by (simp add: compare_picodata_versions_def latest_minor_for_major_def rbind_def)

theorem next_major_panics_witness:
  "compare_picodata_versions (version_fmt (new_clean 26 1 0)) (version_fmt (new_clean 27 1 0)) =
     Inl (Panic ''not implemented'')"
  by (rule next_major_panics [of _ "new_clean 26 1 0" _ "new_clean 27 1 0"])
    (simp_all add: version_from_str_fmt valid_rest_def new_clean_def)

end
