(* ===== verification/Failure_Domain.thy ===== *)
theory Failure_Domain
  imports Pico_Errors "HOL-Library.Finite_Map"
begin

text \<open>
  src/src/failure_domain.rs. A failure domain is a finite map from component names to
  values (both already converted to upper case by \<open>Uppercase::from\<close>). Every operation is
  independent of the iteration order of the \<open>HashMap\<close>, so the map is an extensional
  \<open>fmap\<close>, whose equality is that of the Rust type.
\<close>

type_synonym failure_domain = "(string, string) fmap"

definition contains_name :: "failure_domain \<Rightarrow> string \<Rightarrow> bool" where
  "contains_name fd name \<longleftrightarrow> name \<in> fmdom' fd"

definition names :: "failure_domain \<Rightarrow> string set" where
  "names fd = fmdom' fd"

definition intersects :: "failure_domain \<Rightarrow> failure_domain \<Rightarrow> bool" where
  "intersects self other \<longleftrightarrow>
     (\<exists>name \<in> names self.
        case fmlookup other name of
          None \<Rightarrow> False
        | Some other_value \<Rightarrow> fmlookup self name = Some other_value)"

definition distance :: "failure_domain \<Rightarrow> failure_domain \<Rightarrow> nat" where
  "distance self other =
     card (Set.filter (\<lambda>key. fmlookup self key \<noteq> fmlookup other key) (names self \<union> names other))"

definition check_domains :: "failure_domain \<Rightarrow> string set \<Rightarrow> unit traft_result" where
  "check_domains self required_domains =
     (let res = Set.filter (\<lambda>d. \<not> contains_name self d) required_domains in
      if res = {} then Inr ()
      else Inl (Other (''missing failure domain names: '' @ join '', '' (sorted_list_of_set res))))"

section \<open>Intersection\<close>

lemma intersects_iff: "intersects a b \<longleftrightarrow> (\<exists>n v. fmlookup a n = Some v \<and> fmlookup b n = Some v)"
  by (force simp: intersects_def names_def fmlookup_dom'_iff split: option.splits)

lemma intersects_sym: "intersects a b = intersects b a"
  by (auto simp: intersects_iff)

lemma intersects_empty [simp]: "\<not> intersects fmempty b" "\<not> intersects b fmempty"
  by (auto simp: intersects_iff)

lemma intersects_self: "intersects a a \<longleftrightarrow> a \<noteq> fmempty"
  by (auto simp: intersects_iff) (metis fmap_ext fmlookup_dom'_iff fmempty_lookup not_None_eq)

section \<open>Distance\<close>

definition differing :: "failure_domain \<Rightarrow> failure_domain \<Rightarrow> string set" where
  "differing a b = {k. fmlookup a k \<noteq> fmlookup b k}"

lemma differing_subset: "differing a b \<subseteq> names a \<union> names b"
  by (auto simp: differing_def names_def fmlookup_dom'_iff)

lemma finite_names [simp]: "finite (names a)"
  by (simp add: names_def)

lemma finite_differing [simp]: "finite (differing a b)"
  by (rule finite_subset [OF differing_subset]) simp

lemma distance_eq: "distance a b = card (differing a b)"
proof -
  have "Set.filter (\<lambda>key. fmlookup a key \<noteq> fmlookup b key) (names a \<union> names b) = differing a b"
    using differing_subset [of a b] by (auto simp: differing_def)
  then show ?thesis by (simp add: distance_def)
qed

lemma distance_sym: "distance a b = distance b a"
  by (simp add: distance_eq differing_def eq_commute)

lemma distance_zero: "distance a b = 0 \<longleftrightarrow> a = b"
proof
  assume "distance a b = 0"
  then have "differing a b = {}" by (simp add: distance_eq)
  then show "a = b" by (auto simp: differing_def intro: fmap_ext)
qed (simp add: distance_eq differing_def)

lemma distance_triangle: "distance a c \<le> distance a b + distance b c"
proof -
  have "differing a c \<subseteq> differing a b \<union> differing b c"
    by (auto simp: differing_def)
  then have "card (differing a c) \<le> card (differing a b \<union> differing b c)"
    by (intro card_mono) auto
  also have "\<dots> \<le> card (differing a b) + card (differing b c)"
    by (rule card_Un_le)
  finally show ?thesis by (simp add: distance_eq)
qed

text \<open>Domains with no common component are as far apart as they have names.\<close>

lemma distance_max: "distance a b \<le> card (names a \<union> names b)"
  unfolding distance_eq by (intro card_mono differing_subset) simp

lemma distance_max_iff:
  "distance a b = card (names a \<union> names b) \<longleftrightarrow> \<not> intersects a b"
proof
  assume "distance a b = card (names a \<union> names b)"
  then have "differing a b = names a \<union> names b"
    unfolding distance_eq by (intro card_subset_eq differing_subset) auto
  then show "\<not> intersects a b"
    by (auto simp: intersects_iff differing_def names_def fmlookup_dom'_iff set_eq_iff)
      (metis option.distinct(1) option.exhaust)
next
  assume n: "\<not> intersects a b"
  have "names a \<union> names b \<subseteq> differing a b"
  proof
    fix k assume "k \<in> names a \<union> names b"
    with n show "k \<in> differing a b"
      by (auto simp: intersects_iff differing_def names_def fmlookup_dom'_iff) metis
  qed
  with differing_subset have "differing a b = names a \<union> names b" by blast
  then show "distance a b = card (names a \<union> names b)" by (simp add: distance_eq)
qed

section \<open>Required names\<close>

lemma check_domains_Inr: "check_domains fd req = Inr u \<longleftrightarrow> req \<subseteq> names fd"
  by (auto simp: check_domains_def contains_name_def names_def Let_def)

section \<open>Correctness\<close>

text \<open>
  C36: the distance between failure domains is a metric, it never exceeds the number of names either
  domain has, and it reaches that number exactly when the domains do not intersect, which is the
  condition for instances to be in the same replicaset.
\<close>

theorem distance_metric:
  "(distance a b = 0 \<longleftrightarrow> a = b) \<and> distance a b = distance b a \<and>
   distance a c \<le> distance a b + distance b c \<and>
   distance a b \<le> card (names a \<union> names b) \<and>
   (distance a b = card (names a \<union> names b) \<longleftrightarrow> \<not> intersects a b)"
  by (intro conjI distance_zero distance_sym distance_triangle distance_max distance_max_iff)

end
