(* ===== verification/Raft_Ops.thy ===== *)
theory Raft_Ops
  imports Pico_Errors "HOL-Library.Finite_Map"
begin

text \<open>
  src/src/traft/op.rs: the operations that go through the raft log. Tuples, keys and update
  operations are msgpack buffers in the code; they are the type parameters \<open>'t\<close>, \<open>'k\<close>
  and \<open>'u\<close> here, so that each component can use the rows and keys of its own tables.
  Payload fields that no operation of the repository inspects structurally (formats, index parts,
  routine bodies) are carried as opaque strings.

  The second part is the column-rename mapping of \<open>ALTER TABLE ... RENAME COLUMN\<close>.
\<close>

section \<open>Operations\<close>

type_synonym space_id = nat
type_synonym user_id = nat

datatype conflict_strategy = DoNothing | DoReplace | DoFail

datatype ('k, 't, 'u) dml =
    DmlInsert space_id 't user_id conflict_strategy
  | DmlReplace space_id 't user_id
  | DmlUpdate space_id 'k "'u list" user_id
  | DmlDelete space_id 'k user_id "string option"

datatype dml_kind = KindInsert | KindReplace | KindUpdate | KindDelete

datatype op_distribution =
    Global
  | ShardedImplicitly (sharding_key: "string list") string
  | ShardedByField (sharding_field: string) string

datatype ddl =
    CreateTable space_id string "string list" "string list" op_distribution string user_id
      "string list" "string list"
  | DropTable space_id user_id
  | TruncateTable space_id user_id
  | CreateIndex space_id nat string string "string list" "string list" user_id
  | DropIndex space_id nat user_id
  | RenameIndex space_id nat string string user_id user_id nat
  | CreateProcedure nat string "string list" string string string user_id
  | DropProcedure nat user_id
  | RenameProcedure nat string string user_id user_id nat
  | RenameTable space_id string string user_id user_id nat
  | ChangeFormat space_id "string list" "string list" "(string, string) fmap" user_id nat
  | Backup int

datatype acl =
    CreateUser user_id string nat
  | RenameUser user_id string user_id nat
  | ChangeAuth user_id string user_id nat
  | DropUser user_id user_id nat
  | CreateRole user_id string nat
  | DropRole user_id user_id nat
  | GrantPrivilege string nat
  | RevokePrivilege string nat user_id
  | AuditPolicy user_id nat bool user_id nat

record error_info =
  ei_code :: nat
  ei_message :: string
  ei_instance :: string

datatype plugin_raft_op =
    DisablePlugin string "error_info option"
  | DropPlugin string
  | PluginConfigPartialUpdate string "(string \<times> (string \<times> string) list) list"
  | PluginAbort error_info

datatype ('k, 't, 'u) op =
    Nop
  | OpDml "('k, 't, 'u) dml"
  | BatchDml "('k, 't, 'u) dml list"
  | DdlPrepare nat ddl "nat option"
  | DdlCommit
  | DdlAbort error_info
  | OpAcl acl
  | OpPlugin plugin_raft_op

fun table_id :: "('k, 't, 'u) dml \<Rightarrow> space_id" where
  "table_id (DmlInsert t _ _ _) = t"
| "table_id (DmlReplace t _ _) = t"
| "table_id (DmlUpdate t _ _ _) = t"
| "table_id (DmlDelete t _ _ _) = t"

fun dml_initiator :: "('k, 't, 'u) dml \<Rightarrow> user_id" where
  "dml_initiator (DmlInsert _ _ i _) = i"
| "dml_initiator (DmlReplace _ _ i) = i"
| "dml_initiator (DmlUpdate _ _ _ i) = i"
| "dml_initiator (DmlDelete _ _ i _) = i"

fun dml_kind_of :: "('k, 't, 'u) dml \<Rightarrow> dml_kind" where
  "dml_kind_of (DmlInsert _ _ _ _) = KindInsert"
| "dml_kind_of (DmlReplace _ _ _) = KindReplace"
| "dml_kind_of (DmlUpdate _ _ _ _) = KindUpdate"
| "dml_kind_of (DmlDelete _ _ _ _) = KindDelete"

fun is_schema_change :: "('k, 't, 'u) op \<Rightarrow> bool" where
  "is_schema_change (DdlPrepare _ _ _) = True"
| "is_schema_change (OpAcl _) = True"
| "is_schema_change _ = False"

fun is_ddl_finalizer :: "('k, 't, 'u) op \<Rightarrow> bool" where
  "is_ddl_finalizer DdlCommit = True"
| "is_ddl_finalizer (DdlAbort _) = True"
| "is_ddl_finalizer _ = False"

fun is_plugin_op_finalizer :: "('k, 't, 'u) op \<Rightarrow> bool" where
  "is_plugin_op_finalizer (OpPlugin (DisablePlugin _ (Some _))) = True"
| "is_plugin_op_finalizer (OpPlugin (PluginAbort _)) = True"
| "is_plugin_op_finalizer _ = False"

fun single_dml_or_batch :: "('k, 't, 'u) dml list \<Rightarrow> ('k, 't, 'u) op" where
  "single_dml_or_batch [dml] = OpDml dml"
| "single_dml_or_batch ops = BatchDml ops"

fun dmls :: "('k, 't, 'u) op \<Rightarrow> ('k, 't, 'u) dml list option" where
  "dmls (OpDml d) = Some [d]"
| "dmls (BatchDml ds) = Some ds"
| "dmls _ = None"

fun acl_schema_version :: "acl \<Rightarrow> nat" where
  "acl_schema_version (CreateUser _ _ v) = v"
| "acl_schema_version (RenameUser _ _ _ v) = v"
| "acl_schema_version (ChangeAuth _ _ _ v) = v"
| "acl_schema_version (DropUser _ _ v) = v"
| "acl_schema_version (CreateRole _ _ v) = v"
| "acl_schema_version (DropRole _ _ v) = v"
| "acl_schema_version (GrantPrivilege _ v) = v"
| "acl_schema_version (RevokePrivilege _ v _) = v"
| "acl_schema_version (AuditPolicy _ _ _ _ v) = v"

lemma dmls_single_dml_or_batch [simp]: "dmls (single_dml_or_batch ops) = Some ops"
  by (cases ops rule: single_dml_or_batch.cases) auto

lemma single_dml_or_batch_not_empty_batch:
  "ops \<noteq> [] \<Longrightarrow> single_dml_or_batch ops \<noteq> BatchDml []"
  by (cases ops rule: single_dml_or_batch.cases) auto

section \<open>Column renames\<close>

text \<open>
  \<open>RenameMappingBuilder\<close> keeps a map from new names to old ones; \<open>build\<close> turns it
  around. Both iterate a \<open>BTreeMap\<close> in key order and collect into another one, so on a
  duplicate key the later pair wins.
\<close>

type_synonym rename_map = "(string, string) fmap"

definition add_rename :: "rename_map \<Rightarrow> string \<Rightarrow> string \<Rightarrow> rename_map" where
  "add_rename m old new =
     (case fmlookup m old of
        Some older \<Rightarrow> fmupd new older (fmdrop old m)
      | None \<Rightarrow> fmupd new old m)"

definition swap_collect :: "rename_map \<Rightarrow> rename_map" where
  "swap_collect m = fmap_of_list (rev (map (\<lambda>(a, b). (b, a)) (sorted_list_of_fmap m)))"

definition build_mapping :: "rename_map \<Rightarrow> rename_map" where
  "build_mapping m = swap_collect m"

definition reversed :: "rename_map \<Rightarrow> rename_map" where
  "reversed m = swap_collect m"

definition transform_name :: "rename_map \<Rightarrow> string \<Rightarrow> string \<times> bool" where
  "transform_name m name =
     (case fmlookup m name of Some new_name \<Rightarrow> (new_name, True) | None \<Rightarrow> (name, False))"

fun transform_names :: "rename_map \<Rightarrow> string list \<Rightarrow> string list \<times> bool" where
  "transform_names m [] = ([], False)"
| "transform_names m (p # ps) =
     (let (p', b) = transform_name m p; (ps', r) = transform_names m ps in (p' # ps', b \<or> r))"

fun transform_distribution_columns :: "rename_map \<Rightarrow> op_distribution \<Rightarrow> op_distribution \<times> bool" where
  "transform_distribution_columns m Global = (Global, False)"
| "transform_distribution_columns m (ShardedImplicitly key f) =
     (let (key', r) = transform_names m key in (ShardedImplicitly key' f, r))"
| "transform_distribution_columns m (ShardedByField field t) =
     (let (field', r) = transform_name m field in (ShardedByField field' t, r))"

text \<open>The specification: the renames one after the other, each on the current name.\<close>

fun rename_all :: "(string \<times> string) list \<Rightarrow> string \<Rightarrow> string" where
  "rename_all [] x = x"
| "rename_all ((old, new) # rs) x = rename_all rs (if x = old then new else x)"

text \<open>Each rename is of an existing column to a name no column has at that moment.\<close>

fun valid_renames :: "string set \<Rightarrow> (string \<times> string) list \<Rightarrow> bool" where
  "valid_renames S [] = True"
| "valid_renames S ((old, new) # rs) =
     (old \<in> S \<and> new \<notin> S \<and> valid_renames (insert new (S - {old})) rs)"

definition builder_of :: "(string \<times> string) list \<Rightarrow> rename_map" where
  "builder_of rs = foldl (\<lambda>m (old, new). add_rename m old new) fmempty rs"

lemma fmlookup_swap_collect:
  assumes inj: "\<And>a b v. fmlookup m a = Some v \<Longrightarrow> fmlookup m b = Some v \<Longrightarrow> a = b"
  shows "fmlookup (swap_collect m) v = Some a \<longleftrightarrow> fmlookup m a = Some v"
proof -
  let ?l = "sorted_list_of_fmap m"
  let ?r = "rev (map (\<lambda>(a, b). (b, a)) ?l)"
  have set: "(a, b) \<in> set ?l \<longleftrightarrow> fmlookup m a = Some b" for a b
    by (auto simp: sorted_list_of_fmap_def fmlookup_dom'_iff fmlookup_dom_iff image_iff
        split: option.splits)
  have dist: "distinct (map fst ?l)"
    by (simp add: sorted_list_of_fmap_def comp_def sorted_list_of_fset.rep_eq)
  have dl: "distinct ?l" using dist distinct_map by blast
  have "inj_on snd (set ?l)"
    using inj set by (auto simp: inj_on_def)
  then have "distinct (map snd ?l)" using dl by (simp add: distinct_map)
  then have "distinct (map fst ?r)"
    by (simp add: rev_map [symmetric] comp_def case_prod_unfold)
  then have "map_of ?r v = Some a \<longleftrightarrow> (v, a) \<in> set ?r"
    by (metis map_of_eq_Some_iff)
  then show ?thesis
    using set by (auto simp: swap_collect_def fmlookup_of_list)
qed

text \<open>The builder's map sends every current name of a renamed column to its first name.\<close>

definition builder_inv :: "string set \<Rightarrow> string set \<Rightarrow> rename_map \<Rightarrow> (string \<Rightarrow> string) \<Rightarrow> bool" where
  "builder_inv S0 S m f \<longleftrightarrow>
     bij_betw f S0 S \<and>
     (\<forall>x \<in> S0. case fmlookup m (f x) of Some o' \<Rightarrow> o' = x | None \<Rightarrow> f x = x) \<and>
     fset (fmdom m) \<subseteq> S"

lemma builder_inv_init: "builder_inv S S fmempty (\<lambda>x. x)"
  by (simp add: builder_inv_def bij_betw_def)

lemma bij_betw_replace:
  assumes "bij_betw f A S" "old \<in> S" "new \<notin> S"
  shows "bij_betw (\<lambda>x. if f x = old then new else f x) A (insert new (S - {old}))"
proof -
  from assms have inj: "inj_on f A" and img: "f ` A = S" by (auto simp: bij_betw_def)
  have "inj_on (\<lambda>x. if f x = old then new else f x) A"
  proof (rule inj_onI)
    fix x y
    assume xy: "x \<in> A" "y \<in> A"
      and eq: "(if f x = old then new else f x) = (if f y = old then new else f y)"
    have "f x \<noteq> new" "f y \<noteq> new" using xy img assms(3) by auto
    with eq have "f x = f y" by (auto split: if_splits)
    with inj xy show "x = y" by (auto dest: inj_onD)
  qed
  moreover have "(\<lambda>x. if f x = old then new else f x) ` A = (\<lambda>y. if y = old then new else y) ` S"
    unfolding img [symmetric] by (simp only: image_image)
  moreover have "(\<lambda>y. if y = old then new else y) ` S = insert new (S - {old})"
    using assms(2) by auto
  ultimately show ?thesis by (simp add: bij_betw_def)
qed

lemma builder_inv_step:
  assumes inv: "builder_inv S0 S m f" and old: "old \<in> S" and new: "new \<notin> S"
  shows "builder_inv S0 (insert new (S - {old})) (add_rename m old new)
           (\<lambda>x. if f x = old then new else f x)"
proof -
  let ?m = "add_rename m old new" and ?f = "\<lambda>x. if f x = old then new else f x"
  have bij: "bij_betw f S0 S" and dom: "fset (fmdom m) \<subseteq> S"
    and look: "\<And>x. x \<in> S0 \<Longrightarrow> case fmlookup m (f x) of Some o' \<Rightarrow> o' = x | None \<Rightarrow> f x = x"
    using inv by (auto simp: builder_inv_def)
  have "case fmlookup ?m (?f x) of Some o' \<Rightarrow> o' = x | None \<Rightarrow> ?f x = x" if x: "x \<in> S0" for x
  proof (cases "f x = old")
    case True
    with look [OF x] show ?thesis
      by (auto simp: add_rename_def split: option.splits)
  next
    case False
    from x bij have "f x \<in> S" by (auto simp: bij_betw_def)
    with new have "f x \<noteq> new" by auto
    with False look [OF x] show ?thesis
      by (auto simp: add_rename_def split: option.splits)
  qed
  moreover have "fset (fmdom ?m) \<subseteq> insert new (S - {old})"
    using dom by (auto simp: add_rename_def fmdom_notD split: option.splits)
  ultimately show ?thesis
    using bij_betw_replace [OF bij old new] by (simp add: builder_inv_def)
qed

lemma builder_inv_renames:
  assumes "builder_inv S0 S m f" "valid_renames S rs"
  shows "\<exists>S'. builder_inv S0 S' (foldl (\<lambda>m (old, new). add_rename m old new) m rs)
           (\<lambda>x. rename_all rs (f x))"
  using assms
proof (induction rs arbitrary: S m f)
  case Nil
  then show ?case by auto
next
  case (Cons r rs)
  obtain old new where r: "r = (old, new)" by (cases r)
  with Cons.prems have v: "valid_renames (insert new (S - {old})) rs" by simp
  from Cons.prems r have "builder_inv S0 (insert new (S - {old})) (add_rename m old new)
      (\<lambda>x. if f x = old then new else f x)"
    by (intro builder_inv_step) auto
  from Cons.IH [OF this v] show ?case by (simp add: r)
qed

lemma builder_inv_first:
  "builder_inv S0 S m f \<Longrightarrow> x \<in> S0 \<Longrightarrow> fmlookup m (f x) = Some v \<Longrightarrow> v = x"
  by (auto simp: builder_inv_def split: option.splits)

lemma builder_inv_inj:
  assumes "builder_inv S0 S m f" "fmlookup m a = Some v" "fmlookup m b = Some v"
  shows "a = b"
proof -
  have "a \<in> S" "b \<in> S" using assms by (auto simp: builder_inv_def fmlookup_dom_iff)
  then obtain x y where "x \<in> S0" "y \<in> S0" "a = f x" "b = f y"
    using assms(1) by (auto simp: builder_inv_def bij_betw_def)
  with assms builder_inv_first show ?thesis by blast
qed

lemma transform_build:
  assumes "builder_inv S0 S m f" "x \<in> S0"
  shows "fst (transform_name (build_mapping m) x) = f x"
    and "fst (transform_name (reversed (build_mapping m)) (f x)) = x"
proof -
  have look: "fmlookup (build_mapping m) v = Some a \<longleftrightarrow> fmlookup m a = Some v" for v a
    unfolding build_mapping_def by (rule fmlookup_swap_collect) (rule builder_inv_inj [OF assms(1)])
  have look': "fmlookup (reversed (build_mapping m)) y = Some z \<longleftrightarrow> fmlookup m y = Some z" for y z
    unfolding reversed_def by (subst fmlookup_swap_collect) (auto simp: look)
  have fx: "case fmlookup m (f x) of Some o' \<Rightarrow> o' = x | None \<Rightarrow> f x = x"
    using assms by (auto simp: builder_inv_def)
  have img: "a \<in> f ` S0" if "fmlookup m a = Some v" for a v
    using that assms(1) by (auto simp: builder_inv_def bij_betw_def fmlookup_dom_iff)
  have self: "a = f x" if "fmlookup m a = Some x" for a
  proof -
    from img [OF that] obtain y where "y \<in> S0" "a = f y" by auto
    with that builder_inv_first [OF assms(1)] show ?thesis by blast
  qed
  show "fst (transform_name (build_mapping m) x) = f x"
  proof (cases "fmlookup m (f x)")
    case None
    with fx have "f x = x" by simp
    moreover have "fmlookup (build_mapping m) x = None"
      using look [of x] self None by (metis not_None_eq)
    ultimately show ?thesis by (simp add: transform_name_def)
  next
    case (Some o')
    with fx have "fmlookup (build_mapping m) x = Some (f x)" using look [of x] by simp
    then show ?thesis by (simp add: transform_name_def)
  qed
  show "fst (transform_name (reversed (build_mapping m)) (f x)) = x"
  proof (cases "fmlookup m (f x)")
    case None
    with fx have "f x = x" by simp
    moreover have "fmlookup (reversed (build_mapping m)) (f x) = None"
      using look' [of "f x"] None by (metis not_None_eq)
    ultimately show ?thesis by (simp add: transform_name_def)
  next
    case (Some o')
    with fx have "fmlookup (reversed (build_mapping m)) (f x) = Some x" using look' [of "f x"] by simp
    then show ?thesis by (simp add: transform_name_def)
  qed
qed

section \<open>Correctness\<close>

text \<open>
  C28: the mapping built from a sequence of column renames, each of an existing column to a free name,
  renames every column of the table as the renames one after the other would, and its reverse brings
  every new name back to the original one.
\<close>

theorem rename_mapping_correct:
  assumes "valid_renames S rs" "x \<in> S"
  shows "fst (transform_name (build_mapping (builder_of rs)) x) = rename_all rs x \<and>
         fst (transform_name (reversed (build_mapping (builder_of rs))) (rename_all rs x)) = x"
proof -
  obtain S' where "builder_inv S S' (builder_of rs) (rename_all rs)"
    using builder_inv_renames [OF builder_inv_init assms(1)] by (auto simp: builder_of_def)
  from transform_build [OF this assms(2)] show ?thesis by simp
qed

theorem rename_mapping_correct_witness:
  "fst (transform_name (build_mapping (builder_of [(''a'', ''b''), (''b'', ''c'')])) ''a'') = ''c''"
  using rename_mapping_correct [of "{''a'', ''x''}" "[(''a'', ''b''), (''b'', ''c'')]" "''a''"]
  by simp

end
