(* ===== verification/Raft_Storage.thy ===== *)
theory Raft_Storage
  imports Raft_Ops
begin

text \<open>
  src/src/traft/raft_storage.rs: the raft log and the raft state as persisted in the local spaces
  \<open>_raft_log\<close> and \<open>_raft_state\<close>, with the implementation of the \<open>raft::Storage\<close>
  trait over them, and the log entries of src/src/traft/mod.rs.

  \<open>_raft_log\<close> is a tree-indexed space: the model keeps its rows in a list ordered by index.
  \<open>_raft_state\<close> is a key-value space; each key is an optional field of the record. The
  payload type \<open>'o\<close> of an entry is \<open>Op\<close>; its msgpack encoding (rmp-serde) is the
  parameter \<open>enc\<close>/\<open>dec\<close> of the two operations that convert entries.
\<close>

section \<open>Entries\<close>

datatype entry_type = EntryNormal | EntryConfChange | EntryConfChangeV2

record 'o entry =
  e_type :: entry_type
  e_index :: raft_index
  e_term :: raft_term
  e_data :: "8 word list"
  e_context :: "'o option"

text \<open>\<open>raft::Entry\<close> of raft-rs, with the payload still encoded.\<close>

record raft_entry =
  re_type :: entry_type
  re_index :: raft_index
  re_term :: raft_term
  re_data :: "8 word list"
  re_context :: "8 word list"

datatype 'o entry_payload =
    NormalEmpty
  | Normal 'o
  | ConfChange "8 word list"
  | ConfChangeV2 "8 word list"

definition into_op :: "'o entry \<Rightarrow> 'o option" where
  "into_op e = e_context e"

fun payload_of :: "entry_type \<Rightarrow> 'o option \<Rightarrow> 8 word list \<Rightarrow> 'o entry_payload" where
  "payload_of EntryNormal None data = NormalEmpty"
| "payload_of EntryNormal (Some x) data = Normal x"
| "payload_of EntryConfChange None data = ConfChange data"
| "payload_of EntryConfChangeV2 None data = ConfChangeV2 data"
| "payload_of _ _ data = NormalEmpty"

definition payload :: "'o entry \<Rightarrow> 'o entry_payload" where
  "payload e = payload_of (e_type e) (e_context e) (e_data e)"

definition context_from_raft_entry ::
  "(8 word list \<Rightarrow> 'o option) \<Rightarrow> raft_entry \<Rightarrow> 'o option traft_result" where
  "context_from_raft_entry dec e =
     (if re_context e = [] then Inr None
      else case dec (re_context e) of
             Some x \<Rightarrow> Inr (Some x)
           | None \<Rightarrow> Inl (Other ''failed to decode tuple''))"


definition entry_try_from ::
  "(8 word list \<Rightarrow> 'o option) \<Rightarrow> raft_entry \<Rightarrow> 'o entry traft_result" where
  "entry_try_from dec e =
     rbind (context_from_raft_entry dec e) (\<lambda>c.
       Inr \<lparr>e_type = re_type e, e_index = re_index e, e_term = re_term e, e_data = re_data e,
            e_context = c\<rparr>)"


section \<open>The spaces\<close>

record 'o raft_space =
  raft_log :: "'o entry list"
  rs_raft_id :: "raft_id option"
  rs_instance_name :: "string option"
  rs_instance_uuid :: "string option"
  rs_tier :: "string option"
  rs_cluster_name :: "string option"
  rs_cluster_uuid :: "string option"
  rs_gen :: "nat option"
  rs_term :: "raft_term option"
  rs_vote :: "raft_id option"
  rs_commit :: "raft_index option"
  rs_applied :: "raft_index option"
  rs_applied_term :: "raft_term option"
  rs_voters :: "raft_id list option"
  rs_learners :: "raft_id list option"
  rs_voters_outgoing :: "raft_id list option"
  rs_learners_next :: "raft_id list option"
  rs_auto_leave :: "bool option"
  rs_compacted_index :: "raft_index option"
  rs_compacted_term :: "raft_term option"
  rs_join_state :: "string option"

record conf_state =
  cs_voters :: "raft_id list"
  cs_learners :: "raft_id list"
  cs_voters_outgoing :: "raft_id list"
  cs_learners_next :: "raft_id list"
  cs_auto_leave :: bool

record hard_state =
  hs_term :: raft_term
  hs_vote :: raft_id
  hs_commit :: raft_index

record snapshot_metadata =
  meta_index :: raft_index
  meta_term :: raft_term
  meta_conf_state :: conf_state

record raft_entry_id =
  id_index :: raft_index
  id_term :: raft_term

definition unwrap_or :: "'a option \<Rightarrow> 'a \<Rightarrow> 'a" where
  "unwrap_or x d = (case x of Some v \<Rightarrow> v | None \<Rightarrow> d)"

lemma unwrap_or_simps [simp]: "unwrap_or (Some v) d = v" "unwrap_or None d = d"
  by (simp_all add: unwrap_or_def)

subsection \<open>Reading the raft state\<close>

definition cluster_name :: "'o raft_space \<Rightarrow> string traft_result" where
  "cluster_name s =
     (case rs_cluster_name s of
        Some v \<Rightarrow> Inr v
      | None \<Rightarrow> Inl (Panic ''cluster_name should always be set''))"

definition cluster_uuid :: "'o raft_space \<Rightarrow> string" where
  "cluster_uuid s = unwrap_or (rs_cluster_uuid s) ''''"

definition gen :: "'o raft_space \<Rightarrow> nat" where "gen s = unwrap_or (rs_gen s) 0"

definition current_term :: "'o raft_space \<Rightarrow> raft_term" where
  "current_term s = unwrap_or (rs_term s) 0"

definition vote :: "'o raft_space \<Rightarrow> raft_id" where "vote s = unwrap_or (rs_vote s) 0"

definition commit :: "'o raft_space \<Rightarrow> raft_index" where "commit s = unwrap_or (rs_commit s) 0"

definition applied :: "'o raft_space \<Rightarrow> raft_index" where "applied s = unwrap_or (rs_applied s) 0"

definition voters :: "'o raft_space \<Rightarrow> raft_id list" where "voters s = unwrap_or (rs_voters s) []"

definition learners :: "'o raft_space \<Rightarrow> raft_id list" where
  "learners s = unwrap_or (rs_learners s) []"

definition voters_outgoing :: "'o raft_space \<Rightarrow> raft_id list" where
  "voters_outgoing s = unwrap_or (rs_voters_outgoing s) []"

definition learners_next :: "'o raft_space \<Rightarrow> raft_id list" where
  "learners_next s = unwrap_or (rs_learners_next s) []"

definition auto_leave :: "'o raft_space \<Rightarrow> bool" where
  "auto_leave s = unwrap_or (rs_auto_leave s) False"

definition log_compacted_index :: "'o raft_space \<Rightarrow> raft_index" where
  "log_compacted_index s = unwrap_or (rs_compacted_index s) 0"

definition log_compacted_term :: "'o raft_space \<Rightarrow> raft_term" where
  "log_compacted_term s = unwrap_or (rs_compacted_term s) 0"

definition get_conf_state :: "'o raft_space \<Rightarrow> conf_state" where
  "get_conf_state s =
     \<lparr>cs_voters = voters s, cs_learners = learners s, cs_voters_outgoing = voters_outgoing s,
      cs_learners_next = learners_next s, cs_auto_leave = auto_leave s\<rparr>"

definition get_hard_state :: "'o raft_space \<Rightarrow> hard_state" where
  "get_hard_state s = \<lparr>hs_term = current_term s, hs_vote = vote s, hs_commit = commit s\<rparr>"

subsection \<open>Reading the log\<close>

text \<open>\<open>select(GE, low)\<close> followed by the loop with its two breaks.\<close>

fun entries_loop :: "raft_index \<Rightarrow> nat option \<Rightarrow> nat \<Rightarrow> 'o entry list \<Rightarrow> 'o entry list" where
  "entries_loop high limit n [] = []"
| "entries_loop high limit n (row # rows) =
     (if e_index row \<ge> high then []
      else if limit = Some n then []
      else row # entries_loop high limit (Suc n) rows)"

definition space_entries :: "'o raft_space \<Rightarrow> raft_index \<Rightarrow> raft_index \<Rightarrow> nat option \<Rightarrow> 'o entry list" where
  "space_entries s low high limit =
     entries_loop high limit 0 (filter (\<lambda>e. e_index e \<ge> low) (raft_log s))"

definition all_traft_entries :: "'o raft_space \<Rightarrow> 'o entry list" where
  "all_traft_entries s = raft_log s"

definition raft_log_count :: "'o raft_space \<Rightarrow> nat" where
  "raft_log_count s = length (raft_log s)"

definition log_get :: "'o raft_space \<Rightarrow> raft_index \<Rightarrow> 'o entry option" where
  "log_get s i = find (\<lambda>e. e_index e = i) (raft_log s)"

section \<open>The \<open>raft::Storage\<close> trait\<close>

definition initial_state :: "'o raft_space \<Rightarrow> hard_state \<times> conf_state" where
  "initial_state s = (get_hard_state s, get_conf_state s)"



definition storage_term :: "'o raft_space \<Rightarrow> raft_index \<Rightarrow> storage_error + raft_term" where
  "storage_term s idx =
     (case cmp idx (log_compacted_index s) of
        Less \<Rightarrow> Inl StoreCompacted
      | Equal \<Rightarrow> Inr (log_compacted_term s)
      | Greater \<Rightarrow>
          (case log_get s idx of
             Some e \<Rightarrow> Inr (e_term e)
           | None \<Rightarrow> Inl StoreUnavailable))"

definition first_index :: "'o raft_space \<Rightarrow> raft_index" where
  "first_index s = 1 + log_compacted_index s"

definition last_index :: "'o raft_space \<Rightarrow> raft_index" where
  "last_index s = (if raft_log s = [] then log_compacted_index s else e_index (last (raft_log s)))"

definition applied_term_compatibility_fallback :: "'o raft_space \<Rightarrow> raft_term traft_result" where
  "applied_term_compatibility_fallback s =
     (case storage_term s (applied s) of
        Inr v \<Rightarrow> Inr v
      | Inl StoreCompacted \<Rightarrow> Inr (current_term s)
      | Inl StoreUnavailable \<Rightarrow> Inr (current_term s)
      | Inl e \<Rightarrow> Inl (RaftStore e))"

definition applied_term :: "'o raft_space \<Rightarrow> raft_term traft_result" where
  "applied_term s =
     (case rs_applied_term s of
        Some t \<Rightarrow> Inr t
      | None \<Rightarrow> applied_term_compatibility_fallback s)"

definition applied_entry_id :: "'o raft_space \<Rightarrow> raft_entry_id traft_result" where
  "applied_entry_id s =
     rbind (applied_term s) (\<lambda>t. Inr \<lparr>id_index = applied s, id_term = t\<rparr>)"

section \<open>Writing\<close>

text \<open>
  \<open>Space::insert\<close> refuses a key that exists already (Tarantool's error \<open>TupleFound\<close>,
  code 3), \<open>Space::replace\<close> overwrites.
\<close>

definition insert_state :: "'a option \<Rightarrow> ('a \<Rightarrow> 's) \<Rightarrow> 'a \<Rightarrow> 's traft_result" where
  "insert_state old upd v =
     (case old of
        None \<Rightarrow> Inr (upd v)
      | Some _ \<Rightarrow> Inl (Tarantool 3 ''Duplicate key exists in unique index''))"

definition persist_raft_id :: "'o raft_space \<Rightarrow> raft_id \<Rightarrow> 'o raft_space traft_result" where
  "persist_raft_id s v = insert_state (rs_raft_id s) (\<lambda>v. s\<lparr>rs_raft_id := Some v\<rparr>) v"

definition persist_instance_name :: "'o raft_space \<Rightarrow> string \<Rightarrow> 'o raft_space traft_result" where
  "persist_instance_name s v =
     insert_state (rs_instance_name s) (\<lambda>v. s\<lparr>rs_instance_name := Some v\<rparr>) v"

definition persist_instance_uuid :: "'o raft_space \<Rightarrow> string \<Rightarrow> 'o raft_space traft_result" where
  "persist_instance_uuid s v =
     insert_state (rs_instance_uuid s) (\<lambda>v. s\<lparr>rs_instance_uuid := Some v\<rparr>) v"

definition persist_tier :: "'o raft_space \<Rightarrow> string \<Rightarrow> 'o raft_space traft_result" where
  "persist_tier s v = insert_state (rs_tier s) (\<lambda>v. s\<lparr>rs_tier := Some v\<rparr>) v"

definition persist_cluster_name :: "'o raft_space \<Rightarrow> string \<Rightarrow> 'o raft_space traft_result" where
  "persist_cluster_name s v =
     insert_state (rs_cluster_name s) (\<lambda>v. s\<lparr>rs_cluster_name := Some v\<rparr>) v"

definition persist_cluster_uuid :: "'o raft_space \<Rightarrow> string \<Rightarrow> 'o raft_space traft_result" where
  "persist_cluster_uuid s v =
     insert_state (rs_cluster_uuid s) (\<lambda>v. s\<lparr>rs_cluster_uuid := Some v\<rparr>) v"

definition persist_gen :: "'o raft_space \<Rightarrow> nat \<Rightarrow> 'o raft_space" where
  "persist_gen s v = s\<lparr>rs_gen := Some v\<rparr>"

definition persist_term :: "'o raft_space \<Rightarrow> raft_term \<Rightarrow> 'o raft_space" where
  "persist_term s v = s\<lparr>rs_term := Some v\<rparr>"

definition persist_vote :: "'o raft_space \<Rightarrow> raft_id \<Rightarrow> 'o raft_space" where
  "persist_vote s v = s\<lparr>rs_vote := Some v\<rparr>"

definition persist_commit :: "'o raft_space \<Rightarrow> raft_index \<Rightarrow> 'o raft_space" where
  "persist_commit s v = s\<lparr>rs_commit := Some v\<rparr>"

definition persist_applied :: "'o raft_space \<Rightarrow> raft_index \<Rightarrow> raft_term \<Rightarrow> 'o raft_space" where
  "persist_applied s i t = s\<lparr>rs_applied := Some i, rs_applied_term := Some t\<rparr>"

definition persist_voters :: "'o raft_space \<Rightarrow> raft_id list \<Rightarrow> 'o raft_space" where
  "persist_voters s v = s\<lparr>rs_voters := Some v\<rparr>"

definition persist_learners :: "'o raft_space \<Rightarrow> raft_id list \<Rightarrow> 'o raft_space" where
  "persist_learners s v = s\<lparr>rs_learners := Some v\<rparr>"

definition persist_voters_outgoing :: "'o raft_space \<Rightarrow> raft_id list \<Rightarrow> 'o raft_space" where
  "persist_voters_outgoing s v = s\<lparr>rs_voters_outgoing := Some v\<rparr>"

definition persist_learners_next :: "'o raft_space \<Rightarrow> raft_id list \<Rightarrow> 'o raft_space" where
  "persist_learners_next s v = s\<lparr>rs_learners_next := Some v\<rparr>"

definition persist_auto_leave :: "'o raft_space \<Rightarrow> bool \<Rightarrow> 'o raft_space" where
  "persist_auto_leave s v = s\<lparr>rs_auto_leave := Some v\<rparr>"

definition persist_compacted_term :: "'o raft_space \<Rightarrow> raft_term \<Rightarrow> 'o raft_space" where
  "persist_compacted_term s v = s\<lparr>rs_compacted_term := Some v\<rparr>"

definition persist_join_state :: "'o raft_space \<Rightarrow> string \<Rightarrow> 'o raft_space" where
  "persist_join_state s v = s\<lparr>rs_join_state := Some v\<rparr>"

definition persist_compacted_index :: "'o raft_space \<Rightarrow> raft_index \<Rightarrow> 'o raft_space" where
  "persist_compacted_index s v = s\<lparr>rs_compacted_index := Some v\<rparr>"

definition persist_conf_state :: "'o raft_space \<Rightarrow> conf_state \<Rightarrow> 'o raft_space" where
  "persist_conf_state s cs =
     (let s = persist_voters s (cs_voters cs);
          s = persist_learners s (cs_learners cs);
          s = persist_voters_outgoing s (cs_voters_outgoing cs);
          s = persist_learners_next s (cs_learners_next cs)
      in persist_auto_leave s (cs_auto_leave cs))"

definition persist_hard_state :: "'o raft_space \<Rightarrow> hard_state \<Rightarrow> 'o raft_space" where
  "persist_hard_state s hs =
     (let s = persist_term s (hs_term hs);
          s = persist_vote s (hs_vote hs)
      in persist_commit s (hs_commit hs))"

lemmas persist_defs =
  persist_applied_def persist_voters_def persist_learners_def persist_voters_outgoing_def
  persist_learners_next_def persist_auto_leave_def persist_compacted_term_def
  persist_compacted_index_def persist_conf_state_def persist_term_def persist_vote_def
  persist_commit_def persist_hard_state_def

lemmas reader_defs =
  voters_def learners_def voters_outgoing_def learners_next_def auto_leave_def
  get_conf_state_def current_term_def vote_def commit_def get_hard_state_def applied_def

text \<open>Replacing a row of a tree-indexed space.\<close>

fun log_replace :: "'o entry \<Rightarrow> 'o entry list \<Rightarrow> 'o entry list" where
  "log_replace row [] = [row]"
| "log_replace row (e # es) =
     (if e_index row < e_index e then row # e # es
      else if e_index row = e_index e then row # es
      else e # log_replace row es)"

fun persist_entries ::
  "(8 word list \<Rightarrow> 'o option) \<Rightarrow> raft_entry list \<Rightarrow> 'o raft_space \<Rightarrow> 'o raft_space traft_result" where
  "persist_entries dec [] s = Inr s"
| "persist_entries dec (e # es) s =
     (case entry_try_from dec e of
        Inl _ \<Rightarrow> Inl (Panic ''failed to convert a raft entry'')
      | Inr row \<Rightarrow> persist_entries dec es (s\<lparr>raft_log := log_replace row (raft_log s)\<rparr>))"

definition log_delete :: "raft_index \<Rightarrow> 'o raft_space \<Rightarrow> 'o raft_space" where
  "log_delete i s = s\<lparr>raft_log := filter (\<lambda>e. e_index e \<noteq> i) (raft_log s)\<rparr>"

definition compact_log :: "raft_index \<Rightarrow> 'o raft_space \<Rightarrow> 'o raft_space \<times> raft_index" where
  "compact_log up_to s =
     (case rev (filter (\<lambda>e. e_index e < up_to) (raft_log s)) of
        [] \<Rightarrow> (s, 1 + log_compacted_index s)
      | t # iter \<Rightarrow>
          let compacted_index = e_index t;
              compacted_term = e_term t;
              s = log_delete compacted_index s;
              s = persist_compacted_index s compacted_index;
              s = persist_compacted_term s compacted_term
          in (fold (\<lambda>e. log_delete (e_index e)) iter s, 1 + compacted_index))"

definition handle_snapshot_metadata :: "snapshot_metadata \<Rightarrow> 'o raft_space \<Rightarrow> 'o raft_space" where
  "handle_snapshot_metadata meta s =
     (let s = persist_applied s (meta_index meta) (meta_term meta);
          s = persist_conf_state s (meta_conf_state meta);
          s = fst (compact_log (meta_index meta + 1) s);
          s = persist_compacted_term s (meta_term meta)
      in persist_compacted_index s (meta_index meta))"

text \<open>
  \<open>Storage::snapshot\<close>: the data comes from \<open>Catalog::first_snapshot_data_chunk\<close>, here
  the parameter \<open>first_chunk\<close> of the applied entry id and the compacted index.
\<close>

definition storage_snapshot ::
  "(raft_entry_id \<Rightarrow> raft_index \<Rightarrow> ('d \<times> raft_entry_id) traft_result) \<Rightarrow> 'o raft_space \<Rightarrow> raft_index \<Rightarrow>
     (snapshot_metadata \<times> 'd) traft_result" where
  "storage_snapshot first_chunk s idx =
     rbind (applied_entry_id s) (\<lambda>applied.
       if id_index applied < idx then Inl (RaftStore StoreSnapshotTemporarilyUnavailable)
       else rbind (first_chunk applied (log_compacted_index s)) (\<lambda>(data, entry_id).
         Inr (\<lparr>meta_index = id_index entry_id, meta_term = id_term entry_id,
               meta_conf_state = get_conf_state s\<rparr>, data)))"

section \<open>Contiguous logs\<close>

text \<open>The rows of a log without holes which starts at index \<open>a\<close>.\<close>

definition contiguous :: "raft_index \<Rightarrow> 'o entry list \<Rightarrow> bool" where
  "contiguous a es \<longleftrightarrow> map e_index es = [a ..< a + length es]"

lemma contiguous_Nil [simp]: "contiguous a []"
  by (simp add: contiguous_def)

lemma contiguous_Cons [simp]:
  "contiguous a (e # es) \<longleftrightarrow> e_index e = a \<and> contiguous (Suc a) es"
proof -
  have "[a ..< a + length (e # es)] = a # [Suc a ..< Suc a + length es]"
    by (simp add: upt_conv_Cons del: upt_Suc)
  then show ?thesis by (auto simp: contiguous_def simp del: upt_Suc)
qed

lemma contiguous_append:
  "contiguous a (es @ fs) \<longleftrightarrow> contiguous a es \<and> contiguous (a + length es) fs"
  by (induction es arbitrary: a) auto

lemma contiguous_nth: "contiguous a es \<Longrightarrow> k < length es \<Longrightarrow> e_index (es ! k) = a + k"
  by (induction es arbitrary: a k) (auto simp: nth_Cons split: nat.splits)

lemma contiguous_bounds: "contiguous a es \<Longrightarrow> e \<in> set es \<Longrightarrow> a \<le> e_index e \<and> e_index e < a + length es"
  by (induction es arbitrary: a) force+

lemma contiguous_take: "contiguous a es \<Longrightarrow> contiguous a (take n es)"
  by (metis append_take_drop_id contiguous_append)

lemma contiguous_drop: "contiguous a es \<Longrightarrow> n \<le> length es \<Longrightarrow> contiguous (a + n) (drop n es)"
  using contiguous_append [of a "take n es" "drop n es"] by (simp add: min_absorb2)

lemma contiguous_filter_ge: "contiguous a es \<Longrightarrow> filter (\<lambda>e. e_index e \<ge> low) es = drop (low - a) es"
proof (induction es arbitrary: a)
  case (Cons e es)
  show ?case
  proof (cases "low \<le> a")
    case True
    then have "filter (\<lambda>e. e_index e \<ge> low) (e # es) = e # es"
      using contiguous_bounds [OF Cons.prems] by (intro filter_True) force
    with True show ?thesis by simp
  next
    case False
    then have "low - a = Suc (low - Suc a)" by simp
    with Cons False show ?thesis by simp
  qed
qed simp

lemma contiguous_filter_less: "contiguous a es \<Longrightarrow> filter (\<lambda>e. e_index e < up) es = take (up - a) es"
proof (induction es arbitrary: a)
  case (Cons e es)
  show ?case
  proof (cases "up \<le> a")
    case True
    then have "filter (\<lambda>e. e_index e < up) (e # es) = []"
      using contiguous_bounds [OF Cons.prems] by (intro filter_False) force
    with True show ?thesis by simp
  next
    case False
    then have "up - a = Suc (up - Suc a)" by simp
    with Cons False show ?thesis by simp
  qed
qed simp

lemma contiguous_find:
  "contiguous a es \<Longrightarrow>
     find (\<lambda>e. e_index e = i) es = (if a \<le> i \<and> i < a + length es then Some (es ! (i - a)) else None)"
proof (induction es arbitrary: a)
  case (Cons e es)
  then show ?case
    by (cases "i = a") (auto simp: nth_Cons' Suc_diff_le)
qed simp

lemma contiguous_entries_loop:
  assumes "contiguous a es" "case limit of None \<Rightarrow> True | Some l \<Rightarrow> n \<le> l"
  shows "entries_loop high limit n es =
           take (case limit of None \<Rightarrow> high - a | Some l \<Rightarrow> min (high - a) (l - n)) es"
  using assms
proof (induction es arbitrary: a n)
  case (Cons e es)
  show ?case
  proof (cases "high \<le> a \<or> limit = Some n")
    case True
    with Cons.prems show ?thesis by (cases limit) auto
  next
    case False
    then have "high - a = Suc (high - Suc a)" by (simp add: Suc_diff_Suc)
    moreover have "l - n = Suc (l - Suc n)" if "limit = Some l" for l
      using False that Cons.prems(2) by auto
    moreover have "case limit of None \<Rightarrow> True | Some l \<Rightarrow> Suc n \<le> l"
      using False Cons.prems(2) by (auto split: option.splits)
    ultimately show ?thesis
      using Cons False by (auto split: option.splits)
  qed
qed (simp split: option.splits)

lemma contiguous_log_replace:
  assumes "contiguous a es" "a \<le> e_index row" "e_index row \<le> a + length es"
  shows "log_replace row es =
           take (e_index row - a) es @ row # drop (Suc (e_index row - a)) es"
  using assms
proof (induction es arbitrary: a)
  case (Cons e es)
  show ?case
  proof (cases "e_index row = a")
    case True
    with Cons.prems show ?thesis by simp
  next
    case False
    with Cons.prems have "e_index row - a = Suc (e_index row - Suc a)" by simp
    with False Cons show ?thesis by auto
  qed
qed simp

section \<open>The log invariant\<close>

text \<open>The log has no holes and starts right after the compacted index.\<close>

definition log_ok :: "'o raft_space \<Rightarrow> bool" where
  "log_ok s \<longleftrightarrow> contiguous (first_index s) (raft_log s)"

lemma log_ok_last_index:
  assumes "log_ok s"
  shows "last_index s = log_compacted_index s + length (raft_log s)"
proof (cases "raft_log s = []")
  case False
  then have "last_index s = e_index (raft_log s ! (length (raft_log s) - 1))"
    by (simp add: last_index_def last_conv_nth)
  also have "\<dots> = first_index s + (length (raft_log s) - 1)"
    using assms False by (simp add: log_ok_def contiguous_nth)
  finally show ?thesis
    using False by (simp add: first_index_def)
qed (simp add: last_index_def)

lemma log_ok_log_get:
  "log_ok s \<Longrightarrow> log_get s i =
     (if first_index s \<le> i \<and> i \<le> last_index s then Some (raft_log s ! (i - first_index s)) else None)"
  by (auto simp: log_get_def log_ok_def contiguous_find log_ok_last_index first_index_def)

lemma log_ok_space_entries:
  assumes "log_ok s" "first_index s \<le> low"
  shows "space_entries s low high limit =
           take (case limit of None \<Rightarrow> high - low | Some l \<Rightarrow> min (high - low) l)
             (drop (low - first_index s) (raft_log s))"
proof -
  have c: "contiguous (first_index s) (raft_log s)" using assms(1) by (simp add: log_ok_def)
  show ?thesis
  proof (cases "low - first_index s \<le> length (raft_log s)")
    case True
    with contiguous_drop [OF c True] assms(2)
    have "contiguous low (drop (low - first_index s) (raft_log s))" by simp
    then show ?thesis
      unfolding space_entries_def contiguous_filter_ge [OF c]
      by (subst contiguous_entries_loop) (auto split: option.splits)
  next
    case False
    then have "drop (low - first_index s) (raft_log s) = []" by simp
    then show ?thesis by (simp add: space_entries_def contiguous_filter_ge [OF c])
  qed
qed

lemma log_ok_storage_term:
  "log_ok s \<Longrightarrow> storage_term s i =
     (if i < log_compacted_index s then Inl StoreCompacted
      else if i = log_compacted_index s then Inr (log_compacted_term s)
      else if i \<le> last_index s then Inr (e_term (raft_log s ! (i - first_index s)))
      else Inl StoreUnavailable)"
  by (auto simp: storage_term_def cmp_def log_ok_log_get first_index_def)

subsection \<open>Persisting entries\<close>

text \<open>
  The rows are written over the log from their first index on. Rows of the log past the last written
  index stay where they are.
\<close>

definition overwrite :: "raft_index \<Rightarrow> 'o entry list \<Rightarrow> 'o entry list \<Rightarrow> 'o entry list" where
  "overwrite a rows old =
     (case rows of
        [] \<Rightarrow> old
      | r # _ \<Rightarrow> take (e_index r - a) old @ rows @ drop (e_index r - a + length rows) old)"

lemma fold_log_replace:
  assumes "contiguous a old" "contiguous b rows" "a \<le> b" "b \<le> a + length old"
  shows "fold log_replace rows old = overwrite a rows old \<and> contiguous a (overwrite a rows old)"
  using assms
proof (induction rows arbitrary: b old)
  case (Cons r rows)
  let ?new = "take (b - a) old @ r # drop (Suc (b - a)) old"
  have step: "log_replace r old = ?new"
    using Cons.prems by (subst contiguous_log_replace [of a]) auto
  have tk: "contiguous a (take (b - a) old)" and len: "length (take (b - a) old) = b - a"
    using Cons.prems by (auto intro: contiguous_take)
  have dr: "contiguous (Suc b) (drop (Suc (b - a)) old)"
  proof (cases "Suc (b - a) \<le> length old")
    case True
    with contiguous_drop [OF Cons.prems(1) True] Cons.prems show ?thesis by simp
  qed simp
  have clog: "contiguous a ?new"
    using tk len dr Cons.prems by (auto simp: contiguous_append)
  have IH: "fold log_replace rows ?new = overwrite a rows ?new \<and> contiguous a (overwrite a rows ?new)"
    using Cons.IH [OF clog, of "Suc b"] Cons.prems len by simp
  moreover have "overwrite a rows ?new = overwrite a (r # rows) old"
    using Cons.prems len by (cases rows) (auto simp: overwrite_def Suc_diff_le take_Cons' drop_Cons' add.commute)
  ultimately show ?case using step by simp
qed (simp add: overwrite_def)

lemma persist_entries_fold:
  assumes "rmap (entry_try_from dec) es = Inr rows"
  shows "persist_entries dec es s = Inr (s\<lparr>raft_log := fold log_replace rows (raft_log s)\<rparr>)"
  using assms
proof (induction es arbitrary: rows s)
  case (Cons e es)
  then obtain row rows' where "entry_try_from dec e = Inr row" "rmap (entry_try_from dec) es = Inr rows'"
    "rows = row # rows'"
    by (auto simp: result_simps)
  with Cons.IH [of rows'] show ?case by simp
qed simp

subsection \<open>Compaction\<close>

lemma fold_log_delete:
  "fold (\<lambda>e. log_delete (e_index e)) es s =
     s\<lparr>raft_log := filter (\<lambda>e. e_index e \<notin> e_index ` set es) (raft_log s)\<rparr>"
  by (induction es arbitrary: s) (auto simp: log_delete_def conj_commute)

text \<open>What \<open>compact_log\<close> does to a log without holes.\<close>

lemma compact_log_eq:
  fixes s :: "'o raft_space" and up_to :: raft_index
  assumes "log_ok s"
  defines "n \<equiv> min (up_to - first_index s) (length (raft_log s))"
  shows "compact_log up_to s =
           (if n = 0 then (s, first_index s)
            else (s\<lparr>raft_log := drop n (raft_log s),
                    rs_compacted_index := Some (first_index s + n - 1),
                    rs_compacted_term := Some (e_term (raft_log s ! (n - 1)))\<rparr>,
                  first_index s + n))"
proof -
  have c: "contiguous (first_index s) (raft_log s)" using assms(1) by (simp add: log_ok_def)
  have tk: "filter (\<lambda>e. e_index e < up_to) (raft_log s) = take n (raft_log s)"
    by (simp add: contiguous_filter_less [OF c] n_def min_def)
  show ?thesis
  proof (cases "n = 0")
    case True
    then show ?thesis by (simp add: compact_log_def tk first_index_def)
  next
    case False
    let ?l = "raft_log s"
    have "n \<le> length ?l" by (simp add: n_def)
    with False have n: "n \<le> length ?l" "n - 1 < length ?l" "Suc (n - 1) = n" by linarith+
    have "take n ?l = take (n - 1) ?l @ [?l ! (n - 1)]"
      using take_Suc_conv_app_nth [OF n(2)] n(3) by simp
    then have rv: "rev (take n ?l) = ?l ! (n - 1) # rev (take (n - 1) ?l)" by simp
    have idx: "e_index (?l ! (n - 1)) = first_index s + n - 1"
      using contiguous_nth [OF c n(2)] n(3) by simp
    have "filter (\<lambda>e. e_index e \<notin> e_index ` set (take (n - 1) ?l))
             (filter (\<lambda>e. e_index e \<noteq> first_index s + n - 1) ?l) =
           filter (\<lambda>e. e_index e \<ge> first_index s + n) ?l"
      unfolding filter_filter
    proof (rule filter_cong [OF refl])
      fix e assume e: "e \<in> set ?l"
      then obtain k where k: "k < length ?l" "e = ?l ! k" by (auto simp: in_set_conv_nth)
      then have ek: "e_index e = first_index s + k" using contiguous_nth [OF c] by simp
      have "e_index e \<in> e_index ` set (take (n - 1) ?l) \<longleftrightarrow> k < n - 1"
        using ek k n contiguous_bounds [OF contiguous_take [OF c, of "n - 1"]]
        by (force simp: image_iff in_set_conv_nth)
      then show "(e_index e \<noteq> first_index s + n - 1 \<and> e_index e \<notin> e_index ` set (take (n - 1) ?l)) =
          (first_index s + n \<le> e_index e)"
        using ek n(3) by auto
    qed
    also have "\<dots> = drop n ?l" by (simp add: contiguous_filter_ge [OF c])
    finally show ?thesis
      using False rv idx n
      by (simp add: compact_log_def tk fold_log_delete log_delete_def persist_defs)
  qed
qed

lemma compact_log_rows:
  "log_ok s \<Longrightarrow> raft_log (fst (compact_log up_to s)) = drop (up_to - first_index s) (raft_log s)"
  by (auto simp: compact_log_eq min_def)

lemma compact_log_keeps [simp]:
  "rs_applied (fst (compact_log up_to s)) = rs_applied s"
  "rs_applied_term (fst (compact_log up_to s)) = rs_applied_term s"
  "rs_voters (fst (compact_log up_to s)) = rs_voters s"
  "rs_learners (fst (compact_log up_to s)) = rs_learners s"
  "rs_voters_outgoing (fst (compact_log up_to s)) = rs_voters_outgoing s"
  "rs_learners_next (fst (compact_log up_to s)) = rs_learners_next s"
  "rs_auto_leave (fst (compact_log up_to s)) = rs_auto_leave s"
  by (auto simp: compact_log_def fold_log_delete log_delete_def persist_compacted_index_def
      persist_compacted_term_def Let_def split: list.splits)

lemma log_ok_first_le_last: "log_ok s \<Longrightarrow> first_index s \<le> last_index s + 1"
  by (simp add: log_ok_last_index first_index_def)

lemma compact_log_first:
  assumes "log_ok s"
  shows "snd (compact_log up_to s) = max (first_index s) (min up_to (last_index s + 1))"
  using assms by (auto simp: compact_log_eq log_ok_last_index first_index_def min_def max_def)

lemma compact_log_state:
  assumes "log_ok s"
  shows "first_index (fst (compact_log up_to s)) = snd (compact_log up_to s)"
    and "raft_log (fst (compact_log up_to s)) =
           drop (snd (compact_log up_to s) - first_index s) (raft_log s)"
    and "log_ok (fst (compact_log up_to s))"
    and "last_index (fst (compact_log up_to s)) = last_index s"
proof -
  let ?n = "min (up_to - first_index s) (length (raft_log s))"
  let ?s = "fst (compact_log up_to s)"
  have c: "contiguous (first_index s) (raft_log s)" using assms by (simp add: log_ok_def)
  have f: "snd (compact_log up_to s) = first_index s + ?n"
    using assms by (auto simp: compact_log_eq)
  show fi: "first_index ?s = snd (compact_log up_to s)"
    using assms by (auto simp: compact_log_eq first_index_def log_compacted_index_def)
  show lg: "raft_log ?s = drop (snd (compact_log up_to s) - first_index s) (raft_log s)"
    unfolding f using assms by (simp add: compact_log_eq)
  show ok: "log_ok ?s"
    using contiguous_drop [OF c, of ?n] unfolding log_ok_def fi lg f by simp
  have "log_compacted_index ?s + 1 = log_compacted_index s + 1 + ?n"
    using fi f by (simp add: first_index_def)
  then show "last_index ?s = last_index s"
    using lg f by (simp add: log_ok_last_index [OF ok] log_ok_last_index [OF assms])
qed

lemma compact_log_compacted_term:
  assumes "log_ok s"
  defines "c \<equiv> \<lambda>up_to. fst (compact_log up_to s)"
  shows "storage_term (c up_to) (log_compacted_index (c up_to)) =
           storage_term s (log_compacted_index (c up_to))"
proof -
  define n where "n = min (up_to - first_index s) (length (raft_log s))"
  show ?thesis
  proof (cases "n = 0")
    case True
    then show ?thesis using compact_log_eq [OF assms(1), of up_to, folded n_def] by (simp add: c_def)
  next
    case False
    have ci: "log_compacted_index (c up_to) = first_index s + n - 1"
      and "log_compacted_term (c up_to) = e_term (raft_log s ! (n - 1))"
      using compact_log_eq [OF assms(1), of up_to, folded n_def] False
      by (simp_all add: c_def log_compacted_index_def log_compacted_term_def)
    then have "storage_term (c up_to) (log_compacted_index (c up_to)) = Inr (e_term (raft_log s ! (n - 1)))"
      by (simp add: storage_term_def cmp_def)
    moreover have "n \<le> length (raft_log s)" by (simp add: n_def)
    then have "first_index s + n - 1 \<le> last_index s" "log_compacted_index s < first_index s + n - 1"
      "first_index s + n - 1 - first_index s = n - 1"
      using False by (simp_all add: log_ok_last_index [OF assms(1)] first_index_def)
    then have "storage_term s (log_compacted_index (c up_to)) = Inr (e_term (raft_log s ! (n - 1)))"
      unfolding ci by (simp add: log_ok_storage_term [OF assms(1)])
    ultimately show ?thesis by simp
  qed
qed

subsection \<open>Snapshots\<close>

lemma log_ok_frame:
  "raft_log s' = raft_log s \<Longrightarrow> rs_compacted_index s' = rs_compacted_index s \<Longrightarrow> log_ok s' = log_ok s"
  by (simp add: log_ok_def first_index_def log_compacted_index_def)

lemma handle_snapshot_metadata_state:
  assumes ok: "log_ok s" and ge: "log_compacted_index s \<le> meta_index meta"
  defines "s' \<equiv> handle_snapshot_metadata meta s"
  shows "log_compacted_index s' = meta_index meta" "log_compacted_term s' = meta_term meta"
    and "raft_log s' = filter (\<lambda>e. meta_index meta < e_index e) (raft_log s)"
    and "applied s' = meta_index meta" "get_conf_state s' = meta_conf_state meta"
    and "log_ok s'"
proof -
  let ?s1 = "persist_conf_state (persist_applied s (meta_index meta) (meta_term meta)) (meta_conf_state meta)"
  have ok1: "log_ok ?s1"
    using ok by (subst log_ok_frame [of _ s]) (simp_all add: persist_defs)
  have c: "contiguous (first_index s) (raft_log s)" using ok by (simp add: log_ok_def)
  have f1: "first_index ?s1 = first_index s" "raft_log ?s1 = raft_log s"
    by (simp_all add: first_index_def log_compacted_index_def persist_defs)
  let ?n = "min (meta_index meta + 1 - first_index s) (length (raft_log s))"
  have s': "s' = (fst (compact_log (meta_index meta + 1) ?s1))
      \<lparr>rs_compacted_term := Some (meta_term meta), rs_compacted_index := Some (meta_index meta)\<rparr>"
    by (simp add: s'_def handle_snapshot_metadata_def persist_compacted_index_def
        persist_compacted_term_def Let_def)
  show ci: "log_compacted_index s' = meta_index meta" and "log_compacted_term s' = meta_term meta"
    by (simp_all add: s' log_compacted_index_def log_compacted_term_def)
  have log': "raft_log s' = drop (meta_index meta + 1 - first_index s) (raft_log s)"
    by (simp add: s' compact_log_rows [OF ok1] f1)
  then show lg: "raft_log s' = filter (\<lambda>e. meta_index meta < e_index e) (raft_log s)"
    using contiguous_filter_ge [OF c, of "meta_index meta + 1"] by (simp add: Suc_le_eq)
  show "applied s' = meta_index meta" "get_conf_state s' = meta_conf_state meta"
    by (simp_all add: s' persist_defs reader_defs)
  show "log_ok s'"
  proof (cases "meta_index meta + 1 - first_index s \<le> length (raft_log s)")
    case True
    from contiguous_drop [OF c True] ge ci log' show ?thesis
      by (simp add: log_ok_def first_index_def)
  qed (simp add: log_ok_def log')
qed

section \<open>Reachable logs\<close>

text \<open>
  The writes of the main loop: \<open>persist_entries\<close> on consecutive entries that continue or
  overwrite the log (the contract of raft-rs's \<open>Ready\<close>), compaction, a snapshot that is not
  older than the compacted prefix, and the state writes.
\<close>

inductive raft_write :: "(8 word list \<Rightarrow> 'o option) \<Rightarrow> 'o raft_space \<Rightarrow> 'o raft_space \<Rightarrow> bool"
  for dec where
  write_entries:
    "\<lbrakk>rmap (entry_try_from dec) es = Inr rows; contiguous b rows; first_index s \<le> b;
      b \<le> last_index s + 1; persist_entries dec es s = Inr s'\<rbrakk> \<Longrightarrow> raft_write dec s s'"
| write_compact: "raft_write dec s (fst (compact_log up_to s))"
| write_snapshot:
    "log_compacted_index s \<le> meta_index meta \<Longrightarrow> raft_write dec s (handle_snapshot_metadata meta s)"
| write_hard_state: "raft_write dec s (persist_hard_state s hs)"
| write_conf_state: "raft_write dec s (persist_conf_state s cs)"
| write_applied: "raft_write dec s (persist_applied s i t)"

inductive_cases raft_writeE: "raft_write dec s s'"

inductive raft_reachable :: "(8 word list \<Rightarrow> 'o option) \<Rightarrow> 'o raft_space \<Rightarrow> bool" for dec where
  reach_init: "raft_log s = [] \<Longrightarrow> raft_reachable dec s"
| reach_write: "raft_reachable dec s \<Longrightarrow> raft_write dec s s' \<Longrightarrow> raft_reachable dec s'"

lemma persist_entries_log_ok:
  assumes ok: "log_ok s" and es: "rmap (entry_try_from dec) es = Inr rows" "contiguous b rows"
    and b: "first_index s \<le> b" "b \<le> last_index s + 1"
  shows "persist_entries dec es s = Inr (s\<lparr>raft_log := overwrite (first_index s) rows (raft_log s)\<rparr>)"
    and "log_ok (s\<lparr>raft_log := overwrite (first_index s) rows (raft_log s)\<rparr>)"
proof -
  have c: "contiguous (first_index s) (raft_log s)" using ok by (simp add: log_ok_def)
  have "b \<le> first_index s + length (raft_log s)"
    using b log_ok_last_index [OF ok] by (simp add: first_index_def)
  note f = fold_log_replace [OF c es(2) b(1) this]
  show "persist_entries dec es s = Inr (s\<lparr>raft_log := overwrite (first_index s) rows (raft_log s)\<rparr>)"
    using persist_entries_fold [OF es(1)] f by simp
  show "log_ok (s\<lparr>raft_log := overwrite (first_index s) rows (raft_log s)\<rparr>)"
    using f by (simp add: log_ok_def first_index_def log_compacted_index_def)
qed

lemma raft_write_log_ok:
  assumes "raft_write dec s s'" "log_ok s"
  shows "log_ok s'"
  using assms
proof (cases rule: raft_write.cases)
  case (write_entries es rows b)
  with persist_entries_log_ok [OF assms(2) write_entries(1-4)] show ?thesis by auto
next
  case (write_compact up_to)
  with compact_log_state(3) assms(2) show ?thesis by simp
next
  case (write_snapshot meta)
  with handle_snapshot_metadata_state(6) assms(2) show ?thesis by simp
qed (use assms(2) in \<open>simp_all add: log_ok_def first_index_def log_compacted_index_def persist_defs\<close>)

section \<open>The contract of a log reader\<close>

text \<open>
  What raft-rs and the compare-and-swap handler rely on: under the invariant, the terms of exactly
  the indices from the compacted one to the last are known, and the entries of any window of the
  log are returned completely, in order and with those terms.
\<close>

locale log_reader =
  fixes ok :: "'s \<Rightarrow> bool" and first_idx last_idx :: "'s \<Rightarrow> raft_index"
    and term_at :: "'s \<Rightarrow> raft_index \<Rightarrow> storage_error + raft_term"
    and window :: "'s \<Rightarrow> raft_index \<Rightarrow> raft_index \<Rightarrow> 'o entry list"
  assumes first_le_last: "ok s \<Longrightarrow> first_idx s \<le> last_idx s + 1"
    and term_known: "ok s \<Longrightarrow> (\<exists>t. term_at s i = Inr t) \<longleftrightarrow> first_idx s \<le> i + 1 \<and> i \<le> last_idx s"
    and window_length:
      "ok s \<Longrightarrow> first_idx s \<le> low \<Longrightarrow> low \<le> high \<Longrightarrow> high \<le> last_idx s + 1 \<Longrightarrow>
         length (window s low high) = high - low"
    and window_nth:
      "ok s \<Longrightarrow> first_idx s \<le> low \<Longrightarrow> low \<le> high \<Longrightarrow> high \<le> last_idx s + 1 \<Longrightarrow> k < high - low \<Longrightarrow>
         e_index (window s low high ! k) = low + k \<and>
         term_at s (low + k) = Inr (e_term (window s low high ! k))"
begin

lemma window_complete:
  assumes "ok s" "first_idx s \<le> low" "low \<le> i" "i < high" "high \<le> last_idx s + 1"
  shows "\<exists>e \<in> set (window s low high). e_index e = i \<and> term_at s i = Inr (e_term e)"
proof -
  have "i - low < length (window s low high)"
    using assms window_length [of s low high] by simp
  then have "window s low high ! (i - low) \<in> set (window s low high)" by simp
  moreover have "e_index (window s low high ! (i - low)) = i \<and>
      term_at s i = Inr (e_term (window s low high ! (i - low)))"
    using window_nth [of s low high "i - low"] assms by simp
  ultimately show ?thesis by blast
qed

lemma window_sound:
  assumes "ok s" "first_idx s \<le> low" "low \<le> high" "high \<le> last_idx s + 1" "e \<in> set (window s low high)"
  shows "low \<le> e_index e \<and> e_index e < high"
proof -
  obtain k where "k < length (window s low high)" "e = window s low high ! k"
    using assms(5) by (auto simp: in_set_conv_nth)
  moreover have "k < high - low"
    using calculation(1) window_length [OF assms(1-4)] by simp
  ultimately show ?thesis
    using window_nth [OF assms(1-4), of k] by simp
qed

end

lemma space_entries_window:
  assumes "log_ok s" "first_index s \<le> low" "low \<le> high" "high \<le> last_index s + 1"
  shows "length (space_entries s low high None) = high - low"
    and "k < high - low \<Longrightarrow>
           e_index (space_entries s low high None ! k) = low + k \<and>
           storage_term s (low + k) = Inr (e_term (space_entries s low high None ! k))"
proof -
  have e: "space_entries s low high None = take (high - low) (drop (low - first_index s) (raft_log s))"
    using log_ok_space_entries [OF assms(1,2)] by simp
  have l: "high - first_index s \<le> length (raft_log s)"
    using assms log_ok_last_index [OF assms(1)] by (simp add: first_index_def)
  show "length (space_entries s low high None) = high - low"
    using l assms by (simp add: e)
  assume k: "k < high - low"
  then have "space_entries s low high None ! k = raft_log s ! (low + k - first_index s)"
    using l assms by (simp add: e)
  moreover have "e_index (raft_log s ! (low + k - first_index s)) = low + k"
    using contiguous_nth [of "first_index s" "raft_log s" "low + k - first_index s"] assms k l
    by (simp add: log_ok_def)
  ultimately show "e_index (space_entries s low high None ! k) = low + k \<and>
      storage_term s (low + k) = Inr (e_term (space_entries s low high None ! k))"
    using assms k by (auto simp: log_ok_storage_term first_index_def)
qed

interpretation persisted: log_reader log_ok first_index last_index storage_term
  "\<lambda>s low high. space_entries s low high None"
proof unfold_locales
  fix s :: "'o raft_space" and i low high :: raft_index and k :: nat
  assume ok: "log_ok s"
  then show "first_index s \<le> last_index s + 1" by (rule log_ok_first_le_last)
  show "(\<exists>t. storage_term s i = Inr t) \<longleftrightarrow> first_index s \<le> i + 1 \<and> i \<le> last_index s"
    using ok by (auto simp: log_ok_storage_term first_index_def log_ok_last_index)
  assume w: "first_index s \<le> low" "low \<le> high" "high \<le> last_index s + 1"
  show "length (space_entries s low high None) = high - low"
    by (rule space_entries_window(1) [OF ok w])
  assume "k < high - low"
  then show "e_index (space_entries s low high None ! k) = low + k \<and>
      storage_term s (low + k) = Inr (e_term (space_entries s low high None ! k))"
    by (rule space_entries_window(2) [OF ok w])
qed

section \<open>Correctness\<close>

definition empty_space :: "'o raft_space" where
  "empty_space = \<lparr>raft_log = [], rs_raft_id = None, rs_instance_name = None, rs_instance_uuid = None,
     rs_tier = None, rs_cluster_name = None, rs_cluster_uuid = None, rs_gen = None, rs_term = None,
     rs_vote = None, rs_commit = None, rs_applied = None, rs_applied_term = None, rs_voters = None,
     rs_learners = None, rs_voters_outgoing = None, rs_learners_next = None, rs_auto_leave = None,
     rs_compacted_index = None, rs_compacted_term = None, rs_join_state = None\<rparr>"

definition test_row :: "raft_index \<Rightarrow> raft_term \<Rightarrow> nat entry" where
  "test_row i t = \<lparr>e_type = EntryNormal, e_index = i, e_term = t, e_data = [], e_context = None\<rparr>"

definition test_raft_row :: "raft_index \<Rightarrow> raft_term \<Rightarrow> raft_entry" where
  "test_raft_row i t = \<lparr>re_type = EntryNormal, re_index = i, re_term = t, re_data = [], re_context = []\<rparr>"

definition test_space :: "nat raft_space" where
  "test_space = empty_space\<lparr>raft_log := [test_row 1 1, test_row 2 1, test_row 3 1]\<rparr>"


lemmas test_defs = test_space_def test_row_def test_raft_row_def empty_space_def

text \<open>
  C3: after any sequence of writes of the main loop (entries that continue or overwrite the log,
  compactions, snapshots, state writes) that starts from an empty log, the log has no holes, starts
  right after the compacted index, and \<open>Storage::term\<close> answers exactly for the indices from
  the compacted one to \<open>last_index\<close>.
\<close>

theorem raft_reachable_log_ok:
  assumes "raft_reachable dec s"
  shows "map e_index (raft_log s) = [first_index s ..< last_index s + 1] \<and>
         (\<forall>i. (\<exists>t. storage_term s i = Inr t) \<longleftrightarrow> first_index s \<le> i + 1 \<and> i \<le> last_index s)"
proof -
  have "log_ok s"
    using assms
  proof induction
    case (reach_init s)
    then show ?case by (simp add: log_ok_def)
  qed (rule raft_write_log_ok)
  then show ?thesis
    using persisted.term_known [of s] log_ok_last_index [of s]
    by (auto simp: log_ok_def contiguous_def first_index_def)
qed

theorem raft_reachable_log_ok_witness:
  "map e_index (raft_log test_space) = [first_index test_space ..< last_index test_space + 1]"
proof -
  have "raft_reachable (\<lambda>_. None) test_space"
  proof (rule reach_write)
    show "raft_reachable (\<lambda>_. None) (empty_space :: nat raft_space)"
      by (rule reach_init) (simp add: empty_space_def)
    show "raft_write (\<lambda>_. None) empty_space test_space"
      by (rule write_entries [of _ "[test_raft_row 1 1, test_raft_row 2 1, test_raft_row 3 1]"
            "[test_row 1 1, test_row 2 1, test_row 3 1]" 1])
        (simp_all add: test_defs entry_try_from_def context_from_raft_entry_def first_index_def
          last_index_def log_compacted_index_def result_simps)
  qed
  from raft_reachable_log_ok [OF this] show ?thesis ..
qed



text \<open>
  C4: \<open>compact_log\<close> removes the entries below \<open>up_to\<close> and nothing else: the new
  first index, which it returns, is \<open>up_to\<close> clamped to the range from the old first index to
  one past the last, the last index stays, the log keeps its shape, and every term that is still in
  range, that of the new compacted index included, reads as before.
\<close>

theorem compact_log_correct:
  assumes "log_ok s" "compact_log up_to s = (s', new_first)"
  shows "new_first = max (first_index s) (min up_to (last_index s + 1)) \<and>
         first_index s' = new_first \<and> last_index s' = last_index s \<and> log_ok s' \<and>
         raft_log s' = filter (\<lambda>e. e_index e \<ge> up_to) (raft_log s) \<and>
         (\<forall>i. first_index s' \<le> i + 1 \<longrightarrow> storage_term s' i = storage_term s i)"
proof -
  have c: "contiguous (first_index s) (raft_log s)" using assms(1) by (simp add: log_ok_def)
  have s'_def: "s' = fst (compact_log up_to s)" and nf: "new_first = snd (compact_log up_to s)"
    using assms(2) by simp_all
  have ok': "log_ok s'" and last': "last_index s' = last_index s"
    and first': "first_index s' = snd (compact_log up_to s)"
    and log': "raft_log s' = drop (snd (compact_log up_to s) - first_index s) (raft_log s)"
    using compact_log_state [OF assms(1)] by (simp_all add: s'_def)
  have "storage_term s' i = storage_term s i" if i: "first_index s' \<le> i + 1" for i
  proof (cases "i = log_compacted_index s'")
    case True
    then show ?thesis
      using compact_log_compacted_term [OF assms(1)] by (simp add: s'_def)
  next
    case False
    have le: "first_index s \<le> first_index s'"
      using compact_log_first [OF assms(1), of up_to] first' by simp
    have "e_term (raft_log s' ! (i - first_index s')) = e_term (raft_log s ! (i - first_index s))"
      if "i \<le> last_index s"
    proof -
      have "first_index s' - first_index s + (i - first_index s') = i - first_index s"
        using i False le by (simp add: first_index_def)
      moreover have "first_index s' - first_index s \<le> length (raft_log s)"
        using le last' log_ok_last_index [OF assms(1)] log_ok_first_le_last [OF ok']
        by (simp add: first_index_def)
      ultimately show ?thesis
        unfolding log' first' [symmetric] by (simp add: nth_drop)
    qed
    then show ?thesis
      using False i le last' ok' assms(1) by (auto simp: log_ok_storage_term first_index_def)
  qed
  then show ?thesis
    using compact_log_first [OF assms(1), of up_to] first' last' ok'
      contiguous_filter_ge [OF c, of up_to] compact_log_rows [OF assms(1), of up_to]
    by (simp add: s'_def nf)
qed

theorem compact_log_correct_witness:
  "raft_log (fst (compact_log 3 test_space)) = [test_row 3 1] \<and> snd (compact_log 3 test_space) = 3"
proof -
  have "log_ok test_space"
    by (simp add: test_defs log_ok_def first_index_def log_compacted_index_def)
  from compact_log_correct [OF this surjective_pairing, of 3] show ?thesis
    by (simp add: test_defs first_index_def last_index_def log_compacted_index_def)
qed

text \<open>
  C26: \<open>persist_entries\<close> on consecutive entries that continue or overwrite a log without holes
  writes them over the log and keeps everything else, the rows past the last written index
  included. So the last index never decreases: when a new leader's shorter log overwrites a longer
  one, the old tail stays in \<open>_raft_log\<close>.
\<close>

theorem persist_entries_keeps_tail:
  assumes "log_ok s" "rmap (entry_try_from dec) es = Inr (r # rows)" "contiguous (e_index r) (r # rows)"
    and "first_index s \<le> e_index r" "e_index r \<le> last_index s + 1"
  shows "\<exists>s'. persist_entries dec es s = Inr s' \<and> log_ok s' \<and>
           raft_log s' = filter (\<lambda>e. e_index e < e_index r) (raft_log s) @ (r # rows) @
                         filter (\<lambda>e. e_index e > e_index (last (r # rows))) (raft_log s) \<and>
           last_index s' = max (last_index s) (e_index (last (r # rows)))"
proof -
  let ?f = "first_index s" and ?l = "raft_log s" and ?n = "length (r # rows)"
  let ?s' = "s\<lparr>raft_log := overwrite ?f (r # rows) ?l\<rparr>"
  have c: "contiguous ?f ?l" using assms(1) by (simp add: log_ok_def)
  have "e_index (last (r # rows)) = e_index ((r # rows) ! (?n - 1))"
    by (subst last_conv_nth) auto
  also have "\<dots> = e_index r + (?n - 1)"
    by (rule contiguous_nth [OF assms(3)]) simp
  finally have lst: "e_index (last (r # rows)) = e_index r + length rows" by simp
  have ok': "log_ok ?s'" and run: "persist_entries dec es s = Inr ?s'"
    using persist_entries_log_ok [OF assms] by auto
  have "drop (e_index r - ?f + ?n) ?l = filter (\<lambda>e. e_index e > e_index r + length rows) ?l"
    using contiguous_filter_ge [OF c, of "e_index r + ?n"] assms(4)
    by (simp add: Suc_le_eq Suc_diff_le)
  then have rows: "raft_log ?s' = filter (\<lambda>e. e_index e < e_index r) ?l @ (r # rows) @
      filter (\<lambda>e. e_index e > e_index (last (r # rows))) ?l"
    using contiguous_filter_less [OF c, of "e_index r"] lst by (simp add: overwrite_def)
  have "length (overwrite ?f (r # rows) ?l) = max (length ?l) (e_index r - ?f + ?n)"
    using assms(4,5) log_ok_last_index [OF assms(1)] by (auto simp: overwrite_def first_index_def)
  then have "last_index ?s' = max (last_index s) (e_index (last (r # rows)))"
    using log_ok_last_index [OF ok'] log_ok_last_index [OF assms(1)] assms(4) lst
    by (simp add: first_index_def log_compacted_index_def)
  with run ok' rows show ?thesis by blast
qed

theorem persist_entries_keeps_tail_witness:
  "\<exists>s'. persist_entries (\<lambda>_. None) [test_raft_row 2 5] test_space = Inr s' \<and>
     raft_log s' = [test_row 1 1, test_row 2 5, test_row 3 1] \<and> last_index s' = 3"
proof -
  have "log_ok test_space" "first_index test_space \<le> e_index (test_row 2 5)"
    "e_index (test_row 2 5) \<le> last_index test_space + 1"
    "contiguous (e_index (test_row 2 5)) [test_row 2 5]"
    by (simp_all add: test_defs log_ok_def first_index_def last_index_def log_compacted_index_def)
  moreover have "rmap (entry_try_from (\<lambda>_. None)) [test_raft_row 2 5] = Inr [test_row 2 5]"
    by (simp add: test_defs entry_try_from_def context_from_raft_entry_def result_simps)
  ultimately obtain s' where s': "persist_entries (\<lambda>_. None) [test_raft_row 2 5] test_space = Inr s'"
    "raft_log s' = filter (\<lambda>e. e_index e < e_index (test_row 2 5)) (raft_log test_space) @
       [test_row 2 5] @ filter (\<lambda>e. e_index e > e_index (last [test_row 2 5])) (raft_log test_space)"
    "last_index s' = max (last_index test_space) (e_index (last [test_row 2 5]))"
    using persist_entries_keeps_tail [of test_space "\<lambda>_. None" "[test_raft_row 2 5]" "test_row 2 5" "[]"]
    by blast
  moreover have "last_index test_space = 3" "raft_log test_space = [test_row 1 1, test_row 2 1, test_row 3 1]"
    by (simp_all add: test_defs last_index_def)
  ultimately show ?thesis by (intro exI [of _ s']) (simp add: test_row_def)
qed

text \<open>
  C25: installing a snapshot that is not older than the compacted prefix leaves a log without holes
  that starts right after the snapshot: the snapshot's entry id becomes both the applied one and
  the compacted one, its configuration is the current one, the entries after it are kept and
  nothing before it can be read.
\<close>

theorem handle_snapshot_metadata_correct:
  assumes "log_ok s" "log_compacted_index s \<le> meta_index meta"
    and "s' = handle_snapshot_metadata meta s"
  shows "log_ok s' \<and> first_index s' = meta_index meta + 1 \<and>
         storage_term s' (meta_index meta) = Inr (meta_term meta) \<and>
         applied_entry_id s' = Inr \<lparr>id_index = meta_index meta, id_term = meta_term meta\<rparr> \<and>
         get_conf_state s' = meta_conf_state meta \<and>
         raft_log s' = filter (\<lambda>e. meta_index meta < e_index e) (raft_log s) \<and>
         (\<forall>i < meta_index meta. storage_term s' i = Inl StoreCompacted)"
proof -
  note st = handle_snapshot_metadata_state [OF assms(1,2), folded assms(3)]
  have "rs_applied_term s' = Some (meta_term meta)"
    by (simp add: assms(3) handle_snapshot_metadata_def persist_defs Let_def)
  then have "applied_entry_id s' = Inr \<lparr>id_index = meta_index meta, id_term = meta_term meta\<rparr>"
    using st(4) by (simp add: applied_entry_id_def applied_term_def result_simps)
  then show ?thesis
    using st by (auto simp: first_index_def storage_term_def cmp_def)
qed

theorem handle_snapshot_metadata_correct_witness:
  "first_index (handle_snapshot_metadata \<lparr>meta_index = 7, meta_term = 2,
     meta_conf_state = get_conf_state test_space\<rparr> test_space) = 8"
  using handle_snapshot_metadata_correct [of test_space "\<lparr>meta_index = 7, meta_term = 2,
     meta_conf_state = get_conf_state test_space\<rparr>"]
  by (simp add: test_defs log_ok_def first_index_def log_compacted_index_def)



end
