(* ===== verification/Topology_Types.thy ===== *)
theory Topology_Types
  imports Failure_Domain Raft_Ops
begin

text \<open>
  The rows of the topology tables (src/src/instance.rs, src/src/instance/state.rs,
  src/src/replicaset.rs, src/src/tier.rs, \<open>PeerAddress\<close> of src/src/traft/mod.rs) and the
  accessors of src/src/storage.rs which read them. A table is the list of its rows in primary key
  order. Reads of the local catalog are total: the code wraps them in
  \<open>expect("storage should not fail")\<close> or propagates a failure of the storage engine.

  Incarnations and configuration versions are \<open>u64\<close> counters that are only ever incremented
  by one; they are \<open>nat\<close> here. The weight of a replicaset is an \<open>f64\<close> which the code
  compares and assigns but never computes with; it is a rational. Timestamps and vclocks are opaque.
\<close>

section \<open>Instances\<close>

datatype state_variant = Offline | Online | Expelled

record istate =
  variant :: state_variant
  incarnation :: nat

definition State :: "state_variant \<Rightarrow> nat \<Rightarrow> istate" where
  "State v n = \<lparr>variant = v, incarnation = n\<rparr>"

record pico_instance =
  i_name :: string
  i_uuid :: string
  i_raft_id :: raft_id
  i_replicaset_name :: string
  i_replicaset_uuid :: string
  i_current_state :: istate
  i_target_state :: istate
  i_failure_domain :: failure_domain
  i_tier :: string
  i_picodata_version :: string
  i_sync_incarnation :: "nat option"
  i_target_state_reason :: "string option"
  i_target_state_change_time :: "nat option"

text \<open>The patterns of the macro \<open>has_states!\<close>: \<open>*\<close>, \<open>X\<close> and \<open>not X\<close>.\<close>

datatype state_pattern = AnyState | Is state_variant | IsNot state_variant

fun matches_state :: "state_pattern \<Rightarrow> state_variant \<Rightarrow> bool" where
  "matches_state AnyState v = True"
| "matches_state (Is w) v = (v = w)"
| "matches_state (IsNot w) v = (v \<noteq> w)"

definition has_states :: "pico_instance \<Rightarrow> state_pattern \<Rightarrow> state_pattern \<Rightarrow> bool" where
  "has_states i c t \<longleftrightarrow>
     matches_state c (variant (i_current_state i)) \<and> matches_state t (variant (i_target_state i))"

definition may_respond :: "pico_instance \<Rightarrow> bool" where
  "may_respond i \<longleftrightarrow>
     has_states i AnyState (IsNot Offline) \<and>
     has_states i (IsNot Expelled) AnyState \<and>
     \<not> has_states i (Is Offline) (Is Expelled)"

definition is_reincarnated :: "pico_instance \<Rightarrow> bool" where
  "is_reincarnated i \<longleftrightarrow> incarnation (i_current_state i) < incarnation (i_target_state i)"

definition replication_sync_needed :: "pico_instance \<Rightarrow> bool" where
  "replication_sync_needed i =
     (case i_sync_incarnation i of
        None \<Rightarrow> False
      | Some sync_incarnation \<Rightarrow> sync_incarnation < incarnation (i_target_state i))"

section \<open>Replicasets and tiers\<close>

datatype weight_origin = Auto | User

datatype replicaset_state = NotReady | Ready | ToBeExpelled | ReplicasetExpelled

record replicaset =
  r_name :: string
  r_uuid :: string
  r_current_master_name :: string
  r_target_master_name :: string
  r_tier :: string
  r_weight :: rat
  r_weight_origin :: weight_origin
  r_state :: replicaset_state
  r_current_config_version :: nat
  r_target_config_version :: nat
  r_promotion_vclock :: "nat list"
  r_master_change_counter :: nat
  r_current_bucket_state_version :: nat
  r_target_bucket_state_version :: nat

definition with_one_instance :: "pico_instance \<Rightarrow> replicaset" where
  "with_one_instance master = \<lparr>
     r_name = i_replicaset_name master,
     r_uuid = i_replicaset_uuid master,
     r_current_master_name = i_name master,
     r_target_master_name = i_name master,
     r_tier = i_tier master,
     r_weight = 0,
     r_weight_origin = Auto,
     r_state = NotReady,
     r_current_config_version = 0,
     r_target_config_version = 0,
     r_promotion_vclock = [],
     r_master_change_counter = 0,
     r_current_bucket_state_version = 0,
     r_target_bucket_state_version = 0\<rparr>"

definition master_is_transitioning :: "replicaset \<Rightarrow> bool" where
  "master_is_transitioning r \<longleftrightarrow> r_current_master_name r \<noteq> r_target_master_name r"

definition resharding_in_progress :: "replicaset \<Rightarrow> bool" where
  "resharding_in_progress r \<longleftrightarrow> r_current_bucket_state_version r \<noteq> r_target_bucket_state_version r"

definition effective_master_name :: "replicaset \<Rightarrow> string option" where
  "effective_master_name r =
     (if master_is_transitioning r then None else Some (r_current_master_name r))"

record tier =
  t_name :: string
  t_replication_factor :: "8 word"
  t_can_vote :: bool
  t_current_vshard_config_version :: nat
  t_target_vshard_config_version :: nat
  t_vshard_bootstrapped :: bool
  t_bucket_count :: nat
  t_is_default :: "bool option"
  t_current_bucket_state_version :: nat
  t_target_bucket_state_version :: nat

definition has_buckets :: "tier \<Rightarrow> bool" where
  "has_buckets t \<longleftrightarrow> t_bucket_count t > 0"

section \<open>Peer addresses\<close>

datatype system_connection_type = Iproto | Pgproto | Http

datatype connection_type =
    System system_connection_type
  | PluginConnection string string

record peer_address =
  p_raft_id :: raft_id
  p_address :: string
  p_connection_type :: connection_type

fun system_connection_str :: "system_connection_type \<Rightarrow> string" where
  "system_connection_str Iproto = ''iproto''"
| "system_connection_str Pgproto = ''pgproto''"
| "system_connection_str Http = ''http''"

fun as_storage_string :: "connection_type \<Rightarrow> string" where
  "as_storage_string (System ct) = system_connection_str ct"
| "as_storage_string (PluginConnection plugin service) = ''plugin:'' @ plugin @ ''.'' @ service"

definition parse_system_connection :: "string \<Rightarrow> system_connection_type option" where
  "parse_system_connection s = find (\<lambda>ct. system_connection_str ct = s) [Iproto, Pgproto, Http]"

definition strip_prefix :: "string \<Rightarrow> string \<Rightarrow> string option" where
  "strip_prefix p s = (if take (length p) s = p then Some (drop (length p) s) else None)"

definition from_storage_string :: "string \<Rightarrow> connection_type traft_result" where
  "from_storage_string s =
     (case parse_system_connection s of
        Some ct \<Rightarrow> Inr (System ct)
      | None \<Rightarrow>
         (case strip_prefix ''plugin:'' s of
            Some rest \<Rightarrow>
              (case split_once (CHR ''.'') rest of
                 Some (plugin, service) \<Rightarrow> Inr (PluginConnection plugin service)
               | None \<Rightarrow> Inr (PluginConnection rest ''''))
          | None \<Rightarrow> Inl (Panic (''unknown connection type: '' @ s))))"

fun as_system :: "connection_type \<Rightarrow> system_connection_type option" where
  "as_system (System ct) = Some ct"
| "as_system (PluginConnection _ _) = None"

section \<open>The catalog\<close>

record catalog =
  c_instances :: "pico_instance list"
  c_replicasets :: "replicaset list"
  c_tiers :: "tier list"
  c_peers :: "peer_address list"
  c_cluster_version :: string
  c_system_catalog_version :: string

definition find_instance :: "catalog \<Rightarrow> string \<Rightarrow> pico_instance option" where
  "find_instance c name = find (\<lambda>i. i_name i = name) (c_instances c)"

definition instances_get :: "catalog \<Rightarrow> string \<Rightarrow> pico_instance traft_result" where
  "instances_get c name =
     (case find_instance c name of
        Some i \<Rightarrow> Inr i
      | None \<Rightarrow> Inl (NoSuchInstance (ByName name)))"

definition by_uuid :: "catalog \<Rightarrow> string \<Rightarrow> pico_instance option" where
  "by_uuid c uuid = find (\<lambda>i. i_uuid i = uuid) (c_instances c)"

definition replicaset_instances :: "catalog \<Rightarrow> string \<Rightarrow> pico_instance list" where
  "replicaset_instances c name = filter (\<lambda>i. i_replicaset_name i = name) (c_instances c)"

definition max_raft_id :: "catalog \<Rightarrow> raft_id" where
  "max_raft_id c = foldr (\<lambda>i m. max (i_raft_id i) m) (c_instances c) 0"

definition failure_domain_names :: "catalog \<Rightarrow> string set" where
  "failure_domain_names c = (\<Union>i \<in> set (c_instances c). names (i_failure_domain i))"

definition replicasets_get :: "catalog \<Rightarrow> string \<Rightarrow> replicaset option" where
  "replicasets_get c name = find (\<lambda>r. r_name r = name) (c_replicasets c)"

definition replicaset_by_uuid_raw :: "catalog \<Rightarrow> string \<Rightarrow> replicaset traft_result" where
  "replicaset_by_uuid_raw c uuid =
     (case find (\<lambda>r. r_uuid r = uuid) (c_replicasets c) of
        Some r \<Rightarrow> Inr r
      | None \<Rightarrow> Inl (NoSuchReplicaset uuid True))"

definition tier_by_name :: "catalog \<Rightarrow> string \<Rightarrow> tier option" where
  "tier_by_name c name = find (\<lambda>t. t_name t = name) (c_tiers c)"

definition peer_get :: "catalog \<Rightarrow> raft_id \<Rightarrow> connection_type \<Rightarrow> string option" where
  "peer_get c rid ct =
     map_option p_address
       (find (\<lambda>p. p_raft_id p = rid \<and>
                  as_storage_string (p_connection_type p) = as_storage_string ct) (c_peers c))"

definition peer_try_get :: "catalog \<Rightarrow> raft_id \<Rightarrow> connection_type \<Rightarrow> string traft_result" where
  "peer_try_get c rid ct =
     (case peer_get c rid ct of
        Some a \<Rightarrow> Inr a
      | None \<Rightarrow> Inl (AddressUnknownForRaftId rid))"

definition addresses_by_ids :: "catalog \<Rightarrow> raft_id list \<Rightarrow> string set traft_result" where
  "addresses_by_ids c ids =
     rbind (rmap (\<lambda>rid. peer_try_get c rid (System Iproto)) ids) (\<lambda>as. Inr (set as))"

section \<open>Table formats\<close>

datatype field_type = FString | FUnsigned | FArray | FMap | FDatetime | FDouble | FBoolean

text \<open>A field of a format: its name, its type and whether it is nullable.\<close>

type_synonym field = "string \<times> field_type \<times> bool"

definition instance_format :: "field list" where
  "instance_format =
     [(''name'', FString, False),
      (''uuid'', FString, False),
      (''raft_id'', FUnsigned, False),
      (''replicaset_name'', FString, False),
      (''replicaset_uuid'', FString, False),
      (''current_state'', FArray, False),
      (''target_state'', FArray, False),
      (''failure_domain'', FMap, False),
      (''tier'', FString, False),
      (''picodata_version'', FString, False),
      (''sync_incarnation'', FUnsigned, True),
      (''target_state_reason'', FString, True),
      (''target_state_change_time'', FDatetime, True)]"

definition replicaset_format :: "field list" where
  "replicaset_format =
     [(''name'', FString, False),
      (''uuid'', FString, False),
      (''current_master_name'', FString, False),
      (''target_master_name'', FString, False),
      (''tier'', FString, False),
      (''weight'', FDouble, False),
      (''weight_origin'', FString, False),
      (''state'', FString, False),
      (''current_config_version'', FUnsigned, False),
      (''target_config_version'', FUnsigned, False),
      (''promotion_vclock'', FMap, False),
      (''master_change_counter'', FUnsigned, True),
      (''current_bucket_state_version'', FUnsigned, True),
      (''target_bucket_state_version'', FUnsigned, True)]"

definition tier_format :: "field list" where
  "tier_format =
     [(''name'', FString, False),
      (''replication_factor'', FUnsigned, False),
      (''can_vote'', FBoolean, False),
      (''current_vshard_config_version'', FUnsigned, False),
      (''target_vshard_config_version'', FUnsigned, False),
      (''vshard_bootstrapped'', FBoolean, False),
      (''bucket_count'', FUnsigned, False),
      (''is_default'', FBoolean, True),
      (''current_bucket_state_version'', FUnsigned, True),
      (''target_bucket_state_version'', FUnsigned, True)]"

section \<open>Rows and updates in DML operations\<close>

text \<open>
  The values which the modelled code encodes into update operations, one constructor per Rust type,
  and the rows it encodes into replace operations. A key is the list of its parts, compared part by
  part; Tarantool orders numbers before strings.
\<close>

datatype column_value =
    VState istate
  | VUnsigned nat
  | VString string
  | VBoolean bool
  | VDouble rat
  | VFailureDomain failure_domain
  | VDatetime nat
  | VReplicasetState replicaset_state

datatype update_op = Assign string column_value

datatype row =
    RowInstance pico_instance
  | RowReplicaset replicaset
  | RowTier tier
  | RowPeer peer_address
  | RowProperty string string

datatype key_part = KUnsigned nat | KString string

instantiation key_part :: linorder
begin

fun less_eq_key_part :: "key_part \<Rightarrow> key_part \<Rightarrow> bool" where
  "less_eq_key_part (KUnsigned m) (KUnsigned n) = (m \<le> n)"
| "less_eq_key_part (KUnsigned _) (KString _) = True"
| "less_eq_key_part (KString _) (KUnsigned _) = False"
| "less_eq_key_part (KString s) (KString t) = (s \<le> t)"

definition less_key_part :: "key_part \<Rightarrow> key_part \<Rightarrow> bool" where
  "less_key_part x y \<longleftrightarrow> x \<le> y \<and> \<not> y \<le> x"

instance
proof
  fix x y z :: key_part
  show "x < y \<longleftrightarrow> x \<le> y \<and> \<not> y \<le> x" by (rule less_key_part_def)
  show "x \<le> x" by (cases x) auto
  show "x \<le> y \<Longrightarrow> y \<le> z \<Longrightarrow> x \<le> z" by (cases x; cases y; cases z) auto
  show "x \<le> y \<Longrightarrow> y \<le> x \<Longrightarrow> x = y" by (cases x; cases y) auto
  show "x \<le> y \<or> y \<le> x" by (cases x; cases y) auto
qed

end

type_synonym pico_key = "key_part list"
type_synonym pico_dml = "(pico_key, row, update_op) dml"
type_synonym pico_op = "(pico_key, row, update_op) op"

text \<open>The primary keys, from the \<open>index_definitions\<close> of the tables.\<close>

fun row_key :: "row \<Rightarrow> pico_key" where
  "row_key (RowInstance i) = [KString (i_name i)]"
| "row_key (RowReplicaset r) = [KString (r_name r)]"
| "row_key (RowTier t) = [KString (t_name t)]"
| "row_key (RowPeer p) =
     [KUnsigned (p_raft_id p), KString (as_storage_string (p_connection_type p))]"
| "row_key (RowProperty key _) = [KString key]"

definition PEER_ADDRESSES_TABLE_ID :: nat where "PEER_ADDRESSES_TABLE_ID = 514"
definition INSTANCES_TABLE_ID :: nat where "INSTANCES_TABLE_ID = 515"
definition PROPERTIES_TABLE_ID :: nat where "PROPERTIES_TABLE_ID = 516"
definition REPLICASETS_TABLE_ID :: nat where "REPLICASETS_TABLE_ID = 517"
definition TIERS_TABLE_ID :: nat where "TIERS_TABLE_ID = 523"
definition ADMIN_ID :: nat where "ADMIN_ID = 1"

definition get_vshard_config_version_bump_op :: "tier \<Rightarrow> pico_dml" where
  "get_vshard_config_version_bump_op t =
     DmlUpdate TIERS_TABLE_ID [KString (t_name t)]
       [Assign ''target_vshard_config_version'' (VUnsigned (t_target_vshard_config_version t + 1))]
       ADMIN_ID"

text \<open>
  What an assignment does to a row: the specification the generated updates are compared with.
  An assignment of a column the row does not have, or of a value of another type, changes nothing.
\<close>

fun assign_instance :: "pico_instance \<Rightarrow> update_op \<Rightarrow> pico_instance" where
  "assign_instance i (Assign col v) =
     (case v of
        VState s \<Rightarrow>
          if col = ''current_state'' then i\<lparr>i_current_state := s\<rparr>
          else if col = ''target_state'' then i\<lparr>i_target_state := s\<rparr> else i
      | VFailureDomain fd \<Rightarrow>
          if col = ''failure_domain'' then i\<lparr>i_failure_domain := fd\<rparr> else i
      | VString s \<Rightarrow>
          if col = ''picodata_version'' then i\<lparr>i_picodata_version := s\<rparr>
          else if col = ''target_state_reason'' then i\<lparr>i_target_state_reason := Some s\<rparr> else i
      | VUnsigned n \<Rightarrow>
          if col = ''sync_incarnation'' then i\<lparr>i_sync_incarnation := Some n\<rparr> else i
      | VDatetime t \<Rightarrow>
          if col = ''target_state_change_time'' then i\<lparr>i_target_state_change_time := Some t\<rparr> else i
      | _ \<Rightarrow> i)"

fun assign_replicaset :: "replicaset \<Rightarrow> update_op \<Rightarrow> replicaset" where
  "assign_replicaset r (Assign col v) =
     (case v of
        VString s \<Rightarrow>
          if col = ''current_master_name'' then r\<lparr>r_current_master_name := s\<rparr>
          else if col = ''target_master_name'' then r\<lparr>r_target_master_name := s\<rparr> else r
      | VUnsigned n \<Rightarrow>
          if col = ''current_config_version'' then r\<lparr>r_current_config_version := n\<rparr>
          else if col = ''target_config_version'' then r\<lparr>r_target_config_version := n\<rparr> else r
      | VDouble w \<Rightarrow> if col = ''weight'' then r\<lparr>r_weight := w\<rparr> else r
      | VReplicasetState s \<Rightarrow> if col = ''state'' then r\<lparr>r_state := s\<rparr> else r
      | _ \<Rightarrow> r)"

fun assign_tier :: "tier \<Rightarrow> update_op \<Rightarrow> tier" where
  "assign_tier t (Assign col v) =
     (case v of
        VUnsigned n \<Rightarrow>
          if col = ''current_vshard_config_version'' then t\<lparr>t_current_vshard_config_version := n\<rparr>
          else if col = ''target_vshard_config_version''
          then t\<lparr>t_target_vshard_config_version := n\<rparr> else t
      | VBoolean b \<Rightarrow> if col = ''vshard_bootstrapped'' then t\<lparr>t_vshard_bootstrapped := b\<rparr> else t
      | _ \<Rightarrow> t)"

section \<open>Tables as finite maps\<close>

text \<open>
  The contract of a point lookup in a table: it returns a row with the given key when there is one,
  and \<open>None\<close> only when there is none.
\<close>

locale keyed_table =
  fixes get :: "'c \<Rightarrow> 'k \<Rightarrow> 'r option" and rows :: "'c \<Rightarrow> 'r list" and key :: "'r \<Rightarrow> 'k"
  assumes get_SomeD: "get c k = Some r \<Longrightarrow> r \<in> set (rows c) \<and> key r = k"
    and get_NoneD: "get c k = None \<Longrightarrow> r \<in> set (rows c) \<Longrightarrow> key r \<noteq> k"
begin

lemma get_None_iff: "get c k = None \<longleftrightarrow> k \<notin> key ` set (rows c)"
  by (metis get_NoneD get_SomeD image_iff not_None_eq)

lemma get_Some_iff:
  assumes "distinct (map key (rows c))"
  shows "get c k = Some r \<longleftrightarrow> r \<in> set (rows c) \<and> key r = k"
proof
  assume "r \<in> set (rows c) \<and> key r = k"
  moreover from this obtain r' where "get c k = Some r'"
    using get_None_iff by fastforce
  ultimately show "get c k = Some r"
    using get_SomeD [of c k r'] assms by (auto simp: distinct_map inj_on_def)
qed (rule get_SomeD)

lemma finite_taken:
  assumes "inj f"
  shows "finite {n. get c (f n) \<noteq> None}"
proof -
  have "{n. get c (f n) \<noteq> None} = f -` (key ` set (rows c))"
    by (auto simp: get_None_iff)
  then show ?thesis using assms by (simp add: finite_vimageI)
qed

lemma numbered_fresh:
  fixes f :: "nat \<Rightarrow> 'k"
  assumes "inj f"
  shows "\<exists>n \<ge> k. n \<le> k + length (rows c) \<and> get c (f n) = None"
proof (rule ccontr)
  assume "\<not> ?thesis"
  then have "f ` {k .. k + length (rows c)} \<subseteq> key ` set (rows c)"
    by (auto simp: get_None_iff)
  then have "card (f ` {k .. k + length (rows c)}) \<le> card (key ` set (rows c))"
    by (intro card_mono) auto
  also have "\<dots> \<le> length (rows c)"
    using card_image_le [of "set (rows c)" key] card_length [of "rows c"] by simp
  finally show False
    using assms by (simp add: card_image inj_on_subset [of f UNIV])
qed

end

interpretation instance_names: keyed_table find_instance c_instances i_name
  by unfold_locales (auto simp: find_instance_def find_Some_iff find_None_iff)

interpretation instance_uuids: keyed_table by_uuid c_instances i_uuid
  by unfold_locales (auto simp: by_uuid_def find_Some_iff find_None_iff)

interpretation replicaset_names: keyed_table replicasets_get c_replicasets r_name
  by unfold_locales (auto simp: replicasets_get_def find_Some_iff find_None_iff)

interpretation tier_names: keyed_table tier_by_name c_tiers t_name
  by unfold_locales (auto simp: tier_by_name_def find_Some_iff find_None_iff)

lemma foldr_max_ge:
  fixes f :: "'a \<Rightarrow> nat"
  shows "x \<in> set xs \<Longrightarrow> f x \<le> foldr (\<lambda>i m. max (f i) m) xs 0"
  by (induction xs) auto

lemma max_raft_id_ge: "i \<in> set (c_instances c) \<Longrightarrow> i_raft_id i \<le> max_raft_id c"
  unfolding max_raft_id_def by (rule foldr_max_ge)

lemma may_respond_iff:
  "may_respond i \<longleftrightarrow>
     (variant (i_current_state i), variant (i_target_state i)) \<in>
       {(Offline, Online), (Online, Online), (Online, Expelled)}"
  by (cases "variant (i_current_state i)"; cases "variant (i_target_state i)")
    (auto simp: may_respond_def has_states_def)

section \<open>Connection types\<close>

fun dot_free_plugin :: "connection_type \<Rightarrow> bool" where
  "dot_free_plugin (System _) = True"
| "dot_free_plugin (PluginConnection plugin _) = (CHR ''.'' \<notin> set plugin)"

text \<open>
  C39: a connection type survives being stored in \<open>_pico_peer_address\<close> and read back, provided
  that a plugin's name has no dot (the separator of the plugin and the service).
\<close>

theorem connection_type_roundtrip:
  "dot_free_plugin ct \<Longrightarrow> from_storage_string (as_storage_string ct) = Inr ct"
proof (cases ct)
  case (System s)
  then show ?thesis
    by (cases s) (simp_all add: from_storage_string_def parse_system_connection_def)
next
  case (PluginConnection plugin service)
  moreover assume "dot_free_plugin ct"
  ultimately show ?thesis
    by (simp add: from_storage_string_def parse_system_connection_def strip_prefix_def
        split_once_append)
qed

theorem connection_type_roundtrip_witness:
  "from_storage_string (as_storage_string (PluginConnection ''weather'' ''http.v2'')) =
     Inr (PluginConnection ''weather'' ''http.v2'')"
  by (rule connection_type_roundtrip) simp

end
