(* ===== verification/Cas.thy ===== *)
theory Cas
  imports Raft_Storage Topology_Types
begin

text \<open>
  src/src/cas.rs: compare and swap over the raft log. A request carries an operation and a predicate
  (a raft index and term at which the sender read the catalog, and the ranges of keys it read); the
  leader appends the operation only if no entry after that index touches one of the ranges.

  Outside the model and therefore parameters, collected in the record \<open>cas_env\<close>: Tarantool's
  \<open>KeyDef\<close> (comparison of tuples and keys, key extraction), the space operations used by
  \<open>Catalog::do_dml\<close>, and the access checks of src/src/access_control.rs. The leader's raft log
  is the one of raft-rs; what the handler asks of it is the record \<open>raft_log_view\<close>.
\<close>

section \<open>Ranges\<close>

datatype 'k range_bounds =
    RbEq 'k
  | RbRange (key_min_included: bool) (key_min: "'k option")
      (key_max_included: bool) (key_max: "'k option")

record 'k range =
  rg_table :: space_id
  rg_bounds :: "'k range_bounds option"

definition default_bounds :: "'k range_bounds" where
  "default_bounds = RbRange False None False None"

fun set_min :: "'k \<Rightarrow> bool \<Rightarrow> 'k range_bounds \<Rightarrow> 'k range_bounds traft_result" where
  "set_min key included (RbEq _) = Inl (Panic ''already set to Eq'')"
| "set_min key included (RbRange _ _ mi m) = Inr (RbRange included (Some key) mi m)"

fun set_max :: "'k \<Rightarrow> bool \<Rightarrow> 'k range_bounds \<Rightarrow> 'k range_bounds traft_result" where
  "set_max key included (RbEq _) = Inl (Panic ''already set to Eq'')"
| "set_max key included (RbRange mi m _ _) = Inr (RbRange mi m included (Some key))"

definition range_new :: "space_id \<Rightarrow> 'k range" where
  "range_new table = \<lparr>rg_table = table, rg_bounds = None\<rparr>"

definition range_gt :: "'k \<Rightarrow> 'k range \<Rightarrow> 'k range traft_result" where
  "range_gt key r =
     rbind (set_min key False (case rg_bounds r of Some b \<Rightarrow> b | None \<Rightarrow> default_bounds))
       (\<lambda>b. Inr (r\<lparr>rg_bounds := Some b\<rparr>))"

definition range_ge :: "'k \<Rightarrow> 'k range \<Rightarrow> 'k range traft_result" where
  "range_ge key r =
     rbind (set_min key True (case rg_bounds r of Some b \<Rightarrow> b | None \<Rightarrow> default_bounds))
       (\<lambda>b. Inr (r\<lparr>rg_bounds := Some b\<rparr>))"

definition range_lt :: "'k \<Rightarrow> 'k range \<Rightarrow> 'k range traft_result" where
  "range_lt key r =
     rbind (set_max key False (case rg_bounds r of Some b \<Rightarrow> b | None \<Rightarrow> default_bounds))
       (\<lambda>b. Inr (r\<lparr>rg_bounds := Some b\<rparr>))"

definition range_le :: "'k \<Rightarrow> 'k range \<Rightarrow> 'k range traft_result" where
  "range_le key r =
     rbind (set_max key True (case rg_bounds r of Some b \<Rightarrow> b | None \<Rightarrow> default_bounds))
       (\<lambda>b. Inr (r\<lparr>rg_bounds := Some b\<rparr>))"

definition range_eq :: "'k \<Rightarrow> 'k range \<Rightarrow> 'k range" where
  "range_eq key r = r\<lparr>rg_bounds := Some (RbEq key)\<rparr>"

definition range_from_parts ::
  "space_id \<Rightarrow> 'k option \<Rightarrow> bool \<Rightarrow> 'k option \<Rightarrow> bool \<Rightarrow> 'k range" where
  "range_from_parts table kmin kmin_included kmax kmax_included =
     \<lparr>rg_table = table,
      rg_bounds =
        (if kmin = kmax then map_option RbEq kmin
         else Some (RbRange kmin_included kmin kmax_included kmax))\<rparr>"

text \<open>
  \<open>Range::contains\<close>: the argument compares the given tuple with a key
  (\<open>KeyDef::compare_with_key\<close>).
\<close>

definition range_contains :: "('k \<Rightarrow> ordering) \<Rightarrow> 'k range \<Rightarrow> bool" where
  "range_contains compare r =
     (case rg_bounds r of
        None \<Rightarrow> True
      | Some (RbEq key) \<Rightarrow> compare key = Equal
      | Some (RbRange min_included kmin max_included kmax) \<Rightarrow>
          (case kmin of
             None \<Rightarrow> True
           | Some k \<Rightarrow> \<not> (compare k = Less \<or> \<not> min_included \<and> compare k = Equal)) \<and>
          (case kmax of
             None \<Rightarrow> True
           | Some k \<Rightarrow> \<not> (compare k = Greater \<or> \<not> max_included \<and> compare k = Equal)))"

section \<open>The environment\<close>

record table_def =
  td_name :: string
  td_operable :: bool

text \<open>The result of a space operation: an error code with its message, or the new storage.\<close>

type_synonym ('s, 'r) space_result = "(nat \<times> string) + 's \<times> 'r"

record ('k, 't, 'u, 's) cas_env =
  cached_key_def :: "space_id \<Rightarrow> string + ('t \<Rightarrow> 'k \<Rightarrow> ordering)"
  cached_key_def_for_key :: "space_id \<Rightarrow> string + ('k \<Rightarrow> 'k \<Rightarrow> ordering)"
  extract_key :: "space_id \<Rightarrow> 't \<Rightarrow> 'k traft_result"
  encode_key :: "string \<Rightarrow> 'k"
  config_key_of_tuple :: "'t \<Rightarrow> string traft_result"
  config_key_of_key :: "'k \<Rightarrow> string traft_result"
  pico_table :: "space_id \<Rightarrow> table_def option"
  pending_schema_change :: "ddl option"
  users_len :: nat
  access_check_op :: "('k, 't, 'u) op \<Rightarrow> user_id \<Rightarrow> unit traft_result"
  check_drop_user :: "user_id \<Rightarrow> unit traft_result"
  space_insert :: "space_id \<Rightarrow> 't \<Rightarrow> 's \<Rightarrow> ('s, 't) space_result"
  space_replace :: "space_id \<Rightarrow> 't \<Rightarrow> 's \<Rightarrow> ('s, 't) space_result"
  space_update :: "space_id \<Rightarrow> 'k \<Rightarrow> 'u list \<Rightarrow> 's \<Rightarrow> ('s, 't option) space_result"
  space_delete :: "space_id \<Rightarrow> 'k \<Rightarrow> 's \<Rightarrow> ('s, 't option) space_result"
  full_delete_execute :: "string \<Rightarrow> 's \<Rightarrow> ('s, unit) space_result"
  local_storage :: 's

definition Users_TABLE_ID :: nat where "Users_TABLE_ID = 520"
definition Privileges_TABLE_ID :: nat where "Privileges_TABLE_ID = 521"
definition Routines_TABLE_ID :: nat where "Routines_TABLE_ID = 524"
definition DbConfig_TABLE_ID :: nat where "DbConfig_TABLE_ID = 531"
definition PicoTable_TABLE_ID :: nat where "PicoTable_TABLE_ID = 512"
definition Indexes_TABLE_ID :: nat where "Indexes_TABLE_ID = 513"

definition PROHIBITED_CONFIGS :: "string list" where
  "PROHIBITED_CONFIGS = [''shredding'']"

definition PROHIBITED_TABLES :: "space_id list" where
  "PROHIBITED_TABLES =
     [PicoTable_TABLE_ID, Indexes_TABLE_ID, Users_TABLE_ID, Privileges_TABLE_ID, Routines_TABLE_ID]"

definition MAX_USERS :: nat where "MAX_USERS = 128"

section \<open>Checks on the operation\<close>

definition check_table_operable :: "('k, 't, 'u, 's) cas_env \<Rightarrow> space_id \<Rightarrow> unit traft_result" where
  "check_table_operable env space_id =
     (case pico_table env space_id of
        Some table \<Rightarrow>
          if \<not> td_operable table then Inl (traft_error.Cas (TableNotOperable (td_name table))) else Inr ()
      | None \<Rightarrow> Inr ())"

definition check_config_prohibited :: "string \<Rightarrow> unit traft_result" where
  "check_config_prohibited config_name =
     (if config_name \<in> set PROHIBITED_CONFIGS
      then Inl (traft_error.Cas (ConfigNotAllowed config_name)) else Inr ())"

definition check_dml_prohibited ::
  "('k, 't, 'u, 's) cas_env \<Rightarrow> ('k, 't, 'u) dml \<Rightarrow> unit traft_result" where
  "check_dml_prohibited env dml =
     (if table_id dml \<in> set PROHIBITED_TABLES
      then (case pico_table env (table_id dml) of
              Some table \<Rightarrow> Inl (traft_error.Cas (TableNotAllowed (td_name table)))
            | None \<Rightarrow> Inl (Panic ''system tables exist''))
      else if table_id dml = DbConfig_TABLE_ID
      then (case dml of
              DmlInsert _ tuple _ _ \<Rightarrow> rbind (config_key_of_tuple env tuple) check_config_prohibited
            | DmlReplace _ tuple _ \<Rightarrow> rbind (config_key_of_tuple env tuple) check_config_prohibited
            | DmlUpdate _ key _ _ \<Rightarrow> rbind (config_key_of_key env key) check_config_prohibited
            | DmlDelete _ key _ _ \<Rightarrow> rbind (config_key_of_key env key) check_config_prohibited)
      else Inr ())"

definition check_user_limit :: "('k, 't, 'u, 's) cas_env \<Rightarrow> unit traft_result" where
  "check_user_limit env =
     (if users_len env \<ge> MAX_USERS
      then Inl (Other (''a limit on the total number of users has been reached: '' @ show_nat MAX_USERS))
      else Inr ())"

definition check_acl_limits :: "('k, 't, 'u, 's) cas_env \<Rightarrow> acl \<Rightarrow> unit traft_result" where
  "check_acl_limits env acl =
     (case acl of
        CreateUser _ _ _ \<Rightarrow> check_user_limit env
      | CreateRole _ _ _ \<Rightarrow> check_user_limit env
      | _ \<Rightarrow> Inr ())"

definition GUEST_ID :: nat where "GUEST_ID = 0"
definition PUBLIC_ID :: nat where "PUBLIC_ID = 2"
definition ROLE_REPLICATION_ID :: nat where "ROLE_REPLICATION_ID = 3"
definition SUPER_ID :: nat where "SUPER_ID = 31"
definition PICO_SERVICE_ID :: nat where "PICO_SERVICE_ID = 32"

definition acl_validate :: "('k, 't, 'u, 's) cas_env \<Rightarrow> acl \<Rightarrow> unit traft_result" where
  "acl_validate env acl =
     (case acl of
        ChangeAuth user_id _ _ _ \<Rightarrow>
          if user_id = GUEST_ID then Inl (Other (''altering guest user'' @ [CHR 0x27] @ ''s password is not allowed''))
          else Inr ()
      | DropUser user_id _ _ \<Rightarrow>
          if user_id = GUEST_ID \<or> user_id = ADMIN_ID \<or> user_id = PICO_SERVICE_ID
          then Inl (Other ''dropping system user is not allowed'')
          else check_drop_user env user_id
      | DropRole role_id _ _ \<Rightarrow>
          if role_id = PUBLIC_ID \<or> role_id = SUPER_ID \<or> role_id = ROLE_REPLICATION_ID
          then Inl (Other ''dropping system role is not allowed'')
          else Inr ()
      | _ \<Rightarrow> Inr ())"

section \<open>The dry run\<close>

text \<open>\<open>Catalog::do_dml\<close> of src/src/storage.rs; the code of \<open>TupleFound\<close> is 3.\<close>

definition tuple_found :: nat where "tuple_found = 3"

fun do_dml ::
  "('k, 't, 'u, 's) cas_env \<Rightarrow> ('k, 't, 'u) dml \<Rightarrow> 's \<Rightarrow> ('s, 't option) space_result" where
  "do_dml env (DmlInsert space tuple _ DoFail) st =
     rbind (space_insert env space tuple st) (\<lambda>(st', t). Inr (st', Some t))"
| "do_dml env (DmlInsert space tuple _ DoReplace) st =
     rbind (space_replace env space tuple st) (\<lambda>(st', t). Inr (st', Some t))"
| "do_dml env (DmlInsert space tuple _ DoNothing) st =
     (case space_insert env space tuple st of
        Inr (st', t) \<Rightarrow> Inr (st', Some t)
      | Inl (code, msg) \<Rightarrow> if code = tuple_found then Inr (st, None) else Inl (code, msg))"
| "do_dml env (DmlReplace space tuple _) st =
     rbind (space_replace env space tuple st) (\<lambda>(st', t). Inr (st', Some t))"
| "do_dml env (DmlUpdate space key ops _) st = space_update env space key ops st"
| "do_dml env (DmlDelete space key _ None) st =
     rbind (space_delete env space key st) (\<lambda>(st', _). Inr (st', None))"
| "do_dml env (DmlDelete space key _ (Some info)) st =
     rbind (full_delete_execute env info st) (\<lambda>(st', _). Inr (st', None))"

text \<open>The loop over a batch within one transaction, counting the resulting rows.\<close>

fun do_dml_batch ::
  "('k, 't, 'u, 's) cas_env \<Rightarrow> ('k, 't, 'u) dml list \<Rightarrow> 's \<Rightarrow> nat \<Rightarrow> nat traft_result" where
  "do_dml_batch env [] st n = Inr n"
| "do_dml_batch env (dml # ops) st n =
     (case do_dml env dml st of
        Inl (code, msg) \<Rightarrow> Inl (Tarantool code msg)
      | Inr (st', Some _) \<Rightarrow> do_dml_batch env ops st' (Suc n)
      | Inr (st', None) \<Rightarrow> do_dml_batch env ops st' n)"

definition preliminary_checks ::
  "('k, 't, 'u, 's) cas_env \<Rightarrow> ('k, 't, 'u) op \<Rightarrow> nat traft_result" where
  "preliminary_checks env op =
     (case op of
        OpDml dml \<Rightarrow>
          (case do_dml env dml (local_storage env) of
             Inl (code, msg) \<Rightarrow> Inl (Tarantool code msg)
           | Inr (_, Some _) \<Rightarrow> Inr 1
           | Inr (_, None) \<Rightarrow> Inr 0)
      | BatchDml ops \<Rightarrow> do_dml_batch env ops (local_storage env) 0
      | OpAcl acl \<Rightarrow> rbind (acl_validate env acl) (\<lambda>_. Inr 0)
      | _ \<Rightarrow> Inr 0)"

section \<open>Predicates\<close>

fun ddl_modifies :: "space_id \<Rightarrow> ddl \<Rightarrow> bool" where
  "ddl_modifies space (CreateTable i _ _ _ _ _ _ _ _) = (i = space)"
| "ddl_modifies space (DropTable i _) = (i = space)"
| "ddl_modifies space (TruncateTable i _) = (i = space)"
| "ddl_modifies space (ChangeFormat i _ _ _ _ _) = (i = space)"
| "ddl_modifies space (RenameTable i _ _ _ _ _) = (i = space)"
| "ddl_modifies space _ = False"

fun modifies_operable :: "('k, 't, 'u) op \<Rightarrow> space_id \<Rightarrow> ('k, 't, 'u, 's) cas_env \<Rightarrow> bool" where
  "modifies_operable (DdlPrepare _ ddl _) space env = ddl_modifies space ddl"
| "modifies_operable DdlCommit space env =
     (case pending_schema_change env of Some change \<Rightarrow> ddl_modifies space change | None \<Rightarrow> False)"
| "modifies_operable (DdlAbort _) space env =
     (case pending_schema_change env of Some change \<Rightarrow> ddl_modifies space change | None \<Rightarrow> False)"
| "modifies_operable _ space env = False"

definition SCHEMA_RELATED_PROPERTIES :: "string list" where
  "SCHEMA_RELATED_PROPERTIES =
     [''pending_schema_change'', ''pending_schema_version'', ''global_schema_version'',
      ''next_schema_version'', ''pending_governor_operation_id'', ''pending_catalog_version'']"

definition schema_related_property_keys :: "('k, 't, 'u, 's) cas_env \<Rightarrow> 'k list" where
  "schema_related_property_keys env = map (encode_key env) SCHEMA_RELATED_PROPERTIES"

definition pending_plugin_operation_key :: "('k, 't, 'u, 's) cas_env \<Rightarrow> 'k" where
  "pending_plugin_operation_key env = encode_key env ''pending_plugin_operation''"

definition schema_change_ranges :: "('k, 't, 'u, 's) cas_env \<Rightarrow> 'k range list" where
  "schema_change_ranges env =
     map (\<lambda>key. range_eq (encode_key env key) (range_new PROPERTIES_TABLE_ID)) SCHEMA_RELATED_PROPERTIES"

definition conflict_if :: "raft_index \<Rightarrow> bool \<Rightarrow> cas_error + unit" where
  "conflict_if i b = (if b then Inl (ConflictFound i) else Inr ())"

definition with_key_def :: "string + 'd \<Rightarrow> ('d \<Rightarrow> cas_error + unit) \<Rightarrow> cas_error + unit" where
  "with_key_def kd f = (case kd of Inl e \<Rightarrow> Inl (KeyTypeMismatch e) | Inr d \<Rightarrow> f d)"

fun check_dml ::
  "('k, 't, 'u, 's) cas_env \<Rightarrow> raft_index \<Rightarrow> ('k, 't, 'u) dml \<Rightarrow> 'k range \<Rightarrow> cas_error + unit" where
  "check_dml env i (DmlUpdate space key _ _) rg =
     with_key_def (cached_key_def_for_key env space) (\<lambda>kd. conflict_if i (range_contains (kd key) rg))"
| "check_dml env i (DmlDelete space key _ _) rg =
     with_key_def (cached_key_def_for_key env space) (\<lambda>kd. conflict_if i (range_contains (kd key) rg))"
| "check_dml env i (DmlInsert space tuple _ _) rg =
     with_key_def (cached_key_def env space) (\<lambda>kd. conflict_if i (range_contains (kd tuple) rg))"
| "check_dml env i (DmlReplace space tuple _) rg =
     with_key_def (cached_key_def env space) (\<lambda>kd. conflict_if i (range_contains (kd tuple) rg))"

definition check_property_keys ::
  "('k, 't, 'u, 's) cas_env \<Rightarrow> raft_index \<Rightarrow> 'k list \<Rightarrow> 'k range \<Rightarrow> cas_error + unit" where
  "check_property_keys env i keys rg =
     (if PROPERTIES_TABLE_ID \<noteq> rg_table rg then Inr ()
      else with_key_def (cached_key_def_for_key env PROPERTIES_TABLE_ID) (\<lambda>kd.
             rforeach (\<lambda>key. conflict_if i (range_contains (kd key) rg)) keys))"

definition check_range ::
  "('k, 't, 'u, 's) cas_env \<Rightarrow> raft_index \<Rightarrow> ('k, 't, 'u) op \<Rightarrow> 'k range \<Rightarrow> cas_error + unit" where
  "check_range env i op rg =
     (if modifies_operable op (rg_table rg) env then Inl (ConflictFound i)
      else case op of
          BatchDml ops \<Rightarrow>
            rforeach (\<lambda>dml. if table_id dml = rg_table rg then check_dml env i dml rg else Inr ()) ops
        | OpDml dml \<Rightarrow> if table_id dml = rg_table rg then check_dml env i dml rg else Inr ()
        | DdlPrepare _ _ _ \<Rightarrow> check_property_keys env i (schema_related_property_keys env) rg
        | DdlCommit \<Rightarrow> check_property_keys env i (schema_related_property_keys env) rg
        | DdlAbort _ \<Rightarrow> check_property_keys env i (schema_related_property_keys env) rg
        | OpAcl _ \<Rightarrow> check_property_keys env i (schema_related_property_keys env) rg
        | OpPlugin _ \<Rightarrow> check_property_keys env i [pending_plugin_operation_key env] rg
        | Nop \<Rightarrow> Inr ())"

definition check_predicate ::
  "raft_index \<Rightarrow> ('k, 't, 'u) op \<Rightarrow> 'k range list \<Rightarrow> ('k, 't, 'u, 's) cas_env \<Rightarrow> cas_error + unit" where
  "check_predicate entry_index entry_op predicate_ranges env =
     rforeach (check_range env entry_index entry_op) predicate_ranges"

definition range_for_dml ::
  "('k, 't, 'u, 's) cas_env \<Rightarrow> ('k, 't, 'u) dml \<Rightarrow> 'k range traft_result" where
  "range_for_dml env dml =
     rbind
       (case dml of
          DmlUpdate _ key _ _ \<Rightarrow> Inr key
        | DmlDelete _ key _ _ \<Rightarrow> Inr key
        | DmlInsert space tuple _ _ \<Rightarrow> extract_key env space tuple
        | DmlReplace space tuple _ \<Rightarrow> extract_key env space tuple)
       (\<lambda>key. Inr \<lparr>rg_table = table_id dml, rg_bounds = Some (RbEq key)\<rparr>)"

definition range_for_op ::
  "('k, 't, 'u, 's) cas_env \<Rightarrow> ('k, 't, 'u) op \<Rightarrow> 'k range list traft_result" where
  "range_for_op env op =
     (let schema = [range_eq (encode_key env ''global_schema_version'') (range_new PROPERTIES_TABLE_ID)]
      in case op of
          Nop \<Rightarrow> Inr []
        | OpDml dml \<Rightarrow> rbind (range_for_dml env dml) (\<lambda>r. Inr [r])
        | BatchDml ops \<Rightarrow> rmap (range_for_dml env) ops
        | DdlPrepare _ _ _ \<Rightarrow> Inr schema
        | DdlCommit \<Rightarrow> Inr schema
        | DdlAbort _ \<Rightarrow> Inr schema
        | OpAcl _ \<Rightarrow> Inr schema
        | OpPlugin _ \<Rightarrow>
            Inr [range_eq (encode_key env ''pending_plugin_operation'') (range_new PROPERTIES_TABLE_ID)])"

section \<open>The handler on the leader\<close>

record 'k predicate =
  pr_index :: raft_index
  pr_term :: raft_term
  pr_ranges :: "'k range list"

record ('k, 't, 'u) request =
  rq_cluster_name :: string
  rq_predicate :: "'k predicate"
  rq_op :: "('k, 't, 'u) op"
  rq_as_user :: user_id

record response =
  rsp_index :: raft_index
  rsp_term :: raft_term
  rsp_row_count :: nat

text \<open>What the handler reads of raft-rs's \<open>RaftLog\<close>.\<close>

record raft_log_view =
  rl_first_index :: raft_index
  rl_last_index :: raft_index
  rl_term :: "raft_index \<Rightarrow> raft_term option"
  rl_entries :: "raft_index \<Rightarrow> raft_entry list traft_result"

datatype raft_role = Follower | Candidate | Leader | PreCandidate

text \<open>
  The node: its status, its persisted log and the raw raft node. \<open>raw_step\<close> is raft-rs's
  handling of a proposal message; it returns the last index of the log afterwards.
\<close>

record ('k, 't, 'u) node =
  n_raft_id :: raft_id
  n_cluster_name :: string
  n_status_term :: raft_term
  n_status_leader_id :: "raft_id option"
  n_applied :: raft_index
  n_raft_storage :: "('k, 't, 'u) op raft_space"
  n_decode :: "8 word list \<Rightarrow> ('k, 't, 'u) op option"
  n_log :: raft_log_view
  raw_leader_id :: raft_id
  raw_role :: raft_role
  raw_term :: raft_term
  raw_tuple_size :: "raft_index \<Rightarrow> raft_term \<Rightarrow> ('k, 't, 'u) op \<Rightarrow> nat"
  raw_max_tuple_size :: nat
  raw_step :: "('k, 't, 'u) op \<Rightarrow> traft_error + raft_index"

definition predicate_new :: "('k, 't, 'u) node \<Rightarrow> raft_index \<Rightarrow> 'k range list \<Rightarrow> 'k predicate" where
  "predicate_new node index ranges =
     \<lparr>pr_index = index, pr_term = n_status_term node, pr_ranges = ranges\<rparr>"

definition with_applied_index :: "('k, 't, 'u) node \<Rightarrow> 'k range list \<Rightarrow> 'k predicate" where
  "with_applied_index node ranges =
     \<lparr>pr_index = n_applied node, pr_term = n_status_term node, pr_ranges = ranges\<rparr>"

definition request_new ::
  "('k, 't, 'u) node \<Rightarrow> ('k, 't, 'u) op \<Rightarrow> 'k predicate \<Rightarrow> user_id \<Rightarrow> ('k, 't, 'u) request" where
  "request_new node op pred as_user =
     \<lparr>rq_cluster_name = n_cluster_name node, rq_predicate = pred, rq_op = op, rq_as_user = as_user\<rparr>"

text \<open>\<open>NodeImpl::propose_async\<close> of src/src/traft/node.rs; \<open>INVALID_ID\<close> is 0.\<close>

definition memtx_max_tuple_size :: nat where "memtx_max_tuple_size = 110"

definition propose_async ::
  "('k, 't, 'u) node \<Rightarrow> ('k, 't, 'u) op \<Rightarrow> (raft_index \<times> raft_term) traft_result" where
  "propose_async node op =
     (if raw_leader_id node = 0 then Inl LeaderUnknown
      else if raw_role node \<noteq> Leader then Inl (NotALeader (raw_leader_id node))
      else
        let index_before = rl_last_index (n_log node);
            tuple_size = raw_tuple_size node (index_before + 1) (raw_term node) op
        in if tuple_size > raw_max_tuple_size node
           then Inl (BoxError memtx_max_tuple_size
                  (''tuple size '' @ show_nat tuple_size @ '' exceeds the allowed limit''))
           else rbind (raw_step node op) (\<lambda>index. Inr (index, raw_term node)))"

definition check_op ::
  "('k, 't, 'u, 's) cas_env \<Rightarrow> ('k, 't, 'u) op \<Rightarrow> unit traft_result" where
  "check_op env op =
     (let check = (\<lambda>dml. rbind (check_table_operable env (table_id dml))
                      (\<lambda>_. check_dml_prohibited env dml))
      in case op of
          OpDml dml \<Rightarrow> check dml
        | BatchDml ops \<Rightarrow> rforeach check ops
        | OpAcl acl \<Rightarrow> check_acl_limits env acl
        | _ \<Rightarrow> Inr ())"

definition lift_cas :: "cas_error + 'a \<Rightarrow> 'a traft_result" where
  "lift_cas r = (case r of Inl e \<Rightarrow> Inl (traft_error.Cas e) | Inr x \<Rightarrow> Inr x)"

definition check_persisted ::
  "('k, 't, 'u, 's) cas_env \<Rightarrow> 'k range list \<Rightarrow> ('k, 't, 'u) op entry \<Rightarrow> unit traft_result" where
  "check_persisted env ranges entry =
     (case into_op entry of
        None \<Rightarrow> Inr ()
      | Some op \<Rightarrow> lift_cas (check_predicate (e_index entry) op ranges env))"

definition check_unstable ::
  "('k, 't, 'u, 's) cas_env \<Rightarrow> (8 word list \<Rightarrow> ('k, 't, 'u) op option) \<Rightarrow> 'k range list \<Rightarrow>
     raft_entry \<Rightarrow> unit traft_result" where
  "check_unstable env dec ranges entry =
     (case context_from_raft_entry dec entry of
        Inr (Some op) \<Rightarrow> lift_cas (check_predicate (re_index entry) op ranges env)
      | _ \<Rightarrow> Inr ())"

definition check_log ::
  "('k, 't, 'u, 's) cas_env \<Rightarrow> ('k, 't, 'u) node \<Rightarrow> raft_index \<Rightarrow> 'k range list \<Rightarrow> unit traft_result" where
  "check_log env node req_index ranges =
     (let last = rl_last_index (n_log node);
          last_persisted = min (last_index (n_raft_storage node)) last
      in rbind
           (if req_index < last_persisted
            then let persisted =
                   space_entries (n_raft_storage node) (req_index + 1) (last_persisted + 1) None
                 in if length persisted < last_persisted - req_index
                    then Inl (RaftStore StoreUnavailable)
                    else rforeach (check_persisted env ranges) persisted
            else Inr ())
           (\<lambda>_. rbind (rl_entries (n_log node) (last_persisted + 1)) (\<lambda>unstable.
             rforeach (check_unstable env (n_decode node) ranges) unstable)))"

definition check_status :: "('k, 't, 'u) node \<Rightarrow> ('k, 't, 'u) request \<Rightarrow> unit traft_result" where
  "check_status node req =
     (let requested = pr_index (rq_predicate req);
          requested_term = pr_term (rq_predicate req);
          status_term = n_status_term node;
          first = rl_first_index (n_log node);
          last = rl_last_index (n_log node)
      in if rq_cluster_name req \<noteq> n_cluster_name node
         then Inl (ClusterNameMismatch (rq_cluster_name req) (n_cluster_name node))
         else if requested_term \<noteq> status_term then Inl (TermMismatch requested_term status_term)
         else case n_status_leader_id node of
             None \<Rightarrow> Inl LeaderUnknown
           | Some leader_id \<Rightarrow>
               if leader_id \<noteq> n_raft_id node then Inl (NotALeader leader_id)
               else if requested > last then Inl (traft_error.Cas (NoSuchIndex requested last))
               else if requested + 1 < first then Inl (traft_error.Cas (Compacted requested (first - 1)))
               else
                 let entry_term = unwrap_or (rl_term (n_log node) requested) 0
                 in if entry_term \<noteq> status_term
                    then Inl (traft_error.Cas (EntryTermMismatch requested status_term entry_term))
                    else Inr ())"

definition proc_cas_v2_local ::
  "('k, 't, 'u, 's) cas_env \<Rightarrow> ('k, 't, 'u) node \<Rightarrow> ('k, 't, 'u) request \<Rightarrow> response traft_result" where
  "proc_cas_v2_local env node req =
     rbind (check_status node req) (\<lambda>_.
     rbind (access_check_op env (rq_op req) (rq_as_user req)) (\<lambda>_.
     rbind (check_op env (rq_op req)) (\<lambda>_.
     rbind (range_for_op env (rq_op req)) (\<lambda>implicit_ranges.
     rbind (check_log env node (pr_index (rq_predicate req))
              (pr_ranges (rq_predicate req) @ implicit_ranges)) (\<lambda>_.
     rbind (preliminary_checks env (rq_op req)) (\<lambda>res_row_count.
     rbind (propose_async node (rq_op req)) (\<lambda>(index, term).
       Inr \<lparr>rsp_index = index, rsp_term = term, rsp_row_count = res_row_count\<rparr>)))))))"

section \<open>The client\<close>

datatype cas_result =
    CasOk "raft_index \<times> raft_term \<times> nat"
  | RetriableError traft_error

fun into_retriable_error :: "cas_result \<Rightarrow> traft_error option" where
  "into_retriable_error (RetriableError e) = Some e"
| "into_retriable_error (CasOk _) = None"

fun is_retriable_error :: "cas_result \<Rightarrow> bool" where
  "is_retriable_error (RetriableError _) = True"
| "is_retriable_error (CasOk _) = False"

fun no_retries :: "cas_result \<Rightarrow> (raft_index \<times> raft_term \<times> nat) traft_result" where
  "no_retries (CasOk v) = Inr v"
| "no_retries (RetriableError e) = Inl e"

text \<open>
  \<open>remote\<close> is the RPC \<open>proc_cas_v2\<close> to the leader, \<open>wait_index\<close> the wait until an
  index is applied; it returns the raft storage at that moment.
\<close>

definition await_entry ::
  "(raft_index \<Rightarrow> 'o raft_space traft_result) \<Rightarrow> bool \<Rightarrow> response \<Rightarrow> cas_result traft_result" where
  "await_entry wait_index wait response =
     (let result = CasOk (rsp_index response, rsp_term response, rsp_row_count response)
      in if wait
         then rbind (wait_index (rsp_index response)) (\<lambda>raft_storage.
                case storage_term raft_storage (rsp_index response) of
                  Inl e \<Rightarrow> Inl (RaftStore e)
                | Inr actual_term \<Rightarrow>
                    if rsp_term response \<noteq> actual_term
                    then Inr (RetriableError (TermMismatch (rsp_term response) actual_term))
                    else Inr result)
         else Inr result)"

definition compare_and_swap ::
  "('k, 't, 'u, 's) cas_env \<Rightarrow> ('k, 't, 'u) node \<Rightarrow>
   (raft_id \<Rightarrow> ('k, 't, 'u) request \<Rightarrow> response traft_result) \<Rightarrow>
   (raft_index \<Rightarrow> ('k, 't, 'u) op raft_space traft_result) \<Rightarrow>
   ('k, 't, 'u) request \<Rightarrow> bool \<Rightarrow> bool \<Rightarrow> cas_result traft_result" where
  "compare_and_swap env node remote wait_index req wait force_local =
     (if rq_op req = BatchDml [] then Inl (traft_error.Cas EmptyBatch)
      else case n_status_leader_id node of
          None \<Rightarrow> if force_local then Inl LeaderUnknown else Inr (RetriableError LeaderUnknown)
        | Some leader_id \<Rightarrow>
            if leader_id \<noteq> n_raft_id node \<and> force_local then Inl (NotALeader leader_id)
            else
              (case (if leader_id = n_raft_id node then proc_cas_v2_local env node req
                     else remote leader_id req) of
                 Inl e \<Rightarrow> if is_retriable e then Inr (RetriableError e) else Inl e
               | Inr response \<Rightarrow> await_entry wait_index wait response))"

definition compare_and_swap_and_wait where
  "compare_and_swap_and_wait env node remote wait_index req =
     compare_and_swap env node remote wait_index req True False"

definition compare_and_swap_local where
  "compare_and_swap_local env node remote wait_index req =
     compare_and_swap env node remote wait_index req True True"

section \<open>What a conflict is\<close>

text \<open>
  The specification of a conflict: the operation of an entry touches a range when it changes whether
  the range's table is operable, when one of its row operations has a key in the range, or when it
  changes, by its nature, a property in the range.
\<close>

definition available :: "string + 'd \<Rightarrow> ('d \<Rightarrow> bool) \<Rightarrow> bool" where
  "available kd P = (case kd of Inl _ \<Rightarrow> False | Inr d \<Rightarrow> P d)"

fun dml_in_range :: "('k, 't, 'u, 's) cas_env \<Rightarrow> ('k, 't, 'u) dml \<Rightarrow> 'k range \<Rightarrow> bool" where
  "dml_in_range env (DmlUpdate space key _ _) rg =
     available (cached_key_def_for_key env space) (\<lambda>kd. range_contains (kd key) rg)"
| "dml_in_range env (DmlDelete space key _ _) rg =
     available (cached_key_def_for_key env space) (\<lambda>kd. range_contains (kd key) rg)"
| "dml_in_range env (DmlInsert space tuple _ _) rg =
     available (cached_key_def env space) (\<lambda>kd. range_contains (kd tuple) rg)"
| "dml_in_range env (DmlReplace space tuple _) rg =
     available (cached_key_def env space) (\<lambda>kd. range_contains (kd tuple) rg)"

fun implied_properties :: "('k, 't, 'u, 's) cas_env \<Rightarrow> ('k, 't, 'u) op \<Rightarrow> 'k list" where
  "implied_properties env (DdlPrepare _ _ _) = schema_related_property_keys env"
| "implied_properties env DdlCommit = schema_related_property_keys env"
| "implied_properties env (DdlAbort _) = schema_related_property_keys env"
| "implied_properties env (OpAcl _) = schema_related_property_keys env"
| "implied_properties env (OpPlugin _) = [pending_plugin_operation_key env]"
| "implied_properties env _ = []"

definition touches :: "('k, 't, 'u, 's) cas_env \<Rightarrow> ('k, 't, 'u) op \<Rightarrow> 'k range \<Rightarrow> bool" where
  "touches env op rg \<longleftrightarrow>
     modifies_operable op (rg_table rg) env \<or>
     (\<exists>dml \<in> set (unwrap_or (dmls op) []). table_id dml = rg_table rg \<and> dml_in_range env dml rg) \<or>
     rg_table rg = PROPERTIES_TABLE_ID \<and>
     (\<exists>key \<in> set (implied_properties env op).
        available (cached_key_def_for_key env PROPERTIES_TABLE_ID) (\<lambda>kd. range_contains (kd key) rg))"

text \<open>The three outcomes of a check: passed, a conflict at the entry, a failing key definition.\<close>

definition outcome :: "raft_index \<Rightarrow> bool \<Rightarrow> cas_error + unit \<Rightarrow> bool" where
  "outcome i hit r =
     (case r of
        Inr _ \<Rightarrow> \<not> hit
      | Inl (ConflictFound j) \<Rightarrow> j = i \<and> hit
      | Inl (KeyTypeMismatch _) \<Rightarrow> True
      | Inl _ \<Rightarrow> False)"

lemma outcome_Inr [simp]: "outcome i hit (Inr u) \<longleftrightarrow> \<not> hit"
  and outcome_conflict [simp]: "outcome i hit (Inl (ConflictFound j)) \<longleftrightarrow> j = i \<and> hit"
  and outcome_mismatch [simp]: "outcome i hit (Inl (KeyTypeMismatch m))"
  by (simp_all add: outcome_def)

lemma outcome_conflict_if [simp]: "outcome i hit (conflict_if i b) \<longleftrightarrow> hit = b"
  by (simp add: conflict_if_def)

lemma outcome_rforeach:
  assumes "\<And>x. x \<in> set xs \<Longrightarrow> outcome i (P x) (f x)"
  shows "outcome i (\<exists>x \<in> set xs. P x) (rforeach f xs)"
  using assms
proof (induction xs)
  case (Cons x xs)
  then have x: "outcome i (P x) (f x)" and IH: "outcome i (\<exists>x \<in> set xs. P x) (rforeach f xs)"
    by simp_all
  show ?case
  proof (cases "f x")
    case (Inl e)
    with x show ?thesis by (cases e) (auto simp: outcome_def)
  next
    case (Inr u)
    with x IH show ?thesis by simp
  qed
qed simp

lemma outcome_with_key_def:
  "(\<And>d. kd = Inr d \<Longrightarrow> outcome i (P d) (f d)) \<Longrightarrow> outcome i (available kd P) (with_key_def kd f)"
  by (cases kd) (auto simp: available_def with_key_def_def)

lemma outcome_check_dml: "outcome i (dml_in_range env dml rg) (check_dml env i dml rg)"
  by (cases dml) (auto intro!: outcome_with_key_def)

lemma outcome_check_property_keys:
  "outcome i (rg_table rg = PROPERTIES_TABLE_ID \<and>
       (\<exists>key \<in> set keys. available (cached_key_def_for_key env PROPERTIES_TABLE_ID)
          (\<lambda>kd. range_contains (kd key) rg)))
     (check_property_keys env i keys rg)"
proof (cases "cached_key_def_for_key env PROPERTIES_TABLE_ID")
  case (Inl e)
  then show ?thesis by (auto simp: check_property_keys_def with_key_def_def available_def)
next
  case (Inr kd)
  have "outcome i (\<exists>key \<in> set keys. range_contains (kd key) rg)
      (rforeach (\<lambda>key. conflict_if i (range_contains (kd key) rg)) keys)"
    by (rule outcome_rforeach) simp
  with Inr show ?thesis by (auto simp: check_property_keys_def with_key_def_def available_def)
qed

lemma outcome_if_table:
  "outcome i hit r \<Longrightarrow> outcome i (b \<and> hit) (if b then r else Inr ())"
  by simp

lemma outcome_check_range: "outcome i (touches env op rg) (check_range env i op rg)"
proof (cases "modifies_operable op (rg_table rg) env")
  case True
  then show ?thesis by (simp add: check_range_def touches_def)
next
  case False
  note pk = outcome_check_property_keys [of i rg _ env]
  show ?thesis
  proof (cases op)
    case (BatchDml ops)
    have "outcome i (\<exists>dml \<in> set ops. table_id dml = rg_table rg \<and> dml_in_range env dml rg)
        (rforeach (\<lambda>dml. if table_id dml = rg_table rg then check_dml env i dml rg else Inr ()) ops)"
      by (rule outcome_rforeach) (rule outcome_if_table, rule outcome_check_dml)
    with BatchDml False show ?thesis by (simp add: check_range_def touches_def)
  next
    case (OpDml dml)
    with False show ?thesis
      using outcome_if_table [OF outcome_check_dml [of i env dml rg], of "table_id dml = rg_table rg"]
      by (simp add: check_range_def touches_def)
  next
    case (OpPlugin pl)
    with False pk [of "[pending_plugin_operation_key env]"] show ?thesis
      by (simp add: check_range_def touches_def)
  qed (use False pk in \<open>simp_all add: check_range_def touches_def\<close>)
qed

lemma outcome_check_predicate:
  "outcome i (\<exists>rg \<in> set ranges. touches env op rg) (check_predicate i op ranges env)"
  unfolding check_predicate_def by (rule outcome_rforeach) (rule outcome_check_range)

section \<open>The log the leader checks\<close>

text \<open>
  What the handler relies on of raft-rs and of the persisted log, for the leader's log \<open>L\<close> (a
  partial function from indices to operations): the persisted log has no holes and agrees with
  \<open>L\<close> up to the last index, and \<open>RaftLog::entries\<close> returns the entries of \<open>L\<close> from
  the given index on.
\<close>

definition leader_log_ok ::
  "('k, 't, 'u) node \<Rightarrow> (raft_index \<Rightarrow> ('k, 't, 'u) op option) \<Rightarrow> bool" where
  "leader_log_ok node L \<longleftrightarrow>
     log_ok (n_raft_storage node) \<and>
     first_index (n_raft_storage node) \<le> rl_first_index (n_log node) \<and>
     (\<forall>e \<in> set (raft_log (n_raft_storage node)).
        e_index e \<le> rl_last_index (n_log node) \<longrightarrow> e_context e = L (e_index e)) \<and>
     (\<forall>low es. rl_entries (n_log node) low = Inr es \<longrightarrow>
        map re_index es = [low ..< rl_last_index (n_log node) + 1] \<and>
        (\<forall>e \<in> set es. L (re_index e) =
           (case context_from_raft_entry (n_decode node) e of Inr c \<Rightarrow> c | Inl _ \<Rightarrow> None)))"

lemma space_entries_subset: "set (space_entries s low high limit) \<subseteq> set (raft_log s)"
proof -
  have "set (entries_loop high limit n es) \<subseteq> set es" for n and es :: "'a entry list"
    by (induction es arbitrary: n) auto
  then show ?thesis unfolding space_entries_def by (meson filter_is_subset subset_trans)
qed

lemma lift_cas_Inr [simp]: "lift_cas r = Inr u \<longleftrightarrow> r = Inr u"
  by (cases r) (auto simp: lift_cas_def)

lemma lift_cas_conflict [simp]: "lift_cas r = Inl (traft_error.Cas e) \<longleftrightarrow> r = Inl e"
  by (cases r) (auto simp: lift_cas_def)

lemma check_predicate_Inr:
  "check_predicate i op ranges env = Inr u \<Longrightarrow> rg \<in> set ranges \<Longrightarrow> \<not> touches env op rg"
  using outcome_check_predicate [of i ranges env op] by auto

lemma check_predicate_conflict:
  "check_predicate i op ranges env = Inl (ConflictFound j) \<Longrightarrow>
     j = i \<and> (\<exists>rg \<in> set ranges. touches env op rg)"
  using outcome_check_predicate [of i ranges env op] by simp

text \<open>The two loops of the handler cover the whole log after the requested index.\<close>

lemma check_log_covers:
  assumes ok: "leader_log_ok node L" and first: "rl_first_index (n_log node) \<le> requested' + 1"
    and run: "check_log env node requested' ranges = Inr u"
    and i: "requested' < i" "i \<le> rl_last_index (n_log node)" and Li: "L i = Some op"
  shows "check_predicate i op ranges env = Inr ()"
proof -
  let ?st = "n_raft_storage node" and ?last = "rl_last_index (n_log node)"
  let ?lp = "min (last_index ?st) ?last"
  show ?thesis
  proof (cases "i \<le> ?lp")
    case True
    then have "requested' < ?lp" using i by simp
    with run have all: "\<forall>e \<in> set (space_entries ?st (requested' + 1) (?lp + 1) None).
        check_persisted env ranges e = Inr ()"
      by (auto simp: check_log_def Let_def result_simps rforeach_Inr_iff split: if_splits)
    obtain e where e: "e \<in> set (space_entries ?st (requested' + 1) (?lp + 1) None)" "e_index e = i"
      using persisted.window_complete [of ?st "requested' + 1" i "?lp + 1"] ok first i True
      by (auto simp: leader_log_ok_def)
    have "e_context e = L i"
      using ok e i(2) space_entries_subset by (fastforce simp: leader_log_ok_def)
    with all e Li show ?thesis by (auto simp: check_persisted_def into_op_def)
  next
    case False
    from run obtain es where es: "rl_entries (n_log node) (?lp + 1) = Inr es"
      and all: "\<forall>e \<in> set es. check_unstable env (n_decode node) ranges e = Inr ()"
      by (auto simp: check_log_def Let_def result_simps rforeach_Inr_iff split: if_splits)
    have "i \<in> set (map re_index es)"
      using ok es i False by (auto simp: leader_log_ok_def)
    then obtain e where e: "e \<in> set es" "re_index e = i" by auto
    then have "context_from_raft_entry (n_decode node) e = Inr (Some op)"
      using ok es Li by (fastforce simp: leader_log_ok_def split: sum.splits)
    with all e show ?thesis by (auto simp: check_unstable_def)
  qed
qed

lemma check_log_no_touch:
  assumes "leader_log_ok node L" "rl_first_index (n_log node) \<le> requested' + 1"
    and "check_log env node requested' ranges = Inr u"
    and "requested' < i" "i \<le> rl_last_index (n_log node)" "L i = Some op" "rg \<in> set ranges"
  shows "\<not> touches env op rg"
  using check_predicate_Inr [OF check_log_covers [OF assms(1-6)] assms(7)] .

section \<open>Key definitions\<close>


definition compare_row_key :: "row \<Rightarrow> pico_key \<Rightarrow> ordering" where
  "compare_row_key r k = cmp (row_key r) k"

definition compare_pico_key :: "pico_key \<Rightarrow> pico_key \<Rightarrow> ordering" where
  "compare_pico_key k k' = cmp k k'"







section \<open>Correctness\<close>

lemma check_status_Inr:
  "check_status node req = Inr u \<longleftrightarrow>
     rq_cluster_name req = n_cluster_name node \<and>
     pr_term (rq_predicate req) = n_status_term node \<and>
     n_status_leader_id node = Some (n_raft_id node) \<and>
     pr_index (rq_predicate req) \<le> rl_last_index (n_log node) \<and>
     rl_first_index (n_log node) \<le> pr_index (rq_predicate req) + 1 \<and>
     unwrap_or (rl_term (n_log node) (pr_index (rq_predicate req))) 0 = n_status_term node"
  by (auto simp: check_status_def Let_def not_less split: option.splits)

text \<open>A small leader for the examples: its log has one operation, on a property, at index 2.\<close>

definition example_env :: "(pico_key, row, update_op, unit) cas_env" where
  "example_env = \<lparr>
     cached_key_def = \<lambda>_. Inr compare_row_key,
     cached_key_def_for_key = \<lambda>_. Inr compare_pico_key,
     extract_key = \<lambda>_ r. Inr (row_key r),
     encode_key = \<lambda>s. [KString s],
     config_key_of_tuple = \<lambda>_. Inl (Other ''not a config''),
     config_key_of_key = \<lambda>_. Inl (Other ''not a config''),
     pico_table = \<lambda>_. None,
     pending_schema_change = None,
     users_len = 0,
     access_check_op = \<lambda>_ _. Inr (),
     check_drop_user = \<lambda>_. Inr (),
     space_insert = \<lambda>_ t st. Inr (st, t),
     space_replace = \<lambda>_ t st. Inr (st, t),
     space_update = \<lambda>_ _ _ st. Inr (st, None),
     space_delete = \<lambda>_ _ st. Inr (st, None),
     full_delete_execute = \<lambda>_ st. Inr (st, ()),
     local_storage = ()\<rparr>"

definition example_op :: pico_op where
  "example_op = OpDml (DmlReplace PROPERTIES_TABLE_ID (RowProperty ''a'' ''b'') ADMIN_ID)"

definition example_log :: "raft_index \<Rightarrow> pico_op option" where
  "example_log i = (if i = 2 then Some example_op else None)"

definition example_storage :: "pico_op raft_space" where
  "example_storage = empty_space\<lparr>raft_log :=
     [\<lparr>e_type = EntryNormal, e_index = 1, e_term = 1, e_data = [], e_context = None\<rparr>]\<rparr>"

definition example_raft_entry :: "raft_index \<Rightarrow> raft_entry" where
  "example_raft_entry i = \<lparr>re_type = EntryNormal, re_index = i, re_term = 1, re_data = [],
     re_context = (if i = 2 then [2] else [])\<rparr>"

definition example_node :: "(pico_key, row, update_op) node" where
  "example_node = \<lparr>
     n_raft_id = 1, n_cluster_name = ''c'', n_status_term = 1, n_status_leader_id = Some 1,
     n_applied = 1, n_raft_storage = example_storage,
     n_decode = \<lambda>_. Some example_op,
     n_log = \<lparr>rl_first_index = 1, rl_last_index = 2, rl_term = \<lambda>i. if i \<le> 2 then Some 1 else None,
              rl_entries = \<lambda>low. Inr (map example_raft_entry [low ..< 3])\<rparr>,
     raw_leader_id = 1, raw_role = Leader, raw_term = 1,
     raw_tuple_size = \<lambda>_ _ _. 100, raw_max_tuple_size = 1000, raw_step = \<lambda>_. Inr 3\<rparr>"

definition example_request :: "space_id \<Rightarrow> (pico_key, row, update_op) request" where
  "example_request table = \<lparr>
     rq_cluster_name = ''c'',
     rq_predicate = \<lparr>pr_index = 1, pr_term = 1, pr_ranges = [range_new table]\<rparr>,
     rq_op = OpDml (DmlUpdate INSTANCES_TABLE_ID [KString ''i1''] [] ADMIN_ID),
     rq_as_user = ADMIN_ID\<rparr>"

lemmas example_defs =
  example_env_def example_op_def example_log_def example_storage_def example_raft_entry_def
  example_node_def example_request_def empty_space_def INSTANCES_TABLE_ID_def PROPERTIES_TABLE_ID_def
  DbConfig_TABLE_ID_def PROHIBITED_TABLES_def PicoTable_TABLE_ID_def Indexes_TABLE_ID_def
  Users_TABLE_ID_def Privileges_TABLE_ID_def Routines_TABLE_ID_def

lemma example_log_ok: "leader_log_ok example_node example_log"
  by (auto simp: leader_log_ok_def example_defs log_ok_def first_index_def log_compacted_index_def
      context_from_raft_entry_def comp_def)

lemma example_check_log:
  "check_log example_env example_node 1 rgs = lift_cas (check_predicate 2 example_op rgs example_env)"
proof -
  have "last_index example_storage = 1" by (simp add: example_defs last_index_def)
  moreover have "[Suc (Suc 0) ..< 3] = [2]" by (simp add: upt_rec)
  ultimately have "check_log example_env example_node 1 rgs =
      rforeach (check_unstable example_env (\<lambda>_. Some example_op) rgs) [example_raft_entry 2]"
    by (simp add: check_log_def example_node_def Let_def rbind_def)
  also have "\<dots> = check_unstable example_env (\<lambda>_. Some example_op) rgs (example_raft_entry 2)"
    by (simp add: rbind_def split: sum.splits)
  finally show ?thesis
    by (simp add: check_unstable_def context_from_raft_entry_def example_raft_entry_def)
qed

lemma example_accepted:
  "proc_cas_v2_local example_env example_node (example_request INSTANCES_TABLE_ID) =
     Inr \<lparr>rsp_index = 3, rsp_term = 1, rsp_row_count = 0\<rparr>"
proof -
  have "check_status example_node (example_request INSTANCES_TABLE_ID) = Inr ()"
    by (simp add: check_status_Inr example_node_def example_request_def)
  moreover have "check_predicate 2 example_op
      (range_new INSTANCES_TABLE_ID # [\<lparr>rg_table = INSTANCES_TABLE_ID, rg_bounds = Some (RbEq [KString ''i1''])\<rparr>])
      example_env = Inr ()"
    by (simp add: check_predicate_def check_range_def example_op_def range_new_def
        INSTANCES_TABLE_ID_def PROPERTIES_TABLE_ID_def result_simps)
  ultimately show ?thesis
    using example_check_log [of "[range_new INSTANCES_TABLE_ID,
      \<lparr>rg_table = INSTANCES_TABLE_ID, rg_bounds = Some (RbEq [KString ''i1''])\<rparr>]"]
    by (simp add: proc_cas_v2_local_def example_request_def check_op_def Let_def
        check_table_operable_def check_dml_prohibited_def range_for_op_def range_for_dml_def
        preliminary_checks_def propose_async_def rbind_def lift_cas_def)
      (simp add: example_defs)
qed

text \<open>What an accepted request has passed.\<close>

lemma proc_cas_v2_local_Inr:
  assumes "proc_cas_v2_local env node req = Inr resp"
  obtains implicit where "check_status node req = Inr ()"
    and "access_check_op env (rq_op req) (rq_as_user req) = Inr ()"
    and "check_op env (rq_op req) = Inr ()"
    and "range_for_op env (rq_op req) = Inr implicit"
    and "check_log env node (pr_index (rq_predicate req)) (pr_ranges (rq_predicate req) @ implicit) = Inr ()"
    and "preliminary_checks env (rq_op req) = Inr (rsp_row_count resp)"
    and "propose_async node (rq_op req) = Inr (rsp_index resp, rsp_term resp)"
  using assms by (auto simp: proc_cas_v2_local_def result_simps)

text \<open>
  C1: the leader accepts a request only if it is safe to. When \<open>proc_cas_v2\<close> answers with a
  response, the node is the leader of the cluster the request names, the requested index belongs to
  the current term, and no entry of the leader's log after that index touches any of the ranges of
  the predicate or any of the ranges implied by the operation itself.
\<close>

theorem proc_cas_accepts_only_unconflicted:
  assumes "proc_cas_v2_local env node req = Inr resp" "leader_log_ok node L"
    and "range_for_op env (rq_op req) = Inr implicit"
  shows "rq_cluster_name req = n_cluster_name node \<and>
         n_status_leader_id node = Some (n_raft_id node) \<and>
         pr_term (rq_predicate req) = n_status_term node \<and>
         unwrap_or (rl_term (n_log node) (pr_index (rq_predicate req))) 0 = n_status_term node \<and>
         (\<forall>i op. pr_index (rq_predicate req) < i \<longrightarrow> i \<le> rl_last_index (n_log node) \<longrightarrow> L i = Some op \<longrightarrow>
            (\<forall>rg \<in> set (pr_ranges (rq_predicate req)) \<union> set implicit. \<not> touches env op rg))"
proof -
  obtain implicit' where st: "check_status node req = Inr ()"
    and im: "range_for_op env (rq_op req) = Inr implicit'"
    and lg: "check_log env node (pr_index (rq_predicate req)) (pr_ranges (rq_predicate req) @ implicit') = Inr ()"
    using proc_cas_v2_local_Inr [OF assms(1)] by blast
  have first: "rl_first_index (n_log node) \<le> pr_index (rq_predicate req) + 1"
    using st by (simp add: check_status_Inr)
  have "implicit' = implicit" using im assms(3) by simp
  then have "\<not> touches env op rg"
    if "pr_index (rq_predicate req) < i" "i \<le> rl_last_index (n_log node)" "L i = Some op"
      "rg \<in> set (pr_ranges (rq_predicate req)) \<union> set implicit" for i op rg
    using check_log_no_touch [OF assms(2) first lg, of i op rg] that by simp
  with st show ?thesis by (simp add: check_status_Inr)
qed

theorem proc_cas_accepts_only_unconflicted_witness:
  "proc_cas_v2_local example_env example_node (example_request INSTANCES_TABLE_ID) =
     Inr \<lparr>rsp_index = 3, rsp_term = 1, rsp_row_count = 0\<rparr> \<and>
   \<not> touches example_env example_op (range_new INSTANCES_TABLE_ID)"
proof -
  have "range_for_op example_env (rq_op (example_request INSTANCES_TABLE_ID)) =
      Inr [\<lparr>rg_table = INSTANCES_TABLE_ID, rg_bounds = Some (RbEq [KString ''i1''])\<rparr>]"
    by (simp add: range_for_op_def range_for_dml_def example_request_def rbind_def)
  from proc_cas_accepts_only_unconflicted [OF example_accepted example_log_ok this]
  have "\<forall>i op. 1 < i \<longrightarrow> i \<le> 2 \<longrightarrow> example_log i = Some op \<longrightarrow>
      \<not> touches example_env op (range_new INSTANCES_TABLE_ID)"
    by (simp add: example_request_def example_node_def)
  from this [rule_format, of 2 example_op] show ?thesis
    using example_accepted by (simp add: example_log_def)
qed




text \<open>
  C21: a reported conflict is a real one. When the check of the log fails with
  \<open>ConflictFound\<close>, the leader's log has an entry at that index whose operation touches one of
  the ranges, and the index is after the requested one, or, while the requested entry is not
  persisted on the leader yet, after the last persisted one.
\<close>

theorem check_log_conflict_real:
  assumes ok: "leader_log_ok node L" and first: "rl_first_index (n_log node) \<le> req_index + 1"
    and run: "check_log env node req_index ranges = Inl (traft_error.Cas (ConflictFound j))"
    and le: "req_index \<le> rl_last_index (n_log node)"
    and el: "\<And>low e. rl_entries (n_log node) low \<noteq> Inl (traft_error.Cas e)"
  shows "min req_index (last_index (n_raft_storage node)) < j \<and> j \<le> rl_last_index (n_log node) \<and>
         (\<exists>op rg. L j = Some op \<and> rg \<in> set ranges \<and> touches env op rg)"
proof -
  let ?st = "n_raft_storage node" and ?last = "rl_last_index (n_log node)"
  let ?lp = "min (last_index ?st) ?last"
  let ?p = "space_entries ?st (req_index + 1) (?lp + 1) None"
  from run el consider
      (persisted) "req_index < ?lp" "rforeach (check_persisted env ranges) ?p = Inl (traft_error.Cas (ConflictFound j))"
    | (unstable) es where "rl_entries (n_log node) (?lp + 1) = Inr es"
        "rforeach (check_unstable env (n_decode node) ranges) es = Inl (traft_error.Cas (ConflictFound j))"
    by (auto simp: check_log_def Let_def result_simps split: if_splits)
  then show ?thesis
  proof cases
    case persisted
    obtain e where e: "e \<in> set ?p" "check_persisted env ranges e = Inl (traft_error.Cas (ConflictFound j))"
      using rforeach_InlD [OF persisted(2)] by blast
    then obtain op where op: "e_context e = Some op"
      and c: "check_predicate (e_index e) op ranges env = Inl (ConflictFound j)"
      by (auto simp: check_persisted_def into_op_def split: option.splits)
    have b: "req_index + 1 \<le> e_index e \<and> e_index e < ?lp + 1"
      using persisted.window_sound [of ?st "req_index + 1" "?lp + 1" e] ok first persisted(1) e(1)
      by (auto simp: leader_log_ok_def)
    have "e_context e = L (e_index e)"
      using ok e(1) b space_entries_subset by (fastforce simp: leader_log_ok_def)
    with check_predicate_conflict [OF c] op b show ?thesis by auto
  next
    case (unstable es)
    obtain e where e: "e \<in> set es"
      "check_unstable env (n_decode node) ranges e = Inl (traft_error.Cas (ConflictFound j))"
      using rforeach_InlD [OF unstable(2)] by blast
    then obtain op where op: "context_from_raft_entry (n_decode node) e = Inr (Some op)"
      and c: "check_predicate (re_index e) op ranges env = Inl (ConflictFound j)"
      by (auto simp: check_unstable_def split: sum.splits option.splits)
    have "re_index e \<in> set (map re_index es)" using e(1) by simp
    moreover have "map re_index es = [?lp + 1 ..< ?last + 1]" "L (re_index e) = Some op"
      using ok unstable(1) e(1) op by (auto simp: leader_log_ok_def)
    moreover have "req_index \<le> ?last" by (rule le)
    ultimately show ?thesis
      using check_predicate_conflict [OF c] by (auto simp: min_def split: if_splits)
  qed
qed

theorem check_log_conflict_real_witness:
  "check_log example_env example_node 1 [range_new PROPERTIES_TABLE_ID] =
     Inl (traft_error.Cas (ConflictFound 2)) \<and>
   (\<exists>op. example_log 2 = Some op \<and> touches example_env op (range_new PROPERTIES_TABLE_ID))"
proof -
  have run: "check_log example_env example_node 1 [range_new PROPERTIES_TABLE_ID] =
      Inl (traft_error.Cas (ConflictFound 2))"
    unfolding example_check_log
    by (simp add: check_predicate_def check_range_def example_op_def range_new_def rbind_def
        with_key_def_def example_env_def range_contains_def conflict_if_def lift_cas_def)
  have "rl_first_index (n_log example_node) \<le> 1 + 1" "1 \<le> rl_last_index (n_log example_node)"
    and "\<And>low e. rl_entries (n_log example_node) low \<noteq> Inl (traft_error.Cas e)"
    by (simp_all add: example_node_def)
  from check_log_conflict_real [OF example_log_ok this(1) run this(2,3)] run
  show ?thesis by auto
qed

text \<open>
  C32: the range builders build what their names say. In a totally ordered key space, a range made of
  a lower and an upper bound contains exactly the tuples between them, with each bound included or
  not as requested, and an \<open>eq\<close> range exactly the tuples with that key.
\<close>

theorem range_builders_correct:
  fixes a b x :: "'k::linorder"
  shows "(\<exists>r. rbind (range_gt a (range_new t)) (range_lt b) = Inr r \<and>
              range_contains (cmp x) r = (a < x \<and> x < b)) \<and>
         (\<exists>r. rbind (range_ge a (range_new t)) (range_le b) = Inr r \<and>
              range_contains (cmp x) r = (a \<le> x \<and> x \<le> b)) \<and>
         range_contains (cmp x) (range_eq a (range_new t)) = (x = a)"
  by (auto simp: range_gt_def range_ge_def range_lt_def range_le_def range_eq_def range_new_def
      default_bounds_def rbind_def range_contains_def cmp_def not_less)



text \<open>
  C23: the client never mistakes a rolled back entry for a committed one. When
  \<open>compare_and_swap\<close> waits and reports success for an index and a term, the entry at that
  index has that term in the raft storage after the wait; and what it reports as retriable is an
  error which the classification of error codes calls retriable.
\<close>

theorem compare_and_swap_outcome:
  assumes "compare_and_swap env node remote wait_index req True force_local = Inr r"
  shows "case r of
           CasOk (index, term, n) \<Rightarrow> \<exists>s. wait_index index = Inr s \<and> storage_term s index = Inr term
         | RetriableError e \<Rightarrow> is_retriable e"
proof -
  have await: "case r of
      CasOk (index, term, n) \<Rightarrow> \<exists>s. wait_index index = Inr s \<and> storage_term s index = Inr term
    | RetriableError e \<Rightarrow> is_retriable e" if await: "await_entry wait_index True resp = Inr r" for resp
  proof -
    from await obtain s where s: "wait_index (rsp_index resp) = Inr s"
      by (auto simp: await_entry_def Let_def result_simps)
    with await show ?thesis
      by (cases "storage_term s (rsp_index resp)")
        (auto simp: await_entry_def Let_def result_simps split: if_splits)
  qed
  show ?thesis
    using assms await
    by (auto simp: compare_and_swap_def split: if_splits option.splits sum.splits)
qed

theorem compare_and_swap_outcome_witness:
  "compare_and_swap_and_wait example_env example_node (\<lambda>_ _. Inl LeaderUnknown)
     (\<lambda>i. Inr (example_storage\<lparr>rs_compacted_index := Some 3, rs_compacted_term := Some 1\<rparr>))
     (example_request INSTANCES_TABLE_ID) = Inr (CasOk (3, 1, 0)) \<and>
   (\<exists>s. Inr (example_storage\<lparr>rs_compacted_index := Some 3, rs_compacted_term := Some 1\<rparr>) = (Inr s :: traft_error + _) \<and>
      storage_term s 3 = Inr 1)"
proof -
  let ?wait = "\<lambda>i :: raft_index. Inr (example_storage\<lparr>rs_compacted_index := Some 3, rs_compacted_term := Some 1\<rparr>)
      :: pico_op raft_space traft_result"
  have "compare_and_swap example_env example_node (\<lambda>_ _. Inl LeaderUnknown) ?wait
      (example_request INSTANCES_TABLE_ID) True False = Inr (CasOk (3, 1, 0))"
    using example_accepted
    by (simp add: compare_and_swap_def await_entry_def example_node_def example_request_def rbind_def
        Let_def storage_term_def cmp_def log_compacted_index_def log_compacted_term_def)
  moreover from compare_and_swap_outcome [OF this]
  have "\<exists>s. ?wait 3 = Inr s \<and> storage_term s 3 = Inr 1" by simp
  ultimately show ?thesis by (simp add: compare_and_swap_and_wait_def)
qed



end
