(* ===== verification/Catalog_Ops.thy ===== *)
theory Catalog_Ops
  imports Topology_Types
begin

text \<open>
  What the row operations on the topology tables do to the catalog: \<open>replace\<close> and
  \<open>update\<close> of a Tarantool space with a tree index, on the rows of
  \<open>Topology_Types\<close>. The code proposes such operations to the raft log; this theory gives the
  states they lead to, so that the components can state what their proposals achieve.
\<close>

section \<open>Tables ordered by key\<close>

fun table_replace :: "('r \<Rightarrow> 'k::linorder) \<Rightarrow> 'r \<Rightarrow> 'r list \<Rightarrow> 'r list" where
  "table_replace key row [] = [row]"
| "table_replace key row (r # rs) =
     (if key row < key r then row # r # rs
      else if key row = key r then row # rs
      else r # table_replace key row rs)"

definition table_update :: "('r \<Rightarrow> 'k) \<Rightarrow> 'k \<Rightarrow> ('r \<Rightarrow> 'r) \<Rightarrow> 'r list \<Rightarrow> 'r list" where
  "table_update key k f rs = map (\<lambda>r. if key r = k then f r else r) rs"

definition keyed :: "('r \<Rightarrow> 'k::linorder) \<Rightarrow> 'r list \<Rightarrow> bool" where
  "keyed key rs \<longleftrightarrow> sorted_wrt (<) (map key rs)"

lemma keyed_Nil [simp]: "keyed key []"
  by (simp add: keyed_def)

lemma keyed_Cons [simp]: "keyed key (r # rs) \<longleftrightarrow> (\<forall>x \<in> set rs. key r < key x) \<and> keyed key rs"
  by (auto simp: keyed_def)

lemma keyed_distinct: "keyed key rs \<Longrightarrow> distinct (map key rs)"
  by (simp add: keyed_def strict_sorted_iff)

lemma set_table_replace:
  "keyed key rs \<Longrightarrow> set (table_replace key row rs) = insert row {r \<in> set rs. key r \<noteq> key row}"
  by (induction rs) (auto dest: order.strict_trans)

lemma keyed_table_replace: "keyed key rs \<Longrightarrow> keyed key (table_replace key row rs)"
proof (induction rs)
  case (Cons r rs)
  then show ?case
    by (auto simp: set_table_replace not_less dest: order.strict_trans)
qed simp

lemma keyed_table_update:
  assumes "keyed key rs" "\<And>r. key (f r) = key r"
  shows "keyed key (table_update key k f rs)"
proof -
  have "map key (table_update key k f rs) = map key rs"
    using assms(2) by (simp add: table_update_def)
  with assms(1) show ?thesis by (simp add: keyed_def)
qed

lemma set_table_update:
  "set (table_update key k f rs) = (\<lambda>r. if key r = k then f r else r) ` set rs"
  by (simp add: table_update_def)

section \<open>Applying operations\<close>

definition instance_key :: "pico_instance \<Rightarrow> pico_key" where "instance_key i = row_key (RowInstance i)"
definition replicaset_key :: "replicaset \<Rightarrow> pico_key" where "replicaset_key r = row_key (RowReplicaset r)"
definition tier_key :: "tier \<Rightarrow> pico_key" where "tier_key t = row_key (RowTier t)"
definition peer_key :: "peer_address \<Rightarrow> pico_key" where "peer_key p = row_key (RowPeer p)"

lemmas row_key_defs = instance_key_def replicaset_key_def tier_key_def peer_key_def

fun put_row :: "row \<Rightarrow> catalog \<Rightarrow> catalog" where
  "put_row (RowInstance i) c = c\<lparr>c_instances := table_replace instance_key i (c_instances c)\<rparr>"
| "put_row (RowReplicaset r) c = c\<lparr>c_replicasets := table_replace replicaset_key r (c_replicasets c)\<rparr>"
| "put_row (RowTier t) c = c\<lparr>c_tiers := table_replace tier_key t (c_tiers c)\<rparr>"
| "put_row (RowPeer p) c = c\<lparr>c_peers := table_replace peer_key p (c_peers c)\<rparr>"
| "put_row (RowProperty k v) c =
     (if k = ''cluster_version'' then c\<lparr>c_cluster_version := v\<rparr>
      else if k = ''system_catalog_version'' then c\<lparr>c_system_catalog_version := v\<rparr> else c)"

definition update_row :: "space_id \<Rightarrow> pico_key \<Rightarrow> update_op list \<Rightarrow> catalog \<Rightarrow> catalog" where
  "update_row space k ops c =
     (if space = INSTANCES_TABLE_ID
      then c\<lparr>c_instances := table_update instance_key k (\<lambda>i. foldl assign_instance i ops) (c_instances c)\<rparr>
      else if space = REPLICASETS_TABLE_ID
      then c\<lparr>c_replicasets := table_update replicaset_key k (\<lambda>r. foldl assign_replicaset r ops) (c_replicasets c)\<rparr>
      else if space = TIERS_TABLE_ID
      then c\<lparr>c_tiers := table_update tier_key k (\<lambda>t. foldl assign_tier t ops) (c_tiers c)\<rparr>
      else c)"

fun apply_dml :: "catalog \<Rightarrow> pico_dml \<Rightarrow> catalog" where
  "apply_dml c (DmlReplace _ row _) = put_row row c"
| "apply_dml c (DmlInsert _ row _ _) = put_row row c"
| "apply_dml c (DmlUpdate space k ops _) = update_row space k ops c"
| "apply_dml c (DmlDelete _ _ _ _) = c"

definition apply_dmls :: "catalog \<Rightarrow> pico_dml list \<Rightarrow> catalog" where
  "apply_dmls c ds = foldl apply_dml c ds"

lemma apply_dmls_simps [simp]:
  "apply_dmls c [] = c" "apply_dmls c (d # ds) = apply_dmls (apply_dml c d) ds"
  "apply_dmls c (ds @ es) = apply_dmls (apply_dmls c ds) es"
  by (simp_all add: apply_dmls_def)

section \<open>Well-formed catalogs\<close>

text \<open>
  The unique indexes of the tables: instances by name, uuid and raft id, replicasets by name and
  uuid, tiers by name, addresses by raft id and connection type.
\<close>

definition catalog_ok :: "catalog \<Rightarrow> bool" where
  "catalog_ok c \<longleftrightarrow>
     keyed instance_key (c_instances c) \<and> keyed replicaset_key (c_replicasets c) \<and>
     keyed tier_key (c_tiers c) \<and> keyed peer_key (c_peers c) \<and>
     inj_on i_raft_id (set (c_instances c)) \<and> inj_on i_uuid (set (c_instances c)) \<and>
     inj_on r_uuid (set (c_replicasets c))"

lemma instance_key_eq [simp]: "instance_key i = instance_key j \<longleftrightarrow> i_name i = i_name j"
  and replicaset_key_eq [simp]: "replicaset_key r = replicaset_key q \<longleftrightarrow> r_name r = r_name q"
  and tier_key_eq [simp]: "tier_key t = tier_key u \<longleftrightarrow> t_name t = t_name u"
  and peer_key_eq [simp]: "peer_key p = peer_key p' \<longleftrightarrow> p_raft_id p = p_raft_id p' \<and>
    as_storage_string (p_connection_type p) = as_storage_string (p_connection_type p')"
  by (auto simp: row_key_defs)

lemma catalog_ok_names:
  assumes "catalog_ok c"
  shows "distinct (map i_name (c_instances c))" "distinct (map r_name (c_replicasets c))"
    "distinct (map t_name (c_tiers c))"
proof -
  have "inj_on instance_key (set (c_instances c))" "distinct (c_instances c)"
    "inj_on replicaset_key (set (c_replicasets c))" "distinct (c_replicasets c)"
    "inj_on tier_key (set (c_tiers c))" "distinct (c_tiers c)"
    using assms keyed_distinct by (auto simp: catalog_ok_def distinct_map)
  then show "distinct (map i_name (c_instances c))" "distinct (map r_name (c_replicasets c))"
    "distinct (map t_name (c_tiers c))"
    by (auto simp: distinct_map inj_on_def)
qed

lemma assign_instance_key [simp]:
  "i_name (assign_instance i u) = i_name i" "i_uuid (assign_instance i u) = i_uuid i"
  "i_raft_id (assign_instance i u) = i_raft_id i"
  "i_replicaset_name (assign_instance i u) = i_replicaset_name i" "i_tier (assign_instance i u) = i_tier i"
  by (cases u; auto split: column_value.splits)+

lemma assign_instances_key [simp]:
  "i_name (foldl assign_instance i us) = i_name i" "i_uuid (foldl assign_instance i us) = i_uuid i"
  "i_raft_id (foldl assign_instance i us) = i_raft_id i"
  "i_replicaset_name (foldl assign_instance i us) = i_replicaset_name i"
  "i_tier (foldl assign_instance i us) = i_tier i"
  by (induction us arbitrary: i) simp_all

lemma assign_replicaset_key [simp]:
  "r_name (assign_replicaset r u) = r_name r" "r_uuid (assign_replicaset r u) = r_uuid r"
  "r_tier (assign_replicaset r u) = r_tier r"
  by (cases u; auto split: column_value.splits)+

lemma assign_replicasets_key [simp]:
  "r_name (foldl assign_replicaset r us) = r_name r" "r_uuid (foldl assign_replicaset r us) = r_uuid r"
  "r_tier (foldl assign_replicaset r us) = r_tier r"
  by (induction us arbitrary: r) simp_all

lemma assign_tier_key [simp]: "t_name (assign_tier t u) = t_name t"
  by (cases u) (auto split: column_value.splits)

lemma assign_tiers_key [simp]: "t_name (foldl assign_tier t us) = t_name t"
  by (induction us arbitrary: t) simp_all

lemma inj_on_table_update:
  assumes "inj_on g (set rs)" "\<And>r. g (f r) = g r"
  shows "inj_on g (set (table_update key k f rs))"
proof (rule inj_onI)
  fix x y
  assume "x \<in> set (table_update key k f rs)" "y \<in> set (table_update key k f rs)" "g x = g y"
  then obtain a b where "a \<in> set rs" "b \<in> set rs" "x = (if key a = k then f a else a)"
    "y = (if key b = k then f b else b)" "g a = g b"
    using assms(2) by (auto simp: set_table_update split: if_splits)
  with assms(1) show "x = y" by (auto dest: inj_onD)
qed

lemma catalog_ok_update_row:
  assumes "catalog_ok c"
  shows "catalog_ok (update_row space k ops c)"
  using assms
  by (auto simp: catalog_ok_def update_row_def keyed_table_update inj_on_table_update)

section \<open>Lookups after an update\<close>

lemma find_instance_ok:
  "catalog_ok c \<Longrightarrow> find_instance c n = Some i \<longleftrightarrow> i \<in> set (c_instances c) \<and> i_name i = n"
  using instance_names.get_Some_iff catalog_ok_names(1) by blast

lemma find_table_update:
  assumes "\<And>r. g (f r) = g r" "\<And>r. key r = k \<longleftrightarrow> g r = n"
  shows "find (\<lambda>r. g r = m) (table_update key k f rs) =
    map_option (\<lambda>r. if g r = n then f r else r) (find (\<lambda>r. g r = m) rs)"
  using assms by (induction rs) (auto simp: table_update_def)

lemma find_instance_update:
  "find_instance (update_row INSTANCES_TABLE_ID [KString n] ops c) m =
     map_option (\<lambda>i. if i_name i = n then foldl assign_instance i ops else i) (find_instance c m)"
  unfolding find_instance_def update_row_def
  by (simp add: find_table_update [where n = n] row_key_defs)

lemma replicasets_get_update:
  "replicasets_get (update_row REPLICASETS_TABLE_ID [KString n] ops c) m =
     map_option (\<lambda>r. if r_name r = n then foldl assign_replicaset r ops else r) (replicasets_get c m)"
  unfolding replicasets_get_def update_row_def
  by (simp add: find_table_update [where n = n] row_key_defs INSTANCES_TABLE_ID_def REPLICASETS_TABLE_ID_def)

lemma tier_by_name_update:
  "tier_by_name (update_row TIERS_TABLE_ID [KString n] ops c) m =
     map_option (\<lambda>t. if t_name t = n then foldl assign_tier t ops else t) (tier_by_name c m)"
  unfolding tier_by_name_def update_row_def
  by (simp add: find_table_update [where n = n] row_key_defs INSTANCES_TABLE_ID_def REPLICASETS_TABLE_ID_def
      TIERS_TABLE_ID_def)

text \<open>An update of one table leaves the lookups in the others alone.\<close>

lemma update_row_other:
  "find_instance (update_row REPLICASETS_TABLE_ID k ops c) m = find_instance c m"
  "find_instance (update_row TIERS_TABLE_ID k ops c) m = find_instance c m"
  "replicasets_get (update_row INSTANCES_TABLE_ID k ops c) m = replicasets_get c m"
  "replicasets_get (update_row TIERS_TABLE_ID k ops c) m = replicasets_get c m"
  "tier_by_name (update_row INSTANCES_TABLE_ID k ops c) m = tier_by_name c m"
  "tier_by_name (update_row REPLICASETS_TABLE_ID k ops c) m = tier_by_name c m"
  by (simp_all add: update_row_def find_instance_def replicasets_get_def tier_by_name_def
      INSTANCES_TABLE_ID_def REPLICASETS_TABLE_ID_def TIERS_TABLE_ID_def)

lemmas row_lookups = find_instance_update replicasets_get_update tier_by_name_update update_row_other

section \<open>A sample cluster\<close>

text \<open>
  One tier of replication factor two with a full replicaset and one with a single instance, used to
  evaluate the components' operations.
\<close>

definition sample_instance :: "string \<Rightarrow> raft_id \<Rightarrow> string \<Rightarrow> istate \<Rightarrow> istate \<Rightarrow> pico_instance" where
  "sample_instance name rid r current target =
     \<lparr>i_name = name, i_uuid = name @ ''-uuid'', i_raft_id = rid,
      i_replicaset_name = r, i_replicaset_uuid = r @ ''-uuid'',
      i_current_state = current, i_target_state = target,
      i_failure_domain = fmempty, i_tier = ''default'', i_picodata_version = ''25.6.0'',
      i_sync_incarnation = Some 0, i_target_state_reason = None, i_target_state_change_time = None\<rparr>"

definition sample_tier :: tier where
  "sample_tier =
     \<lparr>t_name = ''default'', t_replication_factor = 2, t_can_vote = True,
      t_current_vshard_config_version = 1, t_target_vshard_config_version = 1,
      t_vshard_bootstrapped = True, t_bucket_count = 3000, t_is_default = Some True,
      t_current_bucket_state_version = 0, t_target_bucket_state_version = 0\<rparr>"

definition sample_catalog :: catalog where
  "sample_catalog =
     (let online = State Online 1;
          i1 = sample_instance ''default_1_1'' 1 ''default_1'' online online;
          i2 = sample_instance ''default_1_2'' 2 ''default_1'' online online;
          i3 = sample_instance ''default_2_1'' 3 ''default_2'' online online
      in \<lparr>c_instances = [i1, i2, i3],
          c_replicasets = [with_one_instance i1, with_one_instance i3],
          c_tiers = [sample_tier],
          c_peers = map (\<lambda>n. \<lparr>p_raft_id = n, p_address = ''host'' @ show_nat n,
            p_connection_type = System Iproto\<rparr>) [1, 2, 3],
          c_cluster_version = ''25.6.0'', c_system_catalog_version = ''25.6.0''\<rparr>)"

lemmas sample_defs = sample_catalog_def sample_instance_def sample_tier_def

lemma sample_catalog_ok: "catalog_ok sample_catalog"
  by code_simp

end
