(* ===== verification/Conf_Change.thy ===== *)
theory Conf_Change
  imports Catalog_Ops
begin

text \<open>
  src/src/governor/conf_change.rs: which raft configuration change the governor proposes for the
  current instances, voters and learners. A \<open>BTreeSet\<close> of raft ids is a finite set that is
  iterated in increasing order; the map \<open>all\<close> from raft ids keeps the last instance with an id. The
  changes accumulated so far are part of the state of the loops.
\<close>

section \<open>Fallible loops\<close>

fun rfilter :: "('a \<Rightarrow> 'e + bool) \<Rightarrow> 'a list \<Rightarrow> 'e + 'a list" where
  "rfilter p [] = Inr []"
| "rfilter p (x # xs) = rbind (p x) (\<lambda>b. rbind (rfilter p xs) (\<lambda>ys. Inr (if b then x # ys else ys)))"

fun rfoldl :: "('s \<Rightarrow> 'a \<Rightarrow> 'e + 's) \<Rightarrow> 's \<Rightarrow> 'a list \<Rightarrow> 'e + 's" where
  "rfoldl f s [] = Inr s"
| "rfoldl f s (x # xs) = rbind (f s x) (\<lambda>s'. rfoldl f s' xs)"

section \<open>The configuration\<close>

datatype conf_change_type = AddNode | AddLearnerNode | RemoveNode

type_synonym conf_change_single = "conf_change_type \<times> raft_id"

record raft_conf =
  rc_voters :: "raft_id set"
  rc_learners :: "raft_id set"

record conf_state = raft_conf +
  rc_promotable :: "raft_id set"
  rc_changes :: "conf_change_single list"

definition change_single :: "conf_change_type \<Rightarrow> raft_id \<Rightarrow> conf_state \<Rightarrow> conf_state" where
  "change_single ct node s =
     (let s' = (case ct of
          AddNode \<Rightarrow> s\<lparr>rc_voters := insert node (rc_voters s), rc_learners := rc_learners s - {node}\<rparr>
        | AddLearnerNode \<Rightarrow> s\<lparr>rc_voters := rc_voters s - {node}, rc_learners := insert node (rc_learners s)\<rparr>
        | RemoveNode \<Rightarrow> s\<lparr>rc_voters := rc_voters s - {node}, rc_learners := rc_learners s - {node}\<rparr>)
      in s'\<lparr>rc_changes := rc_changes s' @ [(ct, node)]\<rparr>)"

definition all_get :: "pico_instance list \<Rightarrow> raft_id \<Rightarrow> pico_instance option" where
  "all_get instances rid = find (\<lambda>i. i_raft_id i = rid) (rev instances)"

definition sum_distance :: "pico_instance list \<Rightarrow> raft_id set \<Rightarrow> raft_id \<Rightarrow> nat" where
  "sum_distance instances bs a =
     (case all_get instances a of
        None \<Rightarrow> 0
      | Some a \<Rightarrow>
          sum_list (map (\<lambda>b. distance (i_failure_domain b) (i_failure_domain a))
            (List.map_filter (all_get instances) (sorted_list_of_set bs))))"

definition find_farthest ::
  "pico_instance list \<Rightarrow> raft_id set \<Rightarrow> raft_id set \<Rightarrow> (raft_id \<times> nat) option" where
  "find_farthest instances voters candidates =
     (case map (\<lambda>rid. (rid, sum_distance instances voters rid)) (sorted_list_of_set candidates) of
        [] \<Rightarrow> None
      | x # xs \<Rightarrow> Some (foldl (\<lambda>acc item. if snd item > snd acc then item else acc) x xs))"

lemma reduce_max:
  "foldl (\<lambda>acc item. if snd item > snd acc then item else acc) x xs \<in> set (x # xs) \<and>
   (\<forall>y \<in> set (x # xs). snd y \<le> (snd (foldl (\<lambda>acc item. if snd item > snd acc then item else acc) x xs) :: nat))"
proof (induction xs arbitrary: x)
  case (Cons a xs)
  from Cons [of "if snd a > snd x then a else x"] show ?case
    by (auto split: if_splits intro: order.trans less_imp_le)
qed simp

lemma find_farthest_Some:
  assumes "find_farthest instances voters cs = Some (rid, d)"
  shows "finite cs" "rid \<in> cs" "d = sum_distance instances voters rid"
    "\<And>y. y \<in> cs \<Longrightarrow> sum_distance instances voters y \<le> d"
proof -
  let ?f = "\<lambda>rid. (rid, sum_distance instances voters rid)"
  show fin: "finite cs"
    using assms by (rule contrapos_pp) (simp add: find_farthest_def)
  from assms obtain x xs where xs: "map ?f (sorted_list_of_set cs) = x # xs"
    "(rid, d) = foldl (\<lambda>acc item. if snd item > snd acc then item else acc) x xs"
    by (auto simp: find_farthest_def split: list.splits)
  have set: "set (x # xs) = ?f ` cs"
    unfolding xs(1) [symmetric] using fin by simp
  have "(rid, d) \<in> ?f ` cs" "\<forall>y \<in> ?f ` cs. snd y \<le> snd (rid, d)"
    using reduce_max [of x xs] unfolding set xs(2) [symmetric] by blast+
  then show "rid \<in> cs" "d = sum_distance instances voters rid"
    "\<And>y. y \<in> cs \<Longrightarrow> sum_distance instances voters y \<le> d" by auto
qed

lemma find_farthest_None: "finite cs \<Longrightarrow> find_farthest instances voters cs = None \<longleftrightarrow> cs = {}"
  by (auto simp: find_farthest_def split: list.splits)

section \<open>The change\<close>

definition tier_can_vote :: "(string \<rightharpoonup> tier) \<Rightarrow> pico_instance \<Rightarrow> bool traft_result" where
  "tier_can_vote tiers i =
     (case tiers (i_tier i) of
        None \<Rightarrow> Inl (Panic ''tier for instance should exists'')
      | Some t \<Rightarrow> Inr (t_can_vote t))"

definition voters_needed :: "nat \<Rightarrow> nat" where
  "voters_needed n = (if n \<ge> 5 then 5 else if 3 \<le> n \<and> n \<le> 4 then 3 else n)"

definition next_farthest :: "pico_instance list \<Rightarrow> conf_state \<Rightarrow> (raft_id \<times> nat) option" where
  "next_farthest instances s = find_farthest instances (rc_voters s) (rc_promotable s)"

definition remove_promotable :: "raft_id \<Rightarrow> conf_state \<Rightarrow> conf_state" where
  "remove_promotable rid s = s\<lparr>rc_promotable := rc_promotable s - {rid}\<rparr>"

definition replace_voter :: "raft_id \<Rightarrow> raft_id \<Rightarrow> conf_state \<Rightarrow> conf_state" where
  "replace_voter old new s =
     remove_promotable new (change_single AddNode new (change_single AddLearnerNode old s))"

text \<open>Remove or replace a voter.\<close>

definition voter_step ::
  "pico_instance list \<Rightarrow> (string \<rightharpoonup> tier) \<Rightarrow> nat \<Rightarrow> conf_state \<Rightarrow> raft_id \<Rightarrow> conf_state traft_result" where
  "voter_step instances tiers needed s voter_id =
     (case all_get instances voter_id of
        None \<Rightarrow> Inr (change_single RemoveNode voter_id s)
      | Some i \<Rightarrow>
     rbind (tier_can_vote tiers i) (\<lambda>can_vote.
       if \<not> can_vote then Inr (change_single RemoveNode voter_id s)
       else if has_states i (Is Expelled) AnyState then Inr (change_single RemoveNode (i_raft_id i) s)
       else if has_states i AnyState (Is Offline) \<or> has_states i AnyState (Is Expelled) then
         (case next_farthest instances s of
            Some (next_voter_id, _) \<Rightarrow> Inr (replace_voter (i_raft_id i) next_voter_id s)
          | None \<Rightarrow>
              if has_states i AnyState (Is Expelled)
              then Inr (change_single AddLearnerNode (i_raft_id i) s)
              else if card (rc_voters s) > needed \<and> has_states i AnyState (Is Offline)
              then Inr (change_single AddLearnerNode (i_raft_id i) s)
              else Inr s)
       else Inr s))"

definition demote_excess :: "nat \<Rightarrow> conf_state \<Rightarrow> conf_state" where
  "demote_excess needed s =
     foldl (\<lambda>s voter_id. change_single AddLearnerNode voter_id s) s
       (drop needed (sorted_list_of_set (rc_voters s)))"

definition learner_step :: "pico_instance list \<Rightarrow> conf_state \<Rightarrow> raft_id \<Rightarrow> conf_state" where
  "learner_step instances s learner_id =
     (case all_get instances learner_id of
        None \<Rightarrow> change_single RemoveNode learner_id s
      | Some i \<Rightarrow>
          if has_states i (Is Expelled) AnyState then change_single RemoveNode (i_raft_id i) s else s)"

text \<open>Promote voters while there are too few; every round takes one promotable instance.\<close>

function promote_more :: "pico_instance list \<Rightarrow> nat \<Rightarrow> conf_state \<Rightarrow> conf_state" where
  "promote_more instances needed s =
     (if card (rc_voters s) < needed
      then (case next_farthest instances s of
              None \<Rightarrow> s
            | Some (new_voter_id, _) \<Rightarrow>
                promote_more instances needed (remove_promotable new_voter_id (change_single AddNode new_voter_id s)))
      else s)"
  by pat_completeness auto

termination promote_more
proof (relation "measure (\<lambda>(instances, needed, s). card (rc_promotable s))", goal_cases)
  case (2 instances needed s x new_voter_id d)
  then have "finite (rc_promotable s)" "new_voter_id \<in> rc_promotable s"
    using find_farthest_Some by (auto simp: next_farthest_def)
  moreover from this have "0 < card (rc_promotable s)" by (auto simp: card_gt_0_iff)
  ultimately show ?case by (simp add: remove_promotable_def change_single_def)
qed simp

declare promote_more.simps [simp del]

fun redistribute :: "pico_instance list \<Rightarrow> conf_state \<Rightarrow> raft_id list \<Rightarrow> conf_state" where
  "redistribute instances s [] = s"
| "redistribute instances s (voter_id # voter_ids) =
     (let other_voters = rc_voters s - {voter_id} in
      case find_farthest instances other_voters (rc_promotable s) of
        None \<Rightarrow> s
      | Some (new_voter_id, new_distance) \<Rightarrow>
          redistribute instances
            (if new_distance > sum_distance instances other_voters voter_id
             then replace_voter voter_id new_voter_id s else s) voter_ids)"

definition add_learner :: "conf_state \<Rightarrow> pico_instance \<Rightarrow> conf_state" where
  "add_learner s i =
     (if has_states i (Is Expelled) AnyState \<or> i_raft_id i \<in> rc_voters s \<or> i_raft_id i \<in> rc_learners s
      then s else change_single AddLearnerNode (i_raft_id i) s)"

definition conf_changes ::
  "pico_instance list \<Rightarrow> nat \<Rightarrow> conf_state \<Rightarrow> conf_state" where
  "conf_changes instances needed s =
     (let s = demote_excess needed s;
          s = foldl (learner_step instances) s (sorted_list_of_set (rc_learners s));
          s = promote_more instances needed s;
          s = redistribute instances s (sorted_list_of_set (rc_voters s))
      in foldl add_learner s instances)"

definition next_conf ::
  "pico_instance list \<Rightarrow> raft_id list \<Rightarrow> raft_id list \<Rightarrow> (string \<rightharpoonup> tier) \<Rightarrow> conf_state traft_result" where
  "next_conf instances voters learners tiers =
     rbind (rfilter (tier_can_vote tiers)
       (filter (\<lambda>i. has_states i AnyState (IsNot Expelled)) instances)) (\<lambda>eligible.
     let needed = voters_needed (length eligible) in
     rbind (rfilter (tier_can_vote tiers)
       (filter (\<lambda>i. has_states i (Is Online) (Is Online)) instances)) (\<lambda>online.
     let s = \<lparr>rc_voters = set voters, rc_learners = set learners,
              rc_promotable = set (map i_raft_id online) - set voters, rc_changes = []\<rparr> in
     rbind (rfoldl (voter_step instances tiers needed) s (sorted_list_of_set (rc_voters s))) (\<lambda>s.
       Inr (conf_changes instances needed s))))"

definition raft_conf_change ::
  "pico_instance list \<Rightarrow> raft_id list \<Rightarrow> raft_id list \<Rightarrow> (string \<rightharpoonup> tier) \<Rightarrow>
     conf_change_single list option traft_result" where
  "raft_conf_change instances voters learners tiers =
     rbind (next_conf instances voters learners tiers) (\<lambda>s.
       Inr (if rc_changes s = [] then None else Some (rc_changes s)))"

section \<open>What the state promises\<close>

text \<open>How a raft configuration changes under single changes: the reference of the proposal.\<close>

definition apply_change :: "raft_id set \<times> raft_id set \<Rightarrow> conf_change_single \<Rightarrow> raft_id set \<times> raft_id set" where
  "apply_change conf ch =
     (case (conf, ch) of
        ((vs, ls), (AddNode, n)) \<Rightarrow> (insert n vs, ls - {n})
      | ((vs, ls), (AddLearnerNode, n)) \<Rightarrow> (vs - {n}, insert n ls)
      | ((vs, ls), (RemoveNode, n)) \<Rightarrow> (vs - {n}, ls - {n}))"

definition live :: "pico_instance list \<Rightarrow> raft_id \<Rightarrow> bool" where
  "live instances v \<longleftrightarrow>
     (\<exists>i \<in> set instances. i_raft_id i = v \<and> variant (i_current_state i) \<noteq> Expelled)"

definition good_voter :: "pico_instance list \<Rightarrow> (string \<rightharpoonup> tier) \<Rightarrow> raft_id \<Rightarrow> bool" where
  "good_voter instances tiers v \<longleftrightarrow>
     (\<exists>i \<in> set instances. i_raft_id i = v \<and> tier_can_vote tiers i = Inr True \<and>
        variant (i_current_state i) \<noteq> Expelled \<and> variant (i_target_state i) \<noteq> Expelled)"

definition active_voters :: "pico_instance list \<Rightarrow> (string \<rightharpoonup> tier) \<Rightarrow> raft_id set" where
  "active_voters instances tiers =
     i_raft_id ` {i \<in> set instances. has_states i (Is Online) (Is Online) \<and> tier_can_vote tiers i = Inr True}"

definition conf_inv ::
  "pico_instance list \<Rightarrow> (string \<rightharpoonup> tier) \<Rightarrow> raft_id set \<times> raft_id set \<Rightarrow> conf_state \<Rightarrow> bool" where
  "conf_inv instances tiers conf s \<longleftrightarrow>
     finite (rc_voters s) \<and> finite (rc_learners s) \<and> finite (rc_promotable s) \<and>
     rc_voters s \<inter> rc_learners s = {} \<and> rc_voters s \<inter> rc_promotable s = {} \<and>
     rc_promotable s \<subseteq> active_voters instances tiers \<and>
     foldl apply_change conf (rc_changes s) = (rc_voters s, rc_learners s)"

lemma change_single_sel [simp]:
  "rc_voters (change_single ct n s) = (if ct = AddNode then insert n (rc_voters s) else rc_voters s - {n})"
  "rc_learners (change_single ct n s) = (if ct = AddLearnerNode then insert n (rc_learners s) else rc_learners s - {n})"
  "rc_promotable (change_single ct n s) = rc_promotable s"
  "rc_changes (change_single ct n s) = rc_changes s @ [(ct, n)]"
  by (cases ct; simp add: change_single_def Let_def)+

lemma remove_promotable_sel [simp]:
  "rc_voters (remove_promotable n s) = rc_voters s" "rc_learners (remove_promotable n s) = rc_learners s"
  "rc_promotable (remove_promotable n s) = rc_promotable s - {n}" "rc_changes (remove_promotable n s) = rc_changes s"
  by (simp_all add: remove_promotable_def)

lemma conf_inv_demote:
  "conf_inv instances tiers conf s \<Longrightarrow> ct \<noteq> AddNode \<Longrightarrow> conf_inv instances tiers conf (change_single ct n s)"
  by (cases ct) (auto simp: conf_inv_def apply_change_def)

lemma conf_inv_promote:
  "conf_inv instances tiers conf s \<Longrightarrow>
     conf_inv instances tiers conf (remove_promotable n (change_single AddNode n s))"
  by (auto simp: conf_inv_def apply_change_def)

lemma conf_inv_replace:
  "conf_inv instances tiers conf s \<Longrightarrow> conf_inv instances tiers conf (replace_voter old new s)"
  unfolding replace_voter_def by (intro conf_inv_promote conf_inv_demote) auto

lemma replace_voter_sel:
  "new \<noteq> old \<Longrightarrow> rc_voters (replace_voter old new s) = insert new (rc_voters s - {old})"
  "rc_promotable (replace_voter old new s) = rc_promotable s - {new}"
  "new \<noteq> old \<Longrightarrow> rc_learners (replace_voter old new s) = insert old (rc_learners s) - {new}"
  by (auto simp: replace_voter_def)

section \<open>The phases\<close>

text \<open>
  The instances have distinct raft ids (the unique index of \<open>_pico_instance\<close>), so the map from
  raft ids determines each instance.
\<close>

lemma all_get_Some: "all_get instances v = Some i \<Longrightarrow> i \<in> set instances \<and> i_raft_id i = v"
  by (auto simp: all_get_def find_Some_iff in_set_conv_nth rev_nth)
    (metis diff_less length_greater_0_conv less_nat_zero_code list.size(3) zero_less_Suc)

lemma all_get_None: "all_get instances v = None \<longleftrightarrow> v \<notin> i_raft_id ` set instances"
  by (auto simp: all_get_def find_None_iff)

lemma all_get_iff:
  "inj_on i_raft_id (set instances) \<Longrightarrow>
     all_get instances v = Some i \<longleftrightarrow> i \<in> set instances \<and> i_raft_id i = v"
  using all_get_Some all_get_None by (metis imageI inj_onD not_None_eq)

lemma active_good: "v \<in> active_voters instances tiers \<Longrightarrow> good_voter instances tiers v"
  by (auto simp: active_voters_def good_voter_def has_states_def)

lemma good_live: "good_voter instances tiers v \<Longrightarrow> live instances v"
  by (auto simp: good_voter_def live_def)

text \<open>What one step over a voter does: nothing, demote it, or replace it.\<close>

lemma voter_step_cases:
  assumes "inj_on i_raft_id (set instances)" "voter_step instances tiers needed s v = Inr s'"
  obtains
    "s' = s" "good_voter instances tiers v"
  | ct where "ct \<noteq> AddNode" "s' = change_single ct v s" "v \<notin> active_voters instances tiers"
  | new where "s' = replace_voter v new s" "new \<in> rc_promotable s" "v \<notin> active_voters instances tiers"
proof (cases "all_get instances v")
  case None
  then have "v \<notin> active_voters instances tiers" by (auto simp: all_get_None active_voters_def)
  moreover have "s' = change_single RemoveNode v s" using assms(2) None by (simp add: voter_step_def)
  ultimately show thesis by (intro that(2) [of RemoveNode]) simp_all
next
  case (Some i)
  then have i: "i \<in> set instances" "i_raft_id i = v"
    using all_get_Some by auto
  then have act: "v \<in> active_voters instances tiers \<longleftrightarrow>
      has_states i (Is Online) (Is Online) \<and> tier_can_vote tiers i = Inr True"
    using assms(1) by (auto simp: active_voters_def dest: inj_onD)
  from assms(2) Some obtain can_vote where cv: "tier_can_vote tiers i = Inr can_vote"
    by (auto simp: voter_step_def rbind_eq_Inr)
  note s' = assms(2) [unfolded voter_step_def Some option.case cv rbind_Inr i(2)]
  show thesis
  proof (cases "can_vote \<and> \<not> has_states i (Is Expelled) AnyState")
    case False
    then show thesis
      using s' cv act that(2) [of RemoveNode] by (auto simp: has_states_def split: if_splits)
  next
    case True
    then have good: "variant (i_target_state i) \<noteq> Expelled \<Longrightarrow> good_voter instances tiers v"
      using cv i by (auto simp: good_voter_def has_states_def)
    show thesis
    proof (cases "next_farthest instances s")
      case None
      then show thesis
        using s' True cv act good that(1) that(2) [of AddLearnerNode]
        by (auto simp: has_states_def split: if_splits)
    next
      case (Some p)
      then have "fst p \<in> rc_promotable s"
        using find_farthest_Some(2) by (cases p) (auto simp: next_farthest_def)
      then show thesis
        using s' True cv act good Some that(1) that(3) [of "fst p"]
        by (cases p) (auto simp: has_states_def split: if_splits)
    qed
  qed
qed

lemma voter_loop:
  assumes "inj_on i_raft_id (set instances)"
  shows "rfoldl (voter_step instances tiers needed) s vs = Inr s' \<Longrightarrow> conf_inv instances tiers conf s \<Longrightarrow>
    \<forall>v \<in> rc_voters s. good_voter instances tiers v \<or> v \<in> set vs \<Longrightarrow>
    active_voters instances tiers \<subseteq> rc_voters s \<union> rc_promotable s \<Longrightarrow>
    conf_inv instances tiers conf s' \<and> (\<forall>v \<in> rc_voters s'. good_voter instances tiers v) \<and>
    active_voters instances tiers \<subseteq> rc_voters s' \<union> rc_promotable s'"
proof (induction vs arbitrary: s)
  case (Cons v vs)
  from Cons.prems(1) obtain t where t: "voter_step instances tiers needed s v = Inr t"
    "rfoldl (voter_step instances tiers needed) t vs = Inr s'"
    by (auto simp: rbind_eq_Inr)
  have pr: "rc_promotable s \<subseteq> active_voters instances tiers"
    using Cons.prems(2) by (simp add: conf_inv_def)
  from assms t(1) have "conf_inv instances tiers conf t \<and>
      (\<forall>v \<in> rc_voters t. good_voter instances tiers v \<or> v \<in> set vs) \<and>
      active_voters instances tiers \<subseteq> rc_voters t \<union> rc_promotable t"
  proof (cases rule: voter_step_cases)
    case 1
    then show ?thesis using Cons.prems by auto
  next
    case (2 ct)
    then show ?thesis using Cons.prems by (auto simp: conf_inv_demote)
  next
    case (3 new)
    then have "new \<noteq> v" "good_voter instances tiers new" using pr active_good by auto
    then show ?thesis
      using 3 Cons.prems pr by (auto simp: conf_inv_replace replace_voter_sel)
  qed
  then show ?case using Cons.IH [OF t(2)] by blast
qed simp

lemma demote_voters:
  "rc_voters (foldl (\<lambda>s v. change_single AddLearnerNode v s) s vs) = rc_voters s - set vs"
  "rc_learners (foldl (\<lambda>s v. change_single AddLearnerNode v s) s vs) = rc_learners s \<union> set vs"
  "rc_promotable (foldl (\<lambda>s v. change_single AddLearnerNode v s) s vs) = rc_promotable s"
  by (induction vs arbitrary: s) auto

lemma demote_inv:
  "conf_inv instances tiers conf s \<Longrightarrow>
     conf_inv instances tiers conf (foldl (\<lambda>s v. change_single AddLearnerNode v s) s vs)"
  by (induction vs arbitrary: s) (auto intro: conf_inv_demote)

lemma demote_excess_inv: "conf_inv instances tiers conf s \<Longrightarrow> conf_inv instances tiers conf (demote_excess needed s)"
  unfolding demote_excess_def by (rule demote_inv)

lemma demote_excess_voters:
  assumes "finite (rc_voters s)"
  shows "rc_voters (demote_excess needed s) = set (take needed (sorted_list_of_set (rc_voters s)))"
proof -
  let ?vs = "sorted_list_of_set (rc_voters s)"
  have "set ?vs = set (take needed ?vs) \<union> set (drop needed ?vs)"
    by (metis append_take_drop_id set_append)
  moreover have "set (take needed ?vs) \<inter> set (drop needed ?vs) = {}"
    by (rule set_take_disj_set_drop_if_distinct) auto
  ultimately show ?thesis
    using assms by (auto simp: demote_excess_def demote_voters)
qed

lemma demote_excess_card:
  assumes "finite (rc_voters s)"
  shows "card (rc_voters (demote_excess needed s)) = min needed (card (rc_voters s))"
    and "card (rc_voters s) \<le> needed \<Longrightarrow> demote_excess needed s = s"
    and "rc_voters (demote_excess needed s) \<subseteq> rc_voters s"
proof -
  show "card (rc_voters (demote_excess needed s)) = min needed (card (rc_voters s))"
    using assms by (simp add: demote_excess_voters distinct_card min.commute)
  show "card (rc_voters s) \<le> needed \<Longrightarrow> demote_excess needed s = s"
    using assms by (simp add: demote_excess_def)
  show "rc_voters (demote_excess needed s) \<subseteq> rc_voters s"
    using assms by (auto simp: demote_excess_def demote_voters)
qed

text \<open>The loop over the learners removes those that are unknown or expelled and touches no voter.\<close>

lemma learner_step_eq:
  assumes "inj_on i_raft_id (set instances)"
  shows "learner_step instances s l = (if live instances l then s else change_single RemoveNode l s)"
proof (cases "all_get instances l")
  case None
  then have "\<not> live instances l" by (auto simp: live_def all_get_None)
  with None show ?thesis by (simp add: learner_step_def)
next
  case (Some i)
  then have "i \<in> set instances" "i_raft_id i = l" using all_get_Some by auto
  moreover from this have "live instances l \<longleftrightarrow> \<not> has_states i (Is Expelled) AnyState"
    using assms by (auto simp: live_def has_states_def dest: inj_onD)
  ultimately show ?thesis using Some by (auto simp: learner_step_def)
qed

lemma learner_loop:
  assumes "inj_on i_raft_id (set instances)"
  shows "conf_inv instances tiers conf s \<Longrightarrow> set ls \<inter> rc_voters s = {} \<Longrightarrow>
    \<forall>l \<in> rc_learners s. live instances l \<or> l \<in> set ls \<Longrightarrow> s' = foldl (learner_step instances) s ls \<Longrightarrow>
    conf_inv instances tiers conf s' \<and> rc_voters s' = rc_voters s \<and> rc_promotable s' = rc_promotable s \<and>
    (\<forall>l \<in> rc_learners s'. live instances l)"
proof (induction ls arbitrary: s)
  case (Cons l ls)
  let ?t = "learner_step instances s l"
  have "conf_inv instances tiers conf ?t \<and> rc_voters ?t = rc_voters s \<and> rc_promotable ?t = rc_promotable s"
    using Cons.prems by (auto simp: learner_step_eq [OF assms] conf_inv_demote)
  moreover have "\<forall>m \<in> rc_learners ?t. live instances m \<or> m \<in> set ls"
    using Cons.prems by (auto simp: learner_step_eq [OF assms])
  ultimately show ?case using Cons.IH [of ?t] Cons.prems(2,4) by auto
qed simp

lemma promote_more_correct:
  "conf_inv instances tiers conf s \<Longrightarrow> s' = promote_more instances needed s \<Longrightarrow>
     conf_inv instances tiers conf s' \<and> rc_voters s \<subseteq> rc_voters s' \<and>
     rc_voters s' \<subseteq> rc_voters s \<union> rc_promotable s \<and> rc_learners s' \<subseteq> rc_learners s \<and>
     rc_voters s \<union> rc_promotable s \<subseteq> rc_voters s' \<union> rc_promotable s' \<and>
     card (rc_voters s') \<le> max needed (card (rc_voters s)) \<and>
     (needed \<le> card (rc_voters s') \<or> rc_promotable s' = {})"
proof (induction instances needed s arbitrary: s' rule: promote_more.induct)
  case (1 instances needed s)
  show ?case
  proof (cases "card (rc_voters s) < needed")
    case False
    then show ?thesis using 1 by (simp add: promote_more.simps [of instances needed s])
  next
    case True
    have fin: "finite (rc_promotable s)" "finite (rc_voters s)" using 1(2) by (simp_all add: conf_inv_def)
    show ?thesis
    proof (cases "next_farthest instances s")
      case None
      then have "rc_promotable s = {}" using find_farthest_None [OF fin(1)] by (simp add: next_farthest_def)
      then show ?thesis using 1 True None by (simp add: promote_more.simps [of instances needed s])
    next
      case (Some p)
      obtain n d where p: "p = (n, d)" by fastforce
      let ?t = "remove_promotable n (change_single AddNode n s)"
      have n: "n \<in> rc_promotable s" using Some p find_farthest_Some(2) by (auto simp: next_farthest_def)
      then have "n \<notin> rc_voters s" using 1(2) by (auto simp: conf_inv_def)
      then have card: "card (rc_voters ?t) = Suc (card (rc_voters s))" using fin by simp
      have s': "s' = promote_more instances needed ?t"
        using 1(3) True Some p by (simp add: promote_more.simps [of instances needed s])
      from 1(1) [OF True Some p [symmetric] conf_inv_promote [OF 1(2)] s'] n card True show ?thesis
        by auto
    qed
  qed
qed

lemma redistribute_correct:
  "conf_inv instances tiers conf s \<Longrightarrow> set vs \<subseteq> rc_voters s \<Longrightarrow> distinct vs \<Longrightarrow>
     \<forall>v \<in> rc_voters s. good_voter instances tiers v \<Longrightarrow> \<forall>l \<in> rc_learners s. live instances l \<Longrightarrow>
     s' = redistribute instances s vs \<Longrightarrow>
     conf_inv instances tiers conf s' \<and> card (rc_voters s') = card (rc_voters s) \<and>
     (\<forall>v \<in> rc_voters s'. good_voter instances tiers v) \<and>
     (\<forall>l \<in> rc_learners s'. live instances l) \<and> (rc_promotable s = {} \<longrightarrow> s' = s)"
proof (induction vs arbitrary: s)
  case (Cons v vs)
  have fin: "finite (rc_promotable s)" "finite (rc_voters s)" using Cons.prems(1) by (simp_all add: conf_inv_def)
  show ?case
  proof (cases "find_farthest instances (rc_voters s - {v}) (rc_promotable s)")
    case None
    then show ?thesis using Cons.prems by (simp add: Let_def)
  next
    case (Some p)
    obtain n d where p: "p = (n, d)" by fastforce
    define t where "t = (if d > sum_distance instances (rc_voters s - {v}) v then replace_voter v n s else s)"
    have n: "n \<in> rc_promotable s" using Some p find_farthest_Some(2) by auto
    then have nv: "n \<notin> rc_voters s" "n \<noteq> v" "good_voter instances tiers n"
      using Cons.prems(1,2) active_good by (auto simp: conf_inv_def)
    have "card (insert n (rc_voters s - {v})) = card (rc_voters s)"
      using fin nv Cons.prems(2) by (metis Diff_iff card.remove card_insert_disjoint finite_Diff insert_subset list.simps(15))
    then have t: "conf_inv instances tiers conf t" "set vs \<subseteq> rc_voters t" "card (rc_voters t) = card (rc_voters s)"
      "\<forall>v \<in> rc_voters t. good_voter instances tiers v" "\<forall>l \<in> rc_learners t. live instances l"
      using Cons.prems nv good_live by (auto simp: t_def conf_inv_replace replace_voter_sel)
    have "s' = redistribute instances t vs"
      using Cons.prems(6) Some p by (simp add: t_def Let_def)
    from Cons.IH [OF t(1,2) _ t(4,5) this] Cons.prems(3) t(3) n
    show ?thesis by auto
  qed
qed simp

lemma add_learner_loop:
  "conf_inv instances tiers conf s \<Longrightarrow> set is \<subseteq> set instances \<Longrightarrow> \<forall>l \<in> rc_learners s. live instances l \<Longrightarrow>
     \<forall>i \<in> set instances. has_states i (Is Expelled) AnyState \<or> i_raft_id i \<in> rc_voters s \<union> rc_learners s \<or> i \<in> set is \<Longrightarrow>
     s' = foldl add_learner s is \<Longrightarrow>
     conf_inv instances tiers conf s' \<and> rc_voters s' = rc_voters s \<and> (\<forall>l \<in> rc_learners s'. live instances l) \<and>
     (\<forall>i \<in> set instances. has_states i (Is Expelled) AnyState \<or> i_raft_id i \<in> rc_voters s' \<union> rc_learners s')"
proof (induction "is" arbitrary: s)
  case (Cons i "is")
  let ?t = "add_learner s i"
  have "conf_inv instances tiers conf ?t \<and> rc_voters ?t = rc_voters s"
    using Cons.prems(1) by (auto simp: add_learner_def conf_inv_demote)
  moreover have "\<forall>l \<in> rc_learners ?t. live instances l"
    using Cons.prems(2,3) by (auto simp: add_learner_def live_def has_states_def)
  moreover have "\<forall>j \<in> set instances. has_states j (Is Expelled) AnyState \<or>
      i_raft_id j \<in> rc_voters ?t \<union> rc_learners ?t \<or> j \<in> set is"
    using Cons.prems(4) by (auto simp: add_learner_def)
  ultimately show ?case using Cons.IH [of ?t] Cons.prems(2,5) by auto
qed simp

lemma rfilter_Inr: "rfilter p xs = Inr ys \<Longrightarrow> ys = filter (\<lambda>x. p x = Inr True) xs"
  by (induction xs arbitrary: ys) (auto simp: rbind_eq_Inr)

definition eligible :: "pico_instance list \<Rightarrow> (string \<rightharpoonup> tier) \<Rightarrow> pico_instance list" where
  "eligible instances tiers =
     filter (\<lambda>i. variant (i_target_state i) \<noteq> Expelled \<and> tier_can_vote tiers i = Inr True) instances"

text \<open>The phases after the loop over the voters, composed.\<close>

lemma conf_changes_correct:
  assumes inj: "inj_on i_raft_id (set instances)" and inv: "conf_inv instances tiers conf s"
    and good: "\<forall>v \<in> rc_voters s. good_voter instances tiers v"
    and act: "active_voters instances tiers \<subseteq> rc_voters s \<union> rc_promotable s"
    and s': "s' = conf_changes instances needed s"
  shows "conf_inv instances tiers conf s' \<and> card (rc_voters s') \<le> needed \<and>
    (\<forall>v \<in> rc_voters s'. good_voter instances tiers v) \<and> (\<forall>l \<in> rc_learners s'. live instances l) \<and>
    (\<forall>i \<in> set instances. has_states i (Is Expelled) AnyState \<or> i_raft_id i \<in> rc_voters s' \<union> rc_learners s') \<and>
    (card (rc_voters s') = needed \<or> active_voters instances tiers \<subseteq> rc_voters s')"
proof -
  define a where "a = demote_excess needed s"
  define b where "b = foldl (learner_step instances) a (sorted_list_of_set (rc_learners a))"
  define c where "c = promote_more instances needed b"
  define d where "d = redistribute instances c (sorted_list_of_set (rc_voters c))"
  have s'd: "s' = foldl add_learner d instances" by (simp add: s' conf_changes_def Let_def a_def b_def c_def d_def)
  have fin: "finite (rc_voters s)" using inv by (simp add: conf_inv_def)
  have a: "conf_inv instances tiers conf a" "card (rc_voters a) = min needed (card (rc_voters s))"
    "rc_voters a \<subseteq> rc_voters s" "card (rc_voters s) \<le> needed \<Longrightarrow> a = s"
    unfolding a_def using demote_excess_card [OF fin] demote_excess_inv [OF inv] by simp_all
  then have fina: "finite (rc_learners a)" "rc_voters a \<inter> rc_learners a = {}" by (auto simp: conf_inv_def)
  have b: "conf_inv instances tiers conf b" "rc_voters b = rc_voters a" "rc_promotable b = rc_promotable a"
    "\<forall>l \<in> rc_learners b. live instances l"
    using learner_loop [OF inj a(1) _ _ b_def] fina by auto
  have c: "conf_inv instances tiers conf c" "rc_voters b \<subseteq> rc_voters c" "rc_voters c \<subseteq> rc_voters b \<union> rc_promotable b"
    "rc_learners c \<subseteq> rc_learners b" "rc_voters b \<union> rc_promotable b \<subseteq> rc_voters c \<union> rc_promotable c"
    "card (rc_voters c) \<le> max needed (card (rc_voters b))"
    "needed \<le> card (rc_voters c) \<or> rc_promotable c = {}"
    using promote_more_correct [OF b(1) c_def] by auto
  have pr: "rc_promotable b \<subseteq> active_voters instances tiers" using b(1) by (simp add: conf_inv_def)
  have goodc: "\<forall>v \<in> rc_voters c. good_voter instances tiers v" "\<forall>l \<in> rc_learners c. live instances l"
    using c(3,4) b(2,4) a(3) good pr active_good by blast+
  have "finite (rc_voters c)" using c(1) by (simp add: conf_inv_def)
  then have d: "conf_inv instances tiers conf d" "card (rc_voters d) = card (rc_voters c)"
    "\<forall>v \<in> rc_voters d. good_voter instances tiers v" "\<forall>l \<in> rc_learners d. live instances l"
    "rc_promotable c = {} \<longrightarrow> d = c"
    using redistribute_correct [OF c(1) _ _ goodc d_def] by auto
  have e: "conf_inv instances tiers conf s'" "rc_voters s' = rc_voters d" "\<forall>l \<in> rc_learners s'. live instances l"
    "\<forall>i \<in> set instances. has_states i (Is Expelled) AnyState \<or> i_raft_id i \<in> rc_voters s' \<union> rc_learners s'"
    using add_learner_loop [OF d(1) _ d(4) _ s'd] by auto
  have card: "card (rc_voters d) \<le> needed" using c(6) a(2) b(2) d(2) by simp
  have "card (rc_voters d) = needed \<or> active_voters instances tiers \<subseteq> rc_voters d"
  proof (cases "card (rc_voters c) < needed")
    case True
    then have "card (rc_voters a) < needed"
      using \<open>finite (rc_voters c)\<close> c(2) b(2) card_mono by (metis order.strict_trans1)
    then have "a = s" using a(2,4) by simp
    then show ?thesis using True act c(5,7) b(2,3) d(5) by auto
  qed (use card d(2) in simp)
  then show ?thesis using e card d(3) by simp
qed

text \<open>The configuration the proposed changes lead to.\<close>

definition proposed_conf :: "raft_id list \<Rightarrow> raft_id list \<Rightarrow> conf_change_single list option \<Rightarrow> raft_id set \<times> raft_id set" where
  "proposed_conf voters learners res =
     foldl apply_change (set voters, set learners) (case res of None \<Rightarrow> [] | Some changes \<Rightarrow> changes)"

lemma raft_conf_changeD:
  assumes "inj_on i_raft_id (set instances)" "set voters \<inter> set learners = {}"
    and "raft_conf_change instances voters learners tiers = Inr res"
    and "needed = voters_needed (length (eligible instances tiers))"
  obtains s :: conf_state where "proposed_conf voters learners res = (rc_voters s, rc_learners s)"
    "rc_voters s \<inter> rc_learners s = {}" "card (rc_voters s) \<le> needed"
    "\<forall>v \<in> rc_voters s. good_voter instances tiers v" "\<forall>l \<in> rc_learners s. live instances l"
    "\<forall>i \<in> set instances. has_states i (Is Expelled) AnyState \<or> i_raft_id i \<in> rc_voters s \<union> rc_learners s"
    "card (rc_voters s) = needed \<or> active_voters instances tiers \<subseteq> rc_voters s"
proof -
  let ?conf = "(set voters, set learners)"
  from assms(3) obtain el on s1 where el: "rfilter (tier_can_vote tiers)
      (filter (\<lambda>i. has_states i AnyState (IsNot Expelled)) instances) = Inr el"
    and on: "rfilter (tier_can_vote tiers)
      (filter (\<lambda>i. has_states i (Is Online) (Is Online)) instances) = Inr on"
    and s1: "rfoldl (voter_step instances tiers (voters_needed (length el)))
      \<lparr>rc_voters = set voters, rc_learners = set learners,
       rc_promotable = set (map i_raft_id on) - set voters, rc_changes = []\<rparr>
      (sorted_list_of_set (set voters)) = Inr s1"
    and res: "res = (let ch = rc_changes (conf_changes instances (voters_needed (length el)) s1) in
      if ch = [] then None else Some ch)"
    by (auto simp: raft_conf_change_def next_conf_def rbind_eq_Inr Let_def)
  have needed: "voters_needed (length el) = needed"
    using rfilter_Inr [OF el] by (simp add: assms(4) eligible_def has_states_def conj_commute)
  have act: "set (map i_raft_id on) = active_voters instances tiers"
    using rfilter_Inr [OF on] by (auto simp: active_voters_def)
  have inv1: "conf_inv instances tiers ?conf s1" "\<forall>v \<in> rc_voters s1. good_voter instances tiers v"
    "active_voters instances tiers \<subseteq> rc_voters s1 \<union> rc_promotable s1"
    using voter_loop [OF assms(1) s1, where conf = ?conf] assms(2) act
    by (auto simp: conf_inv_def)
  let ?s = "conf_changes instances needed s1"
  note correct = conf_changes_correct [OF assms(1) inv1 refl, of needed]
  have replay: "foldl apply_change ?conf (rc_changes ?s) = (rc_voters ?s, rc_learners ?s)"
    "rc_voters ?s \<inter> rc_learners ?s = {}"
    using conjunct1 [OF correct] unfolding conf_inv_def by blast+
  have "proposed_conf voters learners res = foldl apply_change ?conf (rc_changes ?s)"
    by (simp add: proposed_conf_def res needed Let_def)
  with replay conjunct2 [OF correct] show thesis by (intro that [of ?s]) simp_all
qed

text \<open>
  C5: the configuration the governor proposes is safe. Voters and learners are disjoint; there are at
  most as many voters as the number of instances eligible to vote calls for, which is at most five;
  and every voter is an instance of a voting tier that is neither expelled nor being expelled.
\<close>

theorem conf_change_safe:
  assumes "inj_on i_raft_id (set instances)" "set voters \<inter> set learners = {}"
    and "raft_conf_change instances voters learners tiers = Inr res"
    and "proposed_conf voters learners res = (vs, ls)"
  shows "vs \<inter> ls = {} \<and> card vs \<le> voters_needed (length (eligible instances tiers)) \<and> card vs \<le> 5 \<and>
    (\<forall>v \<in> vs. good_voter instances tiers v)"
proof -
  obtain s :: conf_state where "proposed_conf voters learners res = (rc_voters s, rc_learners s)"
    "rc_voters s \<inter> rc_learners s = {}" "card (rc_voters s) \<le> voters_needed (length (eligible instances tiers))"
    "\<forall>v \<in> rc_voters s. good_voter instances tiers v"
    by (rule raft_conf_changeD [OF assms(1-3) refl])
  moreover have "voters_needed (length (eligible instances tiers)) \<le> 5" by (simp add: voters_needed_def)
  ultimately show ?thesis using assms(4) by auto
qed

text \<open>
  C10: the configuration the governor proposes leaves nobody out. Every instance that is not expelled
  is a voter or a learner, every learner is an instance that is not expelled, and either the needed
  number of voters is reached or every online instance of a voting tier is a voter.
\<close>

theorem conf_change_complete:
  assumes "inj_on i_raft_id (set instances)" "set voters \<inter> set learners = {}"
    and "raft_conf_change instances voters learners tiers = Inr res"
    and "proposed_conf voters learners res = (vs, ls)"
  shows "(\<forall>i \<in> set instances. variant (i_current_state i) \<noteq> Expelled \<longrightarrow> i_raft_id i \<in> vs \<union> ls) \<and>
    (\<forall>l \<in> ls. live instances l) \<and>
    (card vs = voters_needed (length (eligible instances tiers)) \<or> active_voters instances tiers \<subseteq> vs)"
proof -
  obtain s :: conf_state where "proposed_conf voters learners res = (rc_voters s, rc_learners s)"
    "\<forall>l \<in> rc_learners s. live instances l"
    "\<forall>i \<in> set instances. has_states i (Is Expelled) AnyState \<or> i_raft_id i \<in> rc_voters s \<union> rc_learners s"
    "card (rc_voters s) = voters_needed (length (eligible instances tiers)) \<or>
       active_voters instances tiers \<subseteq> rc_voters s"
    by (rule raft_conf_changeD [OF assms(1-3) refl])
  then show ?thesis using assms(4) by (auto simp: has_states_def)
qed

text \<open>Four instances of a voting tier, one of them a voter that goes offline.\<close>

definition conf_instance :: "raft_id \<Rightarrow> state_variant \<Rightarrow> pico_instance" where
  "conf_instance rid target =
     sample_instance (show_nat rid) rid ''r1'' (State Online 1) (State target 1)"

definition conf_instances :: "pico_instance list" where
  "conf_instances = [conf_instance 1 Online, conf_instance 2 Offline, conf_instance 3 Online, conf_instance 4 Online]"

definition conf_tiers :: "string \<rightharpoonup> tier" where
  "conf_tiers = [''default'' \<mapsto> sample_tier]"

lemma conf_instances_inj: "inj_on i_raft_id (set conf_instances)"
  by (simp add: conf_instances_def conf_instance_def sample_instance_def)

lemma conf_change_runs:
  "raft_conf_change conf_instances [1, 2] [3] conf_tiers =
     Inr (Some [(AddLearnerNode, 2), (AddNode, 3), (AddNode, 4)])"
  by code_simp

lemma conf_proposed:
  "proposed_conf [1, 2] [3] (Some [(AddLearnerNode, 2), (AddNode, 3), (AddNode, 4)]) = ({4, 3, 1}, {2})"
  by (auto simp: proposed_conf_def apply_change_def)

theorem conf_change_safe_witness:
  "card {4, 3, 1 :: raft_id} \<le> 5 \<and> good_voter conf_instances conf_tiers 3"
  using conf_change_safe [OF conf_instances_inj _ conf_change_runs conf_proposed] by simp

theorem conf_change_complete_witness:
  "live conf_instances 2 \<and> card {4, 3, 1 :: raft_id} = 3"
  using conf_change_complete [OF conf_instances_inj _ conf_change_runs conf_proposed] by simp



end
