(* ===== verification/Join.thy ===== *)
theory Join
  imports Catalog_Ops Cas Version
begin

text \<open>
  src/src/rpc/join.rs: how a joining instance gets its raft id, name and replicaset, and the batch of
  rows which the leader proposes for it. A fresh uuid (\<open>Uuid::new_v4\<close>) and the current time are
  arguments. Numbers of instances and replicasets in generated names are natural numbers.
\<close>

section \<open>Choosing names and a replicaset\<close>

definition numbered :: "string \<Rightarrow> nat \<Rightarrow> string" where
  "numbered prefix n = prefix @ ''_'' @ show_nat n"

lemma inj_numbered: "inj (numbered prefix)"
  by (auto simp: inj_def numbered_def show_nat_inj)

lemma card_taken_decreases:
  assumes "finite {m. P m}" "P n"
  shows "card {m. Suc n \<le> m \<and> P m} < card {m. n \<le> m \<and> P (m :: nat)}"
proof (rule psubset_card_mono)
  show "finite {m. n \<le> m \<and> P m}" using assms(1) by (rule rev_finite_subset) auto
  have "n \<in> {m. n \<le> m \<and> P m}" "n \<notin> {m. Suc n \<le> m \<and> P m}" using assms(2) by auto
  moreover have "{m. Suc n \<le> m \<and> P m} \<subseteq> {m. n \<le> m \<and> P m}" by auto
  ultimately show "{m. Suc n \<le> m \<and> P m} \<subset> {m. n \<le> m \<and> P m}" by (metis psubsetI)
qed

function instance_name_loop :: "catalog \<Rightarrow> string \<Rightarrow> nat \<Rightarrow> string" where
  "instance_name_loop c replicaset_name n =
     (let instance_name = numbered replicaset_name n in
      case find_instance c instance_name of
        Some i \<Rightarrow>
          if has_states i (Is Expelled) AnyState then instance_name
          else instance_name_loop c replicaset_name (Suc n)
      | None \<Rightarrow> instance_name)"
  by pat_completeness auto

termination instance_name_loop
  by (relation "measure (\<lambda>(c, r, n). card {m. n \<le> m \<and> find_instance c (numbered r m) \<noteq> None})")
    (use card_taken_decreases [OF instance_names.finite_taken [OF inj_numbered]] in \<open>auto simp: Let_def\<close>)

declare instance_name_loop.simps [simp del]

definition choose_instance_name :: "catalog \<Rightarrow> string \<Rightarrow> string" where
  "choose_instance_name c replicaset_name = instance_name_loop c replicaset_name 1"

function replicaset_name_loop :: "catalog \<Rightarrow> string \<Rightarrow> nat \<Rightarrow> string" where
  "replicaset_name_loop c tier_name n =
     (let replicaset_name = numbered tier_name n in
      case replicasets_get c replicaset_name of
        Some r \<Rightarrow>
          (case r_state r of
             ReplicasetExpelled \<Rightarrow> replicaset_name
           | ToBeExpelled \<Rightarrow> replicaset_name_loop c tier_name (Suc n)
           | _ \<Rightarrow> replicaset_name_loop c tier_name (Suc n))
      | None \<Rightarrow> replicaset_name)"
  by pat_completeness auto

termination replicaset_name_loop
  by (relation "measure (\<lambda>(c, t, n). card {m. n \<le> m \<and> replicasets_get c (numbered t m) \<noteq> None})")
    (use card_taken_decreases [OF replicaset_names.finite_taken [OF inj_numbered]] in \<open>auto simp: Let_def\<close>)

declare replicaset_name_loop.simps [simp del]

record replicaset_info =
  ri_replicaset :: replicaset
  ri_instances :: "pico_instance list"

text \<open>
  The candidate replicasets of the tier in the order of their names, each with the instances found in
  it. The binary search by name in the sorted array is the update of the entry with that name: the
  name is the primary key of \<open>_pico_replicaset\<close>.
\<close>

definition candidate_replicasets :: "catalog \<Rightarrow> tier \<Rightarrow> replicaset_info list" where
  "candidate_replicasets c t =
     map (\<lambda>r. \<lparr>ri_replicaset = r, ri_instances = []\<rparr>)
       (sort_key r_name
         (filter (\<lambda>r. r_tier r = t_name t \<and> r_state r \<noteq> ToBeExpelled \<and> r_state r \<noteq> ReplicasetExpelled)
           (c_replicasets c)))"

definition add_to_info :: "tier \<Rightarrow> replicaset_info list \<Rightarrow> pico_instance \<Rightarrow> replicaset_info list" where
  "add_to_info t infos i =
     (if i_tier i \<noteq> t_name t then infos
      else if has_states i (Is Expelled) AnyState then infos
      else map (\<lambda>info. if r_name (ri_replicaset info) = i_replicaset_name i
                       then info\<lparr>ri_instances := ri_instances info @ [i]\<rparr> else info) infos)"

definition replicaset_fits :: "failure_domain \<Rightarrow> tier \<Rightarrow> replicaset_info \<Rightarrow> bool" where
  "replicaset_fits fd t info \<longleftrightarrow>
     \<not> (length (ri_instances info) \<ge> unat (t_replication_factor t)) \<and>
     list_all (\<lambda>i. \<not> intersects (i_failure_domain i) fd) (ri_instances info)"

text \<open>The result is an existing replicaset (\<open>Inr\<close>) or the name for a new one (\<open>Inl\<close>).\<close>

definition choose_replicaset :: "failure_domain \<Rightarrow> catalog \<Rightarrow> tier \<Rightarrow> string + replicaset" where
  "choose_replicaset fd c t =
     (let infos = foldl (add_to_info t) (candidate_replicasets c t) (c_instances c)
      in case find (replicaset_fits fd t) infos of
           Some info \<Rightarrow> Inr (ri_replicaset info)
         | None \<Rightarrow> Inl (replicaset_name_loop c (t_name t) 1))"

section \<open>Building the instance\<close>

definition check_existing ::
  "string option \<Rightarrow> string option \<Rightarrow> failure_domain \<Rightarrow> string \<Rightarrow> string \<Rightarrow> pico_instance \<Rightarrow>
     (pico_instance \<times> bool) traft_result" where
  "check_existing requested_instance_name requested_replicaset_name fd tier_name version i =
     (let err = (\<lambda>what. Inl (Other (''instance with UUID '' @ i_uuid i @ what)))
      in if requested_instance_name \<noteq> None \<and> requested_instance_name \<noteq> Some (i_name i)
         then err '' already exists but with different name''
         else if requested_replicaset_name \<noteq> None \<and> requested_replicaset_name \<noteq> Some (i_replicaset_name i)
         then err '' already exists but with different replicaset name''
         else if tier_name \<noteq> i_tier i then err '' already exists but with different tier''
         else if fd \<noteq> i_failure_domain i then err '' already exists but with different failure domain''
         else if version \<noteq> i_picodata_version i then err '' already exists but with different picodata version''
         else if \<not> has_states i (Is Offline) (Is Offline) then err '' is not in Offline state''
         else Inr (i, True))"

definition quoted :: "string \<Rightarrow> string" where
  "quoted s = [CHR 0x27] @ s @ [CHR 0x27]"

text \<open>The name and the uuid of the replicaset of a new instance.\<close>

definition resolve_replicaset ::
  "string option \<Rightarrow> failure_domain \<Rightarrow> catalog \<Rightarrow> tier \<Rightarrow> string \<Rightarrow> (string \<times> string) traft_result" where
  "resolve_replicaset req fd c t new_uuid =
     (case req of
        Some name \<Rightarrow>
          (case replicasets_get c name of
             Some r \<Rightarrow>
               if r_state r \<noteq> ReplicasetExpelled
               then if r_tier r \<noteq> t_name t
                    then Inl (Other (''tier mismatch: requested replicaset '' @ quoted name @ '' is from tier '' @
                           quoted (r_tier r) @ '', but specified tier is '' @ quoted (t_name t)))
                    else if r_state r = ToBeExpelled
                    then Inl (Other ''cannot join replicaset which is being expelled'')
                    else Inr (name, r_uuid r)
               else Inr (name, new_uuid)
           | None \<Rightarrow> Inr (name, new_uuid))
      | None \<Rightarrow>
          (case choose_replicaset fd c t of
             Inr r \<Rightarrow> Inr (r_name r, r_uuid r)
           | Inl name \<Rightarrow> Inr (name, new_uuid)))"

definition resolve_instance_name :: "string option \<Rightarrow> catalog \<Rightarrow> string \<Rightarrow> string traft_result" where
  "resolve_instance_name req c replicaset_name =
     (case req of
        Some name \<Rightarrow>
          (case find_instance c name of
             Some i \<Rightarrow>
               if has_states i (Is Expelled) AnyState then Inr name
               else Inl (Other (''`'' @ name @ ''` is already joined''))
           | None \<Rightarrow> Inr name)
      | None \<Rightarrow> Inr (choose_instance_name c replicaset_name))"

definition build_instance ::
  "string option \<Rightarrow> string option \<Rightarrow> failure_domain \<Rightarrow> catalog \<Rightarrow> string \<Rightarrow> string \<Rightarrow> string \<Rightarrow>
     string \<Rightarrow> nat \<Rightarrow> (pico_instance \<times> bool) traft_result" where
  "build_instance req_name req_replicaset fd c tier_name version uuid new_uuid now =
     (case by_uuid c uuid of
        Some i \<Rightarrow> check_existing req_name req_replicaset fd tier_name version i
      | None \<Rightarrow>
          let raft_id = max_raft_id c + 1 in
          (case tier_by_name c tier_name of
             None \<Rightarrow> Inl (Other (''tier '' @ [CHR 0x22] @ tier_name @ [CHR 0x22] @ '' doesn'' @ [CHR 0x27] @ ''t exist''))
           | Some t \<Rightarrow>
               rbind (resolve_replicaset req_replicaset fd c t new_uuid) (\<lambda>(replicaset_name, replicaset_uuid).
               rbind (check_domains fd (failure_domain_names c)) (\<lambda>_.
               rbind (resolve_instance_name req_name c replicaset_name) (\<lambda>instance_name.
                 Inr (\<lparr>i_name = instance_name, i_uuid = uuid, i_raft_id = raft_id,
                       i_replicaset_name = replicaset_name, i_replicaset_uuid = replicaset_uuid,
                       i_current_state = State Offline 0, i_target_state = State Offline 0,
                       i_failure_domain = fd, i_tier = t_name t, i_picodata_version = version,
                       i_sync_incarnation = Some 0, i_target_state_reason = Some '''',
                       i_target_state_change_time = Some now\<rparr>, False))))))"

section \<open>Handling a request\<close>

record join_request =
  jr_cluster_name :: string
  jr_instance_name :: "string option"
  jr_replicaset_name :: "string option"
  jr_advertise_address :: string
  jr_pgproto_advertise_address :: string
  jr_failure_domain :: failure_domain
  jr_tier :: string
  jr_picodata_version :: string
  jr_uuid :: string
  jr_http_advertise_address :: string
  jr_plugin_listener_addresses :: "(string \<times> string \<times> string) list"

record join_response =
  js_instance :: pico_instance
  js_peer_addresses :: "(raft_id \<times> string) list"
  js_box_replication :: "string set"
  js_is_master :: bool
  js_shredding :: bool
  js_cluster_uuid :: string

text \<open>The rows of the batch, in the order in which the handler pushes them.\<close>

definition replace_peer :: "raft_id \<Rightarrow> string \<Rightarrow> connection_type \<Rightarrow> pico_dml" where
  "replace_peer rid address ct =
     DmlReplace PEER_ADDRESSES_TABLE_ID
       (RowPeer \<lparr>p_raft_id = rid, p_address = address, p_connection_type = ct\<rparr>) ADMIN_ID"

definition join_ops :: "join_request \<Rightarrow> catalog \<Rightarrow> pico_instance \<Rightarrow> pico_dml list" where
  "join_ops req c i =
     [replace_peer (i_raft_id i) (jr_advertise_address req) (System Iproto),
      replace_peer (i_raft_id i) (jr_pgproto_advertise_address req) (System Pgproto),
      replace_peer (i_raft_id i) (jr_http_advertise_address req) (System Http)] @
     map (\<lambda>(plugin, service, advertise).
            replace_peer (i_raft_id i) advertise (PluginConnection plugin service))
       (jr_plugin_listener_addresses req) @
     [DmlReplace INSTANCES_TABLE_ID (RowInstance i) ADMIN_ID] @
     (case replicaset_by_uuid_raw c (i_replicaset_uuid i) of
        Inl (NoSuchReplicaset _ _) \<Rightarrow>
          [DmlReplace REPLICASETS_TABLE_ID (RowReplicaset (with_one_instance i)) ADMIN_ID]
      | _ \<Rightarrow> [])"

definition join_ranges :: "pico_key range list" where
  "join_ranges =
     [range_new INSTANCES_TABLE_ID, range_new PEER_ADDRESSES_TABLE_ID, range_new TIERS_TABLE_ID,
      range_new REPLICASETS_TABLE_ID]"

text \<open>
  The answer, built from the catalog after the instance's rows are in it. \<open>shredding\<close> is the
  value in \<open>_pico_db_config\<close>; the topology cache holds the rows of \<open>_pico_replicaset\<close>.
\<close>

definition join_answer ::
  "join_request \<Rightarrow> catalog \<Rightarrow> bool option \<Rightarrow> string \<Rightarrow> pico_instance \<Rightarrow> join_response traft_result" where
  "join_answer req c shredding cuuid i =
     (let peer_addresses = map (\<lambda>p. (p_raft_id p, p_address p))
            (filter (\<lambda>p. as_system (p_connection_type p) = Some Iproto) (c_peers c));
          replicas = map i_raft_id
            (filter (\<lambda>i. \<not> has_states i (Is Expelled) AnyState)
              (replicaset_instances c (i_replicaset_name i)))
      in rbind (addresses_by_ids c replicas) (\<lambda>replication_addresses.
         rbind (replicaset_by_uuid_raw c (i_replicaset_uuid i)) (\<lambda>replicaset.
           case shredding of
             None \<Rightarrow> Inl (Panic ''should be set'')
           | Some shredding \<Rightarrow>
               Inr \<lparr>js_instance = i,
                    js_peer_addresses = peer_addresses,
                    js_box_replication = insert (jr_advertise_address req) replication_addresses,
                    js_is_master = (r_target_master_name replicaset = i_name i),
                    js_shredding = shredding,
                    js_cluster_uuid = cuuid\<rparr>)))"

definition join_check :: "join_request \<Rightarrow> string \<Rightarrow> catalog \<Rightarrow> unit traft_result" where
  "join_check req cluster c =
     (if jr_cluster_name req \<noteq> cluster
      then Inl (ClusterNameMismatch (jr_cluster_name req) cluster)
      else rbind (compare_picodata_versions (c_cluster_version c) (jr_picodata_version req)) (\<lambda>_. Inr ()))"

text \<open>
  One turn of the loop sees the catalog at its start, a fresh uuid and the time, the result of the
  proposed compare and swap, and the catalog after it. The loop goes on to the next turn only when
  the compare and swap was rejected with a retriable error; \<open>None\<close> stands for a run that is
  still in the loop when the given turns are over.
\<close>

record join_turn =
  jt_catalog :: catalog
  jt_new_uuid :: string
  jt_now :: nat
  jt_cas :: "pico_op \<Rightarrow> pico_key range list \<Rightarrow> cas_result traft_result"
  jt_catalog_after :: catalog

fun join_loop ::
  "join_request \<Rightarrow> bool option \<Rightarrow> string \<Rightarrow> join_turn list \<Rightarrow> join_response traft_result option" where
  "join_loop req shredding cuuid [] = None"
| "join_loop req shredding cuuid (turn # turns) =
     (case build_instance (jr_instance_name req) (jr_replicaset_name req) (jr_failure_domain req)
             (jt_catalog turn) (jr_tier req) (jr_picodata_version req) (jr_uuid req)
             (jt_new_uuid turn) (jt_now turn) of
        Inl e \<Rightarrow> Some (Inl e)
      | Inr (i, instance_exists) \<Rightarrow>
          if instance_exists then Some (join_answer req (jt_catalog turn) shredding cuuid i)
          else
            (case jt_cas turn (BatchDml (join_ops req (jt_catalog turn) i)) join_ranges of
               Inl e \<Rightarrow> Some (Inl e)
             | Inr (RetriableError _) \<Rightarrow> join_loop req shredding cuuid turns
             | Inr (CasOk _) \<Rightarrow> Some (join_answer req (jt_catalog_after turn) shredding cuuid i)))"

definition handle_join_request_and_wait ::
  "join_request \<Rightarrow> string \<Rightarrow> string \<Rightarrow> catalog \<Rightarrow> bool option \<Rightarrow> join_turn list \<Rightarrow>
     join_response traft_result option" where
  "handle_join_request_and_wait req cluster cuuid c shredding turns =
     (case join_check req cluster c of
        Inl e \<Rightarrow> Some (Inl e)
      | Inr _ \<Rightarrow> join_loop req shredding cuuid turns)"

section \<open>The search for a free number\<close>

text \<open>
  Both name loops count up until the name is free. The contract of such a loop: its recursion
  equation, and a free number among the first \<open>bound\<close> ones.
\<close>

locale numbered_search =
  fixes loop :: "'c \<Rightarrow> string \<Rightarrow> nat \<Rightarrow> string" and free :: "'c \<Rightarrow> string \<Rightarrow> bool"
    and bound :: "'c \<Rightarrow> nat"
  assumes loop_step:
      "loop c p n = (if free c (numbered p n) then numbered p n else loop c p (Suc n))"
    and free_exists: "\<exists>m \<ge> n. m \<le> n + bound c \<and> free c (numbered p m)"
begin

lemma loop_reaches:
  "n \<le> m \<Longrightarrow> free c (numbered p m) \<Longrightarrow> (\<And>k. n \<le> k \<Longrightarrow> k < m \<Longrightarrow> \<not> free c (numbered p k)) \<Longrightarrow>
     loop c p n = numbered p m"
proof (induction "m - n" arbitrary: n)
  case 0
  then show ?case by (simp add: loop_step [of c p n])
next
  case (Suc d)
  then have "loop c p (Suc n) = numbered p m" by simp
  then show ?case using Suc.prems Suc.hyps(2) by (simp add: loop_step [of c p n])
qed

lemma loop_first_free:
  "\<exists>m \<ge> n. m \<le> n + bound c \<and> loop c p n = numbered p m \<and> free c (numbered p m) \<and>
     (\<forall>k. n \<le> k \<and> k < m \<longrightarrow> \<not> free c (numbered p k))"
proof -
  obtain m0 where m0: "n \<le> m0 \<and> free c (numbered p m0)" "m0 \<le> n + bound c"
    using free_exists by blast
  define m where "m = (LEAST m. n \<le> m \<and> free c (numbered p m))"
  have m: "n \<le> m" "free c (numbered p m)"
    using LeastI [of "\<lambda>m. n \<le> m \<and> free c (numbered p m)", OF m0(1)] by (simp_all add: m_def)
  have least: "\<not> free c (numbered p k)" if "n \<le> k" "k < m" for k
    using not_less_Least [of k "\<lambda>m. n \<le> m \<and> free c (numbered p m)"] that by (auto simp: m_def)
  have "m \<le> m0" unfolding m_def using m0(1) by (rule Least_le)
  then show ?thesis using m least m0(2) loop_reaches [OF m least] by auto
qed

end

definition instance_name_free :: "catalog \<Rightarrow> string \<Rightarrow> bool" where
  "instance_name_free c name \<longleftrightarrow>
     (case find_instance c name of None \<Rightarrow> True | Some i \<Rightarrow> has_states i (Is Expelled) AnyState)"

definition replicaset_name_free :: "catalog \<Rightarrow> string \<Rightarrow> bool" where
  "replicaset_name_free c name \<longleftrightarrow>
     (case replicasets_get c name of None \<Rightarrow> True | Some r \<Rightarrow> r_state r = ReplicasetExpelled)"

interpretation instance_search: numbered_search instance_name_loop instance_name_free
  "\<lambda>c. length (c_instances c)"
proof
  show "instance_name_loop c p n = (if instance_name_free c (numbered p n) then numbered p n
      else instance_name_loop c p (Suc n))" for c p n
    by (simp add: instance_name_loop.simps [of c p n] instance_name_free_def split: option.splits)
  show "\<exists>m \<ge> n. m \<le> n + length (c_instances c) \<and> instance_name_free c (numbered p m)" for c n p
    using instance_names.numbered_fresh [OF inj_numbered, of n c p] by (auto simp: instance_name_free_def)
qed

interpretation replicaset_search: numbered_search replicaset_name_loop replicaset_name_free
  "\<lambda>c. length (c_replicasets c)"
proof
  show "replicaset_name_loop c p n = (if replicaset_name_free c (numbered p n) then numbered p n
      else replicaset_name_loop c p (Suc n))" for c p n
    by (simp add: replicaset_name_loop.simps [of c p n] replicaset_name_free_def
        split: option.splits replicaset_state.splits)
  show "\<exists>m \<ge> n. m \<le> n + length (c_replicasets c) \<and> replicaset_name_free c (numbered p m)" for c n p
    using replicaset_names.numbered_fresh [OF inj_numbered, of n c p]
    by (auto simp: replicaset_name_free_def)
qed

lemma replicaset_name_loop_free: "replicaset_name_free c (replicaset_name_loop c t n)"
  using replicaset_search.loop_first_free [of n c t] by auto

lemma choose_instance_name_free: "instance_name_free c (choose_instance_name c r)"
  using instance_search.loop_first_free [of 1 c r] by (auto simp: choose_instance_name_def)

section \<open>The replicaset of a new instance\<close>

text \<open>The instances that count against the replication factor.\<close>

definition members :: "catalog \<Rightarrow> tier \<Rightarrow> replicaset \<Rightarrow> pico_instance list" where
  "members c t r =
     filter (\<lambda>i. i_tier i = t_name t \<and> \<not> has_states i (Is Expelled) AnyState \<and>
                 i_replicaset_name i = r_name r) (c_instances c)"

definition joinable :: "tier \<Rightarrow> replicaset \<Rightarrow> bool" where
  "joinable t r \<longleftrightarrow> r_tier r = t_name t \<and> r_state r \<noteq> ToBeExpelled \<and> r_state r \<noteq> ReplicasetExpelled"

definition has_room :: "failure_domain \<Rightarrow> catalog \<Rightarrow> tier \<Rightarrow> replicaset \<Rightarrow> bool" where
  "has_room fd c t r \<longleftrightarrow>
     length (members c t r) < unat (t_replication_factor t) \<and>
     (\<forall>i \<in> set (members c t r). \<not> intersects (i_failure_domain i) fd)"

lemma foldl_add_to_info:
  "foldl (add_to_info t) infos is =
     map (\<lambda>info. info\<lparr>ri_instances := ri_instances info @
        filter (\<lambda>i. i_tier i = t_name t \<and> \<not> has_states i (Is Expelled) AnyState \<and>
                    i_replicaset_name i = r_name (ri_replicaset info)) is\<rparr>) infos"
  by (induction "is" arbitrary: infos) (auto simp: add_to_info_def)

lemma choose_replicaset_eq:
  "choose_replicaset fd c t =
     (case find (has_room fd c t) (sort_key r_name (filter (joinable t) (c_replicasets c))) of
        Some r \<Rightarrow> Inr r
      | None \<Rightarrow> Inl (replicaset_name_loop c (t_name t) 1))"
proof -
  have "replicaset_fits fd t \<circ> (\<lambda>r. \<lparr>ri_replicaset = r, ri_instances = members c t r\<rparr>) = has_room fd c t"
    by (auto simp: fun_eq_iff replicaset_fits_def has_room_def list_all_iff)
  then show ?thesis
    by (simp add: choose_replicaset_def Let_def candidate_replicasets_def foldl_add_to_info
        joinable_def [abs_def] find_map comp_def members_def option.case_eq_if option.map_sel)
qed

lemma resolve_replicaset_Inr:
  assumes "resolve_replicaset req fd c t new_uuid = Inr (name, uuid)"
  shows "(\<exists>r \<in> set (c_replicasets c). r_name r = name \<and> r_uuid r = uuid \<and> joinable t r) \<or>
         replicaset_name_free c name \<and> uuid = new_uuid"
proof (cases req)
  case None
  show ?thesis
  proof (cases "find (has_room fd c t) (sort_key r_name (filter (joinable t) (c_replicasets c)))")
    case (Some r)
    then show ?thesis
      using assms None find_SomeD [OF Some] by (auto simp: resolve_replicaset_def choose_replicaset_eq)
  qed (use assms None replicaset_name_loop_free in
      \<open>auto simp: resolve_replicaset_def choose_replicaset_eq\<close>)
next
  case (Some n)
  then show ?thesis
    using assms
    by (auto simp: resolve_replicaset_def joinable_def replicaset_name_free_def
        dest!: replicaset_names.get_SomeD split: option.splits if_splits)
qed

lemma resolve_instance_name_Inr:
  "resolve_instance_name req c r = Inr name \<Longrightarrow>
     instance_name_free c name \<and> (\<forall>n. req = Some n \<longrightarrow> name = n)"
  using choose_instance_name_free [of c r]
  by (auto simp: resolve_instance_name_def instance_name_free_def split: option.splits if_splits)

text \<open>The fields of a new instance, shared by the properties of a join.\<close>

lemma build_instance_newD:
  assumes "by_uuid c uuid = None"
    and "build_instance rn rr fd c tn v uuid new_uuid now = Inr (i, existed)"
  obtains t where "\<not> existed" "tier_by_name c tn = Some t" "i_tier i = t_name t" "i_uuid i = uuid"
    "i_raft_id i = max_raft_id c + 1" "i_failure_domain i = fd"
    "i_current_state i = State Offline 0" "i_target_state i = State Offline 0"
    "resolve_replicaset rr fd c t new_uuid = Inr (i_replicaset_name i, i_replicaset_uuid i)"
    "resolve_instance_name rn c (i_replicaset_name i) = Inr (i_name i)"
    "check_domains fd (failure_domain_names c) = Inr ()"
  using assms by (auto simp: build_instance_def result_simps Let_def split: option.splits)

text \<open>
  C11: a joining instance whose uuid is unknown gets a raft id greater than every raft id in the
  cluster, a name nobody uses (or which belonged to an expelled instance), the requested name if one
  was requested, and the requested tier, which exists. Its failure domain names every domain in use.
  Its replicaset is either an existing one of this tier which is not expelled or being expelled, or
  a new one under a free name and the fresh uuid.
\<close>

theorem build_instance_fresh:
  assumes "by_uuid c uuid = None"
    and "build_instance rn rr fd c tn v uuid new_uuid now = Inr (i, existed)"
  shows "\<not> existed \<and> i_uuid i = uuid \<and>
    (\<forall>j \<in> set (c_instances c). i_raft_id j < i_raft_id i \<and> i_uuid j \<noteq> i_uuid i) \<and>
    instance_name_free c (i_name i) \<and> (\<forall>n. rn = Some n \<longrightarrow> i_name i = n) \<and>
    failure_domain_names c \<subseteq> names (i_failure_domain i) \<and>
    (\<exists>t \<in> set (c_tiers c). t_name t = tn \<and> i_tier i = tn \<and>
      ((\<exists>r \<in> set (c_replicasets c). r_name r = i_replicaset_name i \<and>
          r_uuid r = i_replicaset_uuid i \<and> joinable t r) \<or>
       replicaset_name_free c (i_replicaset_name i) \<and> i_replicaset_uuid i = new_uuid))"
proof -
  obtain t where t: "\<not> existed" "tier_by_name c tn = Some t" "i_tier i = t_name t" "i_uuid i = uuid"
    "i_raft_id i = max_raft_id c + 1" "i_failure_domain i = fd"
    "resolve_replicaset rr fd c t new_uuid = Inr (i_replicaset_name i, i_replicaset_uuid i)"
    "resolve_instance_name rn c (i_replicaset_name i) = Inr (i_name i)"
    "check_domains fd (failure_domain_names c) = Inr ()"
    using build_instance_newD [OF assms] by metis
  have "i_raft_id j < i_raft_id i \<and> i_uuid j \<noteq> i_uuid i" if "j \<in> set (c_instances c)" for j
    using max_raft_id_ge [OF that] instance_uuids.get_NoneD [OF assms(1) that] t by simp
  then show ?thesis
    using t resolve_replicaset_Inr [OF t(7)] resolve_instance_name_Inr [OF t(8)]
      tier_names.get_SomeD [OF t(2)] check_domains_Inr by auto
qed

text \<open>
  C13: the replicaset chosen for an instance that names none belongs to the tier and is not (being)
  expelled, has fewer instances than the replication factor, and none of them shares a failure domain
  with the new instance. A new replicaset is created only when no replicaset is like that, and then
  under a name that is free.
\<close>

theorem choose_replicaset_correct:
  "case choose_replicaset fd c t of
     Inr r \<Rightarrow> r \<in> set (c_replicasets c) \<and> joinable t r \<and>
       length (members c t r) < unat (t_replication_factor t) \<and>
       list_all (\<lambda>i. \<not> intersects (i_failure_domain i) fd) (members c t r)
   | Inl name \<Rightarrow> replicaset_name_free c name \<and>
       \<not> list_ex (\<lambda>r. joinable t r \<and> has_room fd c t r) (c_replicasets c)"
proof (cases "find (has_room fd c t) (sort_key r_name (filter (joinable t) (c_replicasets c)))")
  case None
  then show ?thesis
    using find_NoneD [OF None] by (auto simp: choose_replicaset_eq replicaset_name_loop_free list_ex_iff)
next
  case (Some r)
  then show ?thesis
    using find_SomeD [OF Some] by (simp add: choose_replicaset_eq has_room_def list_all_iff)
qed

text \<open>
  C17: the search for an instance name ends, with the smallest number whose name is free, and looks at
  no more numbers than there are instances plus one.
\<close>

theorem choose_instance_name_first:
  "\<exists>n. 1 \<le> n \<and> n \<le> 1 + length (c_instances c) \<and> choose_instance_name c r = numbered r n \<and>
     instance_name_free c (numbered r n) \<and>
     (\<nexists>k. 1 \<le> k \<and> k < n \<and> instance_name_free c (numbered r k))"
  using instance_search.loop_first_free [of 1 c r] by (auto simp: choose_instance_name_def)

section \<open>The effect of a join\<close>









definition replicaset_known :: "catalog \<Rightarrow> string \<Rightarrow> bool" where
  "replicaset_known c uuid \<longleftrightarrow> uuid \<in> r_uuid ` set (c_replicasets c)"









definition sample_request :: join_request where
  "sample_request =
     \<lparr>jr_cluster_name = ''demo'', jr_instance_name = None, jr_replicaset_name = None,
      jr_advertise_address = ''host4'', jr_pgproto_advertise_address = ''host4:4327'',
      jr_failure_domain = fmempty, jr_tier = ''default'', jr_picodata_version = ''25.6.0'',
      jr_uuid = ''uuid4'', jr_http_advertise_address = ''host4:8080'',
      jr_plugin_listener_addresses = [(''weather'', ''http'', ''host4:9000'')]\<rparr>"

definition joined_instance :: pico_instance where
  "joined_instance =
     (sample_instance ''default_2_2'' 4 ''default_2'' (State Offline 0) (State Offline 0))
       \<lparr>i_uuid := ''uuid4'', i_replicaset_uuid := ''default_2-uuid'',
        i_target_state_reason := Some [], i_target_state_change_time := Some 7\<rparr>"

lemma sample_build:
  "build_instance None None fmempty sample_catalog ''default'' ''25.6.0'' ''uuid4'' ''new-uuid'' 7 =
     Inr (joined_instance, False)"
  by code_simp

lemma sample_unknown: "by_uuid sample_catalog ''uuid4'' = None" "\<not> replicaset_known sample_catalog ''new-uuid''"
  by code_simp+

theorem build_instance_fresh_witness:
  "instance_name_free sample_catalog (i_name joined_instance) \<and>
   failure_domain_names sample_catalog \<subseteq> names (i_failure_domain joined_instance)"
  using build_instance_fresh [OF sample_unknown(1) sample_build] by blast


section \<open>Joining again and the retry loop\<close>

text \<open>
  C18: an instance whose uuid is already in the cluster is given its own row back, and this happens
  exactly when it is offline (current and target), asks for the same tier, failure domain and
  version, and names either nothing or its own name and replicaset.
\<close>

theorem rejoin_returns_same:
  assumes "by_uuid c uuid = Some i"
  shows "build_instance rn rr fd c tn v uuid new_uuid now = Inr (j, existed) \<longleftrightarrow>
    j = i \<and> existed \<and> has_states i (Is Offline) (Is Offline) \<and> rn \<in> {None, Some (i_name i)} \<and>
    rr \<in> {None, Some (i_replicaset_name i)} \<and> tn = i_tier i \<and> fd = i_failure_domain i \<and>
    v = i_picodata_version i"
  using assms by (auto simp: build_instance_def check_existing_def Let_def)

theorem rejoin_returns_same_witness:
  "build_instance None (Some ''default_2'') fmempty
     (apply_dmls sample_catalog (join_ops sample_request sample_catalog joined_instance))
     ''default'' ''25.6.0'' ''uuid4'' ''other-uuid'' 9 = Inr (joined_instance, True)"
proof -
  have "by_uuid (apply_dmls sample_catalog (join_ops sample_request sample_catalog joined_instance))
      ''uuid4'' = Some joined_instance"
    by code_simp
  from rejoin_returns_same [OF this] show ?thesis
    by (simp add: joined_instance_def sample_instance_def has_states_def State_def)
qed

text \<open>
  What a turn of the loop decides: an answer, an error, or (\<open>None\<close>) to try again because the
  compare and swap was rejected with a retriable error.
\<close>

definition turn_outcome ::
  "join_request \<Rightarrow> bool option \<Rightarrow> string \<Rightarrow> join_turn \<Rightarrow> join_response traft_result option" where
  "turn_outcome req shredding cuuid turn = join_loop req shredding cuuid [turn]"

lemma join_loop_Cons:
  "join_loop req shredding cuuid (turn # turns) =
     (case turn_outcome req shredding cuuid turn of
        None \<Rightarrow> join_loop req shredding cuuid turns | Some r \<Rightarrow> Some r)"
  by (auto simp: turn_outcome_def split: sum.splits prod.splits cas_result.splits)

lemma join_loop_first:
  "join_loop req shredding cuuid turns = Some r \<longleftrightarrow>
     (\<exists>k < length turns. turn_outcome req shredding cuuid (turns ! k) = Some r \<and>
        (\<forall>m < k. turn_outcome req shredding cuuid (turns ! m) = None))"
proof (induction turns)
  case (Cons turn turns)
  then show ?case
    by (simp add: join_loop_Cons Ex_less_Suc2 All_less_Suc2 del: join_loop.simps split: option.splits)
qed simp

lemma join_answerD:
  assumes "join_answer req c shredding cuuid i = Inr resp"
  shows "js_instance resp = i" "jr_advertise_address req \<in> js_box_replication resp"
    "\<And>j. j \<in> set (replicaset_instances c (i_replicaset_name i)) \<Longrightarrow>
       \<not> has_states j (Is Expelled) AnyState \<Longrightarrow>
       \<exists>a \<in> js_box_replication resp. peer_get c (i_raft_id j) (System Iproto) = Some a"
proof -
  from assms obtain as where as: "addresses_by_ids c (map i_raft_id
        (filter (\<lambda>i. \<not> has_states i (Is Expelled) AnyState)
          (replicaset_instances c (i_replicaset_name i)))) = Inr as"
    and resp: "js_instance resp = i" "js_box_replication resp = insert (jr_advertise_address req) as"
    unfolding join_answer_def Let_def rbind_eq_Inr by (cases shredding) fastforce+
  show "js_instance resp = i" "jr_advertise_address req \<in> js_box_replication resp"
    using resp by auto
  fix j
  assume "j \<in> set (replicaset_instances c (i_replicaset_name i))" "\<not> has_states j (Is Expelled) AnyState"
  then have "i_raft_id j \<in> set (map i_raft_id (filter (\<lambda>i. \<not> has_states i (Is Expelled) AnyState)
      (replicaset_instances c (i_replicaset_name i))))" (is "_ \<in> set ?ids")
    by simp
  moreover obtain xs where "rmap (\<lambda>rid. peer_try_get c rid (System Iproto)) ?ids = Inr xs" "as = set xs"
    using as unfolding addresses_by_ids_def rbind_eq_Inr by blast
  ultimately obtain a where "a \<in> as" "peer_try_get c (i_raft_id j) (System Iproto) = Inr a"
    using rmap_Inr_mem by metis
  then show "\<exists>a \<in> js_box_replication resp. peer_get c (i_raft_id j) (System Iproto) = Some a"
    unfolding peer_try_get_def using resp by (cases "peer_get c (i_raft_id j) (System Iproto)") auto
qed

abbreviation build_for :: "join_request \<Rightarrow> join_turn \<Rightarrow> (pico_instance \<times> bool) traft_result" where
  "build_for req turn \<equiv>
     build_instance (jr_instance_name req) (jr_replicaset_name req) (jr_failure_domain req)
       (jt_catalog turn) (jr_tier req) (jr_picodata_version req) (jr_uuid req)
       (jt_new_uuid turn) (jt_now turn)"

abbreviation propose :: "join_request \<Rightarrow> join_turn \<Rightarrow> pico_instance \<Rightarrow> cas_result traft_result" where
  "propose req turn i \<equiv> jt_cas turn (BatchDml (join_ops req (jt_catalog turn) i)) join_ranges"

lemma turn_outcome_None:
  "turn_outcome req shredding cuuid turn = None \<longleftrightarrow>
     (\<exists>i e. build_for req turn = Inr (i, False) \<and> propose req turn i = Inr (RetriableError e))"
  by (auto simp: turn_outcome_def split: sum.splits prod.splits cas_result.splits if_splits)

lemma turn_outcome_Inr:
  assumes "turn_outcome req shredding cuuid turn = Some (Inr resp)"
  shows "build_for req turn = Inr (js_instance resp, True) \<or>
    build_for req turn = Inr (js_instance resp, False) \<and>
    (\<exists>v. propose req turn (js_instance resp) = Inr (CasOk v))"
    and "jr_advertise_address req \<in> js_box_replication resp"
  using assms
  by (auto simp: turn_outcome_def join_answerD(1,2)
      split: sum.splits prod.splits cas_result.splits if_splits)

lemma build_instance_existed:
  assumes "build_instance rn rr fd c tn v uuid new_uuid now = Inr (i, existed)"
  shows "by_uuid c uuid = (if existed then Some i else None)"
  using assms
  by (cases "by_uuid c uuid")
    (auto simp: build_instance_def check_existing_def Let_def rbind_eq_Inr split: option.splits if_splits)

text \<open>
  C12: a join request succeeds only if it names this cluster and its version is compatible. The answer
  comes from one turn of the loop: either the instance was already in the catalog, or the batch with
  its rows was committed by the compare and swap of that turn over the four topology tables. Every
  earlier turn was rejected with a retriable error. The answer lists the instance's own address
  among the replication sources.
\<close>

theorem handle_join_outcome:
  assumes "handle_join_request_and_wait req cluster cuuid c shredding turns = Some (Inr resp)"
  shows "jr_cluster_name req = cluster \<and>
    (\<exists>b. compare_picodata_versions (c_cluster_version c) (jr_picodata_version req) = Inr b) \<and>
    jr_advertise_address req \<in> js_box_replication resp \<and>
    (\<exists>k < length turns.
       (by_uuid (jt_catalog (turns ! k)) (jr_uuid req) = Some (js_instance resp) \<or>
        by_uuid (jt_catalog (turns ! k)) (jr_uuid req) = None \<and>
        (\<exists>v. propose req (turns ! k) (js_instance resp) = Inr (CasOk v))) \<and>
       (\<forall>m < k. \<exists>i e. by_uuid (jt_catalog (turns ! m)) (jr_uuid req) = None \<and>
          propose req (turns ! m) i = Inr (RetriableError e)))"
proof -
  have check: "join_check req cluster c = Inr ()"
    and loop: "join_loop req shredding cuuid turns = Some (Inr resp)"
    using assms by (auto simp: handle_join_request_and_wait_def split: sum.splits)
  obtain k where k: "k < length turns" "turn_outcome req shredding cuuid (turns ! k) = Some (Inr resp)"
    "\<And>m. m < k \<Longrightarrow> turn_outcome req shredding cuuid (turns ! m) = None"
    using loop unfolding join_loop_first by blast
  have "\<exists>i e. by_uuid (jt_catalog (turns ! m)) (jr_uuid req) = None \<and>
      propose req (turns ! m) i = Inr (RetriableError e)" if "m < k" for m
    using k(3) [OF that] unfolding turn_outcome_None by (metis build_instance_existed)
  moreover have "by_uuid (jt_catalog (turns ! k)) (jr_uuid req) = Some (js_instance resp) \<or>
      by_uuid (jt_catalog (turns ! k)) (jr_uuid req) = None \<and>
      (\<exists>v. propose req (turns ! k) (js_instance resp) = Inr (CasOk v))"
    using turn_outcome_Inr(1) [OF k(2)] build_instance_existed by (metis (full_types))
  moreover have "jr_cluster_name req = cluster \<and>
      (\<exists>b. compare_picodata_versions (c_cluster_version c) (jr_picodata_version req) = Inr b)"
    using check by (auto simp: join_check_def rbind_eq_Inr split: if_splits)
  ultimately show ?thesis using k(1) turn_outcome_Inr(2) [OF k(2)] by blast
qed

text \<open>A sample run: the first proposal is rejected, the second one is committed.\<close>

definition sample_turn :: "cas_result \<Rightarrow> join_turn" where
  "sample_turn r =
     \<lparr>jt_catalog = sample_catalog, jt_new_uuid = ''new-uuid'', jt_now = 7, jt_cas = (\<lambda>_ _. Inr r),
      jt_catalog_after = apply_dmls sample_catalog (join_ops sample_request sample_catalog joined_instance)\<rparr>"

definition sample_response :: join_response where
  "sample_response =
     \<lparr>js_instance = joined_instance,
      js_peer_addresses = [(1, ''host1''), (2, ''host2''), (3, ''host3''), (4, ''host4'')],
      js_box_replication = {''host3'', ''host4''}, js_is_master = False, js_shredding = False,
      js_cluster_uuid = ''cluster-uuid''\<rparr>"

lemma version_25_6_0: "version_from_str ''25.6.0'' = Inr (new_clean 25 6 0)"
proof -
  have "version_fmt (new_clean 25 6 0) = ''25.6.0''"
    by (simp add: version_fmt_def new_clean_def show_nat.simps digit_char_def char_of_def bit_Suc_0_iff)
  then show ?thesis
    using version_from_str_fmt [of "new_clean 25 6 0"] by (simp add: valid_rest_def new_clean_def)
qed

lemma sample_check: "join_check sample_request ''demo'' sample_catalog = Inr ()"
proof -
  have "c_cluster_version sample_catalog = ''25.6.0''"
    by (simp add: sample_catalog_def Let_def)
  then show ?thesis
    using compare_same_version [OF version_25_6_0] by (simp add: join_check_def sample_request_def)
qed

lemma sample_build_for: "build_for sample_request (sample_turn r) = Inr (joined_instance, False)"
  using sample_build by (simp add: sample_request_def sample_turn_def)

lemma sample_answer:
  "join_answer sample_request
     (apply_dmls sample_catalog (join_ops sample_request sample_catalog joined_instance))
     (Some False) ''cluster-uuid'' joined_instance = Inr sample_response"
  by code_simp

theorem handle_join_outcome_witness:
  "jr_advertise_address sample_request \<in> js_box_replication sample_response"
proof -
  have "handle_join_request_and_wait sample_request ''demo'' ''cluster-uuid'' sample_catalog (Some False)
      [sample_turn (RetriableError LeaderUnknown), sample_turn (CasOk (9, 2, 6))] =
    Some (Inr sample_response)"
    using sample_build_for
    by (simp add: handle_join_request_and_wait_def sample_check sample_turn_def sample_answer)
  from handle_join_outcome [OF this] show ?thesis by blast
qed

end
