(* ===== verification/Update_Instance.thy ===== *)
theory Update_Instance
  imports Join
begin

text \<open>
  src/src/rpc/update_instance.rs and src/src/rpc/expel.rs: changing the state, the failure domain or
  the version of an instance. The request becomes an update of the instance's row and, when the
  target state changes, increments of the configuration versions the governor watches. The current
  time is an argument. The reachability record which a request for \<open>Online\<close> resets is the
  subject of src/src/reachability.rs and does not influence the request.
\<close>

section \<open>Requests\<close>

record update_request =
  u_instance_name :: string
  u_cluster_name :: string
  u_cluster_uuid :: string
  u_current_state :: "istate option"
  u_target_state :: "state_variant option"
  u_failure_domain :: "failure_domain option"
  u_dont_retry :: bool
  u_picodata_version :: "string option"
  u_target_state_reason :: "string option"

definition update_request_new :: "string \<Rightarrow> string \<Rightarrow> string \<Rightarrow> update_request" where
  "update_request_new name cluster cuuid =
     \<lparr>u_instance_name = name, u_cluster_name = cluster, u_cluster_uuid = cuuid,
      u_current_state = None, u_target_state = None, u_failure_domain = None,
      u_dont_retry = False, u_picodata_version = None, u_target_state_reason = None\<rparr>"

definition with_dont_retry :: "bool \<Rightarrow> update_request \<Rightarrow> update_request" where
  "with_dont_retry v r = r\<lparr>u_dont_retry := v\<rparr>"
definition with_current_state :: "istate \<Rightarrow> update_request \<Rightarrow> update_request" where
  "with_current_state v r = r\<lparr>u_current_state := Some v\<rparr>"
definition with_target_state :: "state_variant \<Rightarrow> update_request \<Rightarrow> update_request" where
  "with_target_state v r = r\<lparr>u_target_state := Some v\<rparr>"
definition with_target_state_reason :: "string \<Rightarrow> update_request \<Rightarrow> update_request" where
  "with_target_state_reason v r = r\<lparr>u_target_state_reason := Some v\<rparr>"
definition with_failure_domain :: "failure_domain \<Rightarrow> update_request \<Rightarrow> update_request" where
  "with_failure_domain v r = r\<lparr>u_failure_domain := Some v\<rparr>"
definition with_picodata_version :: "string \<Rightarrow> update_request \<Rightarrow> update_request" where
  "with_picodata_version v r = r\<lparr>u_picodata_version := Some v\<rparr>"

lemmas request_builders = update_request_new_def with_dont_retry_def with_current_state_def
  with_target_state_def with_target_state_reason_def with_failure_domain_def with_picodata_version_def

section \<open>The update of the row\<close>

definition TARGET_STATE_CHANGE_TIME_AVAILABLE_SINCE :: version where
  "TARGET_STATE_CHANGE_TIME_AVAILABLE_SINCE = new_clean 25 5 3"

text \<open>Each part of the request gives assignments, in the order of the code.\<close>

definition failure_domain_ops ::
  "pico_instance \<Rightarrow> update_request \<Rightarrow> string set option \<Rightarrow> update_op list traft_result" where
  "failure_domain_ops i req existing_fds =
     (case u_failure_domain req of
        None \<Rightarrow> Inr []
      | Some fd \<Rightarrow>
          (case existing_fds of
             None \<Rightarrow> Inl (Panic ''must be provided if request changes failure domains'')
           | Some fds \<Rightarrow>
               rbind (check_domains fd fds) (\<lambda>_.
                 Inr (if fd \<noteq> i_failure_domain i
                      then [Assign ''failure_domain'' (VFailureDomain fd)] else []))))"

definition current_state_ops :: "pico_instance \<Rightarrow> update_request \<Rightarrow> update_op list" where
  "current_state_ops i req =
     (case u_current_state req of
        None \<Rightarrow> []
      | Some s \<Rightarrow> if s \<noteq> i_current_state i then [Assign ''current_state'' (VState s)] else [])"

definition version_ops :: "pico_instance \<Rightarrow> update_request \<Rightarrow> string \<Rightarrow> update_op list traft_result" where
  "version_ops i req global_cluster_version =
     (case u_picodata_version req of
        None \<Rightarrow> Inr []
      | Some v \<Rightarrow>
          rbind (compare_picodata_versions global_cluster_version v) (\<lambda>_.
            Inr (if i_picodata_version i \<noteq> v then [Assign ''picodata_version'' (VString v)] else [])))"

definition requested_target :: "pico_instance \<Rightarrow> state_variant \<Rightarrow> istate" where
  "requested_target i v =
     State v (case v of
                Online \<Rightarrow> incarnation (i_target_state i) + 1
              | Offline \<Rightarrow> incarnation (i_current_state i)
              | Expelled \<Rightarrow> incarnation (i_current_state i))"

definition target_state_ops ::
  "pico_instance \<Rightarrow> update_request \<Rightarrow> string \<Rightarrow> nat \<Rightarrow> (update_op list \<times> bool) traft_result" where
  "target_state_ops i req catalog_version now =
     (case u_target_state req of
        None \<Rightarrow> Inr ([], False)
      | Some v \<Rightarrow>
          let s = requested_target i v in
          if s \<noteq> i_target_state i
          then rbind (version_is_new_enough catalog_version TARGET_STATE_CHANGE_TIME_AVAILABLE_SINCE) (\<lambda>enough.
                 Inr (Assign ''target_state'' (VState s) #
                      (if enough then [Assign ''target_state_change_time'' (VDatetime now)] else []), True))
          else Inr ([], False))"

definition reason_ops :: "pico_instance \<Rightarrow> update_request \<Rightarrow> string \<Rightarrow> update_op list traft_result" where
  "reason_ops i req catalog_version =
     (case u_target_state_reason req of
        None \<Rightarrow> Inr []
      | Some reason \<Rightarrow>
          if Some reason \<noteq> i_target_state_reason i
          then rbind (version_is_new_enough catalog_version TARGET_STATE_CHANGE_TIME_AVAILABLE_SINCE) (\<lambda>enough.
                 Inr (if enough then [Assign ''target_state_reason'' (VString reason)] else []))
          else Inr [])"

text \<open>An expelled instance only accepts a request that repeats its current state.\<close>

definition expelled_exempt :: "update_request \<Rightarrow> bool" where
  "expelled_exempt req \<longleftrightarrow>
     u_target_state req = None \<and> u_failure_domain req = None \<and>
     (case u_current_state req of Some s \<Rightarrow> variant s = Expelled | None \<Rightarrow> False)"

definition update_instance ::
  "pico_instance \<Rightarrow> update_request \<Rightarrow> string set option \<Rightarrow> string \<Rightarrow> string \<Rightarrow> nat \<Rightarrow>
     (pico_dml \<times> bool) option traft_result" where
  "update_instance i req existing_fds global_cluster_version catalog_version now =
     (if variant (i_current_state i) = Expelled \<and> \<not> expelled_exempt req
      then Inl (Other (''cannot update expelled instance '' @ [CHR 0x22] @ i_name i @ [CHR 0x22]))
      else
        rbind (failure_domain_ops i req existing_fds) (\<lambda>fd_ops.
        rbind (version_ops i req global_cluster_version) (\<lambda>v_ops.
        rbind (target_state_ops i req catalog_version now) (\<lambda>(t_ops, bump_needed).
        rbind (reason_ops i req catalog_version) (\<lambda>r_ops.
          let ops = fd_ops @ current_state_ops i req @ v_ops @ t_ops @ r_ops in
          Inr (if ops = [] then None
               else Some (DmlUpdate INSTANCES_TABLE_ID [KString (i_name i)] ops ADMIN_ID, bump_needed)))))))"

definition update_ranges :: "pico_key range list" where
  "update_ranges =
     [range_new INSTANCES_TABLE_ID, range_new PEER_ADDRESSES_TABLE_ID, range_new TIERS_TABLE_ID]"

definition replicaset_bump :: "replicaset \<Rightarrow> pico_dml" where
  "replicaset_bump r =
     DmlUpdate REPLICASETS_TABLE_ID [KString (r_name r)]
       [Assign ''target_config_version'' (VUnsigned (r_target_config_version r + 1))] ADMIN_ID"

definition prepare_update_instance_cas_request ::
  "update_request \<Rightarrow> pico_instance \<Rightarrow> replicaset \<Rightarrow> tier \<Rightarrow> string set option \<Rightarrow> string \<Rightarrow> string \<Rightarrow>
     nat \<Rightarrow> (pico_dml list \<times> pico_key range list) option traft_result" where
  "prepare_update_instance_cas_request req i r t existing_fds global_cluster_version catalog_version now =
     rbind (update_instance i req existing_fds global_cluster_version catalog_version now) (\<lambda>dml.
       case dml of
         None \<Rightarrow> Inr None
       | Some (dml, bump_needed) \<Rightarrow>
           Inr (Some
             ([dml] @ (if bump_needed then [replicaset_bump r] else []) @
              (if bump_needed \<and> has_buckets t then [get_vshard_config_version_bump_op t] else []),
              update_ranges)))"

section \<open>Handling a request\<close>

text \<open>
  A turn of the loop sees the catalog, the time and the outcome of the local compare and swap. The
  result also lists the raft ids whose reachability the turns reset.
\<close>

record update_turn =
  ut_catalog :: catalog
  ut_now :: nat
  ut_cas :: "pico_op \<Rightarrow> pico_key range list \<Rightarrow> cas_result traft_result"

fun update_loop ::
  "update_request \<Rightarrow> string \<Rightarrow> string \<Rightarrow> raft_id list \<Rightarrow> update_turn list \<Rightarrow>
     (raft_id list \<times> unit traft_result) option" where
  "update_loop req global_cluster_version catalog_version resets [] = None"
| "update_loop req global_cluster_version catalog_version resets (turn # turns) =
     (let c = ut_catalog turn in
      case instances_get c (u_instance_name req) of
        Inl e \<Rightarrow> Some (resets, Inl e)
      | Inr i \<Rightarrow>
          let resets = (if u_target_state req = Some Online then resets @ [i_raft_id i] else resets) in
          (case replicasets_get c (i_replicaset_name i) of
             None \<Rightarrow> Some (resets, Inl (NoSuchReplicaset (i_replicaset_name i) False))
           | Some r \<Rightarrow>
          (case tier_by_name c (i_tier i) of
             None \<Rightarrow> Some (resets, Inl (Panic ''tier for instance should exists''))
           | Some t \<Rightarrow>
          (case prepare_update_instance_cas_request req i r t (Some (failure_domain_names c))
                  global_cluster_version catalog_version (ut_now turn) of
             Inl e \<Rightarrow> Some (resets, Inl e)
           | Inr None \<Rightarrow> Some (resets, Inr ())
           | Inr (Some (ops, ranges)) \<Rightarrow>
          (case ut_cas turn (single_dml_or_batch ops) ranges of
             Inl e \<Rightarrow> Some (resets, Inl e)
           | Inr res \<Rightarrow>
               if u_dont_retry req
               then Some (resets, rbind (no_retries res) (\<lambda>_. Inr ()))
               else
                 (case into_retriable_error res of
                    Some _ \<Rightarrow> update_loop req global_cluster_version catalog_version resets turns
                  | None \<Rightarrow> Some (resets, Inr ())))))))"

definition handle_update_instance_request_and_wait ::
  "update_request \<Rightarrow> string \<Rightarrow> catalog \<Rightarrow> update_turn list \<Rightarrow> (raft_id list \<times> unit traft_result) option" where
  "handle_update_instance_request_and_wait req cuuid c turns =
     (if u_cluster_uuid req \<noteq> cuuid
      then Some ([], Inl (ClusterUuidMismatch (u_cluster_uuid req) cuuid))
      else update_loop req (c_cluster_version c) (c_system_catalog_version c) [] turns)"

definition proc_update_instance_impl ::
  "update_request \<Rightarrow> string \<Rightarrow> catalog \<Rightarrow> update_turn list \<Rightarrow> (raft_id list \<times> unit traft_result) option" where
  "proc_update_instance_impl req cuuid c turns =
     (if u_current_state req \<noteq> None
      then Some ([], Inl (Other ''Changing current state through Proc API is not allowed.''))
      else handle_update_instance_request_and_wait req cuuid c turns)"

section \<open>Expelling an instance\<close>

record expel_request =
  e_cluster_name :: string
  e_instance_uuid :: string
  e_force :: bool

fun variant_str :: "state_variant \<Rightarrow> string" where
  "variant_str Offline = ''Offline''"
| "variant_str Online = ''Online''"
| "variant_str Expelled = ''Expelled''"

definition instance_by_uuid :: "catalog \<Rightarrow> string \<Rightarrow> pico_instance traft_result" where
  "instance_by_uuid c uuid =
     (case by_uuid c uuid of Some i \<Rightarrow> Inr i | None \<Rightarrow> Inl (NoSuchInstance (ByUuid uuid)))"

definition expel_not_allowed :: "string \<Rightarrow> traft_error" where
  "expel_not_allowed msg = BoxError (code_num EcExpelNotAllowed) msg"

definition proc_expel ::
  "expel_request \<Rightarrow> string \<Rightarrow> string \<Rightarrow> catalog \<Rightarrow> update_turn list \<Rightarrow> (raft_id list \<times> unit traft_result) option" where
  "proc_expel req cluster cuuid c turns =
     (case instance_by_uuid c (e_instance_uuid req) of
        Inl e \<Rightarrow> Some ([], Inl e)
      | Inr i \<Rightarrow>
          if has_states i AnyState (Is Expelled) then Some ([], Inr ())
          else if \<not> e_force req \<and> \<not> has_states i (Is Offline) (Is Offline) then
            (let current = variant (i_current_state i); target = variant (i_target_state i);
                 state_repr = (if current \<noteq> target
                   then variant_str current @ '' -> '' @ variant_str target else variant_str current)
             in Some ([], Inl (expel_not_allowed (''attempt to expel instance '' @ quoted (i_name i) @
                  '' which is not Offline, but '' @ state_repr))))
          else
            let expel = handle_update_instance_request_and_wait
              (with_target_state_reason ''expel''
                (with_target_state Expelled (update_request_new (i_name i) cluster cuuid))) cuuid c turns in
            if \<not> e_force req
            then (case replicaset_by_uuid_raw c (i_replicaset_uuid i) of
                    Inl e \<Rightarrow> Some ([], Inl e)
                  | Inr r \<Rightarrow>
                      if i_name i = r_current_master_name r \<or> i_name i = r_target_master_name r
                      then Some ([], Inl (expel_not_allowed
                             (''attempt to expel replicaset master '' @ quoted (i_name i))))
                      else expel)
            else expel)"

section \<open>What a request asks for\<close>

definition enough_version :: "string \<Rightarrow> bool" where
  "enough_version catalog_version \<longleftrightarrow>
     version_is_new_enough catalog_version TARGET_STATE_CHANGE_TIME_AVAILABLE_SINCE = Inr True"

definition opt :: "'a option \<Rightarrow> 'a \<Rightarrow> 'a" where
  "opt x d = (case x of None \<Rightarrow> d | Some y \<Rightarrow> y)"

lemma opt_simps [simp]: "opt None d = d" "opt (Some y) d = y"
  by (simp_all add: opt_def)

definition new_target :: "update_request \<Rightarrow> pico_instance \<Rightarrow> istate" where
  "new_target req i = opt (map_option (requested_target i) (u_target_state req)) (i_target_state i)"

definition requested_instance :: "update_request \<Rightarrow> pico_instance \<Rightarrow> bool \<Rightarrow> nat \<Rightarrow> pico_instance" where
  "requested_instance req i enough now = i\<lparr>
     i_current_state := opt (u_current_state req) (i_current_state i),
     i_target_state := new_target req i,
     i_failure_domain := opt (u_failure_domain req) (i_failure_domain i),
     i_picodata_version := opt (u_picodata_version req) (i_picodata_version i),
     i_target_state_reason :=
       (if enough \<and> u_target_state_reason req \<noteq> None then u_target_state_reason req else i_target_state_reason i),
     i_target_state_change_time :=
       (if enough \<and> new_target req i \<noteq> i_target_state i then Some now else i_target_state_change_time i)\<rparr>"

definition updated_row :: "(pico_dml \<times> bool) option \<Rightarrow> pico_instance \<Rightarrow> pico_instance" where
  "updated_row res i =
     (case res of Some (DmlUpdate _ _ ops _, _) \<Rightarrow> foldl assign_instance i ops | _ \<Rightarrow> i)"

lemma failure_domain_ops_effect:
  "failure_domain_ops i req fds = Inr ops \<Longrightarrow>
     foldl assign_instance j ops =
       (if opt (u_failure_domain req) (i_failure_domain i) \<noteq> i_failure_domain i
        then j\<lparr>i_failure_domain := opt (u_failure_domain req) (i_failure_domain i)\<rparr> else j) \<and>
     (ops = [] \<longleftrightarrow> opt (u_failure_domain req) (i_failure_domain i) = i_failure_domain i)"
  by (auto simp: failure_domain_ops_def rbind_eq_Inr split: option.splits if_splits)

lemma current_state_ops_effect:
  "foldl assign_instance j (current_state_ops i req) =
     (if opt (u_current_state req) (i_current_state i) \<noteq> i_current_state i
      then j\<lparr>i_current_state := opt (u_current_state req) (i_current_state i)\<rparr> else j) \<and>
   (current_state_ops i req = [] \<longleftrightarrow> opt (u_current_state req) (i_current_state i) = i_current_state i)"
  by (auto simp: current_state_ops_def split: option.splits)

lemma version_ops_effect:
  "version_ops i req gv = Inr ops \<Longrightarrow>
     foldl assign_instance j ops =
       (if opt (u_picodata_version req) (i_picodata_version i) \<noteq> i_picodata_version i
        then j\<lparr>i_picodata_version := opt (u_picodata_version req) (i_picodata_version i)\<rparr> else j) \<and>
     (ops = [] \<longleftrightarrow> opt (u_picodata_version req) (i_picodata_version i) = i_picodata_version i)"
  by (auto simp: version_ops_def rbind_eq_Inr split: option.splits if_splits)

lemma enough_version_eq:
  "version_is_new_enough cv TARGET_STATE_CHANGE_TIME_AVAILABLE_SINCE = Inr b \<Longrightarrow> b = enough_version cv"
  by (simp add: enough_version_def)

lemma target_state_ops_effect:
  "target_state_ops i req cv now = Inr (ops, bump) \<Longrightarrow>
     foldl assign_instance j ops =
       (if new_target req i \<noteq> i_target_state i
        then if enough_version cv
             then j\<lparr>i_target_state := new_target req i, i_target_state_change_time := Some now\<rparr>
             else j\<lparr>i_target_state := new_target req i\<rparr>
        else j) \<and>
     (ops = [] \<longleftrightarrow> new_target req i = i_target_state i) \<and> (bump \<longleftrightarrow> new_target req i \<noteq> i_target_state i)"
  by (auto simp: target_state_ops_def new_target_def rbind_eq_Inr Let_def
      dest!: enough_version_eq split: option.splits if_splits)

lemma reason_ops_effect:
  "reason_ops i req cv = Inr ops \<Longrightarrow> v = u_target_state_reason req \<Longrightarrow>
     foldl assign_instance j ops =
       (if v \<noteq> None \<and> v \<noteq> i_target_state_reason i \<and> enough_version cv
        then j\<lparr>i_target_state_reason := v\<rparr> else j) \<and>
     (ops = [] \<longleftrightarrow> \<not> (v \<noteq> None \<and> v \<noteq> i_target_state_reason i \<and> enough_version cv))"
  by (auto simp: reason_ops_def rbind_eq_Inr dest!: enough_version_eq split: option.splits if_splits)

text \<open>The result of the function in terms of the parts of the request.\<close>

lemma update_instanceD:
  assumes "update_instance i req fds gv cv now = Inr res"
  obtains a b t bump r where
    "failure_domain_ops i req fds = Inr a" "version_ops i req gv = Inr b"
    "target_state_ops i req cv now = Inr (t, bump)" "reason_ops i req cv = Inr r"
    "res = (let ops = a @ current_state_ops i req @ b @ t @ r in
            if ops = [] then None
            else Some (DmlUpdate INSTANCES_TABLE_ID [KString (i_name i)] ops ADMIN_ID, bump))"
  using assms by (auto simp: update_instance_def rbind_eq_Inr Let_def split: if_splits)

lemma requested_instance_same:
  "requested_instance req i enough now = i \<longleftrightarrow>
     opt (u_failure_domain req) (i_failure_domain i) = i_failure_domain i \<and>
     opt (u_current_state req) (i_current_state i) = i_current_state i \<and>
     opt (u_picodata_version req) (i_picodata_version i) = i_picodata_version i \<and>
     new_target req i = i_target_state i \<and>
     \<not> (u_target_state_reason req \<noteq> None \<and> u_target_state_reason req \<noteq> i_target_state_reason i \<and> enough)"
  (is "?j = i \<longleftrightarrow> ?same")
proof
  assume j: "?j = i"
  have "i_failure_domain ?j = i_failure_domain i" "i_current_state ?j = i_current_state i"
    "i_picodata_version ?j = i_picodata_version i" "i_target_state ?j = i_target_state i"
    "i_target_state_reason ?j = i_target_state_reason i"
    by (simp_all only: j)
  then show ?same by (auto simp: requested_instance_def split: if_splits)
next
  assume ?same
  then show "?j = i" by (auto simp: requested_instance_def intro!: pico_instance.equality)
qed

lemma update_instance_row:
  assumes "update_instance i req fds gv cv now = Inr res"
  shows "updated_row res i = requested_instance req i (enough_version cv) now"
    and "res = None \<longleftrightarrow> requested_instance req i (enough_version cv) now = i"
    and "\<And>dml bump. res = Some (dml, bump) \<Longrightarrow>
           (\<exists>ops. dml = DmlUpdate INSTANCES_TABLE_ID [KString (i_name i)] ops ADMIN_ID) \<and>
           (bump \<longleftrightarrow> new_target req i \<noteq> i_target_state i)"
proof -
  from assms obtain a b t bump r where parts:
    "failure_domain_ops i req fds = Inr a" "version_ops i req gv = Inr b"
    "target_state_ops i req cv now = Inr (t, bump)" "reason_ops i req cv = Inr r"
    and res: "res = (let ops = a @ current_state_ops i req @ b @ t @ r in
            if ops = [] then None
            else Some (DmlUpdate INSTANCES_TABLE_ID [KString (i_name i)] ops ADMIN_ID, bump))"
    by (rule update_instanceD)
  note effects = failure_domain_ops_effect [OF parts(1)] version_ops_effect [OF parts(2)]
    target_state_ops_effect [OF parts(3)] reason_ops_effect [OF parts(4) refl]
    current_state_ops_effect [of _ i req]
  have row: "foldl assign_instance i (a @ current_state_ops i req @ b @ t @ r) =
      requested_instance req i (enough_version cv) now"
    by (simp add: effects requested_instance_def)
  show "updated_row res i = requested_instance req i (enough_version cv) now"
    using row by (auto simp: res updated_row_def Let_def)
  show "res = None \<longleftrightarrow> requested_instance req i (enough_version cv) now = i"
    unfolding requested_instance_same using effects by (simp add: res Let_def)
  show "\<And>dml bump. res = Some (dml, bump) \<Longrightarrow>
           (\<exists>ops. dml = DmlUpdate INSTANCES_TABLE_ID [KString (i_name i)] ops ADMIN_ID) \<and>
           (bump \<longleftrightarrow> new_target req i \<noteq> i_target_state i)"
    using effects(3) by (auto simp: res Let_def split: if_splits)
qed

section \<open>Correctness\<close>


definition sample_update :: update_request where
  "sample_update = with_target_state Offline (update_request_new ''default_1_2'' ''demo'' ''cluster-uuid'')"

lemma enough_25_6_0: "version_is_new_enough ''25.6.0'' TARGET_STATE_CHANGE_TIME_AVAILABLE_SINCE = Inr True"
  by (simp add: version_is_new_enough_def version_25_6_0 TARGET_STATE_CHANGE_TIME_AVAILABLE_SINCE_def
      new_clean_def cmp_up_to_patch_def cmp_def)

definition sample_member :: pico_instance where
  "sample_member = sample_instance ''default_1_2'' 2 ''default_1'' (State Online 1) (State Online 1)"

lemma sample_update_runs:
  "update_instance sample_member sample_update (Some {}) ''25.6.0'' ''25.6.0'' 7 =
     Inr (Some (DmlUpdate INSTANCES_TABLE_ID [KString ''default_1_2'']
       [Assign ''target_state'' (VState (State Offline 1)), Assign ''target_state_change_time'' (VDatetime 7)]
       ADMIN_ID, True))"
  by (simp add: update_instance_def sample_update_def request_builders sample_member_def
      sample_instance_def State_def failure_domain_ops_def current_state_ops_def version_ops_def
      target_state_ops_def reason_ops_def requested_target_def enough_25_6_0 Let_def)


lemma prepare_updateD:
  assumes "prepare_update_instance_cas_request req i r t fds gv cv now = Inr (Some (ops, ranges))"
  obtains us where "ranges = update_ranges"
    "foldl assign_instance i us = requested_instance req i (enough_version cv) now"
    "ops = DmlUpdate INSTANCES_TABLE_ID [KString (i_name i)] us ADMIN_ID #
       (if new_target req i \<noteq> i_target_state i
        then replicaset_bump r # (if has_buckets t then [get_vshard_config_version_bump_op t] else []) else [])"
proof -
  from assms obtain dml bump where run: "update_instance i req fds gv cv now = Inr (Some (dml, bump))"
    and ops: "ranges = update_ranges" "ops = [dml] @ (if bump then [replicaset_bump r] else []) @
      (if bump \<and> has_buckets t then [get_vshard_config_version_bump_op t] else [])"
    by (auto simp: prepare_update_instance_cas_request_def rbind_eq_Inr split: option.splits)
  obtain us where us: "dml = DmlUpdate INSTANCES_TABLE_ID [KString (i_name i)] us ADMIN_ID"
    "bump \<longleftrightarrow> new_target req i \<noteq> i_target_state i"
    using update_instance_row(3) [OF run refl] by blast
  show thesis
    using that [of us] ops us update_instance_row(1) [OF run] by (simp add: updated_row_def)
qed

text \<open>
  C7: once the batch prepared for a request is applied, the instance's row is the requested one, the
  rows of all other instances are as before, and the unique indexes still hold. If the target state
  changed, the target configuration version of the instance's replicaset is one greater, and so is
  that of its tier if the tier has buckets; otherwise they are as before.
\<close>

theorem update_request_effect:
  assumes "catalog_ok c" "find_instance c n = Some i" "replicasets_get c (i_replicaset_name i) = Some r"
    and "tier_by_name c (i_tier i) = Some t"
    and "prepare_update_instance_cas_request req i r t fds gv cv now = Inr (Some (ops, ranges))"
    and "c' = apply_dmls c ops" and "changed \<longleftrightarrow> new_target req i \<noteq> i_target_state i"
  shows "catalog_ok c' \<and>
    (\<forall>m. find_instance c' m =
       (if m = n then Some (requested_instance req i (enough_version cv) now) else find_instance c m)) \<and>
    replicasets_get c' (r_name r) =
      Some (if changed then r\<lparr>r_target_config_version := r_target_config_version r + 1\<rparr> else r) \<and>
    tier_by_name c' (t_name t) =
      Some (if changed \<and> has_buckets t
            then t\<lparr>t_target_vshard_config_version := t_target_vshard_config_version t + 1\<rparr> else t)"
proof -
  obtain us where us: "foldl assign_instance i us = requested_instance req i (enough_version cv) now"
    "ops = DmlUpdate INSTANCES_TABLE_ID [KString (i_name i)] us ADMIN_ID #
       (if changed
        then replicaset_bump r # (if has_buckets t then [get_vshard_config_version_bump_op t] else []) else [])"
    unfolding assms(7) by (rule prepare_updateD [OF assms(5)])
  have names: "i_name i = n" "r_name r = i_replicaset_name i" "t_name t = i_tier i"
    using assms(2,3,4) instance_names.get_SomeD replicaset_names.get_SomeD tier_names.get_SomeD by blast+
  note run = assms(6) us(2) replicaset_bump_def get_vshard_config_version_bump_op_def apply_dmls_simps
    apply_dml.simps
  have ok: "catalog_ok c'"
    unfolding run by (cases changed; cases "has_buckets t"; simp add: catalog_ok_update_row assms(1))
  have moved: "find_instance c' m = map_option (\<lambda>j. if i_name j = i_name i then foldl assign_instance j us else j)
      (find_instance c m)" for m
    unfolding run by (cases changed; cases "has_buckets t"; simp add: row_lookups)
  have inst: "find_instance c' m = (if m = n then Some (requested_instance req i (enough_version cv) now)
      else find_instance c m)" for m
  proof (cases "find_instance c m")
    case None
    then have "m \<noteq> n" using assms(2) by force
    with None show ?thesis by (simp only: moved option.map if_False)
  next
    case (Some j)
    then have m: "i_name j = m" using instance_names.get_SomeD by blast
    show ?thesis
    proof (cases "m = n")
      case True
      then have "j = i" using Some assms(2) by simp
      with True Some show ?thesis by (simp only: moved option.map us(1) if_True refl)
    qed (use Some m names(1) in \<open>simp add: moved\<close>)
  qed
  have "replicasets_get c' (i_replicaset_name i) =
      Some (if changed then r\<lparr>r_target_config_version := r_target_config_version r + 1\<rparr> else r)"
    unfolding run by (cases changed; cases "has_buckets t"; simp add: row_lookups assms(3))
  moreover have "tier_by_name c' (i_tier i) = Some (if changed \<and> has_buckets t
      then t\<lparr>t_target_vshard_config_version := t_target_vshard_config_version t + 1\<rparr> else t)"
    unfolding run by (cases changed; cases "has_buckets t"; simp add: row_lookups assms(4))
  ultimately show ?thesis unfolding names(2,3) using ok inst by blast
qed

lemma sample_member_found:
  "find_instance sample_catalog ''default_1_2'' = Some sample_member"
  "replicasets_get sample_catalog ''default_1'' =
     Some (with_one_instance (sample_instance ''default_1_1'' 1 ''default_1'' (State Online 1) (State Online 1)))"
  "tier_by_name sample_catalog ''default'' = Some sample_tier"
  by code_simp+

lemma sample_prepare:
  "prepare_update_instance_cas_request sample_update sample_member r sample_tier (Some {}) ''25.6.0'' ''25.6.0'' 7 =
     Inr (Some ([DmlUpdate INSTANCES_TABLE_ID [KString ''default_1_2'']
       [Assign ''target_state'' (VState (State Offline 1)), Assign ''target_state_change_time'' (VDatetime 7)]
       ADMIN_ID, replicaset_bump r, get_vshard_config_version_bump_op sample_tier], update_ranges))"
  by (simp add: prepare_update_instance_cas_request_def sample_update_runs sample_tier_def has_buckets_def)

theorem update_request_effect_witness:
  "\<exists>ops. catalog_ok (apply_dmls sample_catalog ops) \<and>
     find_instance (apply_dmls sample_catalog ops) ''default_1_2'' =
       Some (requested_instance sample_update sample_member (enough_version ''25.6.0'') 7)"
proof -
  have "i_replicaset_name sample_member = ''default_1''" "i_tier sample_member = ''default''"
    by (simp_all add: sample_member_def sample_instance_def)
  then have "replicasets_get sample_catalog (i_replicaset_name sample_member) = Some (with_one_instance
      (sample_instance ''default_1_1'' 1 ''default_1'' (State Online 1) (State Online 1)))"
    "tier_by_name sample_catalog (i_tier sample_member) = Some sample_tier"
    using sample_member_found(2,3) by simp_all
  note effect = update_request_effect
    [OF sample_catalog_ok sample_member_found(1) this sample_prepare refl refl]
  show ?thesis
    by (intro exI conjI, rule conjunct1 [OF effect])
      (simp only: conjunct1 [OF conjunct2 [OF effect], rule_format] refl if_True)
qed

text \<open>
  C15: expulsion is final. Through the procedure (which may not set the current state) no request to
  change an expelled instance succeeds, and none reaches the compare and swap: whatever the turns, the
  outcome is an error.
\<close>

theorem expelled_is_final:
  assumes "find_instance (ut_catalog turn) (u_instance_name req) = Some i"
    and "variant (i_current_state i) = Expelled"
  shows "\<exists>resets e. proc_update_instance_impl req cuuid c (turn # turns) = Some (resets, Inl e)"
proof -
  have "update_instance i req fds gv cv now =
      Inl (Other (''cannot update expelled instance '' @ [CHR 0x22] @ i_name i @ [CHR 0x22]))"
    if "u_current_state req = None" for fds gv cv now
    using that assms(2) by (simp add: update_instance_def expelled_exempt_def)
  then show ?thesis
    using assms(1)
    by (auto simp: proc_update_instance_impl_def handle_update_instance_request_and_wait_def Let_def
        instances_get_def prepare_update_instance_cas_request_def split: option.splits)
qed

definition expelled_catalog :: catalog where
  "expelled_catalog = sample_catalog
     \<lparr>c_instances := [sample_member\<lparr>i_current_state := State Expelled 1, i_target_state := State Expelled 1\<rparr>]\<rparr>"

theorem expelled_is_final_witness:
  "\<exists>resets e. proc_update_instance_impl sample_update ''cluster-uuid'' expelled_catalog
     [\<lparr>ut_catalog = expelled_catalog, ut_now = 7, ut_cas = (\<lambda>_ _. Inr (CasOk (9, 2, 1)))\<rparr>] = Some (resets, Inl e)"
  by (rule expelled_is_final
      [of _ _ "sample_member\<lparr>i_current_state := State Expelled 1, i_target_state := State Expelled 1\<rparr>"])
    (simp_all add: expelled_catalog_def find_instance_def sample_update_def request_builders
      sample_member_def sample_instance_def State_def)

text \<open>
  C16: an instance is expelled without force only when it is offline and is not the master of its
  replicaset (neither the current nor the target one). So whenever the procedure ends well without
  force for an instance that was not being expelled yet, these guards hold.
\<close>

theorem expel_is_guarded:
  assumes "proc_expel req cluster cuuid c turns = Some (resets, Inr ())" "\<not> e_force req"
    and "by_uuid c (e_instance_uuid req) = Some i" "\<not> has_states i AnyState (Is Expelled)"
  shows "has_states i (Is Offline) (Is Offline) \<and>
    (\<exists>r. replicaset_by_uuid_raw c (i_replicaset_uuid i) = Inr r \<and>
       i_name i \<noteq> r_current_master_name r \<and> i_name i \<noteq> r_target_master_name r)"
  using assms
  by (auto simp: proc_expel_def instance_by_uuid_def Let_def split: if_splits sum.splits)

definition leaving_catalog :: catalog where
  "leaving_catalog = sample_catalog
     \<lparr>c_instances := [sample_member\<lparr>i_current_state := State Offline 1, i_target_state := State Offline 1\<rparr>]\<rparr>"

definition sample_expel :: expel_request where
  "sample_expel = \<lparr>e_cluster_name = ''demo'', e_instance_uuid = ''default_1_2-uuid'', e_force = False\<rparr>"

lemma sample_expel_runs:
  "proc_expel sample_expel ''demo'' ''cluster-uuid'' leaving_catalog
     [\<lparr>ut_catalog = leaving_catalog, ut_now = 7, ut_cas = (\<lambda>_ _. Inr (CasOk (9, 2, 1)))\<rparr>] = Some ([], Inr ())"
proof -
  have "c_cluster_version sample_catalog = ''25.6.0''" "c_system_catalog_version sample_catalog = ''25.6.0''"
    by (simp_all add: sample_catalog_def Let_def)
  then show ?thesis
    by (simp add: proc_expel_def sample_expel_def leaving_catalog_def instance_by_uuid_def by_uuid_def
        sample_member_def sample_instance_def has_states_def State_def replicaset_by_uuid_raw_def
        sample_catalog_def with_one_instance_def handle_update_instance_request_and_wait_def
        request_builders Let_def instances_get_def find_instance_def replicasets_get_def
        tier_by_name_def sample_tier_def prepare_update_instance_cas_request_def update_instance_def
        failure_domain_ops_def current_state_ops_def version_ops_def target_state_ops_def
        reason_ops_def requested_target_def enough_25_6_0 has_buckets_def)
qed

theorem expel_is_guarded_witness:
  "has_states (sample_member\<lparr>i_current_state := State Offline 1, i_target_state := State Offline 1\<rparr>)
     (Is Offline) (Is Offline)"
  using expel_is_guarded [OF sample_expel_runs,
      of "sample_member\<lparr>i_current_state := State Offline 1, i_target_state := State Offline 1\<rparr>"]
  by (simp add: sample_expel_def leaving_catalog_def by_uuid_def sample_member_def sample_instance_def
      has_states_def State_def)

section \<open>A random peer\<close>

text \<open>
  \<open>Vec::swap_remove\<close>, and the draws of the random generator as a function of the number of
  remaining candidates: every round has one candidate less, so this covers every sequence of draws.
\<close>

definition swap_remove :: "nat \<Rightarrow> 'a list \<Rightarrow> 'a list" where
  "swap_remove k xs = (if k = length xs - 1 then butlast xs else (butlast xs)[k := last xs])"

lemma length_swap_remove [simp]: "length (swap_remove k xs) = length xs - 1"
  by (simp add: swap_remove_def)










end
