(* ===== verification/Topology_Cache.thy ===== *)
theory Topology_Cache
  imports Catalog_Ops
begin

text \<open>
  src/src/topology_cache.rs: the deserialized rows of the topology tables which every instance keeps
  up to date while it applies raft entries. A \<open>HashMap\<close> is an \<open>fmap\<close> and a \<open>OnceCell\<close>
  an \<open>option\<close>. The rows of \<open>_pico_bucket\<close> and \<open>_pico_resharding_state\<close> are ignored by the
  cache. A call of \<open>expect\<close> on a cell that is empty is the error \<open>Panic\<close>.
\<close>

record service_route_item =
  sr_plugin_name :: string
  sr_plugin_version :: string
  sr_service_name :: string
  sr_instance_name :: string
  sr_poison :: bool

type_synonym service_routes =
  "(string, (string, (string, (string, bool) fmap) fmap) fmap) fmap"

record topology_cache_mutable =
  tc_my_raft_id :: raft_id
  tc_this_instance :: "pico_instance option"
  tc_this_replicaset :: "replicaset option"
  tc_this_tier :: "tier option"
  tc_instances_by_name :: "(string, pico_instance) fmap"
  tc_instance_name_by_uuid :: "(string, string) fmap"
  tc_replicasets_by_uuid :: "(string, replicaset) fmap"
  tc_replicaset_uuid_by_name :: "(string, string) fmap"
  tc_tiers_by_name :: "(string, tier) fmap"
  tc_default_tier :: "tier option"
  tc_service_routes :: service_routes

section \<open>Loading\<close>

definition load_instance :: "raft_id \<Rightarrow> topology_cache_mutable \<Rightarrow> pico_instance \<Rightarrow> topology_cache_mutable" where
  "load_instance my_raft_id k i = k\<lparr>
     tc_this_instance := (if i_raft_id i = my_raft_id then Some i else tc_this_instance k),
     tc_instance_name_by_uuid := fmupd (i_uuid i) (i_name i) (tc_instance_name_by_uuid k),
     tc_instances_by_name := fmupd (i_name i) i (tc_instances_by_name k)\<rparr>"

definition load_replicaset :: "topology_cache_mutable \<Rightarrow> replicaset \<Rightarrow> topology_cache_mutable" where
  "load_replicaset k r = k\<lparr>
     tc_this_replicaset :=
       (case tc_this_instance k of
          Some i \<Rightarrow> if r_uuid r = i_replicaset_uuid i then Some r else tc_this_replicaset k
        | None \<Rightarrow> tc_this_replicaset k),
     tc_replicaset_uuid_by_name := fmupd (r_name r) (r_uuid r) (tc_replicaset_uuid_by_name k),
     tc_replicasets_by_uuid := fmupd (r_uuid r) r (tc_replicasets_by_uuid k)\<rparr>"

definition load_tier :: "topology_cache_mutable \<Rightarrow> tier \<Rightarrow> topology_cache_mutable" where
  "load_tier k t = k\<lparr>
     tc_this_tier :=
       (case tc_this_instance k of
          Some i \<Rightarrow> if t_name t = i_tier i then Some t else tc_this_tier k
        | None \<Rightarrow> tc_this_tier k),
     tc_default_tier := (if t_is_default t = Some True then Some t else tc_default_tier k),
     tc_tiers_by_name := fmupd (t_name t) t (tc_tiers_by_name k)\<rparr>"

definition or_default :: "('a, ('b, 'c) fmap) fmap \<Rightarrow> 'a \<Rightarrow> ('b, 'c) fmap" where
  "or_default m k = (case fmlookup m k of Some v \<Rightarrow> v | None \<Rightarrow> fmempty)"

definition insert_route :: "service_routes \<Rightarrow> service_route_item \<Rightarrow> service_routes" where
  "insert_route m item =
     (let plugin = or_default m (sr_plugin_name item);
          version = or_default plugin (sr_plugin_version item);
          service = or_default version (sr_service_name item)
      in fmupd (sr_plugin_name item)
           (fmupd (sr_plugin_version item)
             (fmupd (sr_service_name item)
               (fmupd (sr_instance_name item) (sr_poison item) service) version) plugin) m)"

definition empty_cache :: "raft_id \<Rightarrow> topology_cache_mutable" where
  "empty_cache my_raft_id = \<lparr>tc_my_raft_id = my_raft_id, tc_this_instance = None, tc_this_replicaset = None,
     tc_this_tier = None, tc_instances_by_name = fmempty, tc_instance_name_by_uuid = fmempty,
     tc_replicasets_by_uuid = fmempty, tc_replicaset_uuid_by_name = fmempty, tc_tiers_by_name = fmempty,
     tc_default_tier = None, tc_service_routes = fmempty\<rparr>"

definition cache_load :: "catalog \<Rightarrow> service_route_item list \<Rightarrow> raft_id \<Rightarrow> topology_cache_mutable" where
  "cache_load c routes my_raft_id =
     (let k = foldl (load_instance my_raft_id) (empty_cache my_raft_id) (c_instances c);
          k = foldl load_replicaset k (c_replicasets c);
          k = foldl load_tier k (c_tiers c)
      in k\<lparr>tc_service_routes := foldl insert_route (tc_service_routes k) routes\<rparr>)"

section \<open>Lookups\<close>

definition known :: "'a option \<Rightarrow> 'a traft_result" where
  "known x = (case x of Some v \<Rightarrow> Inr v | None \<Rightarrow> Inl (Panic ''should be known at this point''))"

definition this_instance :: "topology_cache_mutable \<Rightarrow> pico_instance traft_result" where
  "this_instance k = known (tc_this_instance k)"
definition this_replicaset :: "topology_cache_mutable \<Rightarrow> replicaset traft_result" where
  "this_replicaset k = known (tc_this_replicaset k)"
definition this_tier :: "topology_cache_mutable \<Rightarrow> tier traft_result" where
  "this_tier k = known (tc_this_tier k)"

definition all_instances :: "topology_cache_mutable \<Rightarrow> pico_instance set" where
  "all_instances k = fmran' (tc_instances_by_name k)"
definition all_replicasets :: "topology_cache_mutable \<Rightarrow> replicaset set" where
  "all_replicasets k = fmran' (tc_replicasets_by_uuid k)"
definition all_tiers :: "topology_cache_mutable \<Rightarrow> tier set" where
  "all_tiers k = fmran' (tc_tiers_by_name k)"

definition cache_instance_by_name :: "topology_cache_mutable \<Rightarrow> string \<Rightarrow> pico_instance traft_result" where
  "cache_instance_by_name k name =
     rbind (known (tc_this_instance k)) (\<lambda>this.
       if i_name this = name then Inr this
       else (case fmlookup (tc_instances_by_name k) name of
               Some i \<Rightarrow> Inr i
             | None \<Rightarrow> Inl (NoSuchInstance (ByName name))))"

definition cache_instance_by_uuid :: "topology_cache_mutable \<Rightarrow> string \<Rightarrow> pico_instance traft_result" where
  "cache_instance_by_uuid k uuid =
     rbind (known (tc_this_instance k)) (\<lambda>this.
       if i_uuid this = uuid then Inr this
       else (case fmlookup (tc_instance_name_by_uuid k) uuid of
               Some name \<Rightarrow> cache_instance_by_name k name
             | None \<Rightarrow> Inl (NoSuchInstance (ByUuid uuid))))"

definition cache_replicaset_by_uuid :: "topology_cache_mutable \<Rightarrow> string \<Rightarrow> replicaset traft_result" where
  "cache_replicaset_by_uuid k uuid =
     (let lookup = (case fmlookup (tc_replicasets_by_uuid k) uuid of
          Some r \<Rightarrow> Inr r
        | None \<Rightarrow> Inl (NoSuchReplicaset uuid True)) in
      case tc_this_replicaset k of
        Some r \<Rightarrow> if r_uuid r = uuid then Inr r else lookup
      | None \<Rightarrow> lookup)"

definition cache_replicaset_by_name :: "topology_cache_mutable \<Rightarrow> string \<Rightarrow> replicaset traft_result" where
  "cache_replicaset_by_name k name =
     (let lookup = (case fmlookup (tc_replicaset_uuid_by_name k) name of
          Some uuid \<Rightarrow> cache_replicaset_by_uuid k uuid
        | None \<Rightarrow> Inl (NoSuchReplicaset name False)) in
      case tc_this_replicaset k of
        Some r \<Rightarrow> if r_name r = name then Inr r else lookup
      | None \<Rightarrow> lookup)"

definition cache_tier_by_name :: "topology_cache_mutable \<Rightarrow> string \<Rightarrow> tier traft_result" where
  "cache_tier_by_name k name =
     (let lookup = (case fmlookup (tc_tiers_by_name k) name of
          Some t \<Rightarrow> Inr t
        | None \<Rightarrow> Inl (NoSuchTier name)) in
      case tc_this_tier k of
        Some t \<Rightarrow> if t_name t = name then Inr t else lookup
      | None \<Rightarrow> lookup)"

datatype service_route_check = RouteOk | RoutePoisoned | ServiceNotEnabled

definition find_route :: "service_routes \<Rightarrow> string \<Rightarrow> string \<Rightarrow> string \<Rightarrow> string \<Rightarrow> bool option" where
  "find_route m plugin version service instance_name =
     Option.bind (fmlookup m plugin) (\<lambda>m.
     Option.bind (fmlookup m version) (\<lambda>m.
     Option.bind (fmlookup m service) (\<lambda>m.
       fmlookup m instance_name)))"

definition check_service_route ::
  "topology_cache_mutable \<Rightarrow> string \<Rightarrow> string \<Rightarrow> string \<Rightarrow> string \<Rightarrow> service_route_check" where
  "check_service_route k plugin version service instance_name =
     (case find_route (tc_service_routes k) plugin version service instance_name of
        None \<Rightarrow> ServiceNotEnabled
      | Some is_poisoned \<Rightarrow> if is_poisoned then RoutePoisoned else RouteOk)"

definition instances_running_service ::
  "topology_cache_mutable \<Rightarrow> string \<Rightarrow> string \<Rightarrow> string \<Rightarrow> string set" where
  "instances_running_service k plugin version service =
     (case Option.bind (fmlookup (tc_service_routes k) plugin) (\<lambda>m.
           Option.bind (fmlookup m version) (\<lambda>m. fmlookup m service)) of
        None \<Rightarrow> {}
      | Some m \<Rightarrow> Set.filter (\<lambda>i. fmlookup m i = Some False) (fmdom' m))"

section \<open>Updates\<close>

text \<open>
  An update gets the row of the table before and after a change. Both absent is the code's
  \<open>unreachable!()\<close>.
\<close>

definition unreachable :: "'a traft_result" where
  "unreachable = Inl (Panic ''internal error: entered unreachable code'')"

definition cache_update_instance ::
  "pico_instance option \<Rightarrow> pico_instance option \<Rightarrow> topology_cache_mutable \<Rightarrow> topology_cache_mutable traft_result" where
  "cache_update_instance old new k =
     (let k = (case new of
          Some n \<Rightarrow> if i_raft_id n = tc_my_raft_id k then k\<lparr>tc_this_instance := Some n\<rparr> else k
        | None \<Rightarrow> k) in
      case (old, new) of
        (None, Some n) \<Rightarrow>
          Inr (k\<lparr>tc_instance_name_by_uuid := fmupd (i_uuid n) (i_name n) (tc_instance_name_by_uuid k),
                 tc_instances_by_name := fmupd (i_name n) n (tc_instances_by_name k)\<rparr>)
      | (Some ol, Some n) \<Rightarrow>
          Inr (if ol \<noteq> n
               then let k = (if i_uuid ol \<noteq> i_uuid n
                      then k\<lparr>tc_instance_name_by_uuid :=
                        fmdrop (i_uuid ol) (fmupd (i_uuid n) (i_name n) (tc_instance_name_by_uuid k))\<rparr>
                      else k)
                    in k\<lparr>tc_instances_by_name := fmupd (i_name n) n (tc_instances_by_name k)\<rparr>
               else k)
      | (Some ol, None) \<Rightarrow>
          Inr (k\<lparr>tc_instance_name_by_uuid := fmdrop (i_uuid ol) (tc_instance_name_by_uuid k),
                 tc_instances_by_name := fmdrop (i_name ol) (tc_instances_by_name k)\<rparr>)
      | (None, None) \<Rightarrow> unreachable)"

definition cache_update_replicaset ::
  "replicaset option \<Rightarrow> replicaset option \<Rightarrow> topology_cache_mutable \<Rightarrow> topology_cache_mutable traft_result" where
  "cache_update_replicaset old new k =
     (let k = (case (new, tc_this_instance k) of
          (Some n, Some this) \<Rightarrow>
            if r_name n = i_replicaset_name this then k\<lparr>tc_this_replicaset := Some n\<rparr> else k
        | _ \<Rightarrow> k) in
      case (old, new) of
        (None, Some n) \<Rightarrow>
          Inr (k\<lparr>tc_replicaset_uuid_by_name := fmupd (r_name n) (r_uuid n) (tc_replicaset_uuid_by_name k),
                 tc_replicasets_by_uuid := fmupd (r_uuid n) n (tc_replicasets_by_uuid k)\<rparr>)
      | (Some ol, Some n) \<Rightarrow>
          Inr (if ol \<noteq> n
               then let k = (if r_uuid ol \<noteq> r_uuid n
                      then k\<lparr>tc_replicaset_uuid_by_name := fmupd (r_name n) (r_uuid n) (tc_replicaset_uuid_by_name k),
                             tc_replicasets_by_uuid := fmdrop (r_uuid ol) (tc_replicasets_by_uuid k)\<rparr>
                      else k)
                    in k\<lparr>tc_replicasets_by_uuid := fmupd (r_uuid n) n (tc_replicasets_by_uuid k)\<rparr>
               else k)
      | (Some ol, None) \<Rightarrow>
          Inr (k\<lparr>tc_replicaset_uuid_by_name := fmdrop (r_name ol) (tc_replicaset_uuid_by_name k),
                 tc_replicasets_by_uuid := fmdrop (r_uuid ol) (tc_replicasets_by_uuid k)\<rparr>)
      | (None, None) \<Rightarrow> unreachable)"

definition cache_update_tier ::
  "tier option \<Rightarrow> tier option \<Rightarrow> topology_cache_mutable \<Rightarrow> topology_cache_mutable traft_result" where
  "cache_update_tier old new k =
     (case new of
        Some n \<Rightarrow>
          let k = (case tc_this_instance k of
                Some this \<Rightarrow> if t_name n = i_tier this then k\<lparr>tc_this_tier := Some n\<rparr> else k
              | None \<Rightarrow> k);
              k = (if t_is_default n = Some True then k\<lparr>tc_default_tier := Some n\<rparr> else k)
          in Inr (k\<lparr>tc_tiers_by_name := fmupd (t_name n) n (tc_tiers_by_name k)\<rparr>)
      | None \<Rightarrow>
          (case old of
             Some ol \<Rightarrow>
               let k = (if t_is_default ol = Some True then k\<lparr>tc_default_tier := None\<rparr> else k)
               in Inr (k\<lparr>tc_tiers_by_name := fmdrop (t_name ol) (tc_tiers_by_name k)\<rparr>)
           | None \<Rightarrow> unreachable))"

definition remove_route :: "service_routes \<Rightarrow> service_route_item \<Rightarrow> service_routes" where
  "remove_route m item =
     (case fmlookup m (sr_plugin_name item) of
        None \<Rightarrow> m
      | Some plugin \<Rightarrow>
     (case fmlookup plugin (sr_plugin_version item) of
        None \<Rightarrow> m
      | Some version \<Rightarrow>
     (case fmlookup version (sr_service_name item) of
        None \<Rightarrow> m
      | Some service \<Rightarrow>
          fmupd (sr_plugin_name item)
            (fmupd (sr_plugin_version item)
              (fmupd (sr_service_name item) (fmdrop (sr_instance_name item) service) version) plugin) m)))"

definition cache_update_service_route ::
  "service_route_item option \<Rightarrow> service_route_item option \<Rightarrow> topology_cache_mutable \<Rightarrow>
     topology_cache_mutable traft_result" where
  "cache_update_service_route old new k =
     (case new of
        Some n \<Rightarrow> Inr (k\<lparr>tc_service_routes := insert_route (tc_service_routes k) n\<rparr>)
      | None \<Rightarrow>
          (case old of
             Some ol \<Rightarrow> Inr (k\<lparr>tc_service_routes := remove_route (tc_service_routes k) ol\<rparr>)
           | None \<Rightarrow> unreachable))"

section \<open>The immutable part\<close>

record topology_cache =
  t_inner :: topology_cache_mutable
  t_cluster_name :: string
  t_cluster_uuid :: string
  t_my_raft_id :: raft_id
  t_my_instance_name :: "string option"
  t_my_instance_uuid :: "string option"
  t_my_replicaset_name :: "string option"
  t_my_replicaset_uuid :: "string option"
  t_my_tier_name :: "string option"

definition topology_load ::
  "catalog \<Rightarrow> service_route_item list \<Rightarrow> raft_id \<Rightarrow> string \<Rightarrow> string \<Rightarrow> topology_cache" where
  "topology_load c routes my_raft_id cluster cuuid =
     (let inner = cache_load c routes my_raft_id; this = tc_this_instance inner
      in \<lparr>t_inner = inner, t_cluster_name = cluster, t_cluster_uuid = cuuid, t_my_raft_id = my_raft_id,
          t_my_instance_name = map_option i_name this, t_my_instance_uuid = map_option i_uuid this,
          t_my_replicaset_name = map_option i_replicaset_name this,
          t_my_replicaset_uuid = map_option i_replicaset_uuid this,
          t_my_tier_name = map_option i_tier this\<rparr>)"

definition full_reload :: "catalog \<Rightarrow> service_route_item list \<Rightarrow> topology_cache \<Rightarrow> topology_cache" where
  "full_reload c routes t = t\<lparr>t_inner := cache_load c routes (t_my_raft_id t)\<rparr>"

definition topology_update_instance ::
  "pico_instance option \<Rightarrow> pico_instance option \<Rightarrow> topology_cache \<Rightarrow> topology_cache traft_result" where
  "topology_update_instance old new t =
     (let t = (case new of
          Some n \<Rightarrow>
            if t_my_instance_name t = None \<and> i_raft_id n = t_my_raft_id t
            then t\<lparr>t_my_instance_name := Some (i_name n), t_my_instance_uuid := Some (i_uuid n),
                   t_my_replicaset_name := Some (i_replicaset_name n),
                   t_my_replicaset_uuid := Some (i_replicaset_uuid n), t_my_tier_name := Some (i_tier n)\<rparr>
            else t
        | None \<Rightarrow> t)
      in rbind (cache_update_instance old new (t_inner t)) (\<lambda>k. Inr (t\<lparr>t_inner := k\<rparr>)))"

text \<open>What the rest of the program reads: its own row and names, and copies of the rows.\<close>

definition expect_known :: "'a option \<Rightarrow> 'a traft_result" where
  "expect_known x = (case x of Some v \<Rightarrow> Inr v | None \<Rightarrow> Inl (Panic (''don'' @ [CHR 0x27] @ ''t call this until it'' @ [CHR 0x27] @ ''s known'')))"

definition clone_this_instance :: "topology_cache \<Rightarrow> pico_instance traft_result" where
  "clone_this_instance t = expect_known (tc_this_instance (t_inner t))"
definition my_current_state :: "topology_cache \<Rightarrow> istate traft_result" where
  "my_current_state t = rbind (clone_this_instance t) (\<lambda>i. Inr (i_current_state i))"
definition my_target_state :: "topology_cache \<Rightarrow> istate traft_result" where
  "my_target_state t = rbind (clone_this_instance t) (\<lambda>i. Inr (i_target_state i))"
definition my_instance_name :: "topology_cache \<Rightarrow> string traft_result" where
  "my_instance_name t = expect_known (t_my_instance_name t)"
definition my_instance_uuid :: "topology_cache \<Rightarrow> string traft_result" where
  "my_instance_uuid t = expect_known (t_my_instance_uuid t)"
definition my_replicaset_name :: "topology_cache \<Rightarrow> string traft_result" where
  "my_replicaset_name t = expect_known (t_my_replicaset_name t)"
definition my_replicaset_uuid :: "topology_cache \<Rightarrow> string traft_result" where
  "my_replicaset_uuid t = expect_known (t_my_replicaset_uuid t)"
definition my_tier_name :: "topology_cache \<Rightarrow> string traft_result" where
  "my_tier_name t = expect_known (t_my_tier_name t)"

definition clone_instance_by_name :: "topology_cache \<Rightarrow> string \<Rightarrow> pico_instance traft_result" where
  "clone_instance_by_name t = cache_instance_by_name (t_inner t)"
definition clone_instance_by_uuid :: "topology_cache \<Rightarrow> string \<Rightarrow> pico_instance traft_result" where
  "clone_instance_by_uuid t = cache_instance_by_uuid (t_inner t)"
definition clone_replicaset_by_name :: "topology_cache \<Rightarrow> string \<Rightarrow> replicaset traft_result" where
  "clone_replicaset_by_name t = cache_replicaset_by_name (t_inner t)"
definition clone_replicaset_by_uuid :: "topology_cache \<Rightarrow> string \<Rightarrow> replicaset traft_result" where
  "clone_replicaset_by_uuid t = cache_replicaset_by_uuid (t_inner t)"

section \<open>What the cache promises\<close>

text \<open>
  The cache follows the tables: the maps hold exactly the rows, the cell of this instance holds the
  row with its raft id, and the cells of its replicaset and tier, when filled, hold their rows.
\<close>

definition instances_rel :: "pico_instance set \<Rightarrow> topology_cache_mutable \<Rightarrow> bool" where
  "instances_rel I k \<longleftrightarrow>
     (\<forall>n i. fmlookup (tc_instances_by_name k) n = Some i \<longleftrightarrow> i \<in> I \<and> i_name i = n) \<and>
     (\<forall>u n. fmlookup (tc_instance_name_by_uuid k) u = Some n \<longleftrightarrow> (\<exists>i \<in> I. i_uuid i = u \<and> i_name i = n)) \<and>
     (\<forall>i. tc_this_instance k = Some i \<longleftrightarrow> i \<in> I \<and> i_raft_id i = tc_my_raft_id k)"

definition replicasets_rel :: "replicaset set \<Rightarrow> topology_cache_mutable \<Rightarrow> bool" where
  "replicasets_rel R k \<longleftrightarrow>
     (\<forall>u r. fmlookup (tc_replicasets_by_uuid k) u = Some r \<longleftrightarrow> r \<in> R \<and> r_uuid r = u) \<and>
     (\<forall>n u. fmlookup (tc_replicaset_uuid_by_name k) n = Some u \<longleftrightarrow> (\<exists>r \<in> R. r_name r = n \<and> r_uuid r = u)) \<and>
     (\<forall>r. tc_this_replicaset k = Some r \<longrightarrow> r \<in> R \<and>
        (\<exists>i. tc_this_instance k = Some i \<and> i_replicaset_name i = r_name r))"

definition tiers_rel :: "tier set \<Rightarrow> topology_cache_mutable \<Rightarrow> bool" where
  "tiers_rel T k \<longleftrightarrow>
     (\<forall>n t. fmlookup (tc_tiers_by_name k) n = Some t \<longleftrightarrow> t \<in> T \<and> t_name t = n) \<and>
     (\<forall>t. tc_this_tier k = Some t \<longrightarrow> t \<in> T \<and> (\<exists>i. tc_this_instance k = Some i \<and> i_tier i = t_name t))"

definition cache_rel :: "catalog \<Rightarrow> topology_cache_mutable \<Rightarrow> bool" where
  "cache_rel c k \<longleftrightarrow> instances_rel (set (c_instances c)) k \<and>
     replicasets_rel (set (c_replicasets c)) k \<and> tiers_rel (set (c_tiers c)) k"

text \<open>A set of rows with a row put in place of the one with the same key.\<close>

definition put_in :: "('r \<Rightarrow> 'k) \<Rightarrow> 'r \<Rightarrow> 'r set \<Rightarrow> 'r set" where
  "put_in key n R = insert n {r \<in> R. key r \<noteq> key n}"

lemma put_in_unique:
  "inj_on g (put_in key n R) \<Longrightarrow> i \<in> put_in key n R \<Longrightarrow> g i = g n \<Longrightarrow> i = n"
  unfolding put_in_def by (drule inj_onD) auto

lemma put_in_self [simp]: "n \<in> put_in key n R"
  by (simp add: put_in_def)

lemma put_in_uuid_iff:
  assumes "inj_on g R" "inj_on g (put_in key n R)" "\<And>r. old = Some r \<longleftrightarrow> r \<in> R \<and> key r = key n"
  shows "r \<in> put_in key n R \<and> g r = u \<longleftrightarrow>
    (if u = g n then r = n
     else if \<exists>r. old = Some r \<and> g r = u then False else r \<in> R \<and> g r = u)"
proof -
  consider "u = g n" | p where "u \<noteq> g n" "old = Some p" "g p = u" | "u \<noteq> g n" "\<not> (\<exists>r. old = Some r \<and> g r = u)"
    by blast
  then show ?thesis
  proof cases
    case 1
    then show ?thesis using put_in_unique [OF assms(2), of r] put_in_self [of n key R] by auto
  next
    case 2
    then have p: "p \<in> R" "key p = key n" using assms(3) [of p] by auto
    have "\<not> (r \<in> put_in key n R \<and> g r = u)"
      using 2 p inj_onD [OF assms(1), of r p] by (auto simp: put_in_def)
    with 2 show ?thesis by auto
  next
    case 3
    then have "r \<in> R \<Longrightarrow> g r = u \<Longrightarrow> key r \<noteq> key n" using assms(3) [of r] by blast
    with 3 show ?thesis unfolding put_in_def by auto
  qed
qed

text \<open>The effect of putting a row on each part of the cache.\<close>

lemma cache_put_instance:
  assumes run: "cache_update_instance old (Some n) k = Inr k'"
    and old: "\<forall>i. old = Some i \<longrightarrow> i_name i = i_name n \<and>
      fmlookup (tc_instances_by_name k) (i_name i) = Some i \<and>
      fmlookup (tc_instance_name_by_uuid k) (i_uuid i) = Some (i_name i)"
  shows "fmlookup (tc_instances_by_name k') m = (if m = i_name n then Some n else fmlookup (tc_instances_by_name k) m)"
    and "fmlookup (tc_instance_name_by_uuid k') u =
      (if u = i_uuid n then Some (i_name n)
       else if \<exists>i. old = Some i \<and> i_uuid i = u then None else fmlookup (tc_instance_name_by_uuid k) u)"
    and "tc_my_raft_id k' = tc_my_raft_id k"
    and "tc_this_instance k' = (if i_raft_id n = tc_my_raft_id k then Some n else tc_this_instance k)"
    and "k'\<lparr>tc_instances_by_name := x, tc_instance_name_by_uuid := y, tc_this_instance := z\<rparr> =
      k\<lparr>tc_instances_by_name := x, tc_instance_name_by_uuid := y, tc_this_instance := z\<rparr>"
proof (atomize (full), cases old, goal_cases)
  case 1
  with run show ?case by (auto simp: cache_update_instance_def Let_def split: if_splits)
next
  case (2 p)
  then have "i_name p = i_name n" "fmlookup (tc_instances_by_name k) (i_name n) = Some p"
    "fmlookup (tc_instance_name_by_uuid k) (i_uuid p) = Some (i_name n)"
    using old by metis+
  with run 2 show ?case
    by (cases "p = n"; cases "i_uuid p = i_uuid n") (auto simp: cache_update_instance_def Let_def split: if_splits)
qed

lemma instances_rel_put:
  assumes rel: "instances_rel I k"
    and inj: "inj_on i_uuid I" "inj_on i_uuid (put_in i_name n I)" "inj_on i_raft_id (put_in i_name n I)"
    and old: "\<And>i. old = Some i \<longleftrightarrow> i \<in> I \<and> i_name i = i_name n"
    and own: "\<And>i. old = Some i \<Longrightarrow> i_raft_id i = tc_my_raft_id k \<Longrightarrow> i_raft_id n = tc_my_raft_id k"
    and run: "cache_update_instance old (Some n) k = Inr k'"
  shows "instances_rel (put_in i_name n I) k'"
proof -
  have names: "fmlookup (tc_instances_by_name k) m = Some i \<longleftrightarrow> i \<in> I \<and> i_name i = m" for m i
    using rel unfolding instances_rel_def by blast
  have uuids: "fmlookup (tc_instance_name_by_uuid k) u = Some m \<longleftrightarrow> (\<exists>i \<in> I. i_uuid i = u \<and> i_name i = m)" for u m
    using rel unfolding instances_rel_def by blast
  have cell: "tc_this_instance k = Some i \<longleftrightarrow> i \<in> I \<and> i_raft_id i = tc_my_raft_id k" for i
    using rel unfolding instances_rel_def by blast
  have "\<forall>i. old = Some i \<longrightarrow> i_name i = i_name n \<and> fmlookup (tc_instances_by_name k) (i_name i) = Some i \<and>
      fmlookup (tc_instance_name_by_uuid k) (i_uuid i) = Some (i_name i)"
    using old names uuids by blast
  note put = cache_put_instance [OF run this]
  have "fmlookup (tc_instance_name_by_uuid k') u = Some m \<longleftrightarrow>
      (\<exists>i. (i \<in> put_in i_name n I \<and> i_uuid i = u) \<and> i_name i = m)" for u m
    unfolding put(2) put_in_uuid_iff [OF inj(1,2) old] using uuids [of u m] by auto
  moreover have "tc_this_instance k' = Some i \<longleftrightarrow> i \<in> put_in i_name n I \<and> i_raft_id i = tc_my_raft_id k'" for i
  proof (cases "i_raft_id n = tc_my_raft_id k")
    case True
    then have "i \<in> put_in i_name n I \<and> i_raft_id i = tc_my_raft_id k \<longleftrightarrow> i = n"
      using put_in_unique [OF inj(3)] put_in_self by metis
    with True show ?thesis by (auto simp: put(3,4))
  next
    case False
    moreover have "i \<in> I \<and> i_raft_id i = tc_my_raft_id k \<longleftrightarrow>
        i \<in> put_in i_name n I \<and> i_raft_id i = tc_my_raft_id k"
      using False old own unfolding put_in_def by blast
    ultimately show ?thesis by (simp add: put(3,4) cell)
  qed
  moreover have "fmlookup (tc_instances_by_name k') m = Some i \<longleftrightarrow> i \<in> put_in i_name n I \<and> i_name i = m" for m i
    unfolding put(1) put_in_def using names [of m i] by (cases "m = i_name n") auto
  ultimately show ?thesis unfolding instances_rel_def by (simp add: Bex_def conj_assoc)
qed

lemma cache_put_replicaset:
  assumes run: "cache_update_replicaset old (Some n) k = Inr k'"
    and old: "\<forall>r. old = Some r \<longrightarrow> r_name r = r_name n \<and>
      fmlookup (tc_replicasets_by_uuid k) (r_uuid r) = Some r \<and>
      fmlookup (tc_replicaset_uuid_by_name k) (r_name r) = Some (r_uuid r)"
  shows "fmlookup (tc_replicasets_by_uuid k') u =
      (if u = r_uuid n then Some n
       else if \<exists>r. old = Some r \<and> r_uuid r = u then None else fmlookup (tc_replicasets_by_uuid k) u)"
    and "fmlookup (tc_replicaset_uuid_by_name k') m =
      (if m = r_name n then Some (r_uuid n) else fmlookup (tc_replicaset_uuid_by_name k) m)"
    and "tc_this_replicaset k' =
      (case tc_this_instance k of
         Some i \<Rightarrow> if r_name n = i_replicaset_name i then Some n else tc_this_replicaset k
       | None \<Rightarrow> tc_this_replicaset k)"
    and "k'\<lparr>tc_replicasets_by_uuid := x, tc_replicaset_uuid_by_name := y, tc_this_replicaset := z\<rparr> =
      k\<lparr>tc_replicasets_by_uuid := x, tc_replicaset_uuid_by_name := y, tc_this_replicaset := z\<rparr>"
proof (atomize (full), cases old, goal_cases)
  case 1
  with run show ?case by (auto simp: cache_update_replicaset_def Let_def split: if_splits option.splits)
next
  case (2 p)
  then have "r_name p = r_name n" "fmlookup (tc_replicasets_by_uuid k) (r_uuid p) = Some p"
    "fmlookup (tc_replicaset_uuid_by_name k) (r_name n) = Some (r_uuid p)"
    using old by metis+
  with run 2 show ?case
    by (cases "p = n"; cases "r_uuid p = r_uuid n")
      (auto simp: cache_update_replicaset_def Let_def split: if_splits option.splits)
qed

lemma replicasets_rel_put:
  assumes rel: "replicasets_rel R k"
    and inj: "inj_on r_uuid R" "inj_on r_uuid (put_in r_name n R)"
    and old: "\<And>r. old = Some r \<longleftrightarrow> r \<in> R \<and> r_name r = r_name n"
    and run: "cache_update_replicaset old (Some n) k = Inr k'"
  shows "replicasets_rel (put_in r_name n R) k'"
proof -
  have uuids: "fmlookup (tc_replicasets_by_uuid k) u = Some r \<longleftrightarrow> r \<in> R \<and> r_uuid r = u" for u r
    using rel unfolding replicasets_rel_def by blast
  have names: "fmlookup (tc_replicaset_uuid_by_name k) m = Some u \<longleftrightarrow> (\<exists>r \<in> R. r_name r = m \<and> r_uuid r = u)" for u m
    using rel unfolding replicasets_rel_def by blast
  have "\<forall>r. old = Some r \<longrightarrow> r_name r = r_name n \<and> fmlookup (tc_replicasets_by_uuid k) (r_uuid r) = Some r \<and>
      fmlookup (tc_replicaset_uuid_by_name k) (r_name r) = Some (r_uuid r)"
    using old names uuids by blast
  note put = cache_put_replicaset [OF run this]
  have this_inst: "tc_this_instance k' = tc_this_instance k"
    using arg_cong [OF put(4), of tc_this_instance] by simp
  have "fmlookup (tc_replicasets_by_uuid k') u = Some r \<longleftrightarrow> r \<in> put_in r_name n R \<and> r_uuid r = u" for u r
    unfolding put(1) put_in_uuid_iff [OF inj old] by (auto simp: uuids)
  moreover have "fmlookup (tc_replicaset_uuid_by_name k') m = Some u \<longleftrightarrow>
      (\<exists>r \<in> put_in r_name n R. r_name r = m \<and> r_uuid r = u)" for m u
    unfolding put(2) put_in_def using names [of m u] by (cases "m = r_name n") auto
  moreover have "r \<in> put_in r_name n R \<and> (\<exists>i. tc_this_instance k' = Some i \<and> i_replicaset_name i = r_name r)"
    if "tc_this_replicaset k' = Some r" for r
    using that rel unfolding put(3) this_inst replicasets_rel_def put_in_def by (fastforce split: option.splits if_splits)
  ultimately show ?thesis unfolding replicasets_rel_def by blast
qed

lemma tiers_rel_put:
  assumes rel: "tiers_rel T k" and run: "cache_update_tier old (Some n) k = Inr k'"
  shows "tiers_rel (put_in t_name n T) k'"
proof -
  have k': "fmlookup (tc_tiers_by_name k') m = (if m = t_name n then Some n else fmlookup (tc_tiers_by_name k) m)"
    "tc_this_tier k' = (case tc_this_instance k of
         Some i \<Rightarrow> if t_name n = i_tier i then Some n else tc_this_tier k | None \<Rightarrow> tc_this_tier k)"
    "tc_this_instance k' = tc_this_instance k" for m
    using run by (auto simp: cache_update_tier_def Let_def split: option.splits)
  have "fmlookup (tc_tiers_by_name k') m = Some t \<longleftrightarrow> t \<in> put_in t_name n T \<and> t_name t = m" for m t
    using rel unfolding k' tiers_rel_def put_in_def by (cases "m = t_name n") auto
  moreover have "t \<in> put_in t_name n T \<and> (\<exists>i. tc_this_instance k' = Some i \<and> i_tier i = t_name t)"
    if "tc_this_tier k' = Some t" for t
    using that rel unfolding k' tiers_rel_def put_in_def by (fastforce split: option.splits if_splits)
  ultimately show ?thesis unfolding tiers_rel_def by blast
qed

text \<open>Deleting a row that is not this instance's own.\<close>

definition drop_from :: "('r \<Rightarrow> 'k) \<Rightarrow> 'k \<Rightarrow> 'r set \<Rightarrow> 'r set" where
  "drop_from key n R = {r \<in> R. key r \<noteq> n}"

lemma instances_rel_delete:
  assumes rel: "instances_rel I k" and inj: "inj_on i_name I" "inj_on i_uuid I"
    and old: "p \<in> I" "i_raft_id p \<noteq> tc_my_raft_id k"
    and run: "cache_update_instance (Some p) None k = Inr k'"
  shows "instances_rel (drop_from i_name (i_name p) I) k'"
proof -
  have k': "k' = k\<lparr>tc_instance_name_by_uuid := fmdrop (i_uuid p) (tc_instance_name_by_uuid k),
      tc_instances_by_name := fmdrop (i_name p) (tc_instances_by_name k)\<rparr>"
    using run by (simp add: cache_update_instance_def Let_def)
  have same: "i_name i = i_name p \<longleftrightarrow> i = p" "i_uuid i = i_uuid p \<longleftrightarrow> i = p" if "i \<in> I" for i
    using that old(1) inj by (auto dest: inj_onD)
  show ?thesis
    using rel old same by (auto simp: instances_rel_def k' drop_from_def)
qed

lemma replicasets_rel_delete:
  assumes rel: "replicasets_rel R k" and inj: "inj_on r_name R" "inj_on r_uuid R"
    and old: "p \<in> R" "\<And>i. tc_this_instance k = Some i \<Longrightarrow> i_replicaset_name i \<noteq> r_name p"
    and run: "cache_update_replicaset (Some p) None k = Inr k'"
  shows "replicasets_rel (drop_from r_name (r_name p) R) k'"
proof -
  have k': "k' = k\<lparr>tc_replicaset_uuid_by_name := fmdrop (r_name p) (tc_replicaset_uuid_by_name k),
      tc_replicasets_by_uuid := fmdrop (r_uuid p) (tc_replicasets_by_uuid k)\<rparr>"
    using run by (simp add: cache_update_replicaset_def Let_def)
  have same: "r_name r = r_name p \<longleftrightarrow> r = p" "r_uuid r = r_uuid p \<longleftrightarrow> r = p" if "r \<in> R" for r
    using that old(1) inj by (auto dest: inj_onD)
  show ?thesis
    using rel old same by (auto simp: replicasets_rel_def k' drop_from_def)
qed

lemma tiers_rel_delete:
  assumes rel: "tiers_rel T k" and old: "\<And>i. tc_this_instance k = Some i \<Longrightarrow> i_tier i \<noteq> t_name p"
    and run: "cache_update_tier (Some p) None k = Inr k'"
  shows "tiers_rel (drop_from t_name (t_name p) T) k'"
proof -
  have "fmlookup (tc_tiers_by_name k') m = (if m = t_name p then None else fmlookup (tc_tiers_by_name k) m)"
    "tc_this_tier k' = tc_this_tier k" "tc_this_instance k' = tc_this_instance k" for m
    using run by (auto simp: cache_update_tier_def Let_def split: if_splits)
  with rel old show ?thesis by (auto simp: tiers_rel_def drop_from_def)
qed

section \<open>Loading establishes the relation\<close>

text \<open>Loading a row is putting a new row.\<close>

lemma load_instance_put:
  "tc_my_raft_id k = my \<Longrightarrow> cache_update_instance None (Some i) k = Inr (load_instance my k i)"
  by (simp add: cache_update_instance_def load_instance_def Let_def)

lemma load_tier_put: "cache_update_tier None (Some t) k = Inr (load_tier k t)"
  by (cases "tc_this_instance k") (simp_all add: cache_update_tier_def load_tier_def Let_def)

lemma load_replicaset_put:
  assumes "\<And>i. tc_this_instance k = Some i \<Longrightarrow> r_uuid r = i_replicaset_uuid i \<longleftrightarrow> r_name r = i_replicaset_name i"
  shows "cache_update_replicaset None (Some r) k = Inr (load_replicaset k r)"
  using assms by (cases "tc_this_instance k") (simp_all add: cache_update_replicaset_def load_replicaset_def Let_def)

lemma put_in_snoc: "distinct (map key (xs @ [x])) \<Longrightarrow> put_in key x (set xs) = set (xs @ [x])"
  by (auto simp: put_in_def rev_image_eqI)

lemma empty_cache_sel [simp]:
  "tc_my_raft_id (empty_cache my) = my" "tc_this_instance (empty_cache my) = None"
  "tc_this_replicaset (empty_cache my) = None" "tc_this_tier (empty_cache my) = None"
  "tc_instances_by_name (empty_cache my) = fmempty" "tc_instance_name_by_uuid (empty_cache my) = fmempty"
  "tc_replicasets_by_uuid (empty_cache my) = fmempty" "tc_replicaset_uuid_by_name (empty_cache my) = fmempty"
  "tc_tiers_by_name (empty_cache my) = fmempty"
  by (simp_all add: empty_cache_def)

text \<open>What loading leaves alone.\<close>

lemma load_instance_frame [simp]:
  "tc_my_raft_id (foldl (load_instance my) k xs) = tc_my_raft_id k"
  "tc_this_replicaset (foldl (load_instance my) k xs) = tc_this_replicaset k"
  "tc_this_tier (foldl (load_instance my) k xs) = tc_this_tier k"
  "tc_replicasets_by_uuid (foldl (load_instance my) k xs) = tc_replicasets_by_uuid k"
  "tc_replicaset_uuid_by_name (foldl (load_instance my) k xs) = tc_replicaset_uuid_by_name k"
  "tc_tiers_by_name (foldl (load_instance my) k xs) = tc_tiers_by_name k"
  by (induction xs arbitrary: k) (simp_all add: load_instance_def)

lemma load_replicaset_frame [simp]:
  "tc_my_raft_id (foldl load_replicaset k xs) = tc_my_raft_id k"
  "tc_this_instance (foldl load_replicaset k xs) = tc_this_instance k"
  "tc_this_tier (foldl load_replicaset k xs) = tc_this_tier k"
  "tc_instances_by_name (foldl load_replicaset k xs) = tc_instances_by_name k"
  "tc_instance_name_by_uuid (foldl load_replicaset k xs) = tc_instance_name_by_uuid k"
  "tc_tiers_by_name (foldl load_replicaset k xs) = tc_tiers_by_name k"
  by (induction xs arbitrary: k) (simp_all add: load_replicaset_def)

lemma load_tier_frame [simp]:
  "tc_my_raft_id (foldl load_tier k xs) = tc_my_raft_id k"
  "tc_this_instance (foldl load_tier k xs) = tc_this_instance k"
  "tc_this_replicaset (foldl load_tier k xs) = tc_this_replicaset k"
  "tc_instances_by_name (foldl load_tier k xs) = tc_instances_by_name k"
  "tc_instance_name_by_uuid (foldl load_tier k xs) = tc_instance_name_by_uuid k"
  "tc_replicasets_by_uuid (foldl load_tier k xs) = tc_replicasets_by_uuid k"
  "tc_replicaset_uuid_by_name (foldl load_tier k xs) = tc_replicaset_uuid_by_name k"
  by (induction xs arbitrary: k) (simp_all add: load_tier_def)

lemma snoc_not_in: "distinct (map key (xs @ [x])) \<Longrightarrow> r \<in> set xs \<Longrightarrow> key r \<noteq> key x"
  by (auto simp: rev_image_eqI)

lemma load_instances:
  "distinct (map i_name xs) \<Longrightarrow> inj_on i_uuid (set xs) \<Longrightarrow> inj_on i_raft_id (set xs) \<Longrightarrow>
     instances_rel (set xs) (foldl (load_instance my) (empty_cache my) xs)"
proof (induction xs rule: rev_induct)
  case Nil
  then show ?case by (simp add: instances_rel_def)
next
  case (snoc x xs)
  let ?k = "foldl (load_instance my) (empty_cache my) xs"
  have my: "tc_my_raft_id ?k = my" by simp
  have eq: "put_in i_name x (set xs) = set (xs @ [x])" using snoc.prems(1) by (rule put_in_snoc)
  have "instances_rel (put_in i_name x (set xs)) (load_instance my ?k x)"
  proof (rule instances_rel_put [where old = None])
    show "instances_rel (set xs) ?k" "inj_on i_uuid (set xs)" using snoc by (simp_all add: inj_on_Un)
    show "(None = Some i) = (i \<in> set xs \<and> i_name i = i_name x)" for i
      using snoc_not_in [OF snoc.prems(1)] by auto
  qed (use snoc.prems(2,3) in \<open>simp_all only: eq load_instance_put [OF my] option.distinct\<close>)
  then show ?case unfolding eq by simp
qed

lemma load_replicasets:
  "distinct (map r_name xs) \<Longrightarrow> inj_on r_uuid (set xs) \<Longrightarrow> replicasets_rel {} k \<Longrightarrow>
     (\<And>i r. tc_this_instance k = Some i \<Longrightarrow> r \<in> set xs \<Longrightarrow>
        r_uuid r = i_replicaset_uuid i \<longleftrightarrow> r_name r = i_replicaset_name i) \<Longrightarrow>
     replicasets_rel (set xs) (foldl load_replicaset k xs)"
proof (induction xs rule: rev_induct)
  case (snoc x xs)
  let ?k = "foldl load_replicaset k xs"
  have eq: "put_in r_name x (set xs) = set (xs @ [x])" using snoc.prems(1) by (rule put_in_snoc)
  have "replicasets_rel (put_in r_name x (set xs)) (load_replicaset ?k x)"
  proof (rule replicasets_rel_put [where old = None])
    show "replicasets_rel (set xs) ?k" "inj_on r_uuid (set xs)" using snoc by (simp_all add: inj_on_Un)
    show "(None = Some r) = (r \<in> set xs \<and> r_name r = r_name x)" for r
      using snoc_not_in [OF snoc.prems(1)] by auto
    show "cache_update_replicaset None (Some x) ?k = Inr (load_replicaset ?k x)"
      by (rule load_replicaset_put) (use snoc.prems(4) in simp)
  qed (use snoc.prems(2) in \<open>simp only: eq\<close>)
  then show ?case unfolding eq by simp
qed simp

lemma load_tiers:
  "distinct (map t_name xs) \<Longrightarrow> tiers_rel {} k \<Longrightarrow> tiers_rel (set xs) (foldl load_tier k xs)"
proof (induction xs rule: rev_induct)
  case (snoc x xs)
  then have "tiers_rel (put_in t_name x (set xs)) (load_tier (foldl load_tier k xs) x)"
    by (intro tiers_rel_put [OF _ load_tier_put]) simp
  then show ?case unfolding put_in_snoc [OF snoc.prems(1)] by simp
qed simp

text \<open>The instance's replicaset is the one with its replicaset's name.\<close>

definition own_consistent :: "catalog \<Rightarrow> raft_id \<Rightarrow> bool" where
  "own_consistent c my \<longleftrightarrow>
     (\<forall>i \<in> set (c_instances c). \<forall>r \<in> set (c_replicasets c). i_raft_id i = my \<longrightarrow>
        (r_uuid r = i_replicaset_uuid i \<longleftrightarrow> r_name r = i_replicaset_name i))"

lemma cache_load_rel:
  assumes "catalog_ok c" "own_consistent c my"
  shows "cache_rel c (cache_load c routes my)" "tc_my_raft_id (cache_load c routes my) = my"
proof -
  let ?a = "foldl (load_instance my) (empty_cache my) (c_instances c)"
  let ?b = "foldl load_replicaset ?a (c_replicasets c)"
  have a: "instances_rel (set (c_instances c)) ?a"
    using load_instances [OF catalog_ok_names(1) [OF assms(1)]] assms(1) by (simp add: catalog_ok_def)
  have "tc_this_instance ?a = Some i \<Longrightarrow> i \<in> set (c_instances c) \<and> i_raft_id i = my" for i
    using a unfolding instances_rel_def by simp
  then have b: "replicasets_rel (set (c_replicasets c)) ?b"
    by (intro load_replicasets [OF catalog_ok_names(2) [OF assms(1)]])
      (use assms in \<open>auto simp: catalog_ok_def own_consistent_def replicasets_rel_def\<close>)
  have d: "tiers_rel (set (c_tiers c)) (foldl load_tier ?b (c_tiers c))"
    by (rule load_tiers [OF catalog_ok_names(3) [OF assms(1)]]) (simp add: tiers_rel_def)
  show "cache_rel c (cache_load c routes my)"
    using a b d unfolding cache_rel_def cache_load_def Let_def
    by (simp add: instances_rel_def replicasets_rel_def tiers_rel_def)
  show "tc_my_raft_id (cache_load c routes my) = my"
    by (simp add: cache_load_def Let_def)
qed

section \<open>Lookups through the cache are lookups in the tables\<close>

lemma find_key_unique:
  assumes "inj_on g (set rs)"
  shows "find (\<lambda>r. g r = u) rs = Some r \<longleftrightarrow> r \<in> set rs \<and> g r = u"
proof (cases "find (\<lambda>r. g r = u) rs")
  case None
  then show ?thesis using find_NoneD [OF None, of r] by auto
next
  case (Some q)
  then have "q \<in> set rs" "g q = u" using find_SomeD [OF Some] by auto
  then have "r \<in> set rs \<and> g r = u \<longleftrightarrow> q = r" using inj_onD [OF assms, of q r] by blast
  with Some show ?thesis by simp
qed

lemma option_eqI: "(\<And>r. a = Some r \<longleftrightarrow> b = Some r) \<Longrightarrow> a = b"
  by (cases a; cases b) auto

lemma cache_relD:
  assumes "cache_rel c k"
  shows "fmlookup (tc_instances_by_name k) n = Some i \<longleftrightarrow> i \<in> set (c_instances c) \<and> i_name i = n"
    and "fmlookup (tc_instance_name_by_uuid k) u = Some n \<longleftrightarrow> (\<exists>i \<in> set (c_instances c). i_uuid i = u \<and> i_name i = n)"
    and "fmlookup (tc_replicasets_by_uuid k) u = Some r \<longleftrightarrow> r \<in> set (c_replicasets c) \<and> r_uuid r = u"
    and "fmlookup (tc_replicaset_uuid_by_name k) n = Some u \<longleftrightarrow> (\<exists>r \<in> set (c_replicasets c). r_name r = n \<and> r_uuid r = u)"
    and "fmlookup (tc_tiers_by_name k) n = Some t \<longleftrightarrow> t \<in> set (c_tiers c) \<and> t_name t = n"
    and "tc_this_instance k = Some i \<longleftrightarrow> i \<in> set (c_instances c) \<and> i_raft_id i = tc_my_raft_id k"
    and "tc_this_replicaset k = Some r \<Longrightarrow> r \<in> set (c_replicasets c)"
    and "tc_this_tier k = Some t \<Longrightarrow> t \<in> set (c_tiers c)"
proof -
  have i: "instances_rel (set (c_instances c)) k" and r: "replicasets_rel (set (c_replicasets c)) k"
    and t: "tiers_rel (set (c_tiers c)) k" using assms by (simp_all add: cache_rel_def)
  note ii = i [unfolded instances_rel_def] and rr = r [unfolded replicasets_rel_def] and tt = t [unfolded tiers_rel_def]
  show "fmlookup (tc_instances_by_name k) n = Some i \<longleftrightarrow> i \<in> set (c_instances c) \<and> i_name i = n"
    by (rule ii [THEN conjunct1, rule_format])
  show "fmlookup (tc_instance_name_by_uuid k) u = Some n \<longleftrightarrow> (\<exists>i \<in> set (c_instances c). i_uuid i = u \<and> i_name i = n)"
    by (rule ii [THEN conjunct2, THEN conjunct1, rule_format])
  show "fmlookup (tc_replicasets_by_uuid k) u = Some r \<longleftrightarrow> r \<in> set (c_replicasets c) \<and> r_uuid r = u"
    by (rule rr [THEN conjunct1, rule_format])
  show "fmlookup (tc_replicaset_uuid_by_name k) n = Some u \<longleftrightarrow> (\<exists>r \<in> set (c_replicasets c). r_name r = n \<and> r_uuid r = u)"
    by (rule rr [THEN conjunct2, THEN conjunct1, rule_format])
  show "fmlookup (tc_tiers_by_name k) n = Some t \<longleftrightarrow> t \<in> set (c_tiers c) \<and> t_name t = n"
    by (rule tt [THEN conjunct1, rule_format])
  show "tc_this_instance k = Some i \<longleftrightarrow> i \<in> set (c_instances c) \<and> i_raft_id i = tc_my_raft_id k"
    by (rule ii [THEN conjunct2, THEN conjunct2, rule_format])
  show "r \<in> set (c_replicasets c)" if "tc_this_replicaset k = Some r"
    using rr [THEN conjunct2, THEN conjunct2, rule_format, OF that] by (rule conjunct1)
  show "t \<in> set (c_tiers c)" if "tc_this_tier k = Some t"
    using tt [THEN conjunct2, rule_format, OF that] by (rule conjunct1)
qed

lemma cache_rel_maps:
  assumes "cache_rel c k" "catalog_ok c"
  shows "fmlookup (tc_instances_by_name k) n = find_instance c n"
    and "fmlookup (tc_instance_name_by_uuid k) u = map_option i_name (by_uuid c u)"
    and "fmlookup (tc_replicasets_by_uuid k) u = find (\<lambda>r. r_uuid r = u) (c_replicasets c)"
    and "fmlookup (tc_replicaset_uuid_by_name k) n = map_option r_uuid (replicasets_get c n)"
    and "fmlookup (tc_tiers_by_name k) n = tier_by_name c n"
proof -
  note names = catalog_ok_names [OF assms(2), unfolded distinct_map, THEN conjunct2]
  have inj: "inj_on i_uuid (set (c_instances c))" "inj_on r_uuid (set (c_replicasets c))"
    using assms(2) by (simp_all add: catalog_ok_def)
  note rel = cache_relD [OF assms(1)]
  show "fmlookup (tc_instances_by_name k) n = find_instance c n"
    unfolding find_instance_def by (rule option_eqI) (simp only: rel(1) find_key_unique [OF names(1)])
  show "fmlookup (tc_instance_name_by_uuid k) u = map_option i_name (by_uuid c u)"
    unfolding by_uuid_def
    by (rule option_eqI) (simp only: rel(2) map_option_eq_Some find_key_unique [OF inj(1)], blast)
  show "fmlookup (tc_replicasets_by_uuid k) u = find (\<lambda>r. r_uuid r = u) (c_replicasets c)"
    by (rule option_eqI) (simp only: rel(3) find_key_unique [OF inj(2)])
  show "fmlookup (tc_replicaset_uuid_by_name k) n = map_option r_uuid (replicasets_get c n)"
    unfolding replicasets_get_def
    by (rule option_eqI) (simp only: rel(4) map_option_eq_Some find_key_unique [OF names(2)], blast)
  show "fmlookup (tc_tiers_by_name k) n = tier_by_name c n"
    unfolding tier_by_name_def by (rule option_eqI) (simp only: rel(5) find_key_unique [OF names(3)])
qed

text \<open>
  C9: as long as the cache follows the tables, each of its lookups (which first look at the cells of
  this instance, its replicaset and its tier) returns the same row or the same error as a lookup in
  the table.
\<close>

theorem cache_lookups_agree:
  assumes "catalog_ok c" "cache_rel c k" "tc_this_instance k = Some me"
  shows "cache_instance_by_name k name = instances_get c name \<and>
    cache_instance_by_uuid k uuid =
      (case by_uuid c uuid of Some i \<Rightarrow> Inr i | None \<Rightarrow> Inl (NoSuchInstance (ByUuid uuid))) \<and>
    cache_replicaset_by_uuid k uuid = replicaset_by_uuid_raw c uuid \<and>
    cache_replicaset_by_name k name =
      (case replicasets_get c name of Some r \<Rightarrow> Inr r | None \<Rightarrow> Inl (NoSuchReplicaset name False)) \<and>
    cache_tier_by_name k name =
      (case tier_by_name c name of Some t \<Rightarrow> Inr t | None \<Rightarrow> Inl (NoSuchTier name))"
proof -
  note maps = cache_rel_maps [OF assms(2,1)]
  note names = catalog_ok_names [OF assms(1), unfolded distinct_map, THEN conjunct2]
  have inj: "inj_on i_uuid (set (c_instances c))" "inj_on r_uuid (set (c_replicasets c))"
    using assms(1) by (simp_all add: catalog_ok_def)
  note rel = cache_relD [OF assms(2)]
  have me: "find_instance c (i_name me) = Some me" "by_uuid c (i_uuid me) = Some me"
    using assms(3) unfolding find_instance_def by_uuid_def rel(6)
    by (simp_all only: find_key_unique [OF names(1)] find_key_unique [OF inj(1)])
  have rs: "replicasets_get c (r_name r) = Some r" "find (\<lambda>q. r_uuid q = r_uuid r) (c_replicasets c) = Some r"
    if "r \<in> set (c_replicasets c)" for r
    using that unfolding replicasets_get_def
    by (simp_all only: find_key_unique [OF names(2)] find_key_unique [OF inj(2)])
  have ti: "tier_by_name c (t_name t) = Some t" if "tc_this_tier k = Some t" for t
    using rel(8) [OF that] unfolding tier_by_name_def by (simp only: find_key_unique [OF names(3)])
  have name: "cache_instance_by_name k n = instances_get c n" for n
    using me by (auto simp: cache_instance_by_name_def assms(3) known_def maps instances_get_def split: option.splits)
  have named: "find_instance c (i_name i) = Some i" if "by_uuid c uuid = Some i" for i
    using instance_uuids.get_SomeD [OF that] unfolding find_instance_def
    by (simp only: find_key_unique [OF names(1)])
  have uuid: "cache_replicaset_by_uuid k u = replicaset_by_uuid_raw c u" for u
    using rs(2) [OF rel(7)]
    by (auto simp: cache_replicaset_by_uuid_def replicaset_by_uuid_raw_def maps Let_def split: option.splits)
  have named_rs: "replicaset_by_uuid_raw c (r_uuid r) = Inr r" if "replicasets_get c name = Some r" for r
    using rs(2) replicaset_names.get_SomeD [OF that] by (simp add: replicaset_by_uuid_raw_def)
  have "cache_instance_by_uuid k uuid =
      (case by_uuid c uuid of Some i \<Rightarrow> Inr i | None \<Rightarrow> Inl (NoSuchInstance (ByUuid uuid)))"
    using me(2) named
    by (cases "by_uuid c uuid") (auto simp: cache_instance_by_uuid_def assms(3) known_def maps name instances_get_def)
  moreover have "cache_replicaset_by_name k name =
      (case replicasets_get c name of Some r \<Rightarrow> Inr r | None \<Rightarrow> Inl (NoSuchReplicaset name False))"
    using rs(1) [OF rel(7)] named_rs
    by (cases "tc_this_replicaset k"; cases "replicasets_get c name")
      (auto simp: cache_replicaset_by_name_def maps uuid Let_def)
  moreover have "cache_tier_by_name k name =
      (case tier_by_name c name of Some t \<Rightarrow> Inr t | None \<Rightarrow> Inl (NoSuchTier name))"
    using ti by (cases "tc_this_tier k") (auto simp: cache_tier_by_name_def maps Let_def)
  ultimately show ?thesis using name uuid by blast
qed

theorem cache_lookups_agree_witness:
  "cache_tier_by_name (cache_load sample_catalog [] 1) ''default'' = Inr sample_tier \<and>
   cache_instance_by_name (cache_load sample_catalog [] 1) ''nobody'' = instances_get sample_catalog ''nobody''"
proof -
  have own: "own_consistent sample_catalog 1" by code_simp
  have me: "tc_this_instance (cache_load sample_catalog [] 1) =
      Some (sample_instance ''default_1_1'' 1 ''default_1'' (State Online 1) (State Online 1))" by code_simp
  have "tier_by_name sample_catalog ''default'' = Some sample_tier" by code_simp
  with cache_lookups_agree [OF sample_catalog_ok cache_load_rel(1) [OF sample_catalog_ok own] me]
  show ?thesis by simp
qed

section \<open>Service routes\<close>

text \<open>
  C31: the nested maps of service routes act as one map from plugin, version, service and instance: a
  new row sets the route of its key and changes no other, and a deleted row removes the route of its
  key and changes no other.
\<close>

theorem service_routes_follow_rows:
  "find_route (insert_route m item) p v s i =
     (if (p, v, s, i) = (sr_plugin_name item, sr_plugin_version item, sr_service_name item, sr_instance_name item)
      then Some (sr_poison item) else find_route m p v s i) \<and>
   find_route (remove_route m item) p v s i =
     (if (p, v, s, i) = (sr_plugin_name item, sr_plugin_version item, sr_service_name item, sr_instance_name item)
      then None else find_route m p v s i)"
  by (auto simp: find_route_def insert_route_def remove_route_def or_default_def Let_def
      split: option.splits if_splits)

end
