(* ===== verification/Dml_Apply.thy ===== *)
theory Dml_Apply
  imports Topology_Cache
begin

text \<open>
  Applying a committed row operation: \<open>do_dml\<close> of src/src/storage.rs on the topology tables and
  \<open>handle_dml_entry\<close> of src/src/traft/node.rs, which also brings the topology cache up to date. The
  tables are Tarantool spaces: a point lookup or update by primary key, and an error
  \<open>TupleFound\<close> when a row would violate a unique index. Deleting with a plan
  (\<open>metainfo\<close>) runs the SQL executor, which is a parameter. Metrics, the audit log and the
  reachability record are not part of the state here.
\<close>

section \<open>Rows by key\<close>

definition get_row :: "space_id \<Rightarrow> pico_key \<Rightarrow> catalog \<Rightarrow> row option" where
  "get_row space k c =
     (if space = INSTANCES_TABLE_ID then map_option RowInstance (find (\<lambda>i. instance_key i = k) (c_instances c))
      else if space = REPLICASETS_TABLE_ID
      then map_option RowReplicaset (find (\<lambda>r. replicaset_key r = k) (c_replicasets c))
      else if space = TIERS_TABLE_ID then map_option RowTier (find (\<lambda>t. tier_key t = k) (c_tiers c))
      else if space = PEER_ADDRESSES_TABLE_ID then map_option RowPeer (find (\<lambda>p. peer_key p = k) (c_peers c))
      else None)"

definition table_delete :: "('r \<Rightarrow> 'k) \<Rightarrow> 'k \<Rightarrow> 'r list \<Rightarrow> 'r list" where
  "table_delete key k rs = filter (\<lambda>r. key r \<noteq> k) rs"

definition delete_row :: "space_id \<Rightarrow> pico_key \<Rightarrow> catalog \<Rightarrow> catalog" where
  "delete_row space k c =
     (if space = INSTANCES_TABLE_ID then c\<lparr>c_instances := table_delete instance_key k (c_instances c)\<rparr>
      else if space = REPLICASETS_TABLE_ID
      then c\<lparr>c_replicasets := table_delete replicaset_key k (c_replicasets c)\<rparr>
      else if space = TIERS_TABLE_ID then c\<lparr>c_tiers := table_delete tier_key k (c_tiers c)\<rparr>
      else if space = PEER_ADDRESSES_TABLE_ID then c\<lparr>c_peers := table_delete peer_key k (c_peers c)\<rparr>
      else c)"

text \<open>The number of \<open>TntErrorCode::TupleFound\<close>.\<close>

definition TupleFound :: nat where "TupleFound = 3"

definition tuple_found :: "'a traft_result" where
  "tuple_found = Inl (Tarantool TupleFound ''Duplicate key exists'')"

definition space_insert :: "space_id \<Rightarrow> row \<Rightarrow> catalog \<Rightarrow> (catalog \<times> row option) traft_result" where
  "space_insert space r c =
     (if get_row space (row_key r) c \<noteq> None \<or> \<not> catalog_ok (put_row r c) then tuple_found
      else Inr (put_row r c, Some r))"

definition space_replace :: "row \<Rightarrow> catalog \<Rightarrow> (catalog \<times> row option) traft_result" where
  "space_replace r c = (if \<not> catalog_ok (put_row r c) then tuple_found else Inr (put_row r c, Some r))"

fun topology_do_dml ::
  "(string \<Rightarrow> catalog \<Rightarrow> catalog traft_result) \<Rightarrow> pico_dml \<Rightarrow> catalog \<Rightarrow> (catalog \<times> row option) traft_result" where
  "topology_do_dml full_delete (DmlInsert space r _ DoFail) c = space_insert space r c"
| "topology_do_dml full_delete (DmlInsert space r _ DoReplace) c = space_replace r c"
| "topology_do_dml full_delete (DmlInsert space r _ DoNothing) c =
     (case space_insert space r c of
        Inl (Tarantool code msg) \<Rightarrow> if code = TupleFound then Inr (c, None) else Inl (Tarantool code msg)
      | res \<Rightarrow> res)"
| "topology_do_dml full_delete (DmlReplace space r _) c = space_replace r c"
| "topology_do_dml full_delete (DmlUpdate space k ops _) c =
     (let c' = update_row space k ops c in Inr (c', get_row space k c'))"
| "topology_do_dml full_delete (DmlDelete space k _ None) c = Inr (delete_row space k c, None)"
| "topology_do_dml full_delete (DmlDelete space k _ (Some info)) c =
     rbind (full_delete info c) (\<lambda>c'. Inr (c', None))"

section \<open>Applying an entry\<close>

definition cached_tables :: "space_id list" where
  "cached_tables = [INSTANCES_TABLE_ID, REPLICASETS_TABLE_ID, TIERS_TABLE_ID]"

fun old_row :: "pico_dml \<Rightarrow> catalog \<Rightarrow> row option" where
  "old_row (DmlInsert _ _ _ _) c = None"
| "old_row (DmlUpdate space k _ _) c = (if space \<in> set cached_tables then get_row space k c else None)"
| "old_row (DmlDelete space k _ _) c = (if space \<in> set cached_tables then get_row space k c else None)"
| "old_row (DmlReplace space r _) c =
     (if space \<in> set cached_tables then get_row space (row_key r) c else None)"

fun as_instance :: "row option \<Rightarrow> pico_instance option" where
  "as_instance (Some (RowInstance i)) = Some i" | "as_instance _ = None"
fun as_replicaset :: "row option \<Rightarrow> replicaset option" where
  "as_replicaset (Some (RowReplicaset r)) = Some r" | "as_replicaset _ = None"
fun as_tier :: "row option \<Rightarrow> tier option" where
  "as_tier (Some (RowTier t)) = Some t" | "as_tier _ = None"

definition update_cache ::
  "space_id \<Rightarrow> row option \<Rightarrow> row option \<Rightarrow> topology_cache \<Rightarrow> topology_cache traft_result" where
  "update_cache space old new t =
     (if space = INSTANCES_TABLE_ID then topology_update_instance (as_instance old) (as_instance new) t
      else if space = REPLICASETS_TABLE_ID
      then rbind (cache_update_replicaset (as_replicaset old) (as_replicaset new) (t_inner t))
             (\<lambda>k. Inr (t\<lparr>t_inner := k\<rparr>))
      else if space = TIERS_TABLE_ID
      then rbind (cache_update_tier (as_tier old) (as_tier new) (t_inner t)) (\<lambda>k. Inr (t\<lparr>t_inner := k\<rparr>))
      else Inr t)"

definition storage_corrupted :: "traft_error" where
  "storage_corrupted = BoxError (code_num EcStorageCorrupted) ''global DML failed''"

definition handle_dml_entry ::
  "(string \<Rightarrow> catalog \<Rightarrow> catalog traft_result) \<Rightarrow> pico_dml \<Rightarrow> catalog \<times> topology_cache \<Rightarrow>
     (catalog \<times> topology_cache) traft_result" where
  "handle_dml_entry full_delete d st =
     (let (c, t) = st; old = old_row d c in
      case topology_do_dml full_delete d c of
        Inl e \<Rightarrow> Inl storage_corrupted
      | Inr (c', new) \<Rightarrow>
          rbind (update_cache (table_id d) old new t) (\<lambda>t'. Inr (c', t')))"


section \<open>The cache follows the tables\<close>

text \<open>The table of a row, and what putting the row does to the rows of the tables.\<close>

fun row_table :: "row \<Rightarrow> space_id" where
  "row_table (RowInstance _) = INSTANCES_TABLE_ID"
| "row_table (RowReplicaset _) = REPLICASETS_TABLE_ID"
| "row_table (RowTier _) = TIERS_TABLE_ID"
| "row_table (RowPeer _) = PEER_ADDRESSES_TABLE_ID"
| "row_table (RowProperty _ _) = PROPERTIES_TABLE_ID"


lemmas table_ids = INSTANCES_TABLE_ID_def REPLICASETS_TABLE_ID_def TIERS_TABLE_ID_def
  PEER_ADDRESSES_TABLE_ID_def PROPERTIES_TABLE_ID_def

lemma put_in_keys [simp]:
  "put_in instance_key = put_in i_name" "put_in replicaset_key = put_in r_name" "put_in tier_key = put_in t_name"
  by (simp_all add: fun_eq_iff put_in_def)







text \<open>
  Operations that respect this instance: its own row keeps its raft id, replicaset and tier, and its
  own row, replicaset and tier are not deleted.
\<close>

fun keeps_own :: "raft_id \<Rightarrow> row option \<Rightarrow> row \<Rightarrow> bool" where
  "keeps_own my (Some (RowInstance p)) (RowInstance n) \<longleftrightarrow> (i_raft_id p = my \<longrightarrow>
     i_raft_id n = my \<and> i_replicaset_name n = i_replicaset_name p \<and> i_tier n = i_tier p)"
| "keeps_own _ _ _ \<longleftrightarrow> True"












lemma drop_from_keys [simp]:
  "drop_from instance_key (instance_key p) = drop_from i_name (i_name p)"
  "drop_from replicaset_key (replicaset_key q) = drop_from r_name (r_name q)"
  "drop_from tier_key (tier_key u) = drop_from t_name (t_name u)"
  by (simp_all add: fun_eq_iff drop_from_def)





lemma keeps_own_None [simp]: "keeps_own my None r"
  by (cases r) simp_all


lemma space_replace_cases:
  "space_replace r c = (if catalog_ok (put_row r c) then Inr (put_row r c, Some r) else tuple_found)"
  by (simp add: space_replace_def)


lemma do_dml_insert:
  "topology_do_dml fd (DmlInsert space r u s) c = (if get_row space (row_key r) c = None \<and> catalog_ok (put_row r c)
     then Inr (put_row r c, Some r)
     else case s of DoFail \<Rightarrow> tuple_found | DoNothing \<Rightarrow> Inr (c, None)
     | DoReplace \<Rightarrow> space_replace r c)"
  by (cases s) (auto simp: space_insert_def space_replace_def tuple_found_def)





section \<open>Properties\<close>









text \<open>
  C29: an update or delete of a row that is not in a topology table, or an insert that does nothing
  because the row is there, reaches the cache with neither an old nor a new row and panics instead
  of being a no-op, as it is for the tables.
\<close>

theorem missing_row_panics:
  assumes "space \<in> set cached_tables" "get_row space k c = None"
    and "row_table r \<in> set cached_tables" "get_row (row_table r) (row_key r) c \<noteq> None"
  shows "handle_dml_entry fd (DmlUpdate space k ops u) (c, t) = unreachable \<and>
    handle_dml_entry fd (DmlDelete space k u None) (c, t) = unreachable \<and>
    handle_dml_entry fd (DmlInsert (row_table r) r u DoNothing) (c, t) = unreachable \<and>
    topology_do_dml fd (DmlUpdate space k ops u) c = Inr (c, None) \<and>
    topology_do_dml fd (DmlDelete space k u None) c = Inr (c, None) \<and>
    topology_do_dml fd (DmlInsert (row_table r) r u DoNothing) c = Inr (c, None)"
proof -
  have same: "table_update key k f rs = rs" "table_delete key k rs = rs" if "find (\<lambda>r. key r = k) rs = None"
    for key :: "'r \<Rightarrow> pico_key" and f rs
    using that by (induction rs) (auto simp: table_update_def table_delete_def split: if_splits)
  have noop: "update_row space k ops c = c" "delete_row space k c = c"
    using assms(1,2) by (auto simp: cached_tables_def get_row_def update_row_def delete_row_def same table_ids)
  have none: "update_cache s None None t = unreachable" if "s \<in> set cached_tables" for s
    using that by (auto simp: cached_tables_def update_cache_def topology_update_instance_def table_ids
        cache_update_instance_def cache_update_replicaset_def cache_update_tier_def unreachable_def Let_def)
  show ?thesis
    using assms noop none by (simp add: handle_dml_entry_def do_dml_insert unreachable_def Let_def del: topology_do_dml.simps(3))
qed

theorem missing_row_panics_witness:
  "handle_dml_entry (\<lambda>_ c. Inr c) (DmlDelete TIERS_TABLE_ID [KString ''hot''] 1 None)
     (sample_catalog, topology_load sample_catalog [] 1 ''demo'' ''uuid'') = unreachable"
proof -
  have "TIERS_TABLE_ID \<in> set cached_tables" "get_row TIERS_TABLE_ID [KString ''hot''] sample_catalog = None"
    "row_table (RowTier sample_tier) \<in> set cached_tables"
    "get_row (row_table (RowTier sample_tier)) (row_key (RowTier sample_tier)) sample_catalog \<noteq> None"
    by code_simp+
  from missing_row_panics [OF this] show ?thesis by blast
qed









end
