(* ===== verification/Spec2Isabelle.thy ===== *)
theory Spec2Isabelle
  imports Version Failure_Domain Cas Conf_Change Update_Instance Dml_Apply
begin

text \<open>
  A verification development of the cluster management core of picodata.
\<close>

end
